(* ===== verification/Prelude.thy ===== *)
theory Prelude
  imports Main "HOL-Library.Word" "HOL-Library.AList"
begin

text \<open>
  Shared vocabulary of the development: the machine integers of Go, the outcome of a Go
  call (a value or a fault that unwinds the goroutine), Go maps as association lists,
  slices with their bounds checks, little-endian byte images of integers, and the
  swap-with-last removal that three tables of the library use.
\<close>

unbundle bit_operations_syntax

named_theorems go_simps "equations of the outcome type and of slice and map access"
named_theorems inv_intros "preservation of the component invariants"
named_theorems step_defs "operations a component's step relation unfolds"

section \<open>Machine integers\<close>

type_synonym u8 = "8 word"
type_synonym u16 = "16 word"
type_synonym u32 = "32 word"
type_synonym u64 = "64 word"
type_synonym i32 = "32 word"
type_synonym i64 = "64 word"

text \<open>
  Go's signed division and remainder truncate towards zero.
\<close>

definition quot_int :: "int \<Rightarrow> int \<Rightarrow> int" where
  "quot_int a b = sgn a * sgn b * (\<bar>a\<bar> div \<bar>b\<bar>)"

definition rem_int :: "int \<Rightarrow> int \<Rightarrow> int" where
  "rem_int a b = a - b * quot_int a b"

lemma quot_int_nonneg: "0 \<le> a \<Longrightarrow> 0 < b \<Longrightarrow> quot_int a b = a div b"
  by (cases "a = 0") (auto simp: quot_int_def)

lemma rem_int_nonneg: "0 \<le> a \<Longrightarrow> 0 < b \<Longrightarrow> rem_int a b = a mod b"
  by (simp add: rem_int_def quot_int_nonneg minus_mult_div_eq_mod)

lemma uint_of_int_small:
  "0 \<le> k \<Longrightarrow> k < 2 ^ LENGTH('a) \<Longrightarrow> uint (word_of_int k :: 'a::len word) = k"
  by (simp add: uint_word_of_int)

lemma unat_of_nat_small:
  "n < 2 ^ LENGTH('a) \<Longrightarrow> unat (word_of_nat n :: 'a::len word) = n"
  by (simp add: unat_of_nat)

lemma ucast_of_int_small:
  "0 \<le> k \<Longrightarrow> k < 2 ^ LENGTH('a) \<Longrightarrow>
     ucast (word_of_int k :: 'a::len word) = (word_of_int k :: 'b::len word)"
  by (simp only: ucast_eq uint_of_int_small)

lemma sint_ucast_up:
  assumes "LENGTH('a) < LENGTH('b)"
  shows "sint (ucast (w :: 'a::len word) :: 'b::len word) = uint w"
proof -
  have lt: "uint w < 2 ^ LENGTH('a)" by (rule uint_lt2p)
  have "(2::int) ^ LENGTH('a) \<le> 2 ^ (LENGTH('b) - Suc 0)"
    using assms by (intro power_increasing) simp_all
  with lt have b: "uint w < 2 ^ (LENGTH('b) - Suc 0)" by (rule less_le_trans)
  have "(2::int) ^ LENGTH('a) \<le> 2 ^ LENGTH('b)"
    using assms by (intro power_increasing) simp_all
  with lt have "uint w < 2 ^ LENGTH('b)" by (rule less_le_trans)
  then have "uint (ucast w :: 'b word) = uint w"
    by (simp add: unsigned_ucast_eq take_bit_int_eq_self_iff)
  then have "sint (ucast w :: 'b word) = signed_take_bit (LENGTH('b) - Suc 0) (uint w)"
    by (simp only: sint_uint)
  also have "\<dots> = uint w"
    using b by (intro signed_take_bit_int_eq_self) (simp_all add: order_trans [of _ 0])
  finally show ?thesis .
qed

section \<open>Outcomes\<close>

text \<open>
  A Go call returns or unwinds the goroutine: nil dereference, index out of range, store
  into a nil map, failed type assertion, explicit panic; a goroutine that locks a mutex it
  already holds blocks forever; and a recursion the model bounds by fuel may run out of it.
\<close>

type_synonym addr = nat

datatype fault =
    NilDeref
  | IndexRange
  | NilMapStore
  | TypeAssertion
  | Panic string
  | SelfDeadlock
  | OutOfFuel

type_synonym 'a go = "fault + 'a"

fun bind_go :: "'a go \<Rightarrow> ('a \<Rightarrow> 'b go) \<Rightarrow> 'b go" where
  "bind_go (Inl e) k = Inl e"
| "bind_go (Inr x) k = k x"

lemmas [go_simps] = bind_go.simps

lemma bind_go_assoc [simp]: "bind_go (bind_go m f) g = bind_go m (\<lambda>x. bind_go (f x) g)"
  by (cases m) simp_all

lemma bind_go_Inr [simp]: "bind_go m Inr = m"
  by (cases m) simp_all

lemma bind_go_eq_Inr: "bind_go m f = Inr y \<longleftrightarrow> (\<exists>x. m = Inr x \<and> f x = Inr y)"
  by (cases m) simp_all

lemma bind_go_InrE:
  assumes "bind_go m f = Inr y"
  obtains x where "m = Inr x" and "f x = Inr y"
  using assms by (auto simp: bind_go_eq_Inr)

lemma bind_go_split_case: "bind_go m f = (case m of Inl e \<Rightarrow> Inl e | Inr x \<Rightarrow> f x)"
  by (cases m) simp_all

section \<open>Slices\<close>

definition slice_get :: "'a list \<Rightarrow> nat \<Rightarrow> 'a go" where
  "slice_get xs i = (if i < length xs then Inr (xs ! i) else Inl IndexRange)"

definition slice_set :: "'a list \<Rightarrow> nat \<Rightarrow> 'a \<Rightarrow> 'a list go" where
  "slice_set xs i v = (if i < length xs then Inr (xs[i := v]) else Inl IndexRange)"

lemma slice_get_in [simp]: "i < length xs \<Longrightarrow> slice_get xs i = Inr (xs ! i)"
  by (simp add: slice_get_def)

lemma slice_set_in [simp]: "i < length xs \<Longrightarrow> slice_set xs i v = Inr (xs[i := v])"
  by (simp add: slice_set_def)

lemma slice_get_Inr: "slice_get xs i = Inr v \<longleftrightarrow> i < length xs \<and> v = xs ! i"
  by (auto simp: slice_get_def)

lemma slice_set_Inr: "slice_set xs i v = Inr ys \<longleftrightarrow> i < length xs \<and> ys = xs[i := v]"
  by (auto simp: slice_set_def)

lemma nth_in_set [intro]: "i < length xs \<Longrightarrow> xs ! i \<in> set xs"
  by simp

section \<open>Maps\<close>

text \<open>
  A Go map is an association list with distinct keys, or None for the nil map. The list
  order stands for the unspecified order of \<^verbatim>\<open>range\<close>: statements hold for every list, so for
  every iteration order. Reading, deleting from and measuring a nil map is allowed; storing
  into it panics.
\<close>

type_synonym ('k, 'v) gomap = "('k \<times> 'v) list option"

definition gm_entries :: "('k, 'v) gomap \<Rightarrow> ('k \<times> 'v) list" where
  "gm_entries m = (case m of None \<Rightarrow> [] | Some al \<Rightarrow> al)"

definition gm_get :: "('k, 'v) gomap \<Rightarrow> 'k \<Rightarrow> 'v option" where
  "gm_get m k = map_of (gm_entries m) k"

definition gm_set :: "('k, 'v) gomap \<Rightarrow> 'k \<Rightarrow> 'v \<Rightarrow> ('k, 'v) gomap go" where
  "gm_set m k v = (case m of None \<Rightarrow> Inl NilMapStore | Some al \<Rightarrow> Inr (Some (AList.update k v al)))"

definition gm_del :: "('k, 'v) gomap \<Rightarrow> 'k \<Rightarrow> ('k, 'v) gomap" where
  "gm_del m k = map_option (AList.delete k) m"

definition gm_len :: "('k, 'v) gomap \<Rightarrow> nat" where
  "gm_len m = length (gm_entries m)"

definition gm_ok :: "('k, 'v) gomap \<Rightarrow> bool" where
  "gm_ok m \<longleftrightarrow> distinct (map fst (gm_entries m))"

lemma gm_entries_simps [simp]: "gm_entries None = []" "gm_entries (Some al) = al"
  by (simp_all add: gm_entries_def)

lemma gm_get_nil [simp]: "gm_get None k = None" "gm_get (Some []) k = None"
  by (simp_all add: gm_get_def)

lemma gm_set_nil [simp]: "gm_set None k v = Inl NilMapStore"
  by (simp add: gm_set_def)

lemma gm_set_Inr: "gm_set m k v = Inr m' \<longleftrightarrow> (\<exists>al. m = Some al \<and> m' = Some (AList.update k v al))"
  by (auto simp: gm_set_def split: option.splits)

lemma gm_get_set: "gm_set m k v = Inr m' \<Longrightarrow> gm_get m' j = (if j = k then Some v else gm_get m j)"
  by (auto simp: gm_set_Inr gm_get_def update_conv')

lemma gm_get_del [simp]: "gm_get (gm_del m k) j = (if j = k then None else gm_get m j)"
  by (cases m) (simp_all add: gm_get_def gm_del_def delete_conv')

lemma gm_ok_set: "gm_set m k v = Inr m' \<Longrightarrow> gm_ok m \<Longrightarrow> gm_ok m'"
  by (auto simp: gm_set_Inr gm_ok_def distinct_update)

lemma gm_ok_del [simp]: "gm_ok m \<Longrightarrow> gm_ok (gm_del m k)"
  by (cases m) (simp_all add: gm_ok_def gm_del_def distinct_delete)

lemma gm_len_0: "gm_len m = 0 \<longleftrightarrow> (\<forall>k. gm_get m k = None)"
  by (cases m) (auto simp: gm_len_def gm_get_def map_of_eq_None_iff neq_Nil_conv
      dest: spec[where x = "fst (hd (gm_entries m))"] intro: ccontr)

lemma gm_ok_nil [simp]: "gm_ok None" "gm_ok (Some [])"
  by (simp_all add: gm_ok_def)

section \<open>Little-endian images\<close>

text \<open>
  The server reads and writes wire structs through pointers into byte buffers; on the
  little-endian hosts the library supports a field is the little-endian image of its value.
\<close>

definition le_bytes :: "nat \<Rightarrow> 'a::len word \<Rightarrow> u8 list" where
  "le_bytes n w = map (\<lambda>i. ucast (drop_bit (8 * i) w)) [0..<n]"

fun le_word :: "u8 list \<Rightarrow> 'a::len word" where
  "le_word [] = 0"
| "le_word (b # bs) = ucast b OR push_bit 8 (le_word bs)"

lemma length_le_bytes [simp]: "length (le_bytes n w) = n"
  by (simp add: le_bytes_def)

lemma bit_le_word:
  "bit (le_word bs :: 'a::len word) i \<longleftrightarrow>
     i < LENGTH('a) \<and> i div 8 < length bs \<and> bit (bs ! (i div 8)) (i mod 8)"
proof (induction bs arbitrary: i)
  case Nil
  then show ?case by simp
next
  case (Cons b bs)
  show ?case
  proof (cases "i < 8")
    case True
    then show ?thesis
      by (auto simp: bit_or_iff bit_push_bit_iff bit_ucast_iff)
  next
    case False
    then obtain j where j: "i = j + 8"
      by (metis add.commute le_Suc_ex not_less)
    have nb: "\<not> bit b (j + 8)"
      using bit_imp_le_length[of b "j + 8"] by auto
    have "bit (le_word bs :: 'a word) j \<longleftrightarrow>
            j < LENGTH('a) \<and> j div 8 < length bs \<and> bit (bs ! (j div 8)) (j mod 8)"
      by (rule Cons.IH)
    moreover have "(j + 8) div 8 = Suc (j div 8)" "(j + 8) mod 8 = j mod 8" by simp_all
    ultimately show ?thesis
      using nb by (auto simp: j bit_or_iff bit_push_bit_iff bit_ucast_iff simp del: div_add_self2)
  qed
qed

lemma le_word_le_bytes:
  assumes "LENGTH('a) \<le> 8 * n"
  shows "le_word (le_bytes n w) = (w :: 'a::len word)"
proof (rule bit_word_eqI)
  fix i assume i: "i < LENGTH('a)"
  with assms have "i div 8 < n" by auto
  then show "bit (le_word (le_bytes n w) :: 'a word) i = bit w i"
    using i by (auto simp: bit_le_word le_bytes_def bit_ucast_iff bit_drop_bit_eq)
qed

lemma le_bytes_le_word:
  assumes "8 * length bs = LENGTH('a)"
  shows "le_bytes (length bs) (le_word bs :: 'a::len word) = bs"
proof (rule nth_equalityI)
  show "length (le_bytes (length bs) (le_word bs :: 'a word)) = length bs" by simp
next
  fix i assume "i < length (le_bytes (length bs) (le_word bs :: 'a word))"
  then have i: "i < length bs" by simp
  show "le_bytes (length bs) (le_word bs :: 'a word) ! i = bs ! i"
  proof (rule bit_word_eqI)
    fix j assume j: "j < LENGTH(8)"
    with i assms have "8 * i + j < LENGTH('a)" by simp
    with i j show "bit (le_bytes (length bs) (le_word bs :: 'a word) ! i) j = bit (bs ! i) j"
      by (simp add: le_bytes_def bit_ucast_iff bit_drop_bit_eq bit_le_word)
  qed
qed

section \<open>Removal by swapping with the last element\<close>

text \<open>
  The in-flight table of the server and the open-file lists of the inodes drop the entry at
  index i by moving the last entry there and shrinking the slice.
\<close>

definition swap_remove :: "nat \<Rightarrow> 'a list \<Rightarrow> 'a list" where
  "swap_remove i xs = butlast (if i = length xs - 1 then xs else xs[i := last xs])"

lemma length_swap_remove [simp]: "length (swap_remove i xs) = length xs - 1"
  by (simp add: swap_remove_def)

lemma swap_remove_nth:
  assumes "i < length xs" and "j < length xs - 1"
  shows "swap_remove i xs ! j = (if j = i then last xs else xs ! j)"
  using assms by (auto simp: swap_remove_def nth_butlast nth_list_update)

lemma set_swap_remove:
  assumes d: "distinct xs" and i: "i < length xs"
  shows "set (swap_remove i xs) = set xs - {xs ! i}"
proof -
  have ne: "xs \<noteq> []" using i by auto
  then obtain ys y where xs: "xs = ys @ [y]" by (metis append_butlast_last_id)
  show ?thesis
  proof (cases "i = length xs - 1")
    case True
    then show ?thesis using d by (auto simp: swap_remove_def xs)
  next
    case False
    with i xs have il: "i < length ys" by auto
    have "swap_remove i xs = ys[i := y]"
      using False il by (simp add: swap_remove_def xs list_update_append)
    moreover have "set (ys[i := y]) = insert y (set ys - {ys ! i})"
      using d il by (auto simp: xs set_update_distinct)
    ultimately show ?thesis using d il by (auto simp: xs nth_append)
  qed
qed

lemma distinct_swap_remove:
  assumes d: "distinct xs" and i: "i < length xs"
  shows "distinct (swap_remove i xs)"
proof -
  have ne: "xs \<noteq> []" using i by auto
  then obtain ys y where xs: "xs = ys @ [y]" by (metis append_butlast_last_id)
  show ?thesis
  proof (cases "i = length xs - 1")
    case True
    then show ?thesis using d by (auto simp: swap_remove_def xs)
  next
    case False
    with i xs have il: "i < length ys" by auto
    then have "swap_remove i xs = ys[i := y]"
      using False by (simp add: swap_remove_def xs list_update_append)
    then show ?thesis using d by (auto simp: xs intro: distinct_list_update)
  qed
qed

section \<open>Byte buffers\<close>

text \<open>
  A Go string is a sequence of bytes, here one \<^typ>\<open>char\<close> per byte. Copying into a buffer
  through a slice or a pointer overwrites part of it.
\<close>

definition str_bytes :: "string \<Rightarrow> u8 list" where
  "str_bytes s = map (\<lambda>c. word_of_nat (of_char c)) s"

definition bytes_str :: "u8 list \<Rightarrow> string" where
  "bytes_str bs = map (\<lambda>b. char_of (unat b)) bs"

lemma length_str_bytes [simp]: "length (str_bytes s) = length s"
  by (simp add: str_bytes_def)

lemma length_bytes_str [simp]: "length (bytes_str bs) = length bs"
  by (simp add: bytes_str_def)

lemma bytes_str_bytes [simp]: "bytes_str (str_bytes s) = s"
proof -
  have "char_of (unat (word_of_nat (of_char c) :: u8)) = c" for c
  proof -
    have "of_char c < (256 :: nat)" by (metis nat_of_char_less_256)
    then show ?thesis by (simp add: unat_of_nat_small)
  qed
  then show ?thesis by (simp add: bytes_str_def str_bytes_def comp_def)
qed

definition write_at :: "nat \<Rightarrow> 'a list \<Rightarrow> 'a list \<Rightarrow> 'a list" where
  "write_at i bs xs = take i xs @ bs @ drop (i + length bs) xs"

lemma length_write_at [simp]: "i + length bs \<le> length xs \<Longrightarrow> length (write_at i bs xs) = length xs"
  by (simp add: write_at_def)

lemma write_at_write_at:
  assumes "i + length bs + length cs \<le> length xs"
  shows "write_at (i + length bs) cs (write_at i bs xs) = write_at i (bs @ cs) xs"
  using assms by (cases bs) (auto simp: write_at_def min_def ac_simps)

lemma take_write_at: "j \<le> i \<Longrightarrow> i \<le> length xs \<Longrightarrow> take j (write_at i bs xs) = take j xs"
  by (simp add: write_at_def min_def)

lemma take_write_at_end: "i \<le> length xs \<Longrightarrow> take (i + length bs) (write_at i bs xs) = take i xs @ bs"
  by (simp add: write_at_def min_def)

end
