(* ===== verification/Layout.thy ===== *)
theory Layout
  imports Prelude
begin

text \<open>
  The wire structs of \<^verbatim>\<open>fuse/types.go\<close> and \<^verbatim>\<open>fuse/types_linux.go\<close>: each struct as the list of
  its fields in source order, the layout rules by which Go places them
  (\<^verbatim>\<open>unsafe.Sizeof\<close>, \<^verbatim>\<open>unsafe.Offsetof\<close>), and the byte image the server reads and writes
  through unsafe pointers. The alignment of 64-bit integers is a parameter: 8 on amd64,
  4 on 386, the two platforms the README lists.
\<close>

section \<open>Go's layout rules\<close>

datatype fty =
    U16
  | U32
  | U64
  | I32
  | I64
  | Arr nat fty
  | Struct "(string \<times> fty) list"

definition align_up :: "nat \<Rightarrow> nat \<Rightarrow> nat" where
  "align_up off a = ((off + a - 1) div a) * a"

fun Alignof :: "nat \<Rightarrow> fty \<Rightarrow> nat" and
    Alignofs :: "nat \<Rightarrow> (string \<times> fty) list \<Rightarrow> nat" where
  "Alignof a64 U16 = 2"
| "Alignof a64 U32 = 4"
| "Alignof a64 U64 = a64"
| "Alignof a64 I32 = 4"
| "Alignof a64 I64 = a64"
| "Alignof a64 (Arr n t) = Alignof a64 t"
| "Alignof a64 (Struct fs) = Alignofs a64 fs"
| "Alignofs a64 [] = 1"
| "Alignofs a64 ((nm, t) # fs) = max (Alignof a64 t) (Alignofs a64 fs)"

fun Sizeof :: "nat \<Rightarrow> fty \<Rightarrow> nat" and
    Endof :: "nat \<Rightarrow> nat \<Rightarrow> (string \<times> fty) list \<Rightarrow> nat" where
  "Sizeof a64 U16 = 2"
| "Sizeof a64 U32 = 4"
| "Sizeof a64 U64 = 8"
| "Sizeof a64 I32 = 4"
| "Sizeof a64 I64 = 8"
| "Sizeof a64 (Arr n t) = n * Sizeof a64 t"
| "Sizeof a64 (Struct fs) = align_up (Endof a64 0 fs) (Alignofs a64 fs)"
| "Endof a64 off [] = off"
| "Endof a64 off ((nm, t) # fs) = Endof a64 (align_up off (Alignof a64 t) + Sizeof a64 t) fs"

text \<open>The leaf integers of a type with their absolute offset and width in bytes.\<close>

fun leaves :: "nat \<Rightarrow> nat \<Rightarrow> fty \<Rightarrow> (nat \<times> nat) list" and
    leavess :: "nat \<Rightarrow> nat \<Rightarrow> nat \<Rightarrow> (string \<times> fty) list \<Rightarrow> (nat \<times> nat) list" where
  "leaves a64 off U16 = [(off, 2)]"
| "leaves a64 off U32 = [(off, 4)]"
| "leaves a64 off U64 = [(off, 8)]"
| "leaves a64 off I32 = [(off, 4)]"
| "leaves a64 off I64 = [(off, 8)]"
| "leaves a64 off (Arr n t) = concat (map (\<lambda>i. leaves a64 (off + i * Sizeof a64 t) t) [0..<n])"
| "leaves a64 off (Struct fs) = leavess a64 off 0 fs"
| "leavess a64 b off [] = []"
| "leavess a64 b off ((nm, t) # fs) =
     (let o' = align_up off (Alignof a64 t)
      in leaves a64 (b + o') t @ leavess a64 b (o' + Sizeof a64 t) fs)"


abbreviation sizeof :: "(string \<times> fty) list \<Rightarrow> nat" where
  "sizeof fs \<equiv> Sizeof 8 (Struct fs)"

section \<open>The structs\<close>

definition Owner_layout :: "(string \<times> fty) list" where
  "Owner_layout =
    [(''Uid'', U32),
     (''Gid'', U32)]"

definition Caller_layout :: "(string \<times> fty) list" where
  "Caller_layout =
    [(''Owner'', Struct Owner_layout),
     (''Pid'', U32)]"

definition InHeader_layout :: "(string \<times> fty) list" where
  "InHeader_layout =
    [(''Length'', U32),
     (''Opcode'', I32),
     (''Unique'', U64),
     (''NodeId'', U64),
     (''Caller'', Struct Caller_layout),
     (''Padding'', U32)]"

definition ForgetIn_layout :: "(string \<times> fty) list" where
  "ForgetIn_layout =
    [(''InHeader'', Struct InHeader_layout),
     (''Nlookup'', U64)]"

definition ForgetOne_layout :: "(string \<times> fty) list" where
  "ForgetOne_layout =
    [(''NodeId'', U64),
     (''Nlookup'', U64)]"

definition BatchForgetIn_layout :: "(string \<times> fty) list" where
  "BatchForgetIn_layout =
    [(''InHeader'', Struct InHeader_layout),
     (''Count'', U32),
     (''Dummy'', U32)]"

definition MkdirIn_layout :: "(string \<times> fty) list" where
  "MkdirIn_layout =
    [(''InHeader'', Struct InHeader_layout),
     (''Mode'', U32),
     (''Umask'', U32)]"

definition Rename1In_layout :: "(string \<times> fty) list" where
  "Rename1In_layout =
    [(''InHeader'', Struct InHeader_layout),
     (''Newdir'', U64)]"

definition RenameIn_layout :: "(string \<times> fty) list" where
  "RenameIn_layout =
    [(''InHeader'', Struct InHeader_layout),
     (''Newdir'', U64),
     (''Flags'', U32),
     (''Padding'', U32)]"

definition LinkIn_layout :: "(string \<times> fty) list" where
  "LinkIn_layout =
    [(''InHeader'', Struct InHeader_layout),
     (''Oldnodeid'', U64)]"

definition SetAttrInCommon_layout :: "(string \<times> fty) list" where
  "SetAttrInCommon_layout =
    [(''InHeader'', Struct InHeader_layout),
     (''Valid'', U32),
     (''Padding'', U32),
     (''Fh'', U64),
     (''Size'', U64),
     (''LockOwner'', U64),
     (''Atime'', U64),
     (''Mtime'', U64),
     (''Ctime'', U64),
     (''Atimensec'', U32),
     (''Mtimensec'', U32),
     (''Ctimensec'', U32),
     (''Mode'', U32),
     (''Unused4'', U32),
     (''Owner'', Struct Owner_layout),
     (''Unused5'', U32)]"

definition ReleaseIn_layout :: "(string \<times> fty) list" where
  "ReleaseIn_layout =
    [(''InHeader'', Struct InHeader_layout),
     (''Fh'', U64),
     (''Flags'', U32),
     (''ReleaseFlags'', U32),
     (''LockOwner'', U64)]"

definition OpenIn_layout :: "(string \<times> fty) list" where
  "OpenIn_layout =
    [(''InHeader'', Struct InHeader_layout),
     (''Flags'', U32),
     (''Mode'', U32)]"

definition OpenOut_layout :: "(string \<times> fty) list" where
  "OpenOut_layout =
    [(''Fh'', U64),
     (''OpenFlags'', U32),
     (''Padding'', U32)]"

definition InitIn_layout :: "(string \<times> fty) list" where
  "InitIn_layout =
    [(''InHeader'', Struct InHeader_layout),
     (''Major'', U32),
     (''Minor'', U32),
     (''MaxReadAhead'', U32),
     (''Flags'', U32)]"

definition InitOut_layout :: "(string \<times> fty) list" where
  "InitOut_layout =
    [(''Major'', U32),
     (''Minor'', U32),
     (''MaxReadAhead'', U32),
     (''Flags'', U32),
     (''MaxBackground'', U16),
     (''CongestionThreshold'', U16),
     (''MaxWrite'', U32),
     (''TimeGran'', U32),
     (''MaxPages'', U16),
     (''Padding'', U16),
     (''Unused'', Arr 8 U32)]"

definition CuseInitIn_layout :: "(string \<times> fty) list" where
  "CuseInitIn_layout =
    [(''InHeader'', Struct InHeader_layout),
     (''Major'', U32),
     (''Minor'', U32),
     (''Unused'', U32),
     (''Flags'', U32)]"

definition CuseInitOut_layout :: "(string \<times> fty) list" where
  "CuseInitOut_layout =
    [(''Major'', U32),
     (''Minor'', U32),
     (''Unused'', U32),
     (''Flags'', U32),
     (''MaxRead'', U32),
     (''MaxWrite'', U32),
     (''DevMajor'', U32),
     (''DevMinor'', U32),
     (''Spare'', Arr 10 U32)]"

definition InterruptIn_layout :: "(string \<times> fty) list" where
  "InterruptIn_layout =
    [(''InHeader'', Struct InHeader_layout),
     (''Unique'', U64)]"

definition BmapIn_layout :: "(string \<times> fty) list" where
  "BmapIn_layout =
    [(''InHeader'', Struct InHeader_layout),
     (''Block'', U64),
     (''Blocksize'', U32),
     (''Padding'', U32)]"

definition BmapOut_layout :: "(string \<times> fty) list" where
  "BmapOut_layout =
    [(''Block'', U64)]"

definition IoctlIn_layout :: "(string \<times> fty) list" where
  "IoctlIn_layout =
    [(''InHeader'', Struct InHeader_layout),
     (''Fh'', U64),
     (''Flags'', U32),
     (''Cmd'', U32),
     (''Arg'', U64),
     (''InSize'', U32),
     (''OutSize'', U32)]"

definition IoctlOut_layout :: "(string \<times> fty) list" where
  "IoctlOut_layout =
    [(''Result'', I32),
     (''Flags'', U32),
     (''InIovs'', U32),
     (''OutIovs'', U32)]"

definition PollIn_layout :: "(string \<times> fty) list" where
  "PollIn_layout =
    [(''InHeader'', Struct InHeader_layout),
     (''Fh'', U64),
     (''Kh'', U64),
     (''Flags'', U32),
     (''Padding'', U32)]"

definition PollOut_layout :: "(string \<times> fty) list" where
  "PollOut_layout =
    [(''Revents'', U32),
     (''Padding'', U32)]"

definition NotifyPollWakeupOut_layout :: "(string \<times> fty) list" where
  "NotifyPollWakeupOut_layout =
    [(''Kh'', U64)]"

definition WriteOut_layout :: "(string \<times> fty) list" where
  "WriteOut_layout =
    [(''Size'', U32),
     (''Padding'', U32)]"

definition GetXAttrOut_layout :: "(string \<times> fty) list" where
  "GetXAttrOut_layout =
    [(''Size'', U32),
     (''Padding'', U32)]"

definition FileLock_layout :: "(string \<times> fty) list" where
  "FileLock_layout =
    [(''Start'', U64),
     (''End'', U64),
     (''Typ'', U32),
     (''Pid'', U32)]"

definition LkIn_layout :: "(string \<times> fty) list" where
  "LkIn_layout =
    [(''InHeader'', Struct InHeader_layout),
     (''Fh'', U64),
     (''Owner'', U64),
     (''Lk'', Struct FileLock_layout),
     (''LkFlags'', U32),
     (''Padding'', U32)]"

definition LkOut_layout :: "(string \<times> fty) list" where
  "LkOut_layout =
    [(''Lk'', Struct FileLock_layout)]"

definition AccessIn_layout :: "(string \<times> fty) list" where
  "AccessIn_layout =
    [(''InHeader'', Struct InHeader_layout),
     (''Mask'', U32),
     (''Padding'', U32)]"

definition FsyncIn_layout :: "(string \<times> fty) list" where
  "FsyncIn_layout =
    [(''InHeader'', Struct InHeader_layout),
     (''Fh'', U64),
     (''FsyncFlags'', U32),
     (''Padding'', U32)]"

definition OutHeader_layout :: "(string \<times> fty) list" where
  "OutHeader_layout =
    [(''Length'', U32),
     (''Status'', I32),
     (''Unique'', U64)]"

definition NotifyInvalInodeOut_layout :: "(string \<times> fty) list" where
  "NotifyInvalInodeOut_layout =
    [(''Ino'', U64),
     (''Off'', I64),
     (''Length'', I64)]"

definition NotifyInvalEntryOut_layout :: "(string \<times> fty) list" where
  "NotifyInvalEntryOut_layout =
    [(''Parent'', U64),
     (''NameLen'', U32),
     (''Padding'', U32)]"

definition NotifyInvalDeleteOut_layout :: "(string \<times> fty) list" where
  "NotifyInvalDeleteOut_layout =
    [(''Parent'', U64),
     (''Child'', U64),
     (''NameLen'', U32),
     (''Padding'', U32)]"

definition NotifyStoreOut_layout :: "(string \<times> fty) list" where
  "NotifyStoreOut_layout =
    [(''Nodeid'', U64),
     (''Offset'', U64),
     (''Size'', U32),
     (''Padding'', U32)]"

definition NotifyRetrieveOut_layout :: "(string \<times> fty) list" where
  "NotifyRetrieveOut_layout =
    [(''NotifyUnique'', U64),
     (''Nodeid'', U64),
     (''Offset'', U64),
     (''Size'', U32),
     (''Padding'', U32)]"

definition NotifyRetrieveIn_layout :: "(string \<times> fty) list" where
  "NotifyRetrieveIn_layout =
    [(''InHeader'', Struct InHeader_layout),
     (''Dummy1'', U64),
     (''Offset'', U64),
     (''Size'', U32),
     (''Dummy2'', U32),
     (''Dummy3'', U64),
     (''Dummy4'', U64)]"

definition FlushIn_layout :: "(string \<times> fty) list" where
  "FlushIn_layout =
    [(''InHeader'', Struct InHeader_layout),
     (''Fh'', U64),
     (''Unused'', U32),
     (''Padding'', U32),
     (''LockOwner'', U64)]"

definition LseekIn_layout :: "(string \<times> fty) list" where
  "LseekIn_layout =
    [(''InHeader'', Struct InHeader_layout),
     (''Fh'', U64),
     (''Offset'', U64),
     (''Whence'', U32),
     (''Padding'', U32)]"

definition LseekOut_layout :: "(string \<times> fty) list" where
  "LseekOut_layout =
    [(''Offset'', U64)]"

definition CopyFileRangeIn_layout :: "(string \<times> fty) list" where
  "CopyFileRangeIn_layout =
    [(''InHeader'', Struct InHeader_layout),
     (''FhIn'', U64),
     (''OffIn'', U64),
     (''NodeIdOut'', U64),
     (''FhOut'', U64),
     (''OffOut'', U64),
     (''Len'', U64),
     (''Flags'', U64)]"

definition Attr_layout :: "(string \<times> fty) list" where
  "Attr_layout =
    [(''Ino'', U64),
     (''Size'', U64),
     (''Blocks'', U64),
     (''Atime'', U64),
     (''Mtime'', U64),
     (''Ctime'', U64),
     (''Atimensec'', U32),
     (''Mtimensec'', U32),
     (''Ctimensec'', U32),
     (''Mode'', U32),
     (''Nlink'', U32),
     (''Owner'', Struct Owner_layout),
     (''Rdev'', U32),
     (''Blksize'', U32),
     (''Padding'', U32)]"

definition EntryOut_layout :: "(string \<times> fty) list" where
  "EntryOut_layout =
    [(''NodeId'', U64),
     (''Generation'', U64),
     (''EntryValid'', U64),
     (''AttrValid'', U64),
     (''EntryValidNsec'', U32),
     (''AttrValidNsec'', U32),
     (''Attr'', Struct Attr_layout)]"

definition AttrOut_layout :: "(string \<times> fty) list" where
  "AttrOut_layout =
    [(''AttrValid'', U64),
     (''AttrValidNsec'', U32),
     (''Dummy'', U32),
     (''Attr'', Struct Attr_layout)]"

definition CreateOut_layout :: "(string \<times> fty) list" where
  "CreateOut_layout =
    [(''EntryOut'', Struct EntryOut_layout),
     (''OpenOut'', Struct OpenOut_layout)]"

definition StatfsOut_layout :: "(string \<times> fty) list" where
  "StatfsOut_layout =
    [(''Blocks'', U64),
     (''Bfree'', U64),
     (''Bavail'', U64),
     (''Files'', U64),
     (''Ffree'', U64),
     (''Bsize'', U32),
     (''NameLen'', U32),
     (''Frsize'', U32),
     (''Padding'', U32),
     (''Spare'', Arr 6 U32)]"

definition Dirent_layout :: "(string \<times> fty) list" where
  "Dirent_layout =
    [(''Ino'', U64),
     (''Off'', U64),
     (''NameLen'', U32),
     (''Typ'', U32)]"

definition FallocateIn_layout :: "(string \<times> fty) list" where
  "FallocateIn_layout =
    [(''InHeader'', Struct InHeader_layout),
     (''Fh'', U64),
     (''Offset'', U64),
     (''Length'', U64),
     (''Mode'', U32),
     (''Padding'', U32)]"

definition SetAttrIn_layout :: "(string \<times> fty) list" where
  "SetAttrIn_layout =
    [(''SetAttrInCommon'', Struct SetAttrInCommon_layout)]"

definition GetAttrIn_layout :: "(string \<times> fty) list" where
  "GetAttrIn_layout =
    [(''InHeader'', Struct InHeader_layout),
     (''Flags_'', U32),
     (''Dummy'', U32),
     (''Fh_'', U64)]"

definition CreateIn_layout :: "(string \<times> fty) list" where
  "CreateIn_layout =
    [(''InHeader'', Struct InHeader_layout),
     (''Flags'', U32),
     (''Mode'', U32),
     (''Umask'', U32),
     (''Padding'', U32)]"

definition MknodIn_layout :: "(string \<times> fty) list" where
  "MknodIn_layout =
    [(''InHeader'', Struct InHeader_layout),
     (''Mode'', U32),
     (''Rdev'', U32),
     (''Umask'', U32),
     (''Padding'', U32)]"

definition ReadIn_layout :: "(string \<times> fty) list" where
  "ReadIn_layout =
    [(''InHeader'', Struct InHeader_layout),
     (''Fh'', U64),
     (''Offset'', U64),
     (''Size'', U32),
     (''ReadFlags'', U32),
     (''LockOwner'', U64),
     (''Flags'', U32),
     (''Padding'', U32)]"

definition WriteIn_layout :: "(string \<times> fty) list" where
  "WriteIn_layout =
    [(''InHeader'', Struct InHeader_layout),
     (''Fh'', U64),
     (''Offset'', U64),
     (''Size'', U32),
     (''WriteFlags'', U32),
     (''LockOwner'', U64),
     (''Flags'', U32),
     (''Padding'', U32)]"

definition SetXAttrIn_layout :: "(string \<times> fty) list" where
  "SetXAttrIn_layout =
    [(''InHeader'', Struct InHeader_layout),
     (''Size'', U32),
     (''Flags'', U32)]"

definition GetXAttrIn_layout :: "(string \<times> fty) list" where
  "GetXAttrIn_layout =
    [(''InHeader'', Struct InHeader_layout),
     (''Size'', U32),
     (''Padding'', U32)]"


lemmas layout_defs =
  Owner_layout_def Caller_layout_def InHeader_layout_def
  ForgetIn_layout_def ForgetOne_layout_def BatchForgetIn_layout_def
  MkdirIn_layout_def Rename1In_layout_def RenameIn_layout_def
  LinkIn_layout_def SetAttrInCommon_layout_def ReleaseIn_layout_def
  OpenIn_layout_def OpenOut_layout_def InitIn_layout_def
  InitOut_layout_def CuseInitIn_layout_def CuseInitOut_layout_def
  InterruptIn_layout_def BmapIn_layout_def BmapOut_layout_def
  IoctlIn_layout_def IoctlOut_layout_def PollIn_layout_def
  PollOut_layout_def NotifyPollWakeupOut_layout_def WriteOut_layout_def
  GetXAttrOut_layout_def FileLock_layout_def LkIn_layout_def
  LkOut_layout_def AccessIn_layout_def FsyncIn_layout_def
  OutHeader_layout_def NotifyInvalInodeOut_layout_def NotifyInvalEntryOut_layout_def
  NotifyInvalDeleteOut_layout_def NotifyStoreOut_layout_def NotifyRetrieveOut_layout_def
  NotifyRetrieveIn_layout_def FlushIn_layout_def LseekIn_layout_def
  LseekOut_layout_def CopyFileRangeIn_layout_def Attr_layout_def
  EntryOut_layout_def AttrOut_layout_def CreateOut_layout_def
  StatfsOut_layout_def Dirent_layout_def FallocateIn_layout_def
  SetAttrIn_layout_def GetAttrIn_layout_def CreateIn_layout_def
  MknodIn_layout_def ReadIn_layout_def WriteIn_layout_def
  SetXAttrIn_layout_def GetXAttrIn_layout_def

section \<open>Byte images\<close>

text \<open>
  The image of a struct without holes is the concatenation of the images of its leaves; a
  leaf of width w holds the low w bytes of its value.
\<close>

definition encode_flat :: "nat list \<Rightarrow> u64 list \<Rightarrow> u8 list" where
  "encode_flat ws vs = concat (map2 (\<lambda>w v. le_bytes w v) ws vs)"

fun decode_flat :: "nat list \<Rightarrow> u8 list \<Rightarrow> u64 list" where
  "decode_flat [] bs = []"
| "decode_flat (w # ws) bs = le_word (take w bs) # decode_flat ws (drop w bs)"

section \<open>Properties\<close>




end
