(* ===== verification/FuseTypes.thy ===== *)
theory FuseTypes
  imports Prelude
begin

text \<open>
  The values the layers of the library exchange: status codes (\<^verbatim>\<open>fuse/types.go\<close>,
  \<^verbatim>\<open>fuse/misc.go\<close>), the request header, attributes and entries with their timeouts,
  the \<^verbatim>\<open>SETATTR\<close> accessors, file locks, and the conversions from operating-system errors
  and stat buffers (\<^verbatim>\<open>fuse/attr.go\<close>, \<^verbatim>\<open>fuse/attr_linux.go\<close>). Times are nanoseconds since
  the epoch; the clock is an argument of the accessors that read it.
\<close>

section \<open>Status codes\<close>

type_synonym Status = int
type_synonym Errno = int

definition OK :: Status where "OK = 0"
definition EPERM :: Status where "EPERM = 1"
definition ENOENT :: Status where "ENOENT = 2"
definition EINTR :: Status where "EINTR = 4"
definition EIO :: Status where "EIO = 5"
definition EBADF :: Status where "EBADF = 9"
definition EAGAIN :: Status where "EAGAIN = 11"
definition EACCES :: Status where "EACCES = 13"
definition EBUSY :: Status where "EBUSY = 16"
definition EEXIST :: Status where "EEXIST = 17"
definition EXDEV :: Status where "EXDEV = 18"
definition ENODEV :: Status where "ENODEV = 19"
definition ENOTDIR :: Status where "ENOTDIR = 20"
definition EISDIR :: Status where "EISDIR = 21"
definition EINVAL :: Status where "EINVAL = 22"
definition EROFS :: Status where "EROFS = 30"
definition ERANGE :: Status where "ERANGE = 34"
definition ENOSYS :: Status where "ENOSYS = 38"
definition ENODATA :: Status where "ENODATA = 61"
definition ENOTSUP :: Status where "ENOTSUP = 95"

definition ENOATTR :: Status where "ENOATTR = ENODATA"

lemmas status_defs =
  OK_def EPERM_def ENOENT_def EINTR_def EIO_def EBADF_def EAGAIN_def EACCES_def EBUSY_def
  EEXIST_def EXDEV_def ENODEV_def ENOTDIR_def EISDIR_def EINVAL_def EROFS_def ERANGE_def
  ENOSYS_def ENODATA_def ENOTSUP_def ENOATTR_def

text \<open>The errors of the operating-system packages that \<^verbatim>\<open>ToStatus\<close> tells apart.\<close>

datatype goerror =
    NoError
  | ErrPermission
  | ErrExist
  | ErrNotExist
  | ErrInvalid
  | ErrnoError Errno
  | SyscallError goerror
  | PathError goerror
  | LinkError goerror
  | OtherError

text \<open>The conversion of a \<^verbatim>\<open>uintptr\<close> error number to the 32-bit status keeps the low 32 bits.\<close>

definition Status_of :: "Errno \<Rightarrow> Status" where
  "Status_of e = signed_take_bit 31 e"

fun ToStatus :: "goerror \<Rightarrow> Status go" where
  "ToStatus NoError = Inr OK"
| "ToStatus ErrPermission = Inr EPERM"
| "ToStatus ErrExist = Inr EEXIST"
| "ToStatus ErrNotExist = Inr ENOENT"
| "ToStatus ErrInvalid = Inr EINVAL"
| "ToStatus (ErrnoError e) = Inr (Status_of e)"
| "ToStatus (SyscallError e) = (case e of ErrnoError n \<Rightarrow> Inr (Status_of n) | _ \<Rightarrow> Inl TypeAssertion)"
| "ToStatus (PathError e) = ToStatus e"
| "ToStatus (LinkError e) = ToStatus e"
| "ToStatus OtherError = Inr ENOSYS"

section \<open>Headers, attributes, entries\<close>

record Owner =
  Uid :: u32
  Gid :: u32

record Caller =
  c_Owner :: Owner
  c_Pid :: u32

record InHeader =
  ih_Length :: u32
  ih_Opcode :: i32
  ih_Unique :: u64
  ih_NodeId :: u64
  ih_Caller :: Caller

record Attr =
  a_Ino :: u64
  a_Size :: u64
  a_Blocks :: u64
  a_Atime :: u64
  a_Mtime :: u64
  a_Ctime :: u64
  a_Atimensec :: u32
  a_Mtimensec :: u32
  a_Ctimensec :: u32
  a_Mode :: u32
  a_Nlink :: u32
  a_Owner :: Owner
  a_Rdev :: u32
  a_Blksize :: u32

record EntryOut =
  eo_NodeId :: u64
  eo_Generation :: u64
  eo_EntryValid :: u64
  eo_AttrValid :: u64
  eo_EntryValidNsec :: u32
  eo_AttrValidNsec :: u32
  eo_Attr :: Attr

record AttrOut =
  ao_AttrValid :: u64
  ao_AttrValidNsec :: u32
  ao_Attr :: Attr

record OpenOut =
  oo_Fh :: u64
  oo_OpenFlags :: u32

record CreateOut =
  co_EntryOut :: EntryOut
  co_OpenOut :: OpenOut

definition zero_Owner :: Owner where
  "zero_Owner = \<lparr>Uid = 0, Gid = 0\<rparr>"

definition zero_Caller :: Caller where
  "zero_Caller = \<lparr>c_Owner = zero_Owner, c_Pid = 0\<rparr>"

definition zero_InHeader :: InHeader where
  "zero_InHeader = \<lparr>ih_Length = 0, ih_Opcode = 0, ih_Unique = 0, ih_NodeId = 0, ih_Caller = zero_Caller\<rparr>"

definition zero_Attr :: Attr where
  "zero_Attr = \<lparr>a_Ino = 0, a_Size = 0, a_Blocks = 0, a_Atime = 0, a_Mtime = 0, a_Ctime = 0,
     a_Atimensec = 0, a_Mtimensec = 0, a_Ctimensec = 0, a_Mode = 0, a_Nlink = 0,
     a_Owner = zero_Owner, a_Rdev = 0, a_Blksize = 0\<rparr>"

definition zero_EntryOut :: EntryOut where
  "zero_EntryOut = \<lparr>eo_NodeId = 0, eo_Generation = 0, eo_EntryValid = 0, eo_AttrValid = 0,
     eo_EntryValidNsec = 0, eo_AttrValidNsec = 0, eo_Attr = zero_Attr\<rparr>"

definition zero_AttrOut :: AttrOut where
  "zero_AttrOut = \<lparr>ao_AttrValid = 0, ao_AttrValidNsec = 0, ao_Attr = zero_Attr\<rparr>"

definition zero_OpenOut :: OpenOut where
  "zero_OpenOut = \<lparr>oo_Fh = 0, oo_OpenFlags = 0\<rparr>"

definition zero_CreateOut :: CreateOut where
  "zero_CreateOut = \<lparr>co_EntryOut = zero_EntryOut, co_OpenOut = zero_OpenOut\<rparr>"

lemmas zero_defs = zero_Owner_def zero_Caller_def zero_InHeader_def zero_Attr_def zero_EntryOut_def
  zero_AttrOut_def zero_OpenOut_def zero_CreateOut_def

definition FUSE_ROOT_ID :: u64 where "FUSE_ROOT_ID = 1"
definition FUSE_UNKNOWN_INO :: u64 where "FUSE_UNKNOWN_INO = 0xffffffff"

text \<open>File types of \<^verbatim>\<open>sys/stat.h\<close>.\<close>

definition S_IFMT :: u32 where "S_IFMT = 61440"
definition S_IFSOCK :: u32 where "S_IFSOCK = 49152"
definition S_IFLNK :: u32 where "S_IFLNK = 40960"
definition S_IFREG :: u32 where "S_IFREG = 32768"
definition S_IFBLK :: u32 where "S_IFBLK = 24576"
definition S_IFDIR :: u32 where "S_IFDIR = 16384"
definition S_IFCHR :: u32 where "S_IFCHR = 8192"
definition S_IFIFO :: u32 where "S_IFIFO = 4096"

lemmas mode_defs = S_IFMT_def S_IFSOCK_def S_IFLNK_def S_IFREG_def S_IFBLK_def S_IFDIR_def
  S_IFCHR_def S_IFIFO_def

section \<open>Timeouts\<close>

text \<open>
  A \<^verbatim>\<open>time.Duration\<close> is an int64 of nanoseconds. The setters split it with Go's truncating
  operators; the getters join the halves modulo \<^term>\<open>(2::nat) ^ 64\<close>.
\<close>

type_synonym Duration = i64

definition dur_sec :: "Duration \<Rightarrow> u64" where
  "dur_sec dt = word_of_int (quot_int (sint dt) 1000000000)"

definition dur_nsec :: "Duration \<Rightarrow> u32" where
  "dur_nsec dt = word_of_int (rem_int (sint dt) 1000000000)"

definition dur_join :: "u64 \<Rightarrow> u32 \<Rightarrow> Duration" where
  "dur_join sec nsec = ucast nsec + sec * 1000000000"

definition EntryTimeout :: "EntryOut \<Rightarrow> Duration" where
  "EntryTimeout o' = dur_join (eo_EntryValid o') (eo_EntryValidNsec o')"

definition AttrTimeout :: "EntryOut \<Rightarrow> Duration" where
  "AttrTimeout o' = dur_join (eo_AttrValid o') (eo_AttrValidNsec o')"

definition SetEntryTimeout :: "Duration \<Rightarrow> EntryOut \<Rightarrow> EntryOut" where
  "SetEntryTimeout dt o' = o'\<lparr>eo_EntryValidNsec := dur_nsec dt, eo_EntryValid := dur_sec dt\<rparr>"

definition SetAttrTimeout :: "Duration \<Rightarrow> EntryOut \<Rightarrow> EntryOut" where
  "SetAttrTimeout dt o' = o'\<lparr>eo_AttrValidNsec := dur_nsec dt, eo_AttrValid := dur_sec dt\<rparr>"

definition Timeout :: "AttrOut \<Rightarrow> Duration" where
  "Timeout o' = dur_join (ao_AttrValid o') (ao_AttrValidNsec o')"

definition SetTimeout :: "Duration \<Rightarrow> AttrOut \<Rightarrow> AttrOut" where
  "SetTimeout dt o' = o'\<lparr>ao_AttrValidNsec := dur_nsec dt, ao_AttrValid := dur_sec dt\<rparr>"

lemma dur_rem_bounds: "0 \<le> (n::int) mod 1000000000" "n mod 1000000000 < 2 ^ LENGTH(32)"
proof -
  show "0 \<le> n mod 1000000000" by (rule pos_mod_sign) simp
  have "n mod 1000000000 < 1000000000" by (rule pos_mod_bound) simp
  then show "n mod 1000000000 < 2 ^ LENGTH(32)" by simp
qed

lemma dur_join_split:
  assumes "0 \<le> sint dt"
  shows "dur_join (dur_sec dt) (dur_nsec dt) = dt"
proof -
  let ?n = "sint dt"
  have "dur_join (dur_sec dt) (dur_nsec dt) =
          word_of_int (?n mod 1000000000) + word_of_int (?n div 1000000000) * 1000000000"
    using assms by (simp only: dur_join_def dur_sec_def dur_nsec_def quot_int_nonneg rem_int_nonneg
        ucast_of_int_small [OF dur_rem_bounds] zero_less_numeral simp_thms)
  also have "\<dots> = (word_of_int (?n mod 1000000000 + ?n div 1000000000 * 1000000000) :: u64)"
    by (simp only: of_int_add of_int_mult of_int_numeral)
  also have "\<dots> = dt" by (simp only: mod_div_mult_eq of_int_sint scast_id)
  finally show ?thesis .
qed

lemma dur_nsec_bound:
  assumes "0 \<le> sint dt"
  shows "unat (dur_nsec dt) < 1000000000"
proof -
  have "uint (dur_nsec dt) = sint dt mod 1000000000"
    using assms by (simp only: dur_nsec_def rem_int_nonneg uint_of_int_small [OF dur_rem_bounds]
        zero_less_numeral simp_thms)
  also have "\<dots> < 1000000000" by (rule pos_mod_bound) simp
  finally show ?thesis by (simp only: unat_eq_nat_uint nat_less_iff uint_ge_0)
qed

section \<open>Attributes\<close>

definition IsFifo :: "Attr \<Rightarrow> bool" where "IsFifo a \<longleftrightarrow> a_Mode a AND S_IFMT = S_IFIFO"
definition IsChar :: "Attr \<Rightarrow> bool" where "IsChar a \<longleftrightarrow> a_Mode a AND S_IFMT = S_IFCHR"
definition IsDir :: "Attr \<Rightarrow> bool" where "IsDir a \<longleftrightarrow> a_Mode a AND S_IFMT = S_IFDIR"
definition IsBlock :: "Attr \<Rightarrow> bool" where "IsBlock a \<longleftrightarrow> a_Mode a AND S_IFMT = S_IFBLK"
definition IsRegular :: "Attr \<Rightarrow> bool" where "IsRegular a \<longleftrightarrow> a_Mode a AND S_IFMT = S_IFREG"
definition IsSymlink :: "Attr \<Rightarrow> bool" where "IsSymlink a \<longleftrightarrow> a_Mode a AND S_IFMT = S_IFLNK"
definition IsSocket :: "Attr \<Rightarrow> bool" where "IsSocket a \<longleftrightarrow> a_Mode a AND S_IFMT = S_IFSOCK"

text \<open>
  A \<^verbatim>\<open>time.Time\<close> as its Unix second and the nanosecond within it, and
  \<^verbatim>\<open>time.Unix\<close>, which normalises.
\<close>

record Time =
  t_Unix :: i64
  t_Nanosecond :: u32

definition time_Unix :: "i64 \<Rightarrow> i64 \<Rightarrow> Time" where
  "time_Unix sec nsec =
     \<lparr>t_Unix = sec + word_of_int (sint nsec div 1000000000),
      t_Nanosecond = word_of_int (sint nsec mod 1000000000)\<rparr>"

definition SetTimes :: "Time option \<Rightarrow> Time option \<Rightarrow> Time option \<Rightarrow> Attr \<Rightarrow> Attr" where
  "SetTimes access modt chstatus a =
     (let a1 = (case access of None \<Rightarrow> a
                | Some t \<Rightarrow> a\<lparr>a_Atime := t_Unix t, a_Atimensec := t_Nanosecond t\<rparr>);
          a2 = (case modt of None \<Rightarrow> a1
                | Some t \<Rightarrow> a1\<lparr>a_Mtime := t_Unix t, a_Mtimensec := t_Nanosecond t\<rparr>)
      in (case chstatus of None \<Rightarrow> a2
          | Some t \<Rightarrow> a2\<lparr>a_Ctime := t_Unix t, a_Ctimensec := t_Nanosecond t\<rparr>))"

definition ChangeTime :: "Attr \<Rightarrow> Time" where
  "ChangeTime a = time_Unix (a_Ctime a) (ucast (a_Ctimensec a))"

definition AccessTime :: "Attr \<Rightarrow> Time" where
  "AccessTime a = time_Unix (a_Atime a) (ucast (a_Atimensec a))"

definition ModTime :: "Attr \<Rightarrow> Time" where
  "ModTime a = time_Unix (a_Mtime a) (ucast (a_Mtimensec a))"

lemma time_Unix_normal:
  assumes "unat ns < 1000000000"
  shows "time_Unix s (ucast (ns :: u32)) = \<lparr>t_Unix = s, t_Nanosecond = ns\<rparr>"
proof -
  have u: "uint ns < 1000000000"
    using assms by (simp only: unat_eq_nat_uint nat_less_iff uint_ge_0)
  have s: "sint (ucast ns :: i64) = uint ns" by (rule sint_ucast_up) simp
  have d: "uint ns div 1000000000 = 0" and m: "uint ns mod 1000000000 = uint ns"
    using u by (simp_all only: div_pos_pos_trivial mod_pos_pos_trivial uint_ge_0)
  show ?thesis
    by (simp only: time_Unix_def s d m of_int_uint of_int_0 add_0_right ucast_id)
qed

text \<open>The stat buffer of the host, with the fields \<^verbatim>\<open>FromStat\<close> reads.\<close>

record Stat_t =
  st_Ino :: u64
  st_Size :: i64
  st_Blocks :: i64
  st_AtimSec :: i64
  st_AtimNsec :: i64
  st_MtimSec :: i64
  st_MtimNsec :: i64
  st_CtimSec :: i64
  st_CtimNsec :: i64
  st_Mode :: u32
  st_Nlink :: u64
  st_Uid :: u32
  st_Gid :: u32
  st_Rdev :: u64
  st_Blksize :: i64

definition FromStat :: "Stat_t \<Rightarrow> Attr \<Rightarrow> Attr" where
  "FromStat s a =
     a\<lparr>a_Ino := st_Ino s, a_Size := st_Size s, a_Blocks := st_Blocks s,
       a_Atime := st_AtimSec s, a_Atimensec := ucast (st_AtimNsec s),
       a_Mtime := st_MtimSec s, a_Mtimensec := ucast (st_MtimNsec s),
       a_Ctime := st_CtimSec s, a_Ctimensec := ucast (st_CtimNsec s),
       a_Mode := st_Mode s, a_Nlink := ucast (st_Nlink s),
       a_Owner := \<lparr>Uid = st_Uid s, Gid = st_Gid s\<rparr>,
       a_Rdev := ucast (st_Rdev s), a_Blksize := ucast (st_Blksize s)\<rparr>"

section \<open>SETATTR\<close>

record SetAttrIn =
  sa_InHeader :: InHeader
  sa_Valid :: u32
  sa_Fh :: u64
  sa_Size :: u64
  sa_LockOwner :: u64
  sa_Atime :: u64
  sa_Mtime :: u64
  sa_Ctime :: u64
  sa_Atimensec :: u32
  sa_Mtimensec :: u32
  sa_Ctimensec :: u32
  sa_Mode :: u32
  sa_Owner :: Owner

definition FATTR_MODE :: u32 where "FATTR_MODE = 1"
definition FATTR_UID :: u32 where "FATTR_UID = 2"
definition FATTR_GID :: u32 where "FATTR_GID = 4"
definition FATTR_SIZE :: u32 where "FATTR_SIZE = 8"
definition FATTR_ATIME :: u32 where "FATTR_ATIME = 16"
definition FATTR_MTIME :: u32 where "FATTR_MTIME = 32"
definition FATTR_FH :: u32 where "FATTR_FH = 64"
definition FATTR_ATIME_NOW :: u32 where "FATTR_ATIME_NOW = 128"
definition FATTR_MTIME_NOW :: u32 where "FATTR_MTIME_NOW = 256"
definition FATTR_CTIME :: u32 where "FATTR_CTIME = 1024"

lemmas fattr_defs = FATTR_MODE_def FATTR_UID_def FATTR_GID_def FATTR_SIZE_def FATTR_ATIME_def
  FATTR_MTIME_def FATTR_FH_def FATTR_ATIME_NOW_def FATTR_MTIME_NOW_def FATTR_CTIME_def

text \<open>Each accessor returns the field and whether the kernel marked it valid.\<close>

definition GetFh :: "SetAttrIn \<Rightarrow> u64 \<times> bool" where
  "GetFh s = (if sa_Valid s AND FATTR_FH \<noteq> 0 then (sa_Fh s, True) else (0, False))"

definition GetMode :: "SetAttrIn \<Rightarrow> u32 \<times> bool" where
  "GetMode s = (if sa_Valid s AND FATTR_MODE \<noteq> 0 then (sa_Mode s AND 4095, True) else (0, False))"

definition GetUID :: "SetAttrIn \<Rightarrow> u32 \<times> bool" where
  "GetUID s = (if sa_Valid s AND FATTR_UID \<noteq> 0 then (Uid (sa_Owner s), True) else (NOT 0, False))"

definition GetGID :: "SetAttrIn \<Rightarrow> u32 \<times> bool" where
  "GetGID s = (if sa_Valid s AND FATTR_GID \<noteq> 0 then (Gid (sa_Owner s), True) else (NOT 0, False))"

definition GetSize :: "SetAttrIn \<Rightarrow> u64 \<times> bool" where
  "GetSize s = (if sa_Valid s AND FATTR_SIZE \<noteq> 0 then (sa_Size s, True) else (0, False))"

definition zero_Time :: Time where
  "zero_Time = \<lparr>t_Unix = - 62135596800, t_Nanosecond = 0\<rparr>"

definition GetMTime :: "Time \<Rightarrow> SetAttrIn \<Rightarrow> Time \<times> bool" where
  "GetMTime now s =
     (if sa_Valid s AND FATTR_MTIME \<noteq> 0
      then (if sa_Valid s AND FATTR_MTIME_NOW \<noteq> 0 then now
            else time_Unix (sa_Mtime s) (ucast (sa_Mtimensec s)), True)
      else (zero_Time, False))"

definition GetATime :: "Time \<Rightarrow> SetAttrIn \<Rightarrow> Time \<times> bool" where
  "GetATime now s =
     (if sa_Valid s AND FATTR_ATIME \<noteq> 0
      then (if sa_Valid s AND FATTR_ATIME_NOW \<noteq> 0 then now
            else time_Unix (sa_Atime s) (ucast (sa_Atimensec s)), True)
      else (zero_Time, False))"

definition GetCTime :: "SetAttrIn \<Rightarrow> Time \<times> bool" where
  "GetCTime s =
     (if sa_Valid s AND FATTR_CTIME \<noteq> 0
      then (time_Unix (sa_Ctime s) (ucast (sa_Ctimensec s)), True)
      else (zero_Time, False))"

section \<open>File locks\<close>

record FileLock =
  lk_Start :: u64
  lk_End :: u64
  lk_Typ :: u32
  lk_Pid :: u32

text \<open>The host's \<^verbatim>\<open>struct flock\<close>.\<close>

record Flock_t =
  fl_Type :: "16 word"
  fl_Whence :: "16 word"
  fl_Start :: i64
  fl_Len :: i64
  fl_Pid :: i32

definition F_UNLCK :: "16 word" where "F_UNLCK = 2"

definition OFFSET_MAX :: u64 where "OFFSET_MAX = 0x7fffffffffffffff"

definition ToFlockT :: "FileLock \<Rightarrow> Flock_t \<Rightarrow> Flock_t" where
  "ToFlockT lk fl =
     fl\<lparr>fl_Start := lk_Start lk,
        fl_Len := (if lk_End lk = OFFSET_MAX then 0 else lk_End lk - lk_Start lk + 1),
        fl_Whence := 0,
        fl_Type := ucast (lk_Typ lk)\<rparr>"

definition FromFlockT :: "Flock_t \<Rightarrow> FileLock \<Rightarrow> FileLock" where
  "FromFlockT fl lk =
     (let lk1 = lk\<lparr>lk_Typ := scast (fl_Type fl)\<rparr>;
          lk2 = (if fl_Type fl \<noteq> F_UNLCK
                 then lk1\<lparr>lk_Start := fl_Start fl,
                          lk_End := (if fl_Len fl = 0 then OFFSET_MAX
                                     else fl_Start fl + fl_Len fl - 1)\<rparr>
                 else lk1)
      in lk2\<lparr>lk_Pid := fl_Pid fl\<rparr>)"

section \<open>Properties\<close>

lemma scast_ucast_down_small:
  assumes "unat (w :: u32) < 2 ^ 15"
  shows "scast (ucast w :: 16 word) = w"
proof -
  have "int (unat w) < int (2 ^ 15)" using assms by (simp only: of_nat_less_iff)
  then have u: "0 \<le> uint w" "uint w < 2 ^ 15" by simp_all
  have "uint (ucast w :: 16 word) = uint w"
    using u by (simp add: unsigned_ucast_eq take_bit_int_eq_self_iff)
  then have "sint (ucast w :: 16 word) = signed_take_bit 15 (uint w)"
    by (simp add: sint_uint)
  also have "\<dots> = uint w"
    using u by (intro signed_take_bit_int_eq_self) linarith+
  finally show ?thesis
    by (metis scast_eq word_of_int_uint)
qed

text \<open>
  The wire timeouts hold exactly the duration they were set to: for every non-negative
  duration the getters return what the setters stored, the nanosecond half stays below one
  second, and the entry and attribute timeouts of an entry do not disturb each other.
\<close>

theorem timeouts_roundtrip:
  assumes "0 \<le> sint dt"
  shows "EntryTimeout (SetEntryTimeout dt e) = dt
       \<and> AttrTimeout (SetAttrTimeout dt e) = dt
       \<and> Timeout (SetTimeout dt a) = dt
       \<and> unat (eo_EntryValidNsec (SetEntryTimeout dt e)) < 1000000000
       \<and> AttrTimeout (SetEntryTimeout dt e) = AttrTimeout e
       \<and> EntryTimeout (SetAttrTimeout dt e) = EntryTimeout e"
  using dur_join_split [OF assms] dur_nsec_bound [OF assms]
  by (simp add: EntryTimeout_def SetEntryTimeout_def AttrTimeout_def SetAttrTimeout_def
      Timeout_def SetTimeout_def)

theorem timeouts_roundtrip_witness:
  "0 \<le> sint (1500000000 :: Duration)
   \<and> EntryTimeout (SetEntryTimeout 1500000000 zero_EntryOut) = 1500000000"
proof -
  have h: "0 \<le> sint (1500000000 :: Duration)" by simp
  show ?thesis using h timeouts_roundtrip [OF h] by blast
qed

definition type_tests :: "(Attr \<Rightarrow> bool) list" where
  "type_tests = [IsFifo, IsChar, IsDir, IsBlock, IsRegular, IsSymlink, IsSocket]"

lemmas type_test_defs =
  IsFifo_def IsChar_def IsDir_def IsBlock_def IsRegular_def IsSymlink_def IsSocket_def

text \<open>
  The file-type tests of \<^verbatim>\<open>fuse/attr.go\<close> are mutually exclusive: at most one of the
  seven holds of any attribute, and one of them holds exactly when the format bits of the
  mode are one of the seven POSIX file types.
\<close>

theorem type_tests_exclusive:
  "length (filter (\<lambda>test. test a) type_tests) =
     (if a_Mode a AND S_IFMT \<in> {S_IFIFO, S_IFCHR, S_IFDIR, S_IFBLK, S_IFREG, S_IFLNK, S_IFSOCK}
      then 1 else 0)"
proof -
  obtain m where m: "a_Mode a AND S_IFMT = m" by blast
  show ?thesis unfolding type_tests_def type_test_defs m mode_defs by simp
qed

text \<open>
  A byte-range lock survives the trip through \<^verbatim>\<open>struct flock\<close>: for a lock whose type fits
  the host's 16-bit field and is not an unlock, and whose range is not empty,
  \<^verbatim>\<open>FromFlockT\<close> after \<^verbatim>\<open>ToFlockT\<close> restores start, end and type, with the pid of the host
  buffer; a lock to the end of the file stays one.
\<close>

theorem flock_roundtrip:
  assumes "unat (lk_Typ lk) < 2 ^ 15" and "lk_Typ lk \<noteq> 2"
    and "lk_End lk = OFFSET_MAX \<or> lk_End lk - lk_Start lk + 1 \<noteq> 0"
  shows "FromFlockT (ToFlockT lk fl) lk' = lk\<lparr>lk_Pid := fl_Pid fl\<rparr>"
proof -
  have ty: "scast (ucast (lk_Typ lk) :: 16 word) = lk_Typ lk"
    by (rule scast_ucast_down_small [OF assms(1)])
  have "(ucast (lk_Typ lk) :: 16 word) \<noteq> F_UNLCK"
  proof
    assume "(ucast (lk_Typ lk) :: 16 word) = F_UNLCK"
    then have "scast (ucast (lk_Typ lk) :: 16 word) = (scast F_UNLCK :: u32)" by simp
    then show False using assms(2) ty by (simp add: F_UNLCK_def)
  qed
  with assms(3) show ?thesis
    by (auto simp: FromFlockT_def ToFlockT_def Let_def ty)
qed

theorem flock_roundtrip_witness:
  "FromFlockT (ToFlockT \<lparr>lk_Start = 10, lk_End = 19, lk_Typ = 1, lk_Pid = 7\<rparr>
       \<lparr>fl_Type = 0, fl_Whence = 0, fl_Start = 0, fl_Len = 0, fl_Pid = 42\<rparr>)
     \<lparr>lk_Start = 0, lk_End = 0, lk_Typ = 0, lk_Pid = 0\<rparr>
   = \<lparr>lk_Start = 10, lk_End = 19, lk_Typ = 1, lk_Pid = 42\<rparr>"
  by (subst flock_roundtrip) simp_all

text \<open>
  Attribute times round trip: the times stored by \<^verbatim>\<open>SetTimes\<close> are the times the
  accessors report, for every instant with a normalised nanosecond part, and a time that is
  not given leaves the attribute alone.
\<close>

theorem set_times_roundtrip:
  assumes "unat (t_Nanosecond t) < 1000000000"
  shows "AccessTime (SetTimes (Some t) m c a) = t
       \<and> ModTime (SetTimes x (Some t) c a) = t
       \<and> ChangeTime (SetTimes x m (Some t) a) = t
       \<and> SetTimes None None None a = a
       \<and> AccessTime (SetTimes None m c a) = AccessTime a"
  using time_Unix_normal [OF assms, of "t_Unix t"]
  by (simp add: SetTimes_def AccessTime_def ModTime_def ChangeTime_def Let_def split: option.split)

theorem set_times_roundtrip_witness:
  "unat (t_Nanosecond \<lparr>t_Unix = 1000, t_Nanosecond = 5\<rparr>) < 1000000000
   \<and> ModTime (SetTimes None (Some \<lparr>t_Unix = 1000, t_Nanosecond = 5\<rparr>) None zero_Attr)
     = \<lparr>t_Unix = 1000, t_Nanosecond = 5\<rparr>"
proof -
  have h: "unat (t_Nanosecond \<lparr>t_Unix = 1000, t_Nanosecond = 5\<rparr>) < 1000000000" by simp
  show ?thesis using h set_times_roundtrip [OF h] by blast
qed

end
