(* ===== verification/HandleTable.thy ===== *)
theory HandleTable
  imports Prelude
begin

text \<open>
  The contract of a table that hands out numeric handles for objects: a handle that is
  handed out is not in use, it denotes the object until it is released, and a released
  handle denotes nothing and may be handed out again. \<^verbatim>\<open>fuse/nodefs/handle.go\<close> provides it
  for inodes and open files, \<^verbatim>\<open>nodefs/bridge.go\<close> for file handles.
\<close>

datatype ('h, 'a) tevent = TAlloc 'a | TRelease 'h

text \<open>
  The abstract table is a partial map; a run is a list of events with, for each allocation,
  the handle that was chosen.
\<close>

fun table_replay :: "('h, 'a) tevent list \<Rightarrow> 'h list \<Rightarrow> ('h \<rightharpoonup> 'a) \<Rightarrow> ('h \<rightharpoonup> 'a)" where
  "table_replay [] hs m = m"
| "table_replay (TAlloc a # es) [] m = m"
| "table_replay (TAlloc a # es) (h # hs) m = table_replay es hs (m(h \<mapsto> a))"
| "table_replay (TRelease h # es) hs m = table_replay es hs (m(h := None))"

text \<open>Every allocated handle was unused when it was handed out.\<close>

fun table_fresh :: "('h, 'a) tevent list \<Rightarrow> 'h list \<Rightarrow> ('h \<rightharpoonup> 'a) \<Rightarrow> bool" where
  "table_fresh [] hs m = True"
| "table_fresh (TAlloc a # es) [] m = False"
| "table_fresh (TAlloc a # es) (h # hs) m = (m h = None \<and> table_fresh es hs (m(h \<mapsto> a)))"
| "table_fresh (TRelease h # es) hs m = table_fresh es hs (m(h := None))"

fun table_run ::
  "('s \<Rightarrow> 'a \<Rightarrow> ('h \<times> 's) go) \<Rightarrow> ('s \<Rightarrow> 'h \<Rightarrow> 's go) \<Rightarrow> ('h, 'a) tevent list \<Rightarrow> 's \<Rightarrow> ('h list \<times> 's) go"
where
  "table_run alloc release [] s = Inr ([], s)"
| "table_run alloc release (TAlloc a # es) s =
     bind_go (alloc s a) (\<lambda>(h, s'). bind_go (table_run alloc release es s') (\<lambda>(hs, s''). Inr (h # hs, s'')))"
| "table_run alloc release (TRelease h # es) s =
     bind_go (release s h) (\<lambda>s'. table_run alloc release es s')"

text \<open>
  The events a caller may issue: objects that are ready, handles that are in use. Whether the
  operations succeed is not part of it; after a fault nothing more is asked of the caller.
\<close>

fun table_legal ::
  "('s \<Rightarrow> 'a \<Rightarrow> bool) \<Rightarrow> ('s \<Rightarrow> 'h \<Rightarrow> 'a option) \<Rightarrow>
   ('s \<Rightarrow> 'a \<Rightarrow> ('h \<times> 's) go) \<Rightarrow> ('s \<Rightarrow> 'h \<Rightarrow> 's go) \<Rightarrow> ('h, 'a) tevent list \<Rightarrow> 's \<Rightarrow> bool"
where
  "table_legal ready view alloc release [] s = True"
| "table_legal ready view alloc release (TAlloc a # es) s =
     (ready s a \<and> (case alloc s a of Inl e \<Rightarrow> True
                    | Inr (h, s') \<Rightarrow> table_legal ready view alloc release es s'))"
| "table_legal ready view alloc release (TRelease h # es) s =
     (view s h \<noteq> None \<and> (case release s h of Inl e \<Rightarrow> True
                         | Inr s' \<Rightarrow> table_legal ready view alloc release es s'))"

locale handle_table =
  fixes inv :: "'s \<Rightarrow> bool"
    and ready :: "'s \<Rightarrow> 'a \<Rightarrow> bool"
    and view :: "'s \<Rightarrow> 'h \<Rightarrow> 'a option"
    and alloc :: "'s \<Rightarrow> 'a \<Rightarrow> ('h \<times> 's) go"
    and release :: "'s \<Rightarrow> 'h \<Rightarrow> 's go"
  assumes alloc_law: "inv s \<Longrightarrow> ready s a \<Longrightarrow>
      \<exists>h s'. alloc s a = Inr (h, s') \<and> inv s' \<and> view s h = None \<and> view s' = (view s)(h \<mapsto> a)"
    and release_law: "inv s \<Longrightarrow> view s h = Some a \<Longrightarrow>
      \<exists>s'. release s h = Inr s' \<and> inv s' \<and> view s' = (view s)(h := None)"
begin

lemma alloc_fresh:
  assumes "inv s" and "ready s a" and "alloc s a = Inr (h, s')"
  shows "inv s'" and "view s h = None" and "view s' = (view s)(h \<mapsto> a)"
  using alloc_law [OF assms(1,2)] assms(3) by auto

lemma release_frees:
  assumes "inv s" and "view s h = Some a" and "release s h = Inr s'"
  shows "inv s'" and "view s' = (view s)(h := None)"
  using release_law [OF assms(1,2)] assms(3) by auto

lemma two_allocs_differ:
  assumes "inv s" and "ready s a" and "alloc s a = Inr (h, s1)"
    and "ready s1 b" and "alloc s1 b = Inr (k, s2)"
  shows "h \<noteq> k" and "view s2 h = Some a" and "view s2 k = Some b"
proof -
  note s1 = alloc_fresh [OF assms(1-3)]
  note s2 = alloc_fresh [OF s1(1) assms(4,5)]
  from s1(3) s2(2) show "h \<noteq> k" by auto
  with s1 s2 show "view s2 h = Some a" and "view s2 k = Some b" by auto
qed

lemma release_then_reuse_safe:
  assumes "inv s" and "view s h = Some a" and "release s h = Inr s'" and "k \<noteq> h"
  shows "view s' h = None" and "view s' k = view s k"
  using release_frees [OF assms(1-3)] assms(4) by simp_all

text \<open>
  Refinement: a legal run never fails, keeps the invariant, hands out only unused handles,
  and ends in the state the abstract map predicts.
\<close>

lemma run_refines:
  assumes "inv s" and "table_legal ready view alloc release es s"
  shows "\<exists>hs s'. table_run alloc release es s = Inr (hs, s') \<and> inv s'
           \<and> view s' = table_replay es hs (view s) \<and> table_fresh es hs (view s)"
  using assms
proof (induction es arbitrary: s)
  case Nil
  then show ?case by auto
next
  case (Cons e es)
  show ?case
  proof (cases e)
    case (TAlloc a)
    with Cons.prems have r: "ready s a" by simp
    from alloc_law [OF Cons.prems(1) r] obtain h s1 where a: "alloc s a = Inr (h, s1)" by blast
    with Cons.prems(2) TAlloc have l: "table_legal ready view alloc release es s1" by simp
    note f = alloc_fresh [OF Cons.prems(1) r a]
    from Cons.IH [OF f(1) l] obtain hs s2 where
      "table_run alloc release es s1 = Inr (hs, s2)" "inv s2"
      "view s2 = table_replay es hs (view s1)" "table_fresh es hs (view s1)" by blast
    then show ?thesis using a f TAlloc by auto
  next
    case (TRelease h)
    with Cons.prems obtain a where v: "view s h = Some a" by auto
    from release_law [OF Cons.prems(1) v] obtain s1 where r: "release s h = Inr s1" by blast
    with Cons.prems(2) TRelease have l: "table_legal ready view alloc release es s1" by simp
    note f = release_frees [OF Cons.prems(1) v r]
    from Cons.IH [OF f(1) l] obtain hs s2 where
      "table_run alloc release es s1 = Inr (hs, s2)" "inv s2"
      "view s2 = table_replay es hs (view s1)" "table_fresh es hs (view s1)" by blast
    then show ?thesis using r f TRelease by auto
  qed
qed

end

end
