(* ===== verification/HandleMap.thy ===== *)
theory HandleMap
  imports HandleTable
begin

text \<open>
  \<^verbatim>\<open>fuse/nodefs/handle.go\<close>: the portable handle map that gives inodes and opened files the
  64-bit numbers the kernel knows them by. A \<^verbatim>\<open>handled\<close> object is an address with its handle,
  generation and reference count; the map is a slice of object pointers indexed by handle
  with a free list. Its mutex serialises the operations, so each is one step here.
\<close>

record handled =
  hd_handle :: u64
  hd_generation :: u64
  hd_count :: i64

record portableHandleMap =
  hm_generation :: u64
  hm_used :: i64
  hm_handles :: "addr option list"
  hm_freeIds :: "u64 list"

type_synonym hmstate = "(addr \<Rightarrow> handled) \<times> portableHandleMap"

definition newPortableHandleMap :: portableHandleMap where
  "newPortableHandleMap =
     \<lparr>hm_generation = 0, hm_used = 0, hm_handles = [None, None], hm_freeIds = []\<rparr>"

definition zero_handled :: handled where
  "zero_handled = \<lparr>hd_handle = 0, hd_generation = 0, hd_count = 0\<rparr>"

definition verify :: "handled \<Rightarrow> unit go" where
  "verify h =
     (if sint (hd_count h) < 0 then Inl (Panic ''negative lookup count'')
      else if (hd_count h = 0) \<noteq> (hd_handle h = 0) then Inl (Panic ''registration mismatch'')
      else Inr ())"

definition Register :: "hmstate \<Rightarrow> addr \<Rightarrow> (u64 \<times> u64 \<times> hmstate) go" where
  "Register st p =
     (let (objs, m) = st; ob = objs p in
      if hd_count ob \<noteq> 0
      then Inr (hd_handle ob, hd_generation ob, (objs(p := ob\<lparr>hd_count := hd_count ob + 1\<rparr>), m))
      else bind_go
        (if hm_freeIds m = []
         then Inr (of_nat (length (hm_handles m)), m\<lparr>hm_handles := hm_handles m @ [Some p]\<rparr>)
         else (let h = last (hm_freeIds m) in
               bind_go (slice_set (hm_handles m) (unat h) (Some p))
                 (\<lambda>hs. Inr (h, m\<lparr>hm_freeIds := butlast (hm_freeIds m), hm_handles := hs\<rparr>))))
        (\<lambda>(h, m1).
           let g = hm_generation m1 + 1;
               m2 = m1\<lparr>hm_generation := g, hm_used := hm_used m1 + 1\<rparr>
           in Inr (h, g, (objs(p := \<lparr>hd_handle = h, hd_generation = g, hd_count = hd_count ob + 1\<rparr>), m2))))"

definition Handle :: "hmstate \<Rightarrow> addr \<Rightarrow> u64" where
  "Handle st p = (if hd_count (fst st p) = 0 then 0 else hd_handle (fst st p))"

definition Count :: "hmstate \<Rightarrow> i64" where
  "Count st = hm_used (snd st)"

definition Decode :: "hmstate \<Rightarrow> u64 \<Rightarrow> addr option go" where
  "Decode st h = slice_get (hm_handles (snd st)) (unat h)"

definition Forget :: "hmstate \<Rightarrow> u64 \<Rightarrow> i64 \<Rightarrow> (bool \<times> addr \<times> hmstate) go" where
  "Forget st h n =
     (let (objs, m) = st in
      bind_go (slice_get (hm_handles m) (unat h)) (\<lambda>po.
        case po of
          None \<Rightarrow> Inl NilDeref
        | Some p \<Rightarrow>
            let ob = (objs p)\<lparr>hd_count := hd_count (objs p) - n\<rparr> in
            if sint (hd_count ob) < 0 then Inl (Panic ''underflow'')
            else if hd_count ob = 0
            then Inr (True, p, (objs(p := ob\<lparr>hd_handle := 0\<rparr>),
                   m\<lparr>hm_handles := (hm_handles m)[unat h := None],
                     hm_freeIds := hm_freeIds m @ [h],
                     hm_used := hm_used m - 1\<rparr>))
            else Inr (False, p, (objs(p := ob), m))))"

definition Has :: "hmstate \<Rightarrow> u64 \<Rightarrow> bool go" where
  "Has st h = bind_go (slice_get (hm_handles (snd st)) (unat h)) (\<lambda>po. Inr (po \<noteq> None))"

section \<open>Invariant\<close>

text \<open>The reference counts are signed 64-bit integers that wrap around.\<close>

lemma sint_minus_small:
  fixes a b :: i64
  assumes "0 \<le> sint b" and "sint b \<le> sint a"
  shows "sint (a - b) = sint a - sint b"
proof -
  have "sint a < 2 ^ 63" using sint_lt [of a] by simp
  then show ?thesis using assms by (simp add: sint_word_ariths signed_take_bit_int_eq_self)
qed

lemma sint_plus1_small:
  fixes a :: i64
  assumes "0 \<le> sint a" and "sint a < 2 ^ 63 - 1"
  shows "sint (a + 1) = sint a + 1"
  using assms by (simp add: sint_word_ariths signed_take_bit_int_eq_self)

lemma sint_pos_nonzero: "0 < sint (a :: i64) \<Longrightarrow> a \<noteq> 0"
  by auto

definition used_slots :: "'a option list \<Rightarrow> nat" where
  "used_slots hs = length (filter (\<lambda>x. x \<noteq> None) hs)"

definition hm_inv :: "hmstate \<Rightarrow> bool" where
  "hm_inv st \<longleftrightarrow> (let (objs, m) = st; hs = hm_handles m in
     2 \<le> length hs \<and> length hs \<le> 2 ^ 64 \<and> hs ! 0 = None \<and> hs ! 1 = None
     \<and> (\<forall>i p. i < length hs \<and> hs ! i = Some p \<longrightarrow> hd_handle (objs p) = of_nat i \<and> 0 < sint (hd_count (objs p)))
     \<and> (\<forall>p. hd_count (objs p) = 0 \<and> hd_handle (objs p) = 0
            \<or> 0 < sint (hd_count (objs p)) \<and> unat (hd_handle (objs p)) < length hs
              \<and> hs ! unat (hd_handle (objs p)) = Some p)
     \<and> distinct (hm_freeIds m)
     \<and> unat ` set (hm_freeIds m) = {i. 2 \<le> i \<and> i < length hs \<and> hs ! i = None}
     \<and> hm_used m = word_of_nat (used_slots hs))"

lemma used_slots_set:
  "i < length hs \<Longrightarrow> hs ! i = None \<Longrightarrow> used_slots (hs[i := Some p]) = Suc (used_slots hs)"
  by (induction hs arbitrary: i) (auto simp: used_slots_def nth_Cons split: nat.splits)

lemma used_slots_clear:
  assumes "i < length hs" and "hs ! i = Some p"
  shows "Suc (used_slots (hs[i := None])) = used_slots hs"
proof -
  have "hs[i := Some p] = hs" using assms(2) by (metis list_update_id)
  then show ?thesis using used_slots_set [of i "hs[i := None]" p] assms by simp
qed

lemma used_slots_append [simp]: "used_slots (hs @ [Some p]) = Suc (used_slots hs)"
  by (simp add: used_slots_def)


lemma hm_invD:
  assumes "hm_inv (objs, m)"
  shows "2 \<le> length (hm_handles m)" and "length (hm_handles m) \<le> 2 ^ 64"
    and "hm_handles m ! 0 = None" and "hm_handles m ! 1 = None"
    and "\<And>i p. i < length (hm_handles m) \<Longrightarrow> hm_handles m ! i = Some p \<Longrightarrow>
           hd_handle (objs p) = of_nat i \<and> 0 < sint (hd_count (objs p))"
    and "\<And>p. hd_count (objs p) = 0 \<and> hd_handle (objs p) = 0
           \<or> 0 < sint (hd_count (objs p)) \<and> unat (hd_handle (objs p)) < length (hm_handles m)
             \<and> hm_handles m ! unat (hd_handle (objs p)) = Some p"
    and "distinct (hm_freeIds m)"
    and "unat ` set (hm_freeIds m) = {i. 2 \<le> i \<and> i < length (hm_handles m) \<and> hm_handles m ! i = None}"
    and "hm_used m = word_of_nat (used_slots (hm_handles m))"
  using assms by (simp_all add: hm_inv_def Let_def)

lemma hm_invI:
  assumes "2 \<le> length (hm_handles m)" and "length (hm_handles m) \<le> 2 ^ 64"
    and "hm_handles m ! 0 = None" and "hm_handles m ! 1 = None"
    and "\<And>i p. i < length (hm_handles m) \<Longrightarrow> hm_handles m ! i = Some p \<Longrightarrow>
           hd_handle (objs p) = of_nat i \<and> 0 < sint (hd_count (objs p))"
    and "\<And>p. hd_count (objs p) = 0 \<and> hd_handle (objs p) = 0
           \<or> 0 < sint (hd_count (objs p)) \<and> unat (hd_handle (objs p)) < length (hm_handles m)
             \<and> hm_handles m ! unat (hd_handle (objs p)) = Some p"
    and "distinct (hm_freeIds m)"
    and "unat ` set (hm_freeIds m) = {i. 2 \<le> i \<and> i < length (hm_handles m) \<and> hm_handles m ! i = None}"
    and "hm_used m = word_of_nat (used_slots (hm_handles m))"
  shows "hm_inv (objs, m)"
  unfolding hm_inv_def Let_def split_conv using assms by blast

lemma hm_inv_new: "(\<And>p. objs p = zero_handled) \<Longrightarrow> hm_inv (objs, newPortableHandleMap)"
  by (rule hm_invI) (auto simp: newPortableHandleMap_def zero_handled_def used_slots_def
      nth_Cons split: nat.splits)

lemma unat_handle_slot:
  "hm_inv (objs, m) \<Longrightarrow> i < length (hm_handles m) \<Longrightarrow> unat (of_nat i :: u64) = i"
  using hm_invD(2) [of objs m] by (simp add: unat_of_nat_small)

lemma bump_inv:
  assumes inv: "hm_inv (objs, m)" and c: "0 < sint (hd_count (objs p))" and k: "0 < sint k"
  shows "hm_inv (objs(p := (objs p)\<lparr>hd_count := k\<rparr>), m)"
proof -
  note D = hm_invD [OF inv]
  have "unat (hd_handle (objs p)) < length (hm_handles m) \<and> hm_handles m ! unat (hd_handle (objs p)) = Some p"
    using D(6) [of p] c by auto
  then show ?thesis using D k by (intro hm_invI) (auto split: if_splits)
qed

text \<open>The two ways a fresh handle is made: from the free list or by growing the slice.\<close>

lemma place_inv:
  assumes inv: "hm_inv (objs, m)" and c: "hd_count (objs p) = 0"
    and i: "2 \<le> i" "i < length hs'" and i64: "i < 2 ^ 64"
    and hs': "length hs' \<le> 2 ^ 64" "length (hm_handles m) \<le> length hs'" "hs' ! i = Some p"
      "\<And>j. j < length hs' \<Longrightarrow> j \<noteq> i \<Longrightarrow> j < length (hm_handles m) \<and> hs' ! j = hm_handles m ! j"
    and slot: "i < length (hm_handles m) \<longrightarrow> hm_handles m ! i = None"
    and free: "distinct fr" "unat ` set fr = unat ` set (hm_freeIds m) - {i}"
    and used: "used_slots hs' = Suc (used_slots (hm_handles m))"
  shows "hm_inv (objs(p := \<lparr>hd_handle = of_nat i, hd_generation = g, hd_count = 1\<rparr>),
     m\<lparr>hm_handles := hs', hm_freeIds := fr, hm_generation := g, hm_used := hm_used m + 1\<rparr>)"
proof -
  note D = hm_invD [OF inv]
  have ui: "unat (of_nat i :: u64) = i" using i64 by (simp add: unat_of_nat_small)
  have notp: "hm_handles m ! j \<noteq> Some p" if "j < length (hm_handles m)" for j
    using D(5) [OF that] c by auto
  have old: "hs' ! j = hm_handles m ! j" if "j < length (hm_handles m)" "j \<noteq> i" for j
    using hs'(2,4) that by simp
  show ?thesis
  proof (rule hm_invI, simp_all add: ui)
    show "2 \<le> length hs'" using D(1) hs'(2) by simp
    show "length hs' \<le> 18446744073709551616" using hs'(1) by simp
    show "hs' ! 0 = None" using old [of 0] D(1,3) i by fastforce
    show "hs' ! Suc 0 = None" using old [of 1] D(1,4) i by fastforce
    show "distinct fr" by (rule free)
    show "hm_used m + 1 = word_of_nat (used_slots hs')" using D(9) used by simp
    show "unat ` set fr = {i. 2 \<le> i \<and> i < length hs' \<and> hs' ! i = None}"
    proof (rule set_eqI)
      fix x
      show "x \<in> unat ` set fr \<longleftrightarrow> x \<in> {i. 2 \<le> i \<and> i < length hs' \<and> hs' ! i = None}"
        unfolding free(2) D(8) using hs'(2,3) hs'(4) [of x] by (cases "x = i") auto
    qed
  next
    fix j q assume j: "j < length hs'" "hs' ! j = Some q"
    show "(q = p \<longrightarrow> (of_nat i :: u64) = of_nat j) \<and>
          (q \<noteq> p \<longrightarrow> hd_handle (objs q) = of_nat j \<and> 0 < sint (hd_count (objs q)))"
      using j hs'(3,4) notp D(5) by (cases "j = i") auto
  next
    fix q
    show "(q = p \<longrightarrow> i < length hs' \<and> hs' ! i = Some p) \<and>
          (q \<noteq> p \<longrightarrow> hd_count (objs q) = 0 \<and> hd_handle (objs q) = 0 \<or>
            0 < sint (hd_count (objs q)) \<and> unat (hd_handle (objs q)) < length hs' \<and>
            hs' ! unat (hd_handle (objs q)) = Some q)"
      using D(6) [of q] i(2) hs'(2,3) slot old by (cases "unat (hd_handle (objs q)) = i") auto
  qed
qed


text \<open>There is room for another object: a free slot or an index that fits 64 bits.\<close>

definition hm_room :: "hmstate \<Rightarrow> bool" where
  "hm_room st \<longleftrightarrow> hm_freeIds (snd st) \<noteq> [] \<or> length (hm_handles (snd st)) < 2 ^ 64"

definition hm_view :: "hmstate \<Rightarrow> u64 \<Rightarrow> addr option" where
  "hm_view st h = (if unat h < length (hm_handles (snd st)) then hm_handles (snd st) ! unat h else None)"

lemma Register_known:
  assumes "hd_count (objs p) \<noteq> 0"
  shows "Register (objs, m) p =
    Inr (hd_handle (objs p), hd_generation (objs p),
         (objs(p := (objs p)\<lparr>hd_count := hd_count (objs p) + 1\<rparr>), m))"
  using assms by (simp add: Register_def Let_def)

lemma Register_fresh:
  assumes inv: "hm_inv (objs, m)" and c: "hd_count (objs p) = 0" and room: "hm_room (objs, m)"
  shows "\<exists>h st'. Register (objs, m) p = Inr (h, hm_generation m + 1, st') \<and> hm_inv st'
      \<and> hm_view (objs, m) h = None \<and> hm_view st' = (hm_view (objs, m))(h \<mapsto> p)
      \<and> 2 \<le> unat h \<and> hm_generation (snd st') = hm_generation m + 1
      \<and> fst st' = objs(p := \<lparr>hd_handle = h, hd_generation = hm_generation m + 1, hd_count = 1\<rparr>)"
proof (cases "hm_freeIds m = []")
  case True
  note D = hm_invD [OF inv]
  let ?i = "length (hm_handles m)"
  let ?hs = "hm_handles m @ [Some p]"
  from True room have lt: "?i < 2 ^ 64" by (simp add: hm_room_def)
  then have ui: "unat (of_nat ?i :: u64) = ?i" by (simp add: unat_of_nat_small)
  have inv': "hm_inv (objs(p := \<lparr>hd_handle = of_nat ?i, hd_generation = hm_generation m + 1, hd_count = 1\<rparr>),
      m\<lparr>hm_handles := ?hs, hm_freeIds := [], hm_generation := hm_generation m + 1, hm_used := hm_used m + 1\<rparr>)"
    by (rule place_inv [OF inv c]) (use D(1) lt True in \<open>auto simp: nth_append\<close>)
  have "hm_freeIds m = []" by (rule True)
  then have m': "m\<lparr>hm_handles := ?hs, hm_freeIds := [], hm_generation := hm_generation m + 1, hm_used := hm_used m + 1\<rparr>
      = m\<lparr>hm_handles := ?hs, hm_generation := hm_generation m + 1, hm_used := hm_used m + 1\<rparr>"
    by simp
  let ?st = "(objs(p := \<lparr>hd_handle = of_nat ?i, hd_generation = hm_generation m + 1, hd_count = 1\<rparr>),
      m\<lparr>hm_handles := ?hs, hm_generation := hm_generation m + 1, hm_used := hm_used m + 1\<rparr>)"
  have R: "Register (objs, m) p = Inr (of_nat ?i, hm_generation m + 1, ?st)"
    using True c by (simp add: Register_def Let_def)
  have V: "hm_view ?st = (hm_view (objs, m))(of_nat ?i \<mapsto> p)"
    by (auto simp: hm_view_def fun_eq_iff nth_append less_Suc_eq ui word_unat_eq_iff)
  have N: "hm_view (objs, m) (of_nat ?i) = None"
    by (simp add: hm_view_def ui)
  show ?thesis
    using R V N inv' ui D(1) unfolding m' by (intro exI [of _ "of_nat ?i"] exI [of _ ?st]) simp
next
  case False
  note D = hm_invD [OF inv]
  let ?h = "last (hm_freeIds m)"
  have "?h \<in> set (hm_freeIds m)" using False by simp
  then have "unat ?h \<in> {i. 2 \<le> i \<and> i < length (hm_handles m) \<and> hm_handles m ! i = None}"
    using D(8) by blast
  then have h: "2 \<le> unat ?h" "unat ?h < length (hm_handles m)" "hm_handles m ! unat ?h = None"
    by auto
  have fr: "unat ` set (butlast (hm_freeIds m)) = unat ` set (hm_freeIds m) - {unat ?h}"
  proof -
    obtain xs x where fx: "hm_freeIds m = xs @ [x]" using False by (metis append_butlast_last_id)
    with D(7) have "x \<notin> set xs" by simp
    then show ?thesis by (auto simp: fx) (metis word_unat_eq_iff)
  qed
  have lt: "unat ?h < 2 ^ 64" by (rule order_less_le_trans [OF unsigned_less]) simp
  have inv': "hm_inv (objs(p := \<lparr>hd_handle = of_nat (unat ?h), hd_generation = hm_generation m + 1, hd_count = 1\<rparr>),
      m\<lparr>hm_handles := (hm_handles m)[unat ?h := Some p], hm_freeIds := butlast (hm_freeIds m),
        hm_generation := hm_generation m + 1, hm_used := hm_used m + 1\<rparr>)"
    by (rule place_inv [OF inv c])
       (use h lt D(2,7) fr in \<open>auto simp: used_slots_set distinct_butlast\<close>)
  let ?st = "(objs(p := \<lparr>hd_handle = ?h, hd_generation = hm_generation m + 1, hd_count = 1\<rparr>),
      m\<lparr>hm_handles := (hm_handles m)[unat ?h := Some p], hm_freeIds := butlast (hm_freeIds m),
        hm_generation := hm_generation m + 1, hm_used := hm_used m + 1\<rparr>)"
  have R: "Register (objs, m) p = Inr (?h, hm_generation m + 1, ?st)"
    using False c h by (simp add: Register_def Let_def)
  have V: "hm_view ?st = (hm_view (objs, m))(?h \<mapsto> p)"
    using h by (auto simp: hm_view_def fun_eq_iff nth_list_update word_unat_eq_iff)
  have N: "hm_view (objs, m) ?h = None"
    using h by (simp add: hm_view_def)
  show ?thesis
    using R V N inv' h by (intro exI [of _ ?h] exI [of _ ?st]) simp
qed

lemma Register_inv [inv_intros]:
  assumes inv: "hm_inv st" and room: "hm_room st" and c: "sint (hd_count (fst st p)) < 2 ^ 63 - 1"
    and r: "Register st p = Inr (h, g, st')"
  shows "hm_inv st'"
proof (cases st)
  case (Pair objs m)
  show ?thesis
  proof (cases "hd_count (objs p) = 0")
    case True
    then show ?thesis using Register_fresh [of objs m p] inv room r Pair by auto
  next
    case False
    with hm_invD(6) [of objs m p] inv Pair have "0 < sint (hd_count (objs p))" by auto
    then show ?thesis using bump_inv [of objs m p] sint_plus1_small [of "hd_count (objs p)"] c inv r Pair False
      by (auto simp: Register_known)
  qed
qed


lemma Forget_spec:
  assumes inv: "hm_inv (objs, m)" and v: "hm_view (objs, m) h = Some p"
    and n: "0 \<le> sint n" "sint n \<le> sint (hd_count (objs p))"
  shows "\<exists>st'. Forget (objs, m) h n = Inr (hd_count (objs p) = n, p, st') \<and> hm_inv st'
      \<and> hm_view st' = (if hd_count (objs p) = n then (hm_view (objs, m))(h := None) else hm_view (objs, m))
      \<and> hd_count (fst st' p) = hd_count (objs p) - n
      \<and> hm_generation (snd st') = hm_generation m"
proof -
  note D = hm_invD [OF inv]
  from v have h: "unat h < length (hm_handles m)" "hm_handles m ! unat h = Some p"
    by (auto simp: hm_view_def split: if_splits)
  from D(5) [OF h] have hp: "hd_handle (objs p) = h" "0 < sint (hd_count (objs p))" by auto
  have sub: "sint (hd_count (objs p) - n) = sint (hd_count (objs p)) - sint n" using n by (rule sint_minus_small)
  have h2: "2 \<le> unat h"
  proof (rule ccontr)
    assume "\<not> 2 \<le> unat h"
    then have "unat h = 0 \<or> unat h = 1" by auto
    with h D(3,4) show False by auto
  qed
  show ?thesis
  proof (cases "hd_count (objs p) = n")
    case True
    let ?m = "m\<lparr>hm_handles := (hm_handles m)[unat h := None], hm_freeIds := hm_freeIds m @ [h],
      hm_used := hm_used m - 1\<rparr>"
    let ?o = "objs(p := (objs p)\<lparr>hd_count := 0, hd_handle := 0\<rparr>)"
    have R: "Forget (objs, m) h n = Inr (True, p, (?o, ?m))"
      using True h by (simp add: Forget_def Let_def)
    have inv': "hm_inv (?o, ?m)"
    proof (rule hm_invI)
      show "2 \<le> length (hm_handles ?m)" "length (hm_handles ?m) \<le> 2 ^ 64"
        "hm_handles ?m ! 0 = None" "hm_handles ?m ! 1 = None"
        using D(1-4) h2 by auto
      show "hm_used ?m = word_of_nat (used_slots (hm_handles ?m))"
        using D(9) arg_cong [OF used_slots_clear [OF h], of "word_of_nat :: nat \<Rightarrow> i64"] by (simp add: algebra_simps eq_diff_eq diff_eq_eq)
      have "h \<notin> set (hm_freeIds m)"
      proof
        assume "h \<in> set (hm_freeIds m)"
        then have "unat h \<in> unat ` set (hm_freeIds m)" by (rule imageI)
        then show False using D(8) h by simp
      qed
      then show "distinct (hm_freeIds ?m)" using D(7) by simp
      show "unat ` set (hm_freeIds ?m) = {i. 2 \<le> i \<and> i < length (hm_handles ?m) \<and> hm_handles ?m ! i = None}"
        using D(8) h h2 by (auto simp: nth_list_update)
    next
      fix i q assume i: "i < length (hm_handles ?m)" "hm_handles ?m ! i = Some q"
      then have "i \<noteq> unat h" "i < length (hm_handles m)" "hm_handles m ! i = Some q"
        using h(1) by (auto simp: nth_list_update split: if_splits)
      moreover from this have "q \<noteq> p" using D(5) [of i q] hp D(2) by (auto simp: unat_of_nat_small)
      ultimately show "hd_handle (?o q) = of_nat i \<and> 0 < sint (hd_count (?o q))" using D(5) by simp
    next
      fix q
      show "hd_count (?o q) = 0 \<and> hd_handle (?o q) = 0
          \<or> 0 < sint (hd_count (?o q)) \<and> unat (hd_handle (?o q)) < length (hm_handles ?m)
            \<and> hm_handles ?m ! unat (hd_handle (?o q)) = Some q"
        using D(6) [of q] h by (auto simp: nth_list_update)
    qed
    have V: "hm_view (?o, ?m) = (hm_view (objs, m))(h := None)"
      by (auto simp: hm_view_def fun_eq_iff nth_list_update word_unat_eq_iff)
    show ?thesis
      using R inv' V True by (intro exI [of _ "(?o, ?m)"]) simp
  next
    case False
    let ?o = "objs(p := (objs p)\<lparr>hd_count := hd_count (objs p) - n\<rparr>)"
    have R: "Forget (objs, m) h n = Inr (False, p, (?o, m))"
      using False h n sub by (simp add: Forget_def Let_def)
    have "sint n \<noteq> sint (hd_count (objs p))" using False by (metis signed_word_eqI)
    then have inv': "hm_inv (?o, m)"
      using n hp sub by (intro bump_inv [OF inv]) auto
    have V: "hm_view (?o, m) = hm_view (objs, m)" by (simp add: hm_view_def fun_eq_iff)
    show ?thesis
      using R inv' V False by (intro exI [of _ "(?o, m)"]) simp
  qed
qed


lemma Forget_Inr:
  assumes inv: "hm_inv (objs, m)" and n: "0 \<le> sint n" and f: "Forget (objs, m) h n = Inr (b, p, st')"
  shows "hm_view (objs, m) h = Some p" and "sint n \<le> sint (hd_count (objs p))"
proof -
  have h: "unat h < length (hm_handles m)" "hm_handles m ! unat h = Some p" and c: "0 \<le> sint (hd_count (objs p) - n)"
    using f by (auto simp: Forget_def Let_def bind_go_eq_Inr slice_get_Inr split: option.splits if_splits)
  then show "hm_view (objs, m) h = Some p" by (simp add: hm_view_def)
  have "0 < sint (hd_count (objs p))" using hm_invD(5) [OF inv h] by simp
  show "sint n \<le> sint (hd_count (objs p))"
  proof (rule ccontr)
    assume "\<not> sint n \<le> sint (hd_count (objs p))"
    moreover have "sint n < 2 ^ 63" using sint_lt [of n] by simp
    ultimately have "sint (hd_count (objs p) - n) = sint (hd_count (objs p)) - sint n"
      using \<open>0 < sint (hd_count (objs p))\<close> by (simp add: sint_word_ariths signed_take_bit_int_eq_self)
    then show False using c \<open>\<not> sint n \<le> sint (hd_count (objs p))\<close> by simp
  qed
qed

lemma Forget_inv [inv_intros]:
  assumes inv: "hm_inv st" and n: "0 \<le> sint n" and f: "Forget st h n = Inr (b, p, st')"
  shows "hm_inv st'"
proof (cases st)
  case (Pair objs m)
  with assms Forget_Inr [of objs m n h b p st'] Forget_spec [of objs m h p n] show ?thesis by auto
qed

section \<open>The handle-table contract\<close>

definition hm_ready :: "hmstate \<Rightarrow> addr \<Rightarrow> bool" where
  "hm_ready st p \<longleftrightarrow> hd_count (fst st p) = 0 \<and> hm_room st"

definition hm_alloc :: "hmstate \<Rightarrow> addr \<Rightarrow> (u64 \<times> hmstate) go" where
  "hm_alloc st p = bind_go (Register st p) (\<lambda>(h, g, st'). Inr (h, st'))"

text \<open>Dropping every reference of the object behind a handle.\<close>

definition hm_release :: "hmstate \<Rightarrow> u64 \<Rightarrow> hmstate go" where
  "hm_release st h =
     (case hm_view st h of
        None \<Rightarrow> Inl NilDeref
      | Some p \<Rightarrow> bind_go (Forget st h (hd_count (fst st p))) (\<lambda>(b, q, st'). Inr st'))"

interpretation hmt: handle_table hm_inv hm_ready hm_view hm_alloc hm_release
proof (unfold_locales, goal_cases)
  case (1 s a)
  then show ?case
    using Register_fresh [of "fst s" "snd s" a] by (force simp: hm_ready_def hm_alloc_def)
next
  case (2 s h a)
  have "0 < sint (hd_count (fst s a))"
    using 2 hm_invD(5) [of "fst s" "snd s"] by (auto simp: hm_view_def split: if_splits)
  with 2 show ?case
    using Forget_spec [of "fst s" "snd s" h a "hd_count (fst s a)"] by (force simp: hm_release_def)
qed

section \<open>Runs\<close>

inductive hm_step :: "hmstate \<Rightarrow> hmstate \<Rightarrow> bool" where
  reg: "hm_room st \<Longrightarrow> sint (hd_count (fst st p)) < 2 ^ 63 - 1 \<Longrightarrow> Register st p = Inr (h, g, st') \<Longrightarrow> hm_step st st'"
| fgt: "0 \<le> sint n \<Longrightarrow> Forget st h n = Inr (b, p, st') \<Longrightarrow> hm_step st st'"

lemma hm_step_inv: "hm_step st st' \<Longrightarrow> hm_inv st \<Longrightarrow> hm_inv st'"
  by (induction rule: hm_step.induct) (auto intro: inv_intros)

lemma hm_steps_inv: "hm_step\<^sup>*\<^sup>* st st' \<Longrightarrow> hm_inv st \<Longrightarrow> hm_inv st'"
  by (induction rule: rtranclp_induct) (auto intro: hm_step_inv)

lemma hm_inv_verify: "hm_inv st \<Longrightarrow> verify (fst st p) = Inr ()"
proof -
  assume inv: "hm_inv st"
  obtain objs m where st: "st = (objs, m)" by (cases st)
  note D = hm_invD [OF inv [unfolded st]]
  have "hd_handle (objs p) \<noteq> 0" if "0 < sint (hd_count (objs p))"
    using D(6) [of p] D(3) that by auto
  then show ?thesis using D(6) [of p] by (auto simp: verify_def st)
qed

datatype hop = HRegister addr | HForget u64 i64

text \<open>
  Running a list of calls: the pairs returned for objects that had no handle, and the final
  state; a call that panics ends the run.
\<close>

fun hm_exec :: "hop list \<Rightarrow> hmstate \<Rightarrow> ((u64 \<times> u64) list \<times> hmstate) go" where
  "hm_exec [] st = Inr ([], st)"
| "hm_exec (HRegister p # ops) st =
     bind_go (Register st p) (\<lambda>(h, g, st').
       bind_go (hm_exec ops st') (\<lambda>(log, st'').
         Inr (if hd_count (fst st p) = 0 then (h, g) # log else log, st'')))"
| "hm_exec (HForget h n # ops) st =
     bind_go (Forget st h n) (\<lambda>(b, p, st'). hm_exec ops st')"

lemma Register_generation:
  assumes "Register st p = Inr (h, g, st')"
  shows "if hd_count (fst st p) = 0
         then g = hm_generation (snd st) + 1 \<and> hm_generation (snd st') = hm_generation (snd st) + 1
         else hm_generation (snd st') = hm_generation (snd st)"
  using assms by (cases st) (auto simp: Register_def Let_def bind_go_eq_Inr slice_set_Inr split: if_splits)

lemma Forget_generation:
  "Forget st h n = Inr (b, p, st') \<Longrightarrow> hm_generation (snd st') = hm_generation (snd st)"
  by (cases st) (auto simp: Forget_def Let_def bind_go_eq_Inr slice_get_Inr split: if_splits option.splits)

lemma hm_exec_generations:
  "hm_exec ops st = Inr (log, st') \<Longrightarrow>
     map snd log = map (\<lambda>i. hm_generation (snd st) + 1 + of_nat i) [0..<length log]"
proof (induction ops arbitrary: st log)
  case Nil
  then show ?case by simp
next
  case (Cons op ops)
  show ?case
  proof (cases op)
    case (HRegister p)
    with Cons.prems obtain h g s1 log1 where r: "Register st p = Inr (h, g, s1)"
      and e: "hm_exec ops s1 = Inr (log1, st')"
      and l: "log = (if hd_count (fst st p) = 0 then (h, g) # log1 else log1)"
      by (auto simp: bind_go_eq_Inr)
    note ih = Cons.IH [OF e] and gen = Register_generation [OF r]
    show ?thesis
    proof (cases "hd_count (fst st p) = 0")
      case True
      with gen have g: "g = hm_generation (snd st) + 1" "hm_generation (snd s1) = hm_generation (snd st) + 1"
        by simp_all
      have "[0..<length log] = 0 # map Suc [0..<length log1]"
        using l True by (simp add: upt_conv_Cons map_Suc_upt del: upt_Suc)
      then show ?thesis using l True g ih by (simp add: add.assoc add.commute add.left_commute)
    next
      case False
      with gen l ih show ?thesis by simp
    qed
  next
    case (HForget h n)
    with Cons.prems obtain b p s1 where f: "Forget st h n = Inr (b, p, s1)"
      and e: "hm_exec ops s1 = Inr (log, st')" by (auto simp: bind_go_eq_Inr)
    from Cons.IH [OF e] Forget_generation [OF f] show ?thesis by simp
  qed
qed

lemma distinct_word_run:
  assumes "n \<le> 2 ^ LENGTH('a)"
  shows "distinct (map (\<lambda>i. (c :: 'a::len word) + of_nat i) [0..<n])"
proof -
  have "inj_on (\<lambda>i. c + of_nat i) {0..<n}"
  proof (rule inj_onI)
    fix i j assume "i \<in> {0..<n}" "j \<in> {0..<n}" and eq: "c + of_nat i = c + of_nat j"
    then have "i < 2 ^ LENGTH('a)" "j < 2 ^ LENGTH('a)" using assms by auto
    moreover from eq have "unat (of_nat i :: 'a word) = unat (of_nat j :: 'a word)" by simp
    ultimately show "i = j" by (simp add: unat_of_nat_small)
  qed
  then show ?thesis by (simp add: distinct_map)
qed


section \<open>Properties\<close>

definition hm_start :: hmstate where
  "hm_start = ((\<lambda>p. zero_handled), newPortableHandleMap)"

lemma hm_start_inv: "hm_inv hm_start"
  unfolding hm_start_def by (rule hm_inv_new) simp

text \<open>
  C9: Every state reachable from the empty map by calls of Register and Forget satisfies the
  representation invariant, so the consistency check \<^verbatim>\<open>verify\<close> never panics: no reference count is
  negative, and an object has a handle exactly when its count is positive. The counts are 64-bit
  integers that wrap around, so the calls are limited: Register is called while the count of the
  object is below \<^verbatim>\<open>2^63 - 1\<close> and while there is a free slot or the slice has fewer than \<^verbatim>\<open>2^64\<close>
  slots, and Forget is called with a count that is not negative.
\<close>

theorem handle_map_reachable_inv:
  assumes "hm_step\<^sup>*\<^sup>* hm_start st"
  shows "hm_inv st \<and> verify (fst st p) = Inr ()"
  using hm_steps_inv [OF assms hm_start_inv] by (simp add: hm_inv_verify)

theorem handle_map_reachable_inv_witness:
  "\<exists>st. hm_step hm_start st \<and> hm_inv st \<and> verify (fst st 7) = Inr ()"
proof -
  obtain h st where st: "Register hm_start 7 = Inr (h, 1, st)"
    by (auto simp: Register_def hm_start_def newPortableHandleMap_def zero_handled_def Let_def)
  have s: "hm_step hm_start st"
    by (rule hm_step.reg [OF _ _ st]) (simp_all add: hm_room_def hm_start_def newPortableHandleMap_def zero_handled_def)
  then have "hm_step\<^sup>*\<^sup>* hm_start st" by blast
  from handle_map_reachable_inv [OF this] s show ?thesis by blast
qed

text \<open>
  C10: Reference counting: forgetting fewer references than the object has keeps its handle
  decodable and lowers its count; forgetting the last ones, and only that, frees the slot,
  reports the object as forgotten and touches no other handle.
\<close>

theorem forget_reference_counting:
  assumes "hm_inv (objs, m)" and "Decode (objs, m) h = Inr (Some p)"
    and "0 \<le> sint n" and "sint n \<le> sint (hd_count (objs p))"
  shows "\<exists>st'. Forget (objs, m) h n = Inr (hd_count (objs p) = n, p, st')
       \<and> Decode st' h = Inr (if hd_count (objs p) = n then None else Some p)
       \<and> hd_count (fst st' p) = hd_count (objs p) - n
       \<and> (\<forall>k. k \<noteq> h \<longrightarrow> hm_view st' k = hm_view (objs, m) k)"
proof -
  have v: "hm_view (objs, m) h = Some p" and l: "unat h < length (hm_handles m)"
    using assms(2) by (auto simp: Decode_def hm_view_def slice_get_Inr)
  from Forget_spec [OF assms(1) v assms(3,4)] obtain st' where
    f: "Forget (objs, m) h n = Inr (hd_count (objs p) = n, p, st')" and
    w: "hm_view st' = (if hd_count (objs p) = n then (hm_view (objs, m))(h := None) else hm_view (objs, m))" and
    c: "hd_count (fst st' p) = hd_count (objs p) - n" by blast
  have "length (hm_handles (snd st')) = length (hm_handles m)"
    using f by (auto simp: Forget_def Let_def bind_go_eq_Inr slice_get_Inr split: if_splits option.splits)
  then have "Decode st' h = Inr (hm_view st' h)"
    using l by (simp add: Decode_def hm_view_def)
  then show ?thesis using f w c v by (intro exI [of _ st']) auto
qed

theorem forget_reference_counting_witness:
  "\<exists>st'. Forget ((\<lambda>p. if p = 7 then \<lparr>hd_handle = 2, hd_generation = 1, hd_count = 2\<rparr> else zero_handled),
      \<lparr>hm_generation = 1, hm_used = 1, hm_handles = [None, None, Some 7], hm_freeIds = []\<rparr>) 2 1
    = Inr (False, 7, st') \<and> Decode st' 2 = Inr (Some 7)"
proof -
  let ?o = "\<lambda>p. if p = (7::nat) then \<lparr>hd_handle = 2, hd_generation = 1, hd_count = 2\<rparr> else zero_handled"
  let ?m = "\<lparr>hm_generation = 1, hm_used = 1, hm_handles = [None, None, Some 7], hm_freeIds = []\<rparr>"
  have i: "hm_inv (?o, ?m)"
    by (rule hm_invI) (auto simp: zero_handled_def used_slots_def nth_Cons less_Suc_eq split: nat.splits)
  have d: "Decode (?o, ?m) 2 = Inr (Some 7)"
    by (simp add: Decode_def slice_get_def)
  show ?thesis
    using forget_reference_counting [OF i d, of 1] by auto
qed

text \<open>
  C8: The pair of handle and generation is unique over the life of a map: in any run of
  registrations and forgets that hands out at most \<^verbatim>\<open>2^64\<close> handles, no pair is
  handed out twice, although handles are recycled.
\<close>

theorem handle_generation_unique:
  assumes "hm_exec ops st = Inr (log, st')" and "length log \<le> 2 ^ 64"
  shows "distinct log"
proof -
  have "distinct (map snd log)"
    unfolding hm_exec_generations [OF assms(1)]
    using assms(2) by (intro distinct_word_run) simp
  then show ?thesis by (rule distinct_map [THEN iffD1, THEN conjunct1])
qed

theorem handle_generation_unique_witness:
  "\<exists>log st'. hm_exec [HRegister 7, HForget 2 1, HRegister 8] hm_start = Inr (log, st')
     \<and> map fst log = [2, 2] \<and> distinct log"
proof -
  obtain log st' where e: "hm_exec [HRegister 7, HForget 2 1, HRegister 8] hm_start = Inr (log, st')"
    and l: "map fst log = [2, 2]"
    by (auto simp: hm_start_def Register_def Forget_def newPortableHandleMap_def zero_handled_def Let_def
        slice_get_def slice_set_def)
  from l have "length log = 2" by (metis length_map list.size(3,4) Suc_1 numeral_2_eq_2 One_nat_def add_0 plus_1_eq_Suc)
  then have "length log \<le> 2 ^ 64" by simp
  from handle_generation_unique [OF e this] have "distinct log" .
  with e l show ?thesis by (intro exI [of _ log] exI [of _ st']) simp
qed

text \<open>
  C7: The map implements the handle-table specification. Take any sequence of calls that registers
  only objects without a handle, while there is a free slot or the slice has fewer than \<^verbatim>\<open>2^64\<close> slots,
  and that drops all references of handles in use. No call of it faults, every handle it hands out
  was unused at that moment, and the objects the handles denote afterwards are those of the abstract
  partial map.
\<close>

theorem handle_map_refines_table:
  assumes "hm_inv s" and "table_legal hm_ready hm_view hm_alloc hm_release es s"
  shows "\<exists>hs s'. table_run hm_alloc hm_release es s = Inr (hs, s') \<and> hm_inv s'
           \<and> hm_view s' = table_replay es hs (hm_view s) \<and> table_fresh es hs (hm_view s)"
  by (rule hmt.run_refines [OF assms])

theorem handle_map_refines_table_witness:
  "\<exists>hs s'. table_run hm_alloc hm_release [TAlloc 7, TRelease 2, TAlloc 8] hm_start = Inr (hs, s') \<and> hm_inv s'
     \<and> hm_view s' = table_replay [TAlloc 7, TRelease 2, TAlloc 8] hs (hm_view hm_start)"
proof -
  have l: "table_legal hm_ready hm_view hm_alloc hm_release [TAlloc 7, TRelease 2, TAlloc 8] hm_start"
    by (simp add: hm_start_def hm_ready_def hm_view_def hm_alloc_def hm_release_def hm_room_def Register_def
        Forget_def newPortableHandleMap_def zero_handled_def Let_def slice_get_def slice_set_def)
  from handle_map_refines_table [OF hm_start_inv l] show ?thesis by blast
qed

end
