(* ===== verification/NodeTree.thy ===== *)
theory NodeTree
  imports FuseTypes
begin

text \<open>
  \<^verbatim>\<open>nodefs/inode.go\<close>: the inode tree of the node-based API. Inodes live at addresses (0 is
  nil); an inode that \<^verbatim>\<open>newInode\<close> has initialised is in the heap. The mutable fields are those
  the inode mutex protects. Each operation is the sequence of its critical sections; what
  other goroutines do between two sections of an operation is an argument, a list of
  functions on the state, one for each window in which the operation holds no lock.
\<close>

section \<open>State\<close>

record NodeAttr =
  na_Mode :: u32
  na_Ino :: u64
  na_Gen :: u64

definition Reserved :: "NodeAttr \<Rightarrow> bool" where
  "Reserved i \<longleftrightarrow> na_Ino i = 1 \<or> na_Ino i = NOT 0"

text \<open>
  \<^verbatim>\<open>parents\<close> is a set of (name, parent) pairs, kept as a list without duplicates;
  \<^verbatim>\<open>children\<close> is nil for an inode that is no directory.
\<close>

record Inode =
  n_nodeAttr :: NodeAttr
  n_openFiles :: "u32 list"
  n_persistent :: bool
  n_changeCounter :: u32
  n_lookupCount :: u64
  n_children :: "(string, addr) gomap"
  n_parents :: "(string \<times> addr) list"

record tree =
  tr_heap :: "addr \<Rightarrow> Inode option"
  tr_nodes :: "u64 \<Rightarrow> addr option"

definition node :: "'z tree_scheme \<Rightarrow> addr \<Rightarrow> Inode go" where
  "node t p = (case tr_heap t p of None \<Rightarrow> Inl NilDeref | Some N \<Rightarrow> Inr N)"

definition upd :: "addr \<Rightarrow> (Inode \<Rightarrow> Inode) \<Rightarrow> 'z tree_scheme \<Rightarrow> 'z tree_scheme" where
  "upd p f t = t\<lparr>tr_heap := (tr_heap t)(p := map_option f (tr_heap t p))\<rparr>"

definition bump :: "addr \<Rightarrow> 'z tree_scheme \<Rightarrow> 'z tree_scheme" where
  "bump p = upd p (\<lambda>N. N\<lparr>n_changeCounter := n_changeCounter N + 1\<rparr>)"

definition addParent :: "addr \<Rightarrow> string \<times> addr \<Rightarrow> 'z tree_scheme \<Rightarrow> 'z tree_scheme" where
  "addParent p pd = upd p (\<lambda>N. N\<lparr>n_parents := List.insert pd (n_parents N)\<rparr>)"

definition delParent :: "addr \<Rightarrow> string \<times> addr \<Rightarrow> 'z tree_scheme \<Rightarrow> 'z tree_scheme" where
  "delParent p pd = upd p (\<lambda>N. N\<lparr>n_parents := removeAll pd (n_parents N)\<rparr>)"

definition delChild :: "addr \<Rightarrow> string \<Rightarrow> 'z tree_scheme \<Rightarrow> 'z tree_scheme" where
  "delChild p nm = upd p (\<lambda>N. N\<lparr>n_children := gm_del (n_children N) nm\<rparr>)"

definition setChild :: "addr \<Rightarrow> string \<Rightarrow> addr \<Rightarrow> 'z tree_scheme \<Rightarrow> 'z tree_scheme go" where
  "setChild p nm c t =
     bind_go (node t p) (\<lambda>N. bind_go (gm_set (n_children N) nm c) (\<lambda>m.
       Inr (upd p (\<lambda>N. N\<lparr>n_children := m\<rparr>) t)))"

text \<open>Indexing the children map: an absent name and a nil child both read as nil.\<close>

definition child_at :: "Inode \<Rightarrow> string \<Rightarrow> addr option" where
  "child_at N nm = (case gm_get (n_children N) nm of None \<Rightarrow> None | Some c \<Rightarrow> if c = 0 then None else Some c)"

section \<open>Locking a group of inodes\<close>

definition nodeLess :: "addr \<Rightarrow> addr \<Rightarrow> bool" where
  "nodeLess a b \<longleftrightarrow> a < b"

definition sortNodes :: "addr list \<Rightarrow> addr list" where
  "sortNodes ns = sort ns"

text \<open>
  The mutexes \<^verbatim>\<open>lockNodes\<close> acquires, in order: nil and repeated inodes are skipped because
  each element is compared with its predecessor, which starts as nil.
\<close>

fun lock_loop :: "addr \<Rightarrow> addr list \<Rightarrow> addr list" where
  "lock_loop nprev [] = []"
| "lock_loop nprev (n # ns) = (if n \<noteq> nprev then n # lock_loop n ns else lock_loop nprev ns)"

definition lockNodes :: "addr list \<Rightarrow> addr list" where
  "lockNodes ns = lock_loop 0 (sortNodes ns)"

definition unlockNodes :: "addr list \<Rightarrow> addr list" where
  "unlockNodes ns = lock_loop 0 (sortNodes ns)"

definition lockNode2 :: "addr \<Rightarrow> addr \<Rightarrow> addr list" where
  "lockNode2 a b = (if a = b then [a] else if nodeLess a b then [a, b] else [b, a])"

definition unlockNode2 :: "addr \<Rightarrow> addr \<Rightarrow> addr list" where
  "unlockNode2 a b = (if a = b then [a] else [a, b])"

section \<open>Reading\<close>

definition Forgotten :: "'z tree_scheme \<Rightarrow> addr \<Rightarrow> bool go" where
  "Forgotten t n = bind_go (node t n) (\<lambda>N.
     Inr (n_lookupCount N = 0 \<and> length (n_parents N) = 0 \<and> \<not> n_persistent N))"

definition GetChild :: "'z tree_scheme \<Rightarrow> addr \<Rightarrow> string \<Rightarrow> addr option go" where
  "GetChild t n name = bind_go (node t n) (\<lambda>N. Inr (child_at N name))"

definition Children :: "'z tree_scheme \<Rightarrow> addr \<Rightarrow> (string \<times> addr) list go" where
  "Children t n = bind_go (node t n) (\<lambda>N. Inr (gm_entries (n_children N)))"

definition Parents :: "'z tree_scheme \<Rightarrow> addr \<Rightarrow> (string \<times> addr) list go" where
  "Parents t n = bind_go (node t n) (\<lambda>N.
     Inr (fold (\<lambda>(nm, p) r. AList.update nm p r) (n_parents N) []))"

definition Parent :: "'z tree_scheme \<Rightarrow> addr \<Rightarrow> (string \<times> addr) go" where
  "Parent t n = bind_go (node t n) (\<lambda>N.
     Inr (case n_parents N of [] \<Rightarrow> ('''', 0) | pd # _ \<Rightarrow> pd))"

text \<open>
  \<^verbatim>\<open>Path\<close> climbs from the inode to the root through some parent of each inode. The loop is
  bounded by fuel: a cycle of parents would never end.
\<close>

fun path_segments :: "nat \<Rightarrow> 'z tree_scheme \<Rightarrow> addr \<Rightarrow> addr \<Rightarrow> string list go" where
  "path_segments 0 t root p = Inl OutOfFuel"
| "path_segments (Suc k) t root p =
     (if p = 0 then Inr [''.deleted'']
      else if p = root then Inr []
      else bind_go (Parent t p) (\<lambda>(nm, q).
             if q = 0 then Inr []
             else bind_go (path_segments k t root q) (\<lambda>segs. Inr (nm # segs))))"

fun join_segments :: "string list \<Rightarrow> string" where
  "join_segments [] = ''''"
| "join_segments [s] = s"
| "join_segments (s # t # ss) = s @ ''/'' @ join_segments (t # ss)"

definition Path :: "nat \<Rightarrow> 'z tree_scheme \<Rightarrow> addr \<Rightarrow> addr \<Rightarrow> string go" where
  "Path k t n root = bind_go (path_segments k t root n) (\<lambda>segs. Inr (join_segments (rev segs)))"

section \<open>Changing the tree\<close>

definition setEntry :: "addr \<Rightarrow> string \<Rightarrow> addr \<Rightarrow> 'z tree_scheme \<Rightarrow> 'z tree_scheme go" where
  "setEntry iparent name ichild t =
     bind_go (node t ichild) (\<lambda>_.
     bind_go (setChild iparent name ichild (addParent ichild (name, iparent) t)) (\<lambda>t2.
       Inr (bump iparent (bump ichild t2))))"

text \<open>The part of \<^verbatim>\<open>removeRef\<close> that detaches an inode from its parents and from the id table.\<close>

definition live_node :: "Inode \<Rightarrow> bool" where
  "live_node N \<longleftrightarrow> n_lookupCount N > 0 \<or> gm_len (n_children N) > 0 \<or> n_persistent N"

fun detach_parents :: "(string \<times> addr) list \<Rightarrow> 'z tree_scheme \<Rightarrow> 'z tree_scheme" where
  "detach_parents [] t = t"
| "detach_parents ((nm, p) # pds) t = detach_parents pds (bump p (delChild p nm t))"

definition forget_node :: "addr \<Rightarrow> Inode \<Rightarrow> 'z tree_scheme \<Rightarrow> 'z tree_scheme" where
  "forget_node n N t =
     (let t1 = detach_parents (n_parents N) t;
          t2 = bump n (upd n (\<lambda>N. N\<lparr>n_parents := []\<rparr>) t1)
      in t2\<lparr>tr_nodes := (tr_nodes t2)(na_Ino (n_nodeAttr N) := None)\<rparr>)"

definition drop_refs :: "addr \<Rightarrow> u64 \<Rightarrow> bool \<Rightarrow> 'z tree_scheme \<Rightarrow> 'z tree_scheme go" where
  "drop_refs n nlookup dropPersistence t =
     bind_go (node t n) (\<lambda>N.
       if nlookup > 0 \<and> dropPersistence then Inl (Panic ''only one allowed'')
       else if nlookup > 0
       then Inr (bump n (upd n (\<lambda>N. N\<lparr>n_lookupCount := n_lookupCount N - nlookup\<rparr>) t))
       else if dropPersistence \<and> n_persistent N
       then Inr (bump n (upd n (\<lambda>N. N\<lparr>n_persistent := False\<rparr>) t))
       else Inr t)"

text \<open>
  What happens in the window between two critical sections: the head of the list, or
  nothing when the list is used up. The rest of the list is for the windows to come.
\<close>

fun window :: "('z tree_scheme \<Rightarrow> 'z tree_scheme) list \<Rightarrow> 'z tree_scheme \<Rightarrow> 'z tree_scheme" where
  "window [] t = t"
| "window (e # es) t = e t"

text \<open>
  The retry loop of \<^verbatim>\<open>removeRef\<close>: the inode and its parents are read in one section; unless the
  inode is live, the inode and its parents are locked and, when the change counter is as it was
  read, the inode is detached. Otherwise the loop starts again, after a second window. The result is
  whether the inode is forgotten, the locked inodes in the order of their addresses when it was
  detached, the windows that are left, and the state.
\<close>

fun removeRef_loop ::
  "('z tree_scheme \<Rightarrow> 'z tree_scheme) list \<Rightarrow> 'z tree_scheme \<Rightarrow> addr
     \<Rightarrow> (bool \<times> addr list option \<times> ('z tree_scheme \<Rightarrow> 'z tree_scheme) list \<times> 'z tree_scheme) go"
where
  "removeRef_loop env t n =
     bind_go (node t n) (\<lambda>N.
       let forgotten = (n_lookupCount N = 0); lockme = n # map snd (n_parents N) in
       if live_node N then Inr (forgotten, None, env, t)
       else (let t' = window env t in
         bind_go (node t' n) (\<lambda>N'.
           if n_changeCounter N' \<noteq> n_changeCounter N
           then (case env of [] \<Rightarrow> Inl OutOfFuel | e # es \<Rightarrow> removeRef_loop (tl es) (window es t') n)
           else if n_lookupCount N' \<noteq> 0 then Inl (Panic ''lookupCount changed'')
           else Inr (forgotten, Some (sortNodes lockme), tl env, forget_node n N t'))))"

declare removeRef_loop.simps [simp del]

text \<open>
  \<^verbatim>\<open>removeRef\<close> returns (forgotten, live). After an inode was detached its parents, in address order,
  are tried in turn; no lock is held before each of them. Fuel bounds the depth of that recursion.
\<close>

fun removeRef ::
    "nat \<Rightarrow> ('z tree_scheme \<Rightarrow> 'z tree_scheme) list \<Rightarrow> 'z tree_scheme \<Rightarrow> addr \<Rightarrow> u64 \<Rightarrow> bool
       \<Rightarrow> (bool \<times> bool \<times> ('z tree_scheme \<Rightarrow> 'z tree_scheme) list \<times> 'z tree_scheme) go" and
    removeRefs ::
    "nat \<Rightarrow> ('z tree_scheme \<Rightarrow> 'z tree_scheme) list \<Rightarrow> 'z tree_scheme \<Rightarrow> addr \<Rightarrow> addr list
       \<Rightarrow> (('z tree_scheme \<Rightarrow> 'z tree_scheme) list \<times> 'z tree_scheme) go"
where
  "removeRef 0 env t n nlookup dropPersistence = Inl OutOfFuel"
| "removeRef (Suc k) env t n nlookup dropPersistence =
     bind_go (drop_refs n nlookup dropPersistence t) (\<lambda>t0.
     bind_go (removeRef_loop env t0 n) (\<lambda>(forgotten, lockme, env1, t1).
       case lockme of
         None \<Rightarrow> Inr (forgotten, True, env1, t1)
       | Some ps \<Rightarrow> bind_go (removeRefs k env1 t1 n ps) (\<lambda>(env2, t2). Inr (forgotten, False, env2, t2))))"
| "removeRefs k env t n [] = Inr (env, t)"
| "removeRefs k env t n (p # ps) =
     (if p \<noteq> n
      then bind_go (removeRef k (tl env) (window env t) p 0 False) (\<lambda>(f, l, env', t'). removeRefs k env' t' n ps)
      else removeRefs k env t n ps)"

definition ForgetPersistent ::
  "nat \<Rightarrow> ('z tree_scheme \<Rightarrow> 'z tree_scheme) list \<Rightarrow> 'z tree_scheme \<Rightarrow> addr
     \<Rightarrow> (bool \<times> bool \<times> ('z tree_scheme \<Rightarrow> 'z tree_scheme) list \<times> 'z tree_scheme) go"
where
  "ForgetPersistent k env t n = removeRef k env t n 0 True"

text \<open>\<^verbatim>\<open>AddChild\<close>: the second window of a retry is the one before the loop locks again.\<close>

fun add_loop ::
  "('z tree_scheme \<Rightarrow> 'z tree_scheme) list \<Rightarrow> 'z tree_scheme \<Rightarrow> addr \<Rightarrow> string \<Rightarrow> addr \<Rightarrow> bool
     \<Rightarrow> (bool \<times> 'z tree_scheme) go"
where
  "add_loop env t n name ch overwrite =
     bind_go (node t n) (\<lambda>N. bind_go (node t ch) (\<lambda>_.
       case gm_get (n_children N) name of
         None \<Rightarrow>
           bind_go (setChild n name ch t) (\<lambda>t1.
             Inr (True, bump ch (bump n (addParent ch (name, n) t1))))
       | Some prev \<Rightarrow>
           if \<not> overwrite then Inr (False, t)
           else (let t' = window env t in
             bind_go (node t' n) (\<lambda>N'.
               if n_changeCounter N' \<noteq> n_changeCounter N
               then (case env of [] \<Rightarrow> Inl OutOfFuel | e # es \<Rightarrow> add_loop (tl es) (window es t') n name ch overwrite)
               else bind_go (node t' prev) (\<lambda>_.
                    bind_go (setChild n name ch (delParent prev (name, n) t')) (\<lambda>t1.
                      Inr (True, bump prev (bump ch (bump n (addParent ch (name, n) t1))))))))))"

declare add_loop.simps [simp del]

definition AddChild ::
  "('z tree_scheme \<Rightarrow> 'z tree_scheme) list \<Rightarrow> 'z tree_scheme \<Rightarrow> addr \<Rightarrow> string \<Rightarrow> addr \<Rightarrow> bool
     \<Rightarrow> (bool \<times> 'z tree_scheme) go"
where
  "AddChild env t n name ch overwrite =
     (if name = '''' then Inl (Panic ''empty name for inode'')
      else add_loop env t n name ch overwrite)"

text \<open>
  \<^verbatim>\<open>RmChild\<close>: after interference it locks its own mutex twice, so the retry never returns. On
  success only the children map and the counters change.
\<close>

fun rm_names :: "addr \<Rightarrow> string list \<Rightarrow> 'z tree_scheme \<Rightarrow> 'z tree_scheme go" where
  "rm_names n [] t = Inr t"
| "rm_names n (nm # nms) t =
     bind_go (GetChild t n nm) (\<lambda>co.
       case co of
         None \<Rightarrow> Inl NilDeref
       | Some ch \<Rightarrow> rm_names n nms (bump ch (delChild n nm t)))"

definition RmChild ::
  "nat \<Rightarrow> ('z tree_scheme \<Rightarrow> 'z tree_scheme) list \<Rightarrow> 'z tree_scheme \<Rightarrow> addr \<Rightarrow> string list
     \<Rightarrow> (bool \<times> bool \<times> 'z tree_scheme) go"
where
  "RmChild k env t n names =
     bind_go (node t n) (\<lambda>N.
       if list_ex (\<lambda>nm. child_at N nm = None) names then Inr (False, True, t)
       else (let t' = window env t in
         bind_go (node t' n) (\<lambda>N'.
           if n_changeCounter N' \<noteq> n_changeCounter N then Inl SelfDeadlock
           else bind_go (rm_names n names t') (\<lambda>t1.
             let t2 = bump n t1 in
             bind_go (node t2 n) (\<lambda>N2.
               if live_node N2 then Inr (True, True, t2)
               else bind_go (removeRef k (tl (tl env)) (window (tl env) t2) n 0 False) (\<lambda>(f, live, _, t3).
                      Inr (True, live, t3)))))))"

text \<open>The conditional steps \<^verbatim>\<open>MvChild\<close> and \<^verbatim>\<open>ExchangeChild\<close> share: detaching a child that is not nil.\<close>

definition detach :: "addr \<Rightarrow> string \<Rightarrow> addr option \<Rightarrow> 'z tree_scheme \<Rightarrow> 'z tree_scheme" where
  "detach p nm co t =
     (case co of None \<Rightarrow> t | Some c \<Rightarrow> bump c (bump p (delParent c (nm, p) (delChild p nm t))))"

definition attach :: "addr \<Rightarrow> string \<Rightarrow> addr option \<Rightarrow> 'z tree_scheme \<Rightarrow> 'z tree_scheme go" where
  "attach p nm co t =
     (case co of None \<Rightarrow> Inr t
      | Some c \<Rightarrow> bind_go (setChild p nm c t) (\<lambda>t1. Inr (bump c (addParent c (nm, p) (bump p t1)))))"

text \<open>
  The retry loop of \<^verbatim>\<open>MvChild\<close>, up to the release of the locks: whether the move was made, the child
  it replaced, the windows that are left, and the state.
\<close>

fun mv_loop ::
  "('z tree_scheme \<Rightarrow> 'z tree_scheme) list \<Rightarrow> 'z tree_scheme \<Rightarrow> addr \<Rightarrow> string \<Rightarrow> addr \<Rightarrow> string \<Rightarrow> bool
     \<Rightarrow> (bool \<times> addr option \<times> ('z tree_scheme \<Rightarrow> 'z tree_scheme) list \<times> 'z tree_scheme) go"
where
  "mv_loop env t n old newParent newName overwrite =
     bind_go (node t n) (\<lambda>N. bind_go (node t newParent) (\<lambda>P.
       let oldChild = child_at N old; destChild = child_at P newName in
       if destChild \<noteq> None \<and> \<not> overwrite then Inr (False, None, env, t)
       else (let t' = window env t in
         bind_go (node t' n) (\<lambda>N'. bind_go (node t' newParent) (\<lambda>P'.
           if n_changeCounter P' \<noteq> n_changeCounter P \<or> n_changeCounter N' \<noteq> n_changeCounter N
           then (case env of [] \<Rightarrow> Inl OutOfFuel
                 | e # es \<Rightarrow> mv_loop (tl es) (window es t') n old newParent newName overwrite)
           else bind_go (attach newParent newName oldChild
                          (detach newParent newName destChild (detach n old oldChild t'))) (\<lambda>t1.
                  Inr (True, destChild, tl env, t1)))))))"

declare mv_loop.simps [simp del]

text \<open>The replaced child is collected after the locks are released, so there is a window before it.\<close>

definition MvChild ::
  "nat \<Rightarrow> ('z tree_scheme \<Rightarrow> 'z tree_scheme) list \<Rightarrow> 'z tree_scheme \<Rightarrow> addr \<Rightarrow> string \<Rightarrow> addr \<Rightarrow> string \<Rightarrow> bool
     \<Rightarrow> (bool \<times> 'z tree_scheme) go"
where
  "MvChild k env t n old newParent newName overwrite =
     (if newName = '''' then Inl (Panic ''empty newName for MvChild'')
      else bind_go (mv_loop env t n old newParent newName overwrite) (\<lambda>(ok, destChild, env1, t1).
        case destChild of
          None \<Rightarrow> Inr (ok, t1)
        | Some d \<Rightarrow> bind_go (removeRef k (tl env1) (window env1 t1) d 0 False) (\<lambda>(f, l, _, t2). Inr (ok, t2))))"

text \<open>
  \<^verbatim>\<open>ExchangeChild\<close>: the entry at the old place is set to the old child again, as the source
  has it, and to nil when there was none.
\<close>

fun exchange_loop ::
  "('z tree_scheme \<Rightarrow> 'z tree_scheme) list \<Rightarrow> 'z tree_scheme \<Rightarrow> addr \<Rightarrow> string \<Rightarrow> addr \<Rightarrow> string
     \<Rightarrow> 'z tree_scheme go"
where
  "exchange_loop env t oldParent oldName newParent newName =
     bind_go (node t oldParent) (\<lambda>N. bind_go (node t newParent) (\<lambda>P.
       let oldChild = child_at N oldName; destChild = child_at P newName in
       if destChild = oldChild then Inr t
       else (let t' = window env t in
         bind_go (node t' oldParent) (\<lambda>N'. bind_go (node t' newParent) (\<lambda>P'.
           if n_changeCounter P' \<noteq> n_changeCounter P \<or> n_changeCounter N' \<noteq> n_changeCounter N
           then (case env of [] \<Rightarrow> Inl OutOfFuel
                 | e # es \<Rightarrow> exchange_loop (tl es) (window es t') oldParent oldName newParent newName)
           else bind_go (attach newParent newName oldChild
                          (detach newParent newName destChild (detach oldParent oldName oldChild t'))) (\<lambda>t1.
                  case destChild of
                    None \<Rightarrow> Inr t1
                  | Some d \<Rightarrow>
                      bind_go (setChild oldParent oldName (case oldChild of None \<Rightarrow> 0 | Some c \<Rightarrow> c) t1) (\<lambda>t2.
                        Inr (bump d (addParent d (oldName, oldParent) (bump oldParent t2))))))))))"

declare exchange_loop.simps [simp del]

definition ExchangeChild ::
  "('z tree_scheme \<Rightarrow> 'z tree_scheme) list \<Rightarrow> 'z tree_scheme \<Rightarrow> addr \<Rightarrow> string \<Rightarrow> addr \<Rightarrow> string
     \<Rightarrow> 'z tree_scheme go"
where
  "ExchangeChild env t n oldName newParent newName = exchange_loop env t n oldName newParent newName"

end
