(* ===== verification/NodeTreeProps.thy ===== *)
theory NodeTreeProps
  imports NodeTree
begin

text \<open>
  Correctness of the inode tree: the children maps and the parent sets describe the same
  links, each operation keeps them so and has the effect on the links its comment promises,
  \<^verbatim>\<open>removeRef\<close> ends and detaches dead inodes only, the optimistic loops are linearizable, and
  the lock order excludes deadlock. The abstract tree is the partial map from (parent, name)
  to child.
\<close>

section \<open>Links\<close>

definition edge :: "'z tree_scheme \<Rightarrow> addr \<Rightarrow> string \<Rightarrow> addr option" where
  "edge t p nm = (case tr_heap t p of None \<Rightarrow> None | Some N \<Rightarrow> gm_get (n_children N) nm)"

definition up_links :: "'z tree_scheme \<Rightarrow> addr \<Rightarrow> (string \<times> addr) set" where
  "up_links t c = (case tr_heap t c of None \<Rightarrow> {} | Some N \<Rightarrow> set (n_parents N))"

definition nodes_wf :: "'z tree_scheme \<Rightarrow> bool" where
  "nodes_wf t \<longleftrightarrow> tr_heap t 0 = None \<and>
     (\<forall>p N. tr_heap t p = Some N \<longrightarrow> gm_ok (n_children N) \<and> distinct (n_parents N))"

definition tree_inv :: "'z tree_scheme \<Rightarrow> bool" where
  "tree_inv t \<longleftrightarrow> nodes_wf t \<and> (\<forall>p nm c. edge t p nm = Some c \<longleftrightarrow> (nm, p) \<in> up_links t c)"

definition same_nodes :: "'z tree_scheme \<Rightarrow> 'z tree_scheme \<Rightarrow> bool" where
  "same_nodes t t' \<longleftrightarrow> (\<forall>p. tr_heap t' p = None \<longleftrightarrow> tr_heap t p = None)"

named_theorems link_simps "effect of the primitive updates on links"

lemma tr_heap_upd [link_simps]:
  "tr_heap (upd p f t) q = (if q = p then map_option f (tr_heap t p) else tr_heap t q)"
  by (simp add: upd_def)

lemma tr_nodes_upd [link_simps]: "tr_nodes (upd p f t) = tr_nodes t"
  by (simp add: upd_def)

lemma node_Inr: "node t p = Inr N \<longleftrightarrow> tr_heap t p = Some N"
  by (simp add: node_def split: option.splits)

lemma edge_upd_frame:
  "(\<And>N. n_children (f N) = n_children N) \<Longrightarrow> edge (upd q f t) p nm = edge t p nm"
  by (auto simp: edge_def tr_heap_upd split: option.splits)

lemma up_links_upd_frame:
  "(\<And>N. n_parents (f N) = n_parents N) \<Longrightarrow> up_links (upd q f t) c = up_links t c"
  by (auto simp: up_links_def tr_heap_upd split: option.splits)

lemma edge_frames [link_simps]:
  "edge (bump q t) p nm = edge t p nm"
  "edge (addParent q pd t) p nm = edge t p nm"
  "edge (delParent q pd t) p nm = edge t p nm"
  by (simp_all add: bump_def addParent_def delParent_def edge_upd_frame)

lemma up_links_frames [link_simps]:
  "up_links (bump q t) c = up_links t c"
  "up_links (delChild q nm t) c = up_links t c"
  by (simp_all add: bump_def delChild_def up_links_upd_frame)

lemma edge_delChild [link_simps]:
  "edge (delChild q m t) p nm = (if p = q \<and> nm = m then None else edge t p nm)"
  by (auto simp: edge_def delChild_def tr_heap_upd split: option.splits)

lemma up_links_addParent [link_simps]:
  "up_links (addParent q pd t) c =
     (if c = q \<and> tr_heap t q \<noteq> None then insert pd (up_links t c) else up_links t c)"
  by (auto simp: up_links_def addParent_def tr_heap_upd split: option.splits)

lemma up_links_delParent [link_simps]:
  "up_links (delParent q pd t) c = (if c = q then up_links t c - {pd} else up_links t c)"
  by (auto simp: up_links_def delParent_def tr_heap_upd split: option.splits)

lemma same_nodes_refl [simp, intro]: "same_nodes t t"
  by (simp add: same_nodes_def)

lemma same_nodes_trans: "same_nodes t t' \<Longrightarrow> same_nodes t' t'' \<Longrightarrow> same_nodes t t''"
  by (simp add: same_nodes_def)

lemma heap_None_prims [link_simps]:
  "(tr_heap (bump q t) p = None) = (tr_heap t p = None)"
  "(tr_heap (addParent q pd t) p = None) = (tr_heap t p = None)"
  "(tr_heap (delParent q pd t) p = None) = (tr_heap t p = None)"
  "(tr_heap (delChild q nm t) p = None) = (tr_heap t p = None)"
  by (auto simp: bump_def addParent_def delParent_def delChild_def tr_heap_upd)

lemma setChild_Inr:
  assumes "setChild q m c t = Inr t'"
  shows "edge t' p nm = (if p = q \<and> nm = m then Some c else edge t p nm)"
    and "up_links t' x = up_links t x"
    and "same_nodes t t'"
    and "tr_nodes t' = tr_nodes t"
    and "nodes_wf t \<Longrightarrow> nodes_wf t'"
proof -
  from assms obtain N mp where N: "tr_heap t q = Some N" and mp: "gm_set (n_children N) m c = Inr mp"
    and t': "t' = upd q (\<lambda>N. N\<lparr>n_children := mp\<rparr>) t"
    by (auto simp: setChild_def bind_go_eq_Inr node_Inr)
  show "edge t' p nm = (if p = q \<and> nm = m then Some c else edge t p nm)"
    using N gm_get_set [OF mp] by (auto simp: t' edge_def tr_heap_upd split: option.splits)
  show "up_links t' x = up_links t x" by (simp add: t' up_links_upd_frame)
  show "same_nodes t t'" by (auto simp: t' same_nodes_def tr_heap_upd)
  show "tr_nodes t' = tr_nodes t" by (simp add: t' tr_nodes_upd)
  show "nodes_wf t'" if "nodes_wf t"
    using that N gm_ok_set [OF mp] by (auto simp: t' nodes_wf_def tr_heap_upd split: if_splits)
qed

lemma nodes_wf_prims [link_simps]:
  "nodes_wf (bump q t) = nodes_wf t"
  "nodes_wf t \<Longrightarrow> nodes_wf (addParent q pd t)"
  "nodes_wf t \<Longrightarrow> nodes_wf (delParent q pd t)"
  "nodes_wf t \<Longrightarrow> nodes_wf (delChild q nm t)"
  by (auto simp: nodes_wf_def bump_def addParent_def delParent_def delChild_def tr_heap_upd
      distinct_removeAll split: if_splits)

lemma same_nodes_prims [link_simps]:
  "same_nodes t (bump q t')  = same_nodes t t'"
  "same_nodes t (addParent q pd t') = same_nodes t t'"
  "same_nodes t (delParent q pd t') = same_nodes t t'"
  "same_nodes t (delChild q nm t') = same_nodes t t'"
  by (simp_all add: same_nodes_def link_simps)

lemma tree_invD:
  assumes "tree_inv t"
  shows "nodes_wf t" and "edge t p nm = Some c \<longleftrightarrow> (nm, p) \<in> up_links t c"
  using assms by (simp_all add: tree_inv_def)

lemma up_links_iff: "tree_inv t \<Longrightarrow> (nm, p) \<in> up_links t c \<longleftrightarrow> edge t p nm = Some c"
  by (simp add: tree_inv_def)

lemma edge_child_present:
  assumes "tree_inv t" and "edge t p nm = Some c"
  shows "tr_heap t c \<noteq> None" and "c \<noteq> 0"
proof -
  from assms have "up_links t c \<noteq> {}" by (auto simp: tree_inv_def)
  then show *: "tr_heap t c \<noteq> None" by (auto simp: up_links_def)
  moreover have "tr_heap t 0 = None" using assms(1) by (simp add: tree_inv_def nodes_wf_def)
  ultimately show "c \<noteq> 0" by metis
qed

lemma child_at_edge:
  assumes "tree_inv t" and "tr_heap t p = Some N"
  shows "child_at N nm = edge t p nm"
proof (cases "gm_get (n_children N) nm")
  case None
  then show ?thesis using assms(2) by (simp add: child_at_def edge_def)
next
  case (Some c)
  with assms have "edge t p nm = Some c" by (simp add: edge_def)
  with edge_child_present(2) [OF assms(1) this] Some show ?thesis by (simp add: child_at_def)
qed

section \<open>AddChild\<close>

lemma add_link_inv:
  assumes inv: "tree_inv t" and ch: "tr_heap t ch \<noteq> None"
    and prev: "case edge t n name of None \<Rightarrow> t0 = t
                 | Some prev \<Rightarrow> t0 = delParent prev (name, n) t"
    and s: "setChild n name ch t0 = Inr t1"
  shows "tree_inv (addParent ch (name, n) t1)"
    and "edge (addParent ch (name, n) t1) p nm = (if p = n \<and> nm = name then Some ch else edge t p nm)"
    and "same_nodes t (addParent ch (name, n) t1)"
proof -
  note S = setChild_Inr [OF s]
  have e0: "edge t0 p nm = edge t p nm" for p nm
    using prev by (auto simp: link_simps split: option.splits)
  have u0: "up_links t0 c = (case edge t n name of None \<Rightarrow> up_links t c
       | Some prev \<Rightarrow> if c = prev then up_links t c - {(name, n)} else up_links t c)" for c
    using prev by (auto simp: link_simps split: option.splits)
  have w0: "nodes_wf t0" using prev inv by (auto simp: link_simps tree_inv_def split: option.splits)
  have n0: "same_nodes t t0" using prev by (auto simp: link_simps split: option.splits)
  have ch1: "tr_heap t1 ch \<noteq> None" using ch n0 S(3) by (simp add: same_nodes_def)
  show e: "edge (addParent ch (name, n) t1) p nm = (if p = n \<and> nm = name then Some ch else edge t p nm)"
    for p nm by (simp add: link_simps S(1) e0)
  show "same_nodes t (addParent ch (name, n) t1)"
    using n0 S(3) by (simp add: link_simps same_nodes_trans [of t t0 t1])
  have u: "up_links (addParent ch (name, n) t1) c =
      (if c = ch then insert (name, n) (up_links t0 c) else up_links t0 c)" for c
    using ch1 by (simp add: link_simps S(2))
  show "tree_inv (addParent ch (name, n) t1)"
    unfolding tree_inv_def
  proof (intro conjI allI)
    show "nodes_wf (addParent ch (name, n) t1)" using S(5) w0 by (simp add: link_simps)
    fix p nm c
    show "(edge (addParent ch (name, n) t1) p nm = Some c) =
          ((nm, p) \<in> up_links (addParent ch (name, n) t1) c)"
      unfolding e u u0
      by (auto simp: up_links_iff [OF inv] split: option.splits if_splits)
  qed
qed

lemma tree_inv_bump [link_simps]: "tree_inv (bump q t) = tree_inv t"
  by (simp add: tree_inv_def link_simps)

text \<open>The result of an undisturbed \<^verbatim>\<open>AddChild\<close>.\<close>

lemma AddChild_quiet:
  assumes inv: "tree_inv t" and r: "AddChild [] t n name ch overwrite = Inr (ok, t')"
  shows "tree_inv t'" and "same_nodes t t'"
    and "ok \<longleftrightarrow> overwrite \<or> edge t n name = None"
    and "edge t' p nm = (if ok \<and> p = n \<and> nm = name then Some ch else edge t p nm)"
proof -
  from r have r: "add_loop [] t n name ch overwrite = Inr (ok, t')"
    by (simp add: AddChild_def split: if_splits)
  from r obtain N where N: "tr_heap t n = Some N" and ch: "tr_heap t ch \<noteq> None"
    by (auto simp: add_loop.simps [of "[]"] bind_go_eq_Inr node_Inr)
  have eN: "gm_get (n_children N) name = edge t n name" using N by (simp add: edge_def)
  have "tree_inv t' \<and> same_nodes t t' \<and> ok = (overwrite \<or> edge t n name = None) \<and>
    edge t' p nm = (if ok \<and> p = n \<and> nm = name then Some ch else edge t p nm)"
  proof (cases "edge t n name")
    case None
    with r N ch eN obtain t1 where s: "setChild n name ch t = Inr t1" and ok: "ok"
      and t': "t' = bump ch (bump n (addParent ch (name, n) t1))"
      by (auto simp: add_loop.simps [of "[]"] bind_go_eq_Inr node_Inr)
    have c: "case edge t n name of None \<Rightarrow> t = t | Some prev \<Rightarrow> t = delParent prev (name, n) t"
      using None by simp
    from add_link_inv [OF inv ch c s] None ok show ?thesis
      by (simp add: t' link_simps)
  next
    case (Some prev)
    show ?thesis
    proof (cases overwrite)
      case False
      with r N ch eN Some have "t' = t" "\<not> ok"
        by (auto simp: add_loop.simps [of "[]"] bind_go_eq_Inr node_Inr)
      with False Some inv show ?thesis by simp
    next
      case True
      with r N ch eN Some obtain t1 where s: "setChild n name ch (delParent prev (name, n) t) = Inr t1"
        and ok: "ok" and t': "t' = bump prev (bump ch (bump n (addParent ch (name, n) t1)))"
        by (auto simp: add_loop.simps [of "[]"] bind_go_eq_Inr node_Inr)
      have c: "case edge t n name of None \<Rightarrow> delParent prev (name, n) t = t
          | Some prev' \<Rightarrow> delParent prev (name, n) t = delParent prev' (name, n) t"
        using Some by simp
      from add_link_inv [OF inv ch c s] True ok show ?thesis
        by (simp add: t' link_simps)
    qed
  qed
  then show "tree_inv t'" and "same_nodes t t'" and "ok \<longleftrightarrow> overwrite \<or> edge t n name = None"
    and "edge t' p nm = (if ok \<and> p = n \<and> nm = name then Some ch else edge t p nm)" by auto
qed

text \<open>
  A window of interference heeds the counters of some inodes when a change of their children shows
  in their counters. It may create inodes and change the others in any way; no inode disappears.
\<close>

definition keeps_nodes :: "'z tree_scheme \<Rightarrow> 'z tree_scheme \<Rightarrow> bool" where
  "keeps_nodes t t' \<longleftrightarrow> (\<forall>p. tr_heap t p \<noteq> None \<longrightarrow> tr_heap t' p \<noteq> None)"

definition heeds :: "addr set \<Rightarrow> ('z tree_scheme \<Rightarrow> 'z tree_scheme) \<Rightarrow> bool" where
  "heeds S e \<longleftrightarrow> (\<forall>t. keeps_nodes t (e t) \<and>
     (\<forall>p\<in>S. \<forall>N N'. tr_heap t p = Some N \<longrightarrow> tr_heap (e t) p = Some N' \<longrightarrow>
        n_changeCounter N' = n_changeCounter N \<longrightarrow> n_children N' = n_children N))"

lemma heedsD:
  assumes "heeds S e"
  shows "tr_heap t p = Some N \<Longrightarrow> \<exists>N'. tr_heap (e t) p = Some N'"
    and "p \<in> S \<Longrightarrow> tr_heap t p = Some N \<Longrightarrow> tr_heap (e t) p = Some N' \<Longrightarrow>
         n_changeCounter N' = n_changeCounter N \<Longrightarrow> n_children N' = n_children N"
  using assms unfolding heeds_def keeps_nodes_def by blast+

definition after :: "('z tree_scheme \<Rightarrow> 'z tree_scheme) list \<Rightarrow> 'z tree_scheme \<Rightarrow> 'z tree_scheme" where
  "after env t = fold (\<lambda>e t. e t) env t"

lemma after_0 [simp]: "after (take 0 env) t = t"
  by (simp add: after_def)

lemma after_Cons [simp]: "after (e # es) t = after es (e t)"
  by (simp add: after_def)

text \<open>A retry uses two windows, the one before the counter is compared and the one after.\<close>

lemma after_retry:
  assumes "i \<le> length (tl es)"
  shows "\<exists>j \<le> length (e # es). after (take i (tl es)) (window es (e t)) = after (take j (e # es)) t
    \<and> drop i (tl es) = drop j (e # es)"
proof (cases es)
  case Nil
  then show ?thesis by (intro exI [of _ 1]) (simp add: after_def)
next
  case (Cons e' es')
  then show ?thesis using assms by (intro exI [of _ "Suc (Suc i)"]) simp
qed

lemma set_tl_mono: "x \<in> set (tl xs) \<Longrightarrow> x \<in> set xs"
  by (cases xs) auto

lemma add_loop_linearizes:
  assumes "\<And>e. e \<in> set env \<Longrightarrow> heeds {n} e"
  shows "\<exists>i \<le> length env. add_loop env t n name ch overwrite
           = add_loop [] (after (take i env) t) n name ch overwrite"
  using assms
proof (induction env arbitrary: t rule: length_induct)
  case (1 env)
  show ?case
  proof (cases env)
    case Nil
    then show ?thesis by (auto simp: after_def)
  next
    case (Cons e es)
    have stay: ?thesis if "add_loop env t n name ch overwrite = add_loop [] t n name ch overwrite"
      using that by (intro exI [of _ 0]) (simp add: after_def)
    show ?thesis
    proof (cases "\<exists>N prev. tr_heap t n = Some N \<and> tr_heap t ch \<noteq> None \<and> gm_get (n_children N) name = Some prev \<and> overwrite")
      case False
      then show ?thesis by (intro stay) (auto simp: add_loop.simps node_def split: option.splits)
    next
      case True
      then obtain N prev where N: "tr_heap t n = Some N" and ch: "tr_heap t ch \<noteq> None"
        and prev: "gm_get (n_children N) name = Some prev" and ow: overwrite by auto
      have h: "heeds {n} e" using 1(2) Cons by simp
      obtain N' where N': "tr_heap (e t) n = Some N'" using heedsD(1) [OF h N] by auto
      have ch': "tr_heap (e t) ch \<noteq> None" using heedsD(1) [OF h] ch by auto
      show ?thesis
      proof (cases "n_changeCounter N' = n_changeCounter N")
        case True
        then have "n_children N' = n_children N" using heedsD(2) [OF h _ N N'] by simp
        then have "add_loop env t n name ch overwrite = add_loop [] (e t) n name ch overwrite"
          using N N' ch ch' prev ow True Cons by (auto simp: add_loop.simps node_def split: option.splits)
        then show ?thesis using Cons by (intro exI [of _ 1]) (simp add: after_def)
      next
        case False
        then have "add_loop env t n name ch overwrite = add_loop (tl es) (window es (e t)) n name ch overwrite"
          using N N' ch prev ow Cons by (subst add_loop.simps) (auto simp: node_def split: option.splits)
        moreover have "\<exists>i \<le> length (tl es). add_loop (tl es) (window es (e t)) n name ch overwrite
            = add_loop [] (after (take i (tl es)) (window es (e t))) n name ch overwrite"
        proof -
          have "\<forall>x. x \<in> set (tl es) \<longrightarrow> heeds {n} x" and l: "length (tl es) < length env"
            using 1(2) Cons by (auto intro: set_tl_mono)
          then show ?thesis using 1(1) by blast
        qed
        ultimately show ?thesis using after_retry [of _ es e t] Cons by metis
      qed
    qed
  qed
qed

section \<open>removeRef\<close>

text \<open>What keeps an inode alive besides its children: kernel references and persistence.\<close>

definition refs :: "'z tree_scheme \<Rightarrow> addr \<Rightarrow> (u64 \<times> bool) option" where
  "refs t c = map_option (\<lambda>N. (n_lookupCount N, n_persistent N)) (tr_heap t c)"

definition dead :: "'z tree_scheme \<Rightarrow> addr \<Rightarrow> bool" where
  "dead t c \<longleftrightarrow> refs t c = Some (0, False) \<and> (\<forall>nm. edge t c nm = None)"

lemma refs_frames [link_simps]:
  "refs (bump q t) c = refs t c"
  "refs (addParent q pd t) c = refs t c"
  "refs (delParent q pd t) c = refs t c"
  "refs (delChild q nm t) c = refs t c"
  "refs (upd q (\<lambda>N. N\<lparr>n_parents := ps\<rparr>) t) c = refs t c"
  by (auto simp: refs_def bump_def addParent_def delParent_def delChild_def tr_heap_upd
      option.map_comp comp_def)

lemma live_node_dead: "tr_heap t c = Some N \<Longrightarrow> live_node N \<longleftrightarrow> \<not> dead t c"
  using gm_len_0 [of "n_children N"]
  by (auto simp: live_node_def dead_def refs_def edge_def word_neq_0_conv)

lemma detach_parents_links:
  "edge (detach_parents pds t) p nm = (if (nm, p) \<in> set pds then None else edge t p nm)"
  "up_links (detach_parents pds t) c = up_links t c"
  "refs (detach_parents pds t) c = refs t c"
  "same_nodes t (detach_parents pds t)"
  "nodes_wf t \<Longrightarrow> nodes_wf (detach_parents pds t)"
  by (induction pds t rule: detach_parents.induct)
     (auto simp: link_simps same_nodes_def)

lemma tr_nodes_frame [link_simps]:
  "edge (t\<lparr>tr_nodes := m\<rparr>) p nm = edge t p nm"
  "up_links (t\<lparr>tr_nodes := m\<rparr>) c = up_links t c"
  "refs (t\<lparr>tr_nodes := m\<rparr>) c = refs t c"
  "nodes_wf (t\<lparr>tr_nodes := m\<rparr>) = nodes_wf t"
  "same_nodes t' (t\<lparr>tr_nodes := m\<rparr>) = same_nodes t' t"
  by (simp_all add: edge_def up_links_def refs_def nodes_wf_def same_nodes_def)

definition orphan :: "addr \<Rightarrow> 'z tree_scheme \<Rightarrow> 'z tree_scheme" where
  "orphan n t = upd n (\<lambda>N. N\<lparr>n_parents := []\<rparr>) t"

lemma heap_None_upd: "(tr_heap (upd q f t) p = None) = (tr_heap t p = None)"
  by (simp add: tr_heap_upd)

lemma orphan_links [link_simps]:
  "edge (orphan n t) p nm = edge t p nm"
  "refs (orphan n t) c = refs t c"
  "same_nodes t' (orphan n t) = same_nodes t' t"
  by (simp_all add: orphan_def edge_upd_frame refs_frames same_nodes_def heap_None_upd)

lemma up_links_orphan [link_simps]:
  "up_links (orphan n t) c = (if c = n then {} else up_links t c)"
  by (cases "tr_heap t n") (simp_all add: orphan_def up_links_def tr_heap_upd)

lemma nodes_wf_orphan [link_simps]: "nodes_wf t \<Longrightarrow> nodes_wf (orphan n t)"
  by (auto simp: orphan_def nodes_wf_def tr_heap_upd split: if_splits)

lemma forget_node_orphan:
  "forget_node n N t =
     (let t2 = bump n (orphan n (detach_parents (n_parents N) t))
      in t2\<lparr>tr_nodes := (tr_nodes t2)(na_Ino (n_nodeAttr N) := None)\<rparr>)"
  by (simp add: forget_node_def orphan_def Let_def)

lemma forget_node_links:
  assumes inv: "tree_inv t" and N: "tr_heap t n = Some N"
  shows "edge (forget_node n N t) p nm = (if edge t p nm = Some n then None else edge t p nm)"
    and "up_links (forget_node n N t) c = (if c = n then {} else up_links t c)"
    and "refs (forget_node n N t) c = refs t c"
    and "same_nodes t (forget_node n N t)"
    and "tree_inv (forget_node n N t)"
proof -
  have ps: "(nm, p) \<in> set (n_parents N) \<longleftrightarrow> edge t p nm = Some n" for p nm
    using up_links_iff [OF inv, of nm p n] N by (simp add: up_links_def)
  show e: "edge (forget_node n N t) p nm = (if edge t p nm = Some n then None else edge t p nm)" for p nm
    by (simp add: forget_node_orphan Let_def link_simps detach_parents_links ps)
  show u: "up_links (forget_node n N t) c = (if c = n then {} else up_links t c)" for c
    by (simp add: forget_node_orphan Let_def link_simps detach_parents_links)
  show "refs (forget_node n N t) c = refs t c" "same_nodes t (forget_node n N t)"
    by (simp_all add: forget_node_orphan Let_def link_simps detach_parents_links)
  have "nodes_wf (forget_node n N t)"
    using tree_invD(1) [OF inv] by (simp add: forget_node_orphan Let_def link_simps detach_parents_links)
  then show "tree_inv (forget_node n N t)"
    unfolding tree_inv_def by (auto simp: e u up_links_iff [OF inv])
qed

text \<open>The tree only loses links, and only links to dead inodes.\<close>

definition shrinks :: "'z tree_scheme \<Rightarrow> 'z tree_scheme \<Rightarrow> bool" where
  "shrinks t t' \<longleftrightarrow> same_nodes t t' \<and> (\<forall>c. refs t' c = refs t c)
     \<and> (\<forall>p nm. edge t' p nm = None \<or> edge t' p nm = edge t p nm)
     \<and> (\<forall>c. up_links t' c \<subseteq> up_links t c)
     \<and> (\<forall>p nm c. edge t p nm = Some c \<and> edge t' p nm = None \<longrightarrow> dead t' c)"

lemma shrinks_refl [simp]: "shrinks t t"
  by (auto simp: shrinks_def)

lemma shrinksD:
  assumes "shrinks t t'"
  shows "same_nodes t t'" and "refs t' c = refs t c"
    and "edge t' p nm = None \<or> edge t' p nm = edge t p nm"
    and "up_links t' c \<subseteq> up_links t c"
    and "edge t p nm = Some c \<Longrightarrow> edge t' p nm = None \<Longrightarrow> dead t' c"
  using assms by (simp_all add: shrinks_def)

lemma dead_mono:
  assumes s: "shrinks t t'" and d: "dead t c"
  shows "dead t' c"
proof -
  have "edge t' c nm = None" for nm using shrinksD(3) [OF s, of c nm] d by (auto simp: dead_def)
  moreover have "refs t' c = Some (0, False)" using shrinksD(2) [OF s, of c] d by (simp add: dead_def)
  ultimately show ?thesis by (simp add: dead_def)
qed

lemma shrinks_trans:
  assumes 1: "shrinks t t'" and 2: "shrinks t' t''"
  shows "shrinks t t''"
  unfolding shrinks_def
proof (intro conjI allI impI)
  show "same_nodes t t''" by (rule same_nodes_trans [OF shrinksD(1) [OF 1] shrinksD(1) [OF 2]])
  fix c show "refs t'' c = refs t c" by (simp add: shrinksD(2) [OF 1] shrinksD(2) [OF 2])
  show "up_links t'' c \<subseteq> up_links t c" by (rule order_trans [OF shrinksD(4) [OF 2] shrinksD(4) [OF 1]])
next
  fix p nm show "edge t'' p nm = None \<or> edge t'' p nm = edge t p nm"
    using shrinksD(3) [OF 1, of p nm] shrinksD(3) [OF 2, of p nm] by auto
next
  fix p nm c assume a: "edge t p nm = Some c \<and> edge t'' p nm = None"
  show "dead t'' c"
  proof (cases "edge t' p nm = None")
    case True
    with a have "dead t' c" by (auto intro: shrinksD(5) [OF 1])
    then show ?thesis by (rule dead_mono [OF 2])
  next
    case False
    with shrinksD(3) [OF 1, of p nm] a have "edge t' p nm = Some c" by auto
    with a show ?thesis by (auto intro: shrinksD(5) [OF 2])
  qed
qed

lemma forget_node_shrinks:
  assumes inv: "tree_inv t" and N: "tr_heap t n = Some N" and d: "\<not> live_node N"
  shows "shrinks t (forget_node n N t)"
proof -
  note F = forget_node_links [OF inv N]
  have "dead t n" using live_node_dead [OF N] d by simp
  then have "dead (forget_node n N t) n" by (simp add: dead_def F)
  then show ?thesis by (simp add: shrinks_def F) (metis option.distinct(1))
qed

lemma drop_refs_none: "tr_heap t n = Some N \<Longrightarrow> drop_refs n 0 False t = Inr t"
  by (simp add: drop_refs_def node_def)

text \<open>
  \<^verbatim>\<open>removeRef\<close> without interference: an inode that is no longer live is detached and its parents are
  tried in turn.
\<close>

fun removeRef_alone :: "nat \<Rightarrow> 'z tree_scheme \<Rightarrow> addr \<Rightarrow> u64 \<Rightarrow> bool \<Rightarrow> (bool \<times> bool \<times> 'z tree_scheme) go" and
    removeRefs_alone :: "nat \<Rightarrow> 'z tree_scheme \<Rightarrow> addr \<Rightarrow> addr list \<Rightarrow> 'z tree_scheme go" where
  "removeRef_alone 0 t n nlookup dropPersistence = Inl OutOfFuel"
| "removeRef_alone (Suc k) t n nlookup dropPersistence =
     bind_go (drop_refs n nlookup dropPersistence t) (\<lambda>t0.
     bind_go (node t0 n) (\<lambda>N.
       let forgotten = (n_lookupCount N = 0); lockme = n # map snd (n_parents N) in
       if live_node N then Inr (forgotten, True, t0)
       else bind_go (removeRefs_alone k (forget_node n N t0) n (sortNodes lockme)) (\<lambda>t1.
              Inr (forgotten, False, t1))))"
| "removeRefs_alone k t n [] = Inr t"
| "removeRefs_alone k t n (p # ps) =
     (if p \<noteq> n
      then bind_go (removeRef_alone k t p 0 False) (\<lambda>(f, l, t'). removeRefs_alone k t' n ps)
      else removeRefs_alone k t n ps)"

lemma removeRef_quiet:
  "removeRef k [] t n nlookup d = bind_go (removeRef_alone k t n nlookup d) (\<lambda>(f, l, t'). Inr (f, l, [], t'))"
  "removeRefs k [] t n ps = bind_go (removeRefs_alone k t n ps) (\<lambda>t'. Inr ([], t'))"
proof (induction k t n nlookup d and k t n ps rule: removeRef_alone_removeRefs_alone.induct)
  case (2 k t n nlookup d)
  show ?case
  proof (cases "drop_refs n nlookup d t")
    case (Inr t0)
    show ?thesis
    proof (cases "node t0 n")
      case (Inr N)
      show ?thesis
      proof (cases "live_node N")
        case False
        then have "n_lookupCount N = 0" by (simp add: live_node_def word_gt_0)
        then show ?thesis using \<open>drop_refs n nlookup d t = Inr t0\<close> Inr False 2 [OF refl refl False]
          by (simp add: removeRef_loop.simps Let_def)
      qed (use \<open>drop_refs n nlookup d t = Inr t0\<close> Inr in \<open>simp add: removeRef_loop.simps\<close>)
    qed (use Inr in \<open>simp add: removeRef_loop.simps\<close>)
  qed simp
next
  case (4 k t n p ps)
  show ?case
  proof (cases "p = n")
    case False
    with 4 show ?thesis by (cases "removeRef_alone k t p 0 False") auto
  qed (use 4 in simp)
qed simp_all

lemma removeRef_shrinks:
  "removeRef_alone k t n nlookup dropP = Inr (f, l, t') \<Longrightarrow> drop_refs n nlookup dropP t = Inr t0 \<Longrightarrow> tree_inv t0 \<Longrightarrow>
     shrinks t0 t' \<and> tree_inv t' \<and> (if l then t' = t0 else dead t' n \<and> up_links t' n = {})"
  "removeRefs_alone k t n ps = Inr t' \<Longrightarrow> tree_inv t \<Longrightarrow> shrinks t t' \<and> tree_inv t'"
proof (induction k t n nlookup dropP and k t n ps arbitrary: f l t' t0 and t'
    rule: removeRef_alone_removeRefs_alone.induct)
  case (1 t n nlookup dropP)
  then show ?case by simp
next
  case (2 k t n nlookup dropP)
  from 2(2,3) obtain N where N: "tr_heap t0 n = Some N"
    by (auto simp: bind_go_eq_Inr node_Inr)
  show ?case
  proof (cases "live_node N")
    case True
    with 2(2,3,4) N show ?thesis by (auto simp: bind_go_eq_Inr node_def)
  next
    case False
    with 2(2,3) N have l: "\<not> l" and r: "removeRefs_alone k (forget_node n N t0) n (sortNodes (n # map snd (n_parents N))) = Inr t'"
      by (auto simp: bind_go_eq_Inr node_def Let_def)
    note F = forget_node_links [OF 2(4) N] and S = forget_node_shrinks [OF 2(4) N False]
    have ih: "shrinks (forget_node n N t0) t' \<and> tree_inv t'"
      by (rule 2(1) [OF refl refl False r F(5)])
    have "dead t0 n" using live_node_dead [OF N] False by simp
    then have d: "dead (forget_node n N t0) n" by (simp add: dead_def F)
    have "up_links t' n = {}" using ih F(2) [of n] unfolding shrinks_def by (metis subset_empty)
    moreover have "shrinks t0 t'" using shrinks_trans S ih by blast
    moreover have "dead t' n" using dead_mono ih d by blast
    ultimately show ?thesis using ih l by simp
  qed
next
  case (3 k t n)
  then show ?case by simp
next
  case (4 k t n p ps)
  show ?case
  proof (cases "p = n")
    case True
    with 4 show ?thesis by simp
  next
    case False
    with 4(4) obtain f l t1 where r: "removeRef_alone k t p 0 False = Inr (f, l, t1)"
      and rs: "removeRefs_alone k t1 n ps = Inr t'" by (auto simp: bind_go_eq_Inr)
    have "\<exists>N. tr_heap t p = Some N"
      using r by (cases k) (auto simp: bind_go_eq_Inr drop_refs_def node_Inr)
    then have "drop_refs p 0 False t = Inr t" by (auto simp: drop_refs_none)
    with 4(1) [OF False r] 4(5) have 1: "shrinks t t1" "tree_inv t1" by auto
    with 4(2) [OF False rs] show ?thesis using shrinks_trans by blast
  qed
qed

lemma nodes_wf_upd_frame:
  assumes c: "\<And>N. n_children (f N) = n_children N" and p: "\<And>N. n_parents (f N) = n_parents N"
  shows "nodes_wf (upd q f t) = nodes_wf t"
proof -
  have alt: "nodes_wf t \<longleftrightarrow> tr_heap t 0 = None \<and> (\<forall>a. case tr_heap t a of None \<Rightarrow> True
      | Some N \<Rightarrow> gm_ok (n_children N) \<and> distinct (n_parents N))" for t :: "'a tree_scheme"
    by (auto simp: nodes_wf_def split: option.splits)
  have "(case tr_heap (upd q f t) a of None \<Rightarrow> True | Some N \<Rightarrow> gm_ok (n_children N) \<and> distinct (n_parents N)) =
        (case tr_heap t a of None \<Rightarrow> True | Some N \<Rightarrow> gm_ok (n_children N) \<and> distinct (n_parents N))" for a
    by (cases "tr_heap t q") (auto simp: tr_heap_upd c p)
  then show ?thesis unfolding alt by (simp add: tr_heap_upd)
qed

lemma drop_refs_links:
  assumes "drop_refs n nlookup d t = Inr t0"
  shows "edge t0 p nm = edge t p nm" and "up_links t0 c = up_links t c" and "same_nodes t t0"
    and "tree_inv t0 = tree_inv t" and "tr_nodes t0 = tr_nodes t"
proof -
  show e: "edge t0 p nm = edge t p nm" for p nm
    using assms by (auto simp: drop_refs_def bind_go_eq_Inr link_simps edge_upd_frame split: if_splits)
  show u: "up_links t0 c = up_links t c" for c
    using assms by (auto simp: drop_refs_def bind_go_eq_Inr link_simps up_links_upd_frame split: if_splits)
  show "same_nodes t t0"
    using assms by (auto simp: drop_refs_def bind_go_eq_Inr bump_def same_nodes_def heap_None_upd split: if_splits)
  have "nodes_wf t0 = nodes_wf t"
    using assms by (auto simp: drop_refs_def bind_go_eq_Inr nodes_wf_prims nodes_wf_upd_frame split: if_splits)
  then show "tree_inv t0 = tree_inv t" by (simp add: tree_inv_def e u)
  show "tr_nodes t0 = tr_nodes t"
    using assms by (auto simp: drop_refs_def bind_go_eq_Inr bump_def tr_nodes_upd split: if_splits)
qed

text \<open>Enough fuel: each recursion detaches an inode that still had a parent.\<close>

definition linked :: "'z tree_scheme \<Rightarrow> addr set" where
  "linked t = {c. up_links t c \<noteq> {}}"

lemma linked_dom: "linked t \<subseteq> dom (tr_heap t)"
  by (auto simp: linked_def up_links_def split: option.splits)

lemma linked_card_mono:
  assumes "shrinks t t'" and "finite (dom (tr_heap t))"
  shows "card (linked t') \<le> card (linked t)"
proof (rule card_mono)
  show "finite (linked t)" using linked_dom assms(2) by (rule finite_subset)
  show "linked t' \<subseteq> linked t" using shrinksD(4) [OF assms(1)] by (force simp: linked_def)
qed

lemma same_nodes_dom: "same_nodes t t' \<Longrightarrow> dom (tr_heap t') = dom (tr_heap t)"
  by (auto simp: same_nodes_def dom_def)

lemma linked_card_forget:
  assumes "tree_inv t" and N: "tr_heap t n = Some N" and "finite (dom (tr_heap t))" and "n_parents N \<noteq> []"
  shows "card (linked (forget_node n N t)) < card (linked t)"
proof (rule psubset_card_mono)
  show "finite (linked t)" using linked_dom assms(3) by (rule finite_subset)
  have "linked (forget_node n N t) = linked t - {n}"
    by (auto simp: linked_def forget_node_links [OF assms(1) N])
  moreover have "n \<in> linked t" using N assms(4) by (simp add: linked_def up_links_def)
  ultimately show "linked (forget_node n N t) \<subset> linked t" by blast
qed

lemma drop_refs_returns:
  "tr_heap t n \<noteq> None \<Longrightarrow> \<not> (0 < nlookup \<and> d) \<Longrightarrow> \<exists>t0. drop_refs n nlookup d t = Inr t0"
  by (auto simp: drop_refs_def node_def)

lemma set_sortNodes [simp]: "set (sortNodes ns) = set ns"
  by (simp add: sortNodes_def)

lemma removeRef_returns:
  "tree_inv t \<Longrightarrow> finite (dom (tr_heap t)) \<Longrightarrow> tr_heap t n \<noteq> None \<Longrightarrow> card (linked t) < k \<Longrightarrow>
     \<not> (0 < nlookup \<and> d) \<Longrightarrow> \<exists>r. removeRef_alone k t n nlookup d = Inr r"
  "tree_inv t \<Longrightarrow> finite (dom (tr_heap t)) \<Longrightarrow> \<forall>p\<in>set ps. tr_heap t p \<noteq> None \<Longrightarrow>
     set ps \<subseteq> {n} \<or> card (linked t) < k \<Longrightarrow> \<exists>t'. removeRefs_alone k t n ps = Inr t'"
proof (induction k t n nlookup d and k t n ps rule: removeRef_alone_removeRefs_alone.induct)
  case (1 t n nlookup d)
  then show ?case by simp
next
  case (2 k t n nlookup d)
  from drop_refs_returns [OF 2(4,6)] obtain t0 where t0: "drop_refs n nlookup d t = Inr t0" by auto
  note D = drop_refs_links [OF t0]
  from 2(4) D(3) obtain N where N: "tr_heap t0 n = Some N" unfolding same_nodes_def by (metis not_None_eq)
  have inv: "tree_inv t0" using D(4) 2(2) by simp
  have fin: "finite (dom (tr_heap t0))" using 2(3) same_nodes_dom [OF D(3)] by simp
  show ?case
  proof (cases "live_node N")
    case True
    then have "removeRef_alone (Suc k) t n nlookup d = Inr (n_lookupCount N = 0, True, t0)"
      using t0 N by (simp add: node_def)
    then show ?thesis by blast
  next
    case False
    note F = forget_node_links [OF inv N]
    have "\<exists>t'. removeRefs_alone k (forget_node n N t0) n (sortNodes (n # map snd (n_parents N))) = Inr t'"
    proof (rule 2(1) [OF refl refl False F(5)])
      show "finite (dom (tr_heap (forget_node n N t0)))" using fin same_nodes_dom [OF F(4)] by simp
      have "tr_heap t0 p \<noteq> None" if "(nm, p) \<in> set (n_parents N)" for nm p
        using that up_links_iff [OF inv, of nm p n] N by (auto simp: up_links_def edge_def split: option.splits)
      then show "\<forall>p\<in>set (sortNodes (n # map snd (n_parents N))). tr_heap (forget_node n N t0) p \<noteq> None"
        using N F(4) by (auto simp: same_nodes_def)
      have "card (linked t0) = card (linked t)" by (simp add: linked_def D(2))
      then show "set (sortNodes (n # map snd (n_parents N))) \<subseteq> {n} \<or> card (linked (forget_node n N t0)) < k"
        using linked_card_forget [OF inv N fin] 2(5) by (cases "n_parents N = []") auto
    qed
    then show ?thesis using t0 N False by (auto simp: node_def)
  qed
next
  case (3 k t n)
  then show ?case by simp
next
  case (4 k t n p ps)
  show ?case
  proof (cases "p = n")
    case True
    with 4 show ?thesis by simp
  next
    case False
    with 4(7) have k: "card (linked t) < k" by simp
    from 4(6) have p: "tr_heap t p \<noteq> None" by simp
    obtain f l t1 where r: "removeRef_alone k t p 0 False = Inr (f, l, t1)"
      using 4(1) [OF False 4(4,5) p k] by auto
    from p have "drop_refs p 0 False t = Inr t" by (auto simp: drop_refs_none)
    with removeRef_shrinks(1) [OF r] 4(4) have s: "shrinks t t1" and inv: "tree_inv t1" by auto
    have "\<exists>t'. removeRefs_alone k t1 n ps = Inr t'"
    proof (rule 4(2) [OF False inv])
      show "finite (dom (tr_heap t1))" using 4(5) same_nodes_dom [OF shrinksD(1) [OF s]] by simp
      show "\<forall>p\<in>set ps. tr_heap t1 p \<noteq> None" using 4(6) shrinksD(1) [OF s] by (simp add: same_nodes_def)
      show "set ps \<subseteq> {n} \<or> card (linked t1) < k" using linked_card_mono [OF s 4(5)] k by simp
    qed
    with False r show ?thesis by auto
  qed
qed

end
