(* ===== verification/NodeTreeOps.thy ===== *)
theory NodeTreeOps
  imports NodeTreeProps
begin

text \<open>
  The public operations of \<^verbatim>\<open>nodefs/inode.go\<close> on whole trees: \<^verbatim>\<open>AddChild\<close>, \<^verbatim>\<open>MvChild\<close> and
  \<^verbatim>\<open>removeRef\<close> return, keep the tree consistent and change the links as promised; with
  other goroutines in between, \<^verbatim>\<open>AddChild\<close> and \<^verbatim>\<open>MvChild\<close> act as if they ran alone at one
  point in time; \<^verbatim>\<open>Path\<close> names a walk that leads back to the inode.
\<close>

section \<open>Directories\<close>

definition is_dir :: "'z tree_scheme \<Rightarrow> addr \<Rightarrow> bool" where
  "is_dir t p \<longleftrightarrow> (case tr_heap t p of None \<Rightarrow> False | Some N \<Rightarrow> n_children N \<noteq> None)"

lemma is_dir_upd_frame:
  "(\<And>N. (n_children (f N) = None) = (n_children N = None)) \<Longrightarrow> is_dir (upd q f t) p = is_dir t p"
  by (cases "tr_heap t q") (simp_all add: is_dir_def tr_heap_upd)

lemma is_dir_frames [link_simps]:
  "is_dir (bump q t) p = is_dir t p"
  "is_dir (addParent q pd t) p = is_dir t p"
  "is_dir (delParent q pd t) p = is_dir t p"
  "is_dir (delChild q nm t) p = is_dir t p"
  by (simp_all add: bump_def addParent_def delParent_def delChild_def is_dir_upd_frame gm_del_def)

lemma setChild_returns: "is_dir t p \<Longrightarrow> \<exists>t'. setChild p nm c t = Inr t'"
  by (auto simp: is_dir_def setChild_def node_def gm_set_def split: option.splits)

lemma is_dir_setChild: "setChild p nm c t = Inr t' \<Longrightarrow> is_dir t' p"
  by (auto simp: setChild_def bind_go_eq_Inr gm_set_def is_dir_def tr_heap_upd node_Inr split: option.splits)

lemma is_dir_heap: "is_dir t p \<Longrightarrow> tr_heap t p \<noteq> None"
  by (auto simp: is_dir_def split: option.splits)

lemma AddChild_returns:
  assumes inv: "tree_inv t" and nm: "name \<noteq> ''''" and d: "is_dir t n" and ch: "tr_heap t ch \<noteq> None"
  shows "\<exists>r. AddChild [] t n name ch overwrite = Inr r"
proof -
  from d obtain N where N: "tr_heap t n = Some N" using is_dir_heap by fastforce
  show ?thesis
  proof (cases "edge t n name")
    case None
    with d N ch nm show ?thesis
      using setChild_returns [OF d, of name ch]
      by (auto simp: AddChild_def add_loop.simps [of "[]"] node_def edge_def)
  next
    case (Some prev)
    have "is_dir (delParent prev (name, n) t) n" using d by (simp add: link_simps)
    from setChild_returns [OF this, of name ch] edge_child_present(1) [OF inv Some] Some N ch nm
    show ?thesis by (auto simp: AddChild_def add_loop.simps [of "[]"] node_def edge_def)
  qed
qed

section \<open>MvChild\<close>

lemma upd_commute:
  assumes "\<And>N. f (g N) = g (f N)"
  shows "upd p f (upd q g t) = upd q g (upd p f t)"
proof -
  have "tr_heap (upd p f (upd q g t)) = tr_heap (upd q g (upd p f t))"
    by (rule ext) (simp add: tr_heap_upd option.map_comp comp_def assms)
  then show ?thesis by (simp add: upd_def)
qed

lemma detach_links:
  assumes inv: "tree_inv t" and co: "co = edge t p nm \<or> edge t p nm = None"
  shows "edge (detach p nm co t) q m = (if q = p \<and> m = nm then None else edge t q m)"
    and "tree_inv (detach p nm co t)" and "same_nodes t (detach p nm co t)"
    and "is_dir (detach p nm co t) q = is_dir t q"
    and "refs (detach p nm co t) q = refs t q"
proof -
  show e: "edge (detach p nm co t) q m = (if q = p \<and> m = nm then None else edge t q m)" for q m
    using co by (auto simp: detach_def link_simps split: option.splits)
  show "same_nodes t (detach p nm co t)" "is_dir (detach p nm co t) q = is_dir t q"
    "refs (detach p nm co t) q = refs t q"
    by (simp_all add: detach_def link_simps split: option.splits)
  have u: "up_links (detach p nm co t) c = (if co = Some c then up_links t c - {(nm, p)} else up_links t c)" for c
    by (auto simp: detach_def link_simps split: option.splits)
  have "nodes_wf (detach p nm co t)"
    using inv by (auto simp: detach_def link_simps tree_inv_def split: option.splits)
  then show "tree_inv (detach p nm co t)"
    using co by (auto simp: tree_inv_def e u up_links_iff [OF inv] split: if_splits)
qed

lemma attach_links:
  assumes inv: "tree_inv t" and free: "edge t p nm = None"
    and c: "\<And>c. co = Some c \<Longrightarrow> tr_heap t c \<noteq> None" and r: "attach p nm co t = Inr t'"
  shows "edge t' q m = (if q = p \<and> m = nm then co else edge t q m)"
    and "tree_inv t'" and "same_nodes t t'" and "refs t' q = refs t q"
proof -
  have "(\<forall>q m. edge t' q m = (if q = p \<and> m = nm then co else edge t q m)) \<and> tree_inv t' \<and> same_nodes t t'
    \<and> (\<forall>q. refs t' q = refs t q)"
  proof (cases co)
    case None
    then show ?thesis using r inv free by (simp add: attach_def)
  next
    case (Some c)
    from r Some obtain t1 where s: "setChild p nm c t = Inr t1"
      and t': "t' = bump c (addParent c (nm, p) (bump p t1))"
      by (auto simp: attach_def bind_go_eq_Inr)
    have p: "case edge t p nm of None \<Rightarrow> t = t | Some prev \<Rightarrow> t = delParent prev (nm, p) t"
      using free by simp
    note A = add_link_inv [OF inv assms(3) [OF Some] p s]
    have swap: "addParent c pd (bump p t1) = bump p (addParent c pd t1)" for pd
      by (simp add: addParent_def bump_def upd_commute)
    have "refs t1 q = refs t q" for q
      using s by (auto simp: setChild_def bind_go_eq_Inr node_Inr refs_def tr_heap_upd)
    then show ?thesis using A Some by (simp add: t' swap link_simps)
  qed
  then show "edge t' q m = (if q = p \<and> m = nm then co else edge t q m)"
    and "tree_inv t'" and "same_nodes t t'" and "refs t' q = refs t q" by simp_all
qed

text \<open>The links after a move, before inodes without reference are collected.\<close>

definition moved :: "'z tree_scheme \<Rightarrow> addr \<Rightarrow> string \<Rightarrow> addr \<Rightarrow> string \<Rightarrow> addr \<Rightarrow> string \<Rightarrow> addr option" where
  "moved t n old np nn q m =
     (if q = np \<and> m = nn then edge t n old else if q = n \<and> m = old then None else edge t q m)"

lemma move_links:
  assumes inv: "tree_inv t"
    and r: "attach np nn (edge t n old) (detach np nn (edge t np nn) (detach n old (edge t n old) t)) = Inr t1"
  shows "edge t1 q m = moved t n old np nn q m" and "tree_inv t1" and "same_nodes t t1"
    and "refs t1 q = refs t q"
proof -
  let ?d1 = "detach n old (edge t n old) t"
  let ?d2 = "detach np nn (edge t np nn) ?d1"
  have D1: "edge ?d1 q m = (if q = n \<and> m = old then None else edge t q m)" "tree_inv ?d1" "same_nodes t ?d1"
    "refs ?d1 q = refs t q" for q m
    by (simp_all add: detach_links [OF inv])
  have co: "edge t np nn = edge ?d1 np nn \<or> edge ?d1 np nn = None" by (simp add: D1)
  have D2: "edge ?d2 q m = (if q = np \<and> m = nn then None else edge ?d1 q m)" "tree_inv ?d2" "same_nodes ?d1 ?d2"
    "refs ?d2 q = refs ?d1 q" for q m
    by (simp_all add: detach_links [OF D1(2) co])
  have sn: "same_nodes t ?d2" using D1(3) D2(3) by (rule same_nodes_trans)
  have c: "tr_heap ?d2 c \<noteq> None" if "edge t n old = Some c" for c
    using edge_child_present(1) [OF inv that] sn by (simp add: same_nodes_def)
  have free: "edge ?d2 np nn = None" by (simp add: D2)
  note A = attach_links [OF D2(2) free c r]
  show "edge t1 q m = moved t n old np nn q m" by (simp add: A D2 D1 moved_def)
  show "tree_inv t1" by (rule A)
  show "same_nodes t t1" using sn A(3) by (rule same_nodes_trans)
  show "refs t1 q = refs t q" by (simp add: A D2 D1)
qed

lemma move_returns:
  assumes inv: "tree_inv t" and d: "is_dir t np"
  shows "\<exists>t1. attach np nn (edge t n old) (detach np nn (edge t np nn) (detach n old (edge t n old) t)) = Inr t1"
proof -
  have "is_dir (detach np nn (edge t np nn) (detach n old (edge t n old) t)) np"
    using d by (simp add: detach_def link_simps split: option.splits)
  note R = setChild_returns [OF this, of nn]
  show ?thesis
  proof (cases "edge t n old")
    case (Some c)
    with R [of c] show ?thesis by (auto simp: attach_def)
  qed (simp add: attach_def)
qed

text \<open>The locked section of a move on a consistent tree: the two links change, the rest stays.\<close>

definition move_section :: "'z tree_scheme \<Rightarrow> addr \<Rightarrow> string \<Rightarrow> addr \<Rightarrow> string \<Rightarrow> 'z tree_scheme go" where
  "move_section t n old np nn =
     attach np nn (edge t n old) (detach np nn (edge t np nn) (detach n old (edge t n old) t))"

lemma mv_loop_quiet:
  assumes "tree_inv t" and "tr_heap t n = Some N" and "tr_heap t np = Some P"
  shows "mv_loop [] t n old np nn overwrite =
    (if edge t np nn \<noteq> None \<and> \<not> overwrite then Inr (False, None, [], t)
     else bind_go (move_section t n old np nn) (\<lambda>t1. Inr (True, edge t np nn, [], t1)))"
  using assms by (simp add: mv_loop.simps [of "[]"] node_def Let_def child_at_edge move_section_def)

lemma MvChild_alone:
  assumes "tree_inv t" and "tr_heap t n = Some N" and "tr_heap t np = Some P" and "nn \<noteq> ''''"
  shows "MvChild k [] t n old np nn overwrite =
    (if edge t np nn \<noteq> None \<and> \<not> overwrite then Inr (False, t)
     else bind_go (move_section t n old np nn)
       (\<lambda>t1. case edge t np nn of None \<Rightarrow> Inr (True, t1)
         | Some d \<Rightarrow> bind_go (removeRef_alone k t1 d 0 False) (\<lambda>(f, l, t2). Inr (True, t2))))"
proof (cases "move_section t n old np nn")
  case (Inr t1)
  then show ?thesis using assms(4)
    by (cases "edge t np nn")
       (auto simp: MvChild_def mv_loop_quiet [OF assms(1-3)] removeRef_quiet split_def)
qed (use assms(4) in \<open>simp add: MvChild_def mv_loop_quiet [OF assms(1-3)]\<close>)

lemma MvChild_quiet:
  assumes inv: "tree_inv t" and r: "MvChild k [] t n old np nn overwrite = Inr (ok, t')"
  shows "tree_inv t'" and "ok \<longleftrightarrow> overwrite \<or> edge t np nn = None" and "\<not> ok \<Longrightarrow> t' = t"
    and "ok \<Longrightarrow> edge t' q m = moved t n old np nn q m
           \<or> edge t' q m = None \<and> (\<exists>c. moved t n old np nn q m = Some c \<and> dead t' c)"
proof -
  from r have nn: "nn \<noteq> ''''" by (simp add: MvChild_def split: if_splits)
  from r obtain N P where N: "tr_heap t n = Some N" and P: "tr_heap t np = Some P"
    by (auto simp: MvChild_def mv_loop.simps [of "[]"] bind_go_eq_Inr node_Inr split: if_splits)
  note Q = r [unfolded MvChild_alone [OF inv N P nn]]
  have "tree_inv t' \<and> (ok \<longleftrightarrow> overwrite \<or> edge t np nn = None) \<and> (\<not> ok \<longrightarrow> t' = t) \<and>
    (ok \<longrightarrow> edge t' q m = moved t n old np nn q m
           \<or> edge t' q m = None \<and> (\<exists>c. moved t n old np nn q m = Some c \<and> dead t' c))"
  proof (cases "edge t np nn \<noteq> None \<and> \<not> overwrite")
    case True
    with Q inv show ?thesis by auto
  next
    case False
    with Q obtain t1 where a: "move_section t n old np nn = Inr t1" and ok: ok
      and d: "case edge t np nn of None \<Rightarrow> t' = t1
                | Some d \<Rightarrow> (\<exists>f l. removeRef_alone k t1 d 0 False = Inr (f, l, t'))"
      by (auto simp: bind_go_eq_Inr split: option.splits if_splits)
    note M = move_links [OF inv a [unfolded move_section_def]]
    show ?thesis
    proof (cases "edge t np nn")
      case None
      with d ok M show ?thesis by simp
    next
      case (Some d)
      with d obtain f l where rr: "removeRef_alone k t1 d 0 False = Inr (f, l, t')" by auto
      have "tr_heap t1 d \<noteq> None"
        using edge_child_present(1) [OF inv Some] M(3) by (simp add: same_nodes_def)
      then have "drop_refs d 0 False t1 = Inr t1" by (auto simp: drop_refs_none)
      with removeRef_shrinks(1) [OF rr _ M(2)] have s: "shrinks t1 t'" and i: "tree_inv t'" by auto
      have "edge t' q m = edge t1 q m \<or> edge t' q m = None \<and> (\<exists>c. edge t1 q m = Some c \<and> dead t' c)"
        using shrinksD(3) [OF s, of q m] shrinksD(5) [OF s, of q m] by (cases "edge t1 q m") auto
      with i ok False M(1) show ?thesis by auto
    qed
  qed
  then show "tree_inv t'" and "ok \<longleftrightarrow> overwrite \<or> edge t np nn = None" and "\<not> ok \<Longrightarrow> t' = t"
    and "ok \<Longrightarrow> edge t' q m = moved t n old np nn q m
           \<or> edge t' q m = None \<and> (\<exists>c. moved t n old np nn q m = Some c \<and> dead t' c)" by simp_all
qed

lemma MvChild_returns:
  assumes inv: "tree_inv t" and fin: "finite (dom (tr_heap t))" and nn: "nn \<noteq> ''''"
    and n: "tr_heap t n \<noteq> None" and d: "is_dir t np" and k: "card (dom (tr_heap t)) < k"
  shows "\<exists>r. MvChild k [] t n old np nn overwrite = Inr r"
proof -
  from n obtain N where N: "tr_heap t n = Some N" by auto
  from is_dir_heap [OF d] obtain P where P: "tr_heap t np = Some P" by auto
  from move_returns [OF inv d] obtain t1 where a: "move_section t n old np nn = Inr t1"
    unfolding move_section_def by blast
  note M = move_links [OF inv a [unfolded move_section_def]]
  have rr: "\<exists>r. removeRef_alone k t1 c 0 False = Inr r" if "edge t np nn = Some c" for c
  proof (rule removeRef_returns(1))
    show f1: "finite (dom (tr_heap t1))" using fin same_nodes_dom [OF M(3)] by simp
    show "tr_heap t1 c \<noteq> None" using edge_child_present(1) [OF inv that] M(3) by (simp add: same_nodes_def)
    have "card (linked t1) \<le> card (dom (tr_heap t1))" using f1 linked_dom by (rule card_mono)
    then show "card (linked t1) < k" using k same_nodes_dom [OF M(3)] by simp
  qed (use M in simp_all)
  show ?thesis
  proof (cases "edge t np nn")
    case None
    then show ?thesis using a by (auto simp: MvChild_alone [OF inv N P nn])
  next
    case (Some c)
    from rr [OF Some] obtain f l t2 where "removeRef_alone k t1 c 0 False = Inr (f, l, t2)" by auto
    then show ?thesis using a Some by (auto simp: MvChild_alone [OF inv N P nn])
  qed
qed

text \<open>
  With interference, the loop of a move acts like an undisturbed loop at one point in time and
  leaves the windows after that point.
\<close>

lemma mv_loop_linearizes:
  assumes "\<And>e. e \<in> set env \<Longrightarrow> heeds {n, np} e"
  shows "\<exists>i \<le> length env. mv_loop env t n old np nn overwrite
     = bind_go (mv_loop [] (after (take i env) t) n old np nn overwrite) (\<lambda>(ok, d, _, t1). Inr (ok, d, drop i env, t1))"
  using assms
proof (induction env arbitrary: t rule: length_induct)
  case (1 env)
  let ?quiet = "\<lambda>i t. bind_go (mv_loop [] t n old np nn overwrite) (\<lambda>(ok, d, _, t1). Inr (ok, d, drop i env, t1))"
  show ?case
  proof (cases "\<exists>N P. tr_heap t n = Some N \<and> tr_heap t np = Some P \<and> \<not> (child_at P nn \<noteq> None \<and> \<not> overwrite)")
    case False
    then have "mv_loop env t n old np nn overwrite = ?quiet 0 t"
      by (auto simp: mv_loop.simps node_def split: option.splits)
    then show ?thesis by (intro exI [of _ 0]) (simp add: after_def)
  next
    case True
    then obtain N P where N: "tr_heap t n = Some N" and P: "tr_heap t np = Some P"
      and go: "\<not> (child_at P nn \<noteq> None \<and> \<not> overwrite)" by auto
    show ?thesis
    proof (cases env)
      case Nil
      then have "mv_loop env t n old np nn overwrite = ?quiet 0 t"
        using N P go by (auto simp: mv_loop.simps node_def Let_def)
      then show ?thesis by (intro exI [of _ 0]) (simp add: after_def)
    next
      case (Cons e es)
      have h: "heeds {n, np} e" using 1(2) Cons by simp
      obtain N' P' where N': "tr_heap (e t) n = Some N'" and P': "tr_heap (e t) np = Some P'"
        using heedsD(1) [OF h N] heedsD(1) [OF h P] by auto
      show ?thesis
      proof (cases "n_changeCounter P' = n_changeCounter P \<and> n_changeCounter N' = n_changeCounter N")
        case True
        with heedsD(2) [OF h _ N N'] heedsD(2) [OF h _ P P']
        have "child_at N' = child_at N" "child_at P' = child_at P" by (auto simp: child_at_def fun_eq_iff)
        then have "mv_loop env t n old np nn overwrite = ?quiet 1 (e t)"
          using N N' P P' go True Cons by (auto simp: mv_loop.simps node_def Let_def)
        then show ?thesis using Cons by (intro exI [of _ 1]) (simp add: after_def)
      next
        case False
        then have "mv_loop env t n old np nn overwrite = mv_loop (tl es) (window es (e t)) n old np nn overwrite"
          using N N' P P' go Cons by (subst mv_loop.simps) (auto simp: node_def Let_def)
        moreover obtain i where i: "i \<le> length (tl es)" and "mv_loop (tl es) (window es (e t)) n old np nn overwrite
            = bind_go (mv_loop [] (after (take i (tl es)) (window es (e t))) n old np nn overwrite)
                (\<lambda>(ok, d, _, t1). Inr (ok, d, drop i (tl es), t1))"
        proof -
          have "\<forall>x. x \<in> set (tl es) \<longrightarrow> heeds {n, np} x" and "length (tl es) < length env"
            using 1(2) Cons by (auto intro: set_tl_mono)
          then show ?thesis using 1(1) that by blast
        qed
        moreover obtain j where "j \<le> length env" "drop i (tl es) = drop j env"
          "after (take i (tl es)) (window es (e t)) = after (take j env) t"
          using after_retry [OF i, of e t] Cons by blast
        ultimately show ?thesis by (intro exI [of _ j]) simp
      qed
    qed
  qed
qed

section \<open>Path\<close>

fun walk :: "'z tree_scheme \<Rightarrow> addr \<Rightarrow> string list \<Rightarrow> addr option" where
  "walk t a [] = Some a"
| "walk t a (s # ss) = (case edge t a s of None \<Rightarrow> None | Some c \<Rightarrow> walk t c ss)"

lemma walk_append: "walk t a (ss @ [s]) = (case walk t a ss of None \<Rightarrow> None | Some q \<Rightarrow> edge t q s)"
  by (induction ss arbitrary: a) (auto split: option.splits)

lemma heap_not_nil: "tree_inv t \<Longrightarrow> tr_heap t p = Some N \<Longrightarrow> p \<noteq> 0"
  unfolding tree_inv_def nodes_wf_def by (metis option.distinct(1))

lemma Parent_cases:
  assumes inv: "tree_inv t" and N: "tr_heap t p = Some N"
  shows "up_links t p = {} \<and> Parent t p = Inr ('''', 0)
    \<or> (\<exists>nm q. Parent t p = Inr (nm, q) \<and> edge t q nm = Some p \<and> q \<noteq> 0)"
proof (cases "n_parents N")
  case Nil
  then show ?thesis using N by (simp add: Parent_def node_def up_links_def)
next
  case (Cons pd pds)
  obtain nm q where pd: "pd = (nm, q)" by force
  have "(nm, q) \<in> up_links t p" using N Cons pd by (simp add: up_links_def)
  then have e: "edge t q nm = Some p" using up_links_iff [OF inv] by blast
  moreover have "q \<noteq> 0"
    using e heap_not_nil [OF inv] by (auto simp: edge_def split: option.splits)
  ultimately show ?thesis using N Cons pd by (simp add: Parent_def node_def)
qed

lemma path_segments_walk:
  assumes inv: "tree_inv t" and rank: "\<And>p nm c. edge t p nm = Some c \<Longrightarrow> rank p < (rank c :: nat)"
  shows "tr_heap t p \<noteq> None \<Longrightarrow> rank p < k \<Longrightarrow> \<exists>segs a. path_segments k t root p = Inr segs \<and>
    (a = root \<or> up_links t a = {}) \<and> walk t a (rev segs) = Some p"
proof (induction k arbitrary: p)
  case (Suc k)
  then obtain N where N: "tr_heap t p = Some N" by auto
  have p0: "p \<noteq> 0" by (rule heap_not_nil [OF inv N])
  show ?case
  proof (cases "p = root")
    case True
    then show ?thesis using p0 by auto
  next
    case False
    from Parent_cases [OF inv N] consider
        (orphan) "up_links t p = {}" "Parent t p = Inr ('''', 0)"
      | (link) nm q where "Parent t p = Inr (nm, q)" "edge t q nm = Some p" "q \<noteq> 0" by blast
    then show ?thesis
    proof cases
      case orphan
      then show ?thesis using False p0 by auto
    next
      case link
      have "tr_heap t q \<noteq> None" using link(2) by (auto simp: edge_def split: option.splits)
      moreover have "rank q < k" using rank [OF link(2)] Suc.prems(2) by simp
      ultimately obtain segs a where "path_segments k t root q = Inr segs"
        "a = root \<or> up_links t a = {}" "walk t a (rev segs) = Some q" using Suc.IH by blast
      then show ?thesis using link False p0
        by (intro exI [of _ "nm # segs"] exI [of _ a]) (simp add: walk_append)
    qed
  qed
qed simp

section \<open>A small tree\<close>

text \<open>A root directory with two files: \<^verbatim>\<open>a\<close>, which the kernel knows, and \<^verbatim>\<open>b\<close>, which nothing keeps.\<close>

definition demo_inode :: "u64 \<Rightarrow> u64 \<Rightarrow> (string, addr) gomap \<Rightarrow> (string \<times> addr) list \<Rightarrow> Inode" where
  "demo_inode ino count kids ps =
     \<lparr>n_nodeAttr = \<lparr>na_Mode = 0, na_Ino = ino, na_Gen = 0\<rparr>, n_openFiles = [], n_persistent = False,
      n_changeCounter = 0, n_lookupCount = count, n_children = kids, n_parents = ps\<rparr>"

definition demo_tree :: tree where
  "demo_tree =
     \<lparr>tr_heap = [1 \<mapsto> demo_inode 1 1 (Some [(''a'', 2), (''b'', 3)]) [],
                 2 \<mapsto> demo_inode 2 1 None [(''a'', 1)],
                 3 \<mapsto> demo_inode 3 0 None [(''b'', 1)]],
      tr_nodes = [1 \<mapsto> 1, 2 \<mapsto> 2, 3 \<mapsto> 3]\<rparr>"

lemmas demo_defs = demo_tree_def demo_inode_def

lemma demo_edge: "edge demo_tree p nm =
  (if p = 1 then (if nm = ''a'' then Some 2 else if nm = ''b'' then Some 3 else None) else None)"
  by (auto simp: edge_def demo_defs gm_get_def gm_entries_def)

lemma demo_up_links: "up_links demo_tree c = (if c = 2 then {(''a'', 1)} else if c = 3 then {(''b'', 1)} else {})"
  by (auto simp: up_links_def demo_defs)

lemma demo_inv: "tree_inv demo_tree"
  by (auto simp: tree_inv_def demo_edge demo_up_links)
     (auto simp: nodes_wf_def demo_defs gm_ok_def gm_entries_def split: if_splits)

lemma demo_dir: "is_dir demo_tree 1"
  by (simp add: is_dir_def demo_defs)

lemma demo_finite: "finite (dom (tr_heap demo_tree))"
  by (simp add: demo_defs)

section \<open>Properties\<close>

text \<open>
  C1: \<^verbatim>\<open>AddChild\<close> with a non-empty name on a directory always returns. It reports failure exactly
  when the name is taken and overwriting is off; on success the name leads to the new child, on
  failure nothing changes; every other link is as before, and children and parents still
  describe the same links.
\<close>

theorem add_child_correct:
  assumes "tree_inv t" and "name \<noteq> ''''" and "is_dir t n" and "tr_heap t ch \<noteq> None"
  shows "\<exists>ok t'. AddChild [] t n name ch overwrite = Inr (ok, t') \<and> tree_inv t' \<and> same_nodes t t'
    \<and> (ok \<longleftrightarrow> overwrite \<or> edge t n name = None)
    \<and> (\<forall>p nm. edge t' p nm = (if ok \<and> p = n \<and> nm = name then Some ch else edge t p nm))"
proof -
  from AddChild_returns [OF assms, of overwrite] obtain ok t' where
    r: "AddChild [] t n name ch overwrite = Inr (ok, t')" by auto
  show ?thesis using r AddChild_quiet [OF assms(1) r] by blast
qed

theorem add_child_correct_witness:
  "\<exists>ok t'. AddChild [] demo_tree 1 ''b'' 2 True = Inr (ok, t') \<and> tree_inv t' \<and> same_nodes demo_tree t'
    \<and> (ok \<longleftrightarrow> True \<or> edge demo_tree 1 ''b'' = None)
    \<and> (\<forall>p nm. edge t' p nm = (if ok \<and> p = 1 \<and> nm = ''b'' then Some 2 else edge demo_tree p nm))"
  by (rule add_child_correct [OF demo_inv _ demo_dir]) (simp_all add: demo_defs)

text \<open>
  C2: \<^verbatim>\<open>AddChild\<close> is linearizable: whatever other goroutines do while it holds no lock, creating
  inodes included, as long as a change of the directory's children shows in its change counter and
  no inode disappears, the outcome is that of an undisturbed call at one of the points in between.
\<close>

theorem add_child_linearizable:
  assumes "\<And>e. e \<in> set env \<Longrightarrow> heeds {n} e"
  shows "\<exists>i \<le> length env. AddChild env t n name ch overwrite
           = AddChild [] (after (take i env) t) n name ch overwrite"
proof (cases "name = ''''")
  case False
  with add_loop_linearizes [OF assms] show ?thesis by (simp add: AddChild_def)
qed (auto simp: AddChild_def)

lemma heeds_bump: "heeds S (bump q)"
  by (auto simp: heeds_def keeps_nodes_def link_simps bump_def tr_heap_upd split: if_splits)

text \<open>A window in which another goroutine creates a file of the directory.\<close>

definition demo_create :: "tree \<Rightarrow> tree" where
  "demo_create t =
     (if tr_heap t 1 = tr_heap demo_tree 1 \<and> tr_heap t 4 = None
      then bump 1 (t\<lparr>tr_heap := (tr_heap t)(4 \<mapsto> demo_inode 4 1 None [(''c'', 1)],
                                 1 \<mapsto> demo_inode 1 1 (Some [(''c'', 4), (''a'', 2), (''b'', 3)]) [])\<rparr>)
      else t)"

lemma heeds_create: "heeds S demo_create"
  unfolding heeds_def
proof (intro allI conjI ballI impI)
  fix t show "keeps_nodes t (demo_create t)"
    by (auto simp: keeps_nodes_def demo_create_def bump_def tr_heap_upd)
next
  fix t p N N'
  assume N: "tr_heap t p = Some N" "tr_heap (demo_create t) p = Some N'" and c: "n_changeCounter N' = n_changeCounter N"
  show "n_children N' = n_children N"
  proof (cases "tr_heap t 1 = tr_heap demo_tree 1 \<and> tr_heap t 4 = None \<and> p = 1")
    case True
    then have "n_changeCounter N = 0" "n_changeCounter N' = 1"
      using N by (auto simp: demo_create_def bump_def tr_heap_upd demo_defs)
    then show ?thesis using c by simp
  next
    case False
    then have "tr_heap (demo_create t) p = tr_heap t p"
      using N by (cases "tr_heap t 1 = tr_heap demo_tree 1 \<and> tr_heap t 4 = None")
        (auto simp: demo_create_def bump_def tr_heap_upd split: if_splits)
    then show ?thesis using N by simp
  qed
qed

theorem add_child_linearizable_witness:
  "\<exists>i \<le> length [demo_create, bump 2]. AddChild [demo_create, bump 2] demo_tree 1 ''b'' 2 True
           = AddChild [] (after (take i [demo_create, bump 2]) demo_tree) 1 ''b'' 2 True"
  using add_child_linearizable [of "[demo_create, bump 2]" 1 demo_tree "''b''" 2 True] heeds_bump heeds_create
  by auto

text \<open>
  C3: \<^verbatim>\<open>MvChild\<close> with a non-empty new name into a directory always returns. It refuses, changing
  nothing, exactly when the destination exists and overwriting is off. Otherwise the
  new name leads to what the old name led to, the old name leads nowhere and all other links
  stay, except that inodes nothing refers to any more, neither kernel, nor children, nor
  persistence, may lose their links.
\<close>

theorem mv_child_correct:
  assumes "tree_inv t" and "finite (dom (tr_heap t))" and "newName \<noteq> ''''" and "tr_heap t n \<noteq> None"
    and "is_dir t newParent" and "card (dom (tr_heap t)) < k"
  shows "\<exists>ok t'. MvChild k [] t n old newParent newName overwrite = Inr (ok, t') \<and> tree_inv t'
    \<and> (ok \<longleftrightarrow> overwrite \<or> edge t newParent newName = None) \<and> (\<not> ok \<longrightarrow> t' = t)
    \<and> (ok \<longrightarrow> (\<forall>q m. edge t' q m = moved t n old newParent newName q m
          \<or> edge t' q m = None \<and> (\<exists>c. moved t n old newParent newName q m = Some c \<and> dead t' c)))"
proof -
  from MvChild_returns [OF assms, of old overwrite] obtain ok t' where
    r: "MvChild k [] t n old newParent newName overwrite = Inr (ok, t')" by auto
  show ?thesis using r MvChild_quiet [OF assms(1) r] by blast
qed

theorem mv_child_correct_witness:
  "\<exists>ok t'. MvChild 4 [] demo_tree 1 ''a'' 1 ''b'' True = Inr (ok, t') \<and> tree_inv t'
    \<and> (ok \<longleftrightarrow> True \<or> edge demo_tree 1 ''b'' = None) \<and> (\<not> ok \<longrightarrow> t' = demo_tree)
    \<and> (ok \<longrightarrow> (\<forall>q m. edge t' q m = moved demo_tree 1 ''a'' 1 ''b'' q m
          \<or> edge t' q m = None \<and> (\<exists>c. moved demo_tree 1 ''a'' 1 ''b'' q m = Some c \<and> dead t' c)))"
proof (rule mv_child_correct [OF demo_inv demo_finite _ _ demo_dir])
  show "card (dom (tr_heap demo_tree)) < 4" by (simp add: demo_defs)
qed (simp_all add: demo_defs)

text \<open>What a window between the sections of a move may do to the tree as a whole.\<close>

definition keeps_tree :: "('z tree_scheme \<Rightarrow> 'z tree_scheme) \<Rightarrow> bool" where
  "keeps_tree e \<longleftrightarrow> (\<forall>t. tree_inv t \<longrightarrow> tree_inv (e t)) \<and> (\<forall>t p. is_dir t p \<longrightarrow> is_dir (e t) p)"

lemma after_keeps:
  assumes "\<And>e. e \<in> set env \<Longrightarrow> heeds S e \<and> keeps_tree e"
  shows "(tree_inv t \<longrightarrow> tree_inv (after env t)) \<and> (is_dir t p \<longrightarrow> is_dir (after env t) p)
    \<and> (tr_heap t p \<noteq> None \<longrightarrow> tr_heap (after env t) p \<noteq> None)"
  using assms
proof (induction env arbitrary: t)
  case (Cons e env)
  then have "keeps_tree e" and "keeps_nodes t (e t)" by (auto simp: heeds_def)
  then show ?case using Cons(1) [of "e t"] Cons(2) by (simp add: keeps_tree_def keeps_nodes_def)
qed (simp add: after_def)

text \<open>
  C4: \<^verbatim>\<open>MvChild\<close> changes the links at one point in time. Let other goroutines do whatever they like
  while it holds no lock, as long as a change of the children of the two directories shows in their
  change counters, no inode disappears, directories stay directories and children and parents keep
  describing the same links. Then there is a point at which \<^verbatim>\<open>MvChild\<close> either refuses, because
  the destination exists and overwriting is off, or makes exactly the move: the new name leads to
  what the old name led to at that point, the old name leads nowhere, all other links and all
  reference counts are as at that point. Without a replaced child this is the outcome; otherwise,
  after another window without locks, \<^verbatim>\<open>removeRef\<close> is called once on the replaced child, with the
  windows that remain.
\<close>

theorem mv_child_linearizable:
  assumes "tree_inv t" and "newName \<noteq> ''''" and "tr_heap t n \<noteq> None" and "is_dir t newParent"
    and env: "\<And>e. e \<in> set env \<Longrightarrow> heeds {n, newParent} e \<and> keeps_tree e"
  shows "\<exists>i \<le> length env. \<exists>s. s = after (take i env) t \<and>
    (if edge s newParent newName \<noteq> None \<and> \<not> overwrite
     then MvChild k env t n old newParent newName overwrite = Inr (False, s)
     else (\<exists>t1. tree_inv t1 \<and> (\<forall>q m. edge t1 q m = moved s n old newParent newName q m) \<and> (\<forall>c. refs t1 c = refs s c)
       \<and> MvChild k env t n old newParent newName overwrite
         = (case edge s newParent newName of
              None \<Rightarrow> Inr (True, t1)
            | Some d \<Rightarrow> bind_go (removeRef k (drop (Suc i) env) (window (drop i env) t1) d 0 False)
                         (\<lambda>(f, l, _, t2). Inr (True, t2)))))"
proof -
  obtain i where i: "i \<le> length env" and m: "mv_loop env t n old newParent newName overwrite
     = bind_go (mv_loop [] (after (take i env) t) n old newParent newName overwrite)
         (\<lambda>(ok, d, _, t1). Inr (ok, d, drop i env, t1))"
    using mv_loop_linearizes [of env n newParent t old newName overwrite] env by blast
  let ?s = "after (take i env) t"
  have e: "e \<in> set (take i env) \<Longrightarrow> heeds {n, newParent} e \<and> keeps_tree e" for e
    using env by (meson in_set_takeD)
  note K = after_keeps [OF e]
  have inv: "tree_inv ?s" and d: "is_dir ?s newParent" using K assms by blast+
  obtain N where N: "tr_heap ?s n = Some N" using K [where p = n] assms(3) by blast
  obtain P where P: "tr_heap ?s newParent = Some P" using is_dir_heap [OF d] by auto
  obtain t1 where t1: "move_section ?s n old newParent newName = Inr t1"
    using move_returns [OF inv d] unfolding move_section_def by blast
  note M = move_links [OF inv t1 [unfolded move_section_def]]
  note Q = mv_loop_quiet [OF inv N P, of old newName overwrite]
  show ?thesis
  proof (cases "edge ?s newParent newName \<noteq> None \<and> \<not> overwrite")
    case True
    then have "mv_loop env t n old newParent newName overwrite = Inr (False, None, drop i env, ?s)"
      unfolding m Q by simp
    then have "MvChild k env t n old newParent newName overwrite = Inr (False, ?s)"
      using assms(2) by (simp add: MvChild_def)
    then show ?thesis using i True by (intro exI [of _ i]) simp
  next
    case False
    then have "mv_loop env t n old newParent newName overwrite = Inr (True, edge ?s newParent newName, drop i env, t1)"
      unfolding m Q by (simp only: if_False t1 bind_go.simps prod.case)
    then have "MvChild k env t n old newParent newName overwrite
         = (case edge ?s newParent newName of
              None \<Rightarrow> Inr (True, t1)
            | Some d \<Rightarrow> bind_go (removeRef k (drop (Suc i) env) (window (drop i env) t1) d 0 False)
                         (\<lambda>(f, l, _, t2). Inr (True, t2)))"
      using assms(2) by (simp add: MvChild_def drop_Suc tl_drop split: option.split)
    then show ?thesis using i False M by (intro exI [of _ i]) auto
  qed
qed

lemma keeps_bump: "keeps_tree (bump q)"
  by (simp add: keeps_tree_def link_simps)

theorem mv_child_linearizable_witness:
  "\<exists>i \<le> length [bump 1, bump 2 :: tree \<Rightarrow> tree]. \<exists>s. s = after (take i [bump 1, bump 2]) demo_tree \<and>
    (if edge s 1 ''b'' \<noteq> None \<and> \<not> True
     then MvChild 4 [bump 1, bump 2] demo_tree 1 ''a'' 1 ''b'' True = Inr (False, s)
     else (\<exists>t1. tree_inv t1 \<and> (\<forall>q m. edge t1 q m = moved s 1 ''a'' 1 ''b'' q m) \<and> (\<forall>c. refs t1 c = refs s c)
       \<and> MvChild 4 [bump 1, bump 2] demo_tree 1 ''a'' 1 ''b'' True
         = (case edge s 1 ''b'' of
              None \<Rightarrow> Inr (True, t1)
            | Some d \<Rightarrow> bind_go (removeRef 4 (drop (Suc i) [bump 1, bump 2]) (window (drop i [bump 1, bump 2]) t1) d 0 False)
                         (\<lambda>(f, l, _, t2). Inr (True, t2)))))"
proof (rule mv_child_linearizable [OF demo_inv _ _ demo_dir])
  show "heeds {1, 1} e \<and> keeps_tree e" if "e \<in> set [bump 1, bump 2]" for e :: "tree \<Rightarrow> tree"
    using that heeds_bump keeps_bump by auto
qed (simp_all add: demo_defs)

text \<open>
  C5: \<^verbatim>\<open>removeRef\<close>, called with kernel references to drop or with persistence to drop but not both and
  not disturbed by other goroutines, always returns. Children and parents still agree, the reference counts are those after the drop,
  a link is lost only when nothing keeps its child (no kernel reference, no child, no
  persistence), and when the inode itself is reported dead no link leads to it any more.
\<close>

theorem remove_ref_correct:
  assumes inv: "tree_inv t" and fin: "finite (dom (tr_heap t))" and n: "tr_heap t n \<noteq> None"
    and k: "card (dom (tr_heap t)) < k" and one: "\<not> (0 < nlookup \<and> dropPersistence)"
  shows "\<exists>forgotten live t0 t'. removeRef k [] t n nlookup dropPersistence = Inr (forgotten, live, [], t')
    \<and> drop_refs n nlookup dropPersistence t = Inr t0 \<and> tree_inv t' \<and> (\<forall>c. refs t' c = refs t0 c)
    \<and> (\<forall>p nm c. edge t p nm = Some c \<longrightarrow> edge t' p nm = Some c \<or> edge t' p nm = None \<and> dead t' c)
    \<and> (if live then t' = t0 else dead t' n \<and> (\<forall>p nm. edge t' p nm \<noteq> Some n))"
proof -
  have "card (linked t) \<le> card (dom (tr_heap t))" using fin linked_dom by (rule card_mono)
  with removeRef_returns(1) [OF inv fin n _ one, of k] k obtain f l t' where
    r: "removeRef_alone k t n nlookup dropPersistence = Inr (f, l, t')" by auto
  obtain t0 where d: "drop_refs n nlookup dropPersistence t = Inr t0" using drop_refs_returns [OF n one] by auto
  note D = drop_refs_links [OF d]
  have i0: "tree_inv t0" using D(4) inv by simp
  from removeRef_shrinks(1) [OF r d i0] have s: "shrinks t0 t'" and i': "tree_inv t'"
    and live: "if l then t' = t0 else dead t' n \<and> up_links t' n = {}" by auto
  have lost: "edge t' p nm = Some c \<or> edge t' p nm = None \<and> dead t' c" if "edge t p nm = Some c" for p nm c
    using shrinksD(3) [OF s, of p nm] shrinksD(5) [OF s, of p nm c] that D(1) by auto
  have "if l then t' = t0 else dead t' n \<and> (\<forall>p nm. edge t' p nm \<noteq> Some n)"
    using live tree_invD(2) [OF i'] by (auto split: if_splits)
  with r d i' shrinksD(2) [OF s] lost show ?thesis by (intro exI conjI) (auto simp: removeRef_quiet)
qed

theorem remove_ref_correct_witness:
  "\<exists>forgotten live t0 t'. removeRef 4 [] demo_tree 2 1 False = Inr (forgotten, live, [], t')
    \<and> drop_refs 2 1 False demo_tree = Inr t0 \<and> tree_inv t' \<and> (\<forall>c. refs t' c = refs t0 c)
    \<and> (\<forall>p nm c. edge demo_tree p nm = Some c \<longrightarrow> edge t' p nm = Some c \<or> edge t' p nm = None \<and> dead t' c)
    \<and> (if live then t' = t0 else dead t' 2 \<and> (\<forall>p nm. edge t' p nm \<noteq> Some 2))"
proof (rule remove_ref_correct [OF demo_inv demo_finite])
  show "card (dom (tr_heap demo_tree)) < 4" by (simp add: demo_defs)
qed (simp_all add: demo_defs)

text \<open>
  C12: \<^verbatim>\<open>Path\<close> returns on a tree without cycles, and walking down the names it joined leads from the
  root, or from an inode without parents when the inode is cut off, back to the inode.
\<close>

theorem path_correct:
  assumes "tree_inv t" and "\<And>p nm c. edge t p nm = Some c \<Longrightarrow> rank p < (rank c :: nat)"
    and "tr_heap t n \<noteq> None" and "rank n < k"
  shows "\<exists>segs a. Path k t n root = Inr (join_segments segs) \<and> (a = root \<or> up_links t a = {})
    \<and> walk t a segs = Some n"
proof -
  from path_segments_walk [OF assms(1), where root = root and k = k and p = n and rank = rank] assms(2-4)
  obtain segs a where "path_segments k t root n = Inr segs"
    "a = root \<or> up_links t a = {}" "walk t a (rev segs) = Some n" by blast
  then show ?thesis by (intro exI [of _ "rev segs"] exI [of _ a]) (simp add: Path_def)
qed

theorem path_correct_witness:
  "\<exists>segs a. Path 3 demo_tree 2 1 = Inr (join_segments segs) \<and> (a = 1 \<or> up_links demo_tree a = {})
    \<and> walk demo_tree a segs = Some 2"
proof (rule path_correct [OF demo_inv, where rank = "\<lambda>p. if p = 1 then 0 else 1"])
  fix p nm c assume "edge demo_tree p nm = Some c"
  then show "(if p = 1 then 0 else 1 :: nat) < (if c = 1 then 0 else 1)"
    by (auto simp: demo_edge split: if_splits)
qed (simp_all add: demo_defs)

section \<open>Two operations that break the links\<close>

text \<open>
  \<^verbatim>\<open>RmChild\<close> removes the name from the directory but leaves the directory among the parents of
  the child.
\<close>

lemma RmChild_stale_parent:
  "\<exists>t'. RmChild 4 [] demo_tree 1 [''a''] = Inr (True, True, t') \<and> edge t' 1 ''a'' = None
     \<and> (''a'', 1) \<in> up_links t' 2 \<and> \<not> tree_inv t'"
proof -
  define t' where "t' = bump 1 (bump 2 (delChild 1 ''a'' demo_tree))"
  have "RmChild 4 [] demo_tree 1 [''a''] = Inr (True, True, t')"
    by (simp add: RmChild_def t'_def node_def GetChild_def demo_defs child_at_def gm_get_def gm_entries_def
        bump_def delChild_def upd_def live_node_def)
  moreover have "edge t' 1 ''a'' = None" and u: "(''a'', 1) \<in> up_links t' 2"
    by (simp_all add: t'_def link_simps demo_edge demo_up_links)
  ultimately show ?thesis using up_links_iff [of t' "''a''" 1 2] by auto
qed

text \<open>
  \<^verbatim>\<open>ExchangeChild\<close> of two files: the old name still leads to the old child afterwards, so both
  names lead to it.
\<close>

lemma ExchangeChild_no_swap:
  "\<exists>t'. ExchangeChild [] demo_tree 1 ''a'' 1 ''b'' = Inr t' \<and> edge t' 1 ''a'' = Some 2
     \<and> edge t' 1 ''b'' = Some 2 \<and> \<not> tree_inv t'"
proof -
  have ca: "child_at (demo_inode 1 1 (Some [(''a'', 2), (''b'', 3)]) []) ''a'' = Some 2"
    "child_at (demo_inode 1 1 (Some [(''a'', 2), (''b'', 3)]) []) ''b'' = Some 3"
    by (simp_all add: child_at_def demo_inode_def gm_get_def gm_entries_def)
  have n1: "node demo_tree 1 = Inr (demo_inode 1 1 (Some [(''a'', 2), (''b'', 3)]) [])"
    by (simp add: node_def demo_tree_def)
  let ?d = "detach 1 ''b'' (Some 3) (detach 1 ''a'' (Some 2) demo_tree)"
  have "is_dir ?d 1" using demo_dir by (simp add: detach_def link_simps)
  from setChild_returns [OF this] obtain t0 where t0: "setChild 1 ''b'' 2 ?d = Inr t0" by blast
  let ?t1 = "bump 2 (addParent 2 (''b'', 1) (bump 1 t0))"
  have dir0: "is_dir ?t1 1"
    using is_dir_setChild [OF t0] by (simp add: link_simps)
  from setChild_returns [OF this] obtain t2 where t2: "setChild 1 ''a'' 2 ?t1 = Inr t2" by blast
  let ?t' = "bump 3 (addParent 3 (''a'', 1) (bump 1 t2))"
  have "ExchangeChild [] demo_tree 1 ''a'' 1 ''b'' = Inr ?t'"
    using t0 t2 by (simp add: ExchangeChild_def exchange_loop.simps n1 ca attach_def del: One_nat_def)
  moreover have "edge ?t' 1 ''a'' = Some 2" "edge ?t' 1 ''b'' = Some 2"
    by (simp_all add: link_simps setChild_Inr(1) [OF t2] setChild_Inr(1) [OF t0])
  moreover have "(''a'', 1) \<notin> up_links ?t' 2"
    by (simp add: link_simps setChild_Inr(2) [OF t2] setChild_Inr(2) [OF t0] detach_def)
  ultimately show ?thesis using up_links_iff [of ?t' "''a''" 1 2] by blast
qed

end
