(* ===== verification/NodeLocks.thy ===== *)
theory NodeLocks
  imports NodeTreeProps "HOL-Library.Multiset"
begin

text \<open>
  The order in which \<^verbatim>\<open>lockNodes\<close> and \<^verbatim>\<open>lockNode2\<close> of \<^verbatim>\<open>nodefs/inode.go\<close> acquire inode mutexes,
  and why goroutines that lock inodes only through them never block each other forever. A
  goroutine has a list of requests; it acquires the mutexes of a request one by one, then
  releases them and goes on to the next.
\<close>

section \<open>The order of one request\<close>

lemma lock_loop_sorted:
  "sorted ns \<Longrightarrow> \<forall>x\<in>set ns. a \<le> x \<Longrightarrow> sorted_wrt (<) (lock_loop a ns) \<and> (\<forall>x\<in>set (lock_loop a ns). a < x)"
proof (induction a ns rule: lock_loop.induct)
  case (2 nprev n ns)
  show ?case
  proof (cases "n = nprev")
    case True
    with 2 show ?thesis by simp
  next
    case False
    with 2 have "sorted_wrt (<) (lock_loop n ns) \<and> (\<forall>x\<in>set (lock_loop n ns). n < x)" by simp
    moreover have "nprev < n" using 2(4) False by (simp add: order.not_eq_order_implies_strict)
    ultimately show ?thesis using False by (auto dest: less_trans)
  qed
qed simp

lemma set_lock_loop: "sorted ns \<Longrightarrow> \<forall>x\<in>set ns. a \<le> x \<Longrightarrow> set (lock_loop a ns) = set ns - {a}"
proof (induction a ns rule: lock_loop.induct)
  case (2 nprev n ns)
  show ?case
  proof (cases "n = nprev")
    case True
    with 2 show ?thesis by auto
  next
    case False
    with 2 have "set (lock_loop n ns) = set ns - {n}" by simp
    moreover have "nprev \<notin> set ns" using 2(3,4) False by force
    ultimately show ?thesis using False by auto
  qed
qed simp

lemma lockNodes_ascending: "sorted_wrt (<) (lockNodes ns)"
  using lock_loop_sorted [of "sort ns" 0] by (simp add: lockNodes_def sortNodes_def)

lemma lockNodes_set: "set (lockNodes ns) = set ns - {0}"
  using set_lock_loop [of "sort ns" 0] by (simp add: lockNodes_def sortNodes_def)

lemma lockNode2_ascending: "sorted_wrt (<) (lockNode2 a b)"
  by (auto simp: lockNode2_def nodeLess_def)

section \<open>Goroutines that lock\<close>

datatype request = Group "addr list" | Pair addr addr

fun lock_order :: "request \<Rightarrow> addr list" where
  "lock_order (Group ns) = lockNodes ns"
| "lock_order (Pair a b) = lockNode2 a b"

lemma lock_order_ascending: "sorted_wrt (<) (lock_order r)"
  by (cases r) (simp_all add: lockNodes_ascending lockNode2_ascending)

record gostate =
  g_prog :: "request list"
  g_want :: "addr list"
  g_held :: "addr list"

type_synonym threads = "gostate list"

text \<open>The goroutines of a program, by index; a mutex is free when no goroutine holds it.\<close>

definition mutex_free :: "threads \<Rightarrow> addr \<Rightarrow> bool" where
  "mutex_free s a \<longleftrightarrow> (\<forall>g\<in>set s. a \<notin> set (g_held g))"

inductive lock_step :: "threads \<Rightarrow> threads \<Rightarrow> bool" where
  enter: "i < length s \<Longrightarrow> g_prog (s ! i) = r # rs \<Longrightarrow> g_want (s ! i) = [] \<Longrightarrow> g_held (s ! i) = [] \<Longrightarrow>
    lock_step s (s[i := (s ! i)\<lparr>g_prog := rs, g_want := lock_order r\<rparr>])"
| acquire: "i < length s \<Longrightarrow> g_want (s ! i) = a # w \<Longrightarrow> mutex_free s a \<Longrightarrow>
    lock_step s (s[i := (s ! i)\<lparr>g_want := w, g_held := g_held (s ! i) @ [a]\<rparr>])"
| leave: "i < length s \<Longrightarrow> g_want (s ! i) = [] \<Longrightarrow> g_held (s ! i) \<noteq> [] \<Longrightarrow>
    lock_step s (s[i := (s ! i)\<lparr>g_held := []\<rparr>])"

inductive_cases lock_stepE: "lock_step s s'"

definition go_start :: "request list list \<Rightarrow> threads" where
  "go_start progs = map (\<lambda>p. \<lparr>g_prog = p, g_want = [], g_held = []\<rparr>) progs"

definition go_ended :: "threads \<Rightarrow> bool" where
  "go_ended s \<longleftrightarrow> (\<forall>g\<in>set s. g_prog g = [] \<and> g_want g = [] \<and> g_held g = [])"

definition ordered :: "threads \<Rightarrow> bool" where
  "ordered s \<longleftrightarrow> (\<forall>g\<in>set s. sorted_wrt (<) (g_held g @ g_want g))"

definition exclusive :: "threads \<Rightarrow> bool" where
  "exclusive s \<longleftrightarrow> (\<forall>i < length s. \<forall>j < length s. i \<noteq> j \<longrightarrow> set (g_held (s ! i)) \<inter> set (g_held (s ! j)) = {})"

lemma ordered_update:
  "ordered s \<Longrightarrow> sorted_wrt (<) (g_held g @ g_want g) \<Longrightarrow> ordered (s[i := g])"
  using set_update_subset_insert [of s i g] by (auto simp: ordered_def)

lemma lock_step_ordered: "lock_step s s' \<Longrightarrow> ordered s \<Longrightarrow> ordered s'"
proof (induction rule: lock_step.induct)
  case (acquire i s a w)
  then have "sorted_wrt (<) (g_held (s ! i) @ g_want (s ! i))"
    unfolding ordered_def by (metis nth_mem)
  with acquire show ?case by (intro ordered_update) simp_all
qed (auto intro!: ordered_update simp: lock_order_ascending)

lemma lock_step_exclusive: "lock_step s s' \<Longrightarrow> exclusive s \<Longrightarrow> exclusive s'"
proof (induction rule: lock_step.induct)
  case (acquire i s a w)
  then have "a \<notin> set (g_held (s ! j))" if "j < length s" for j
    using that by (auto simp: mutex_free_def)
  with acquire show ?case by (auto simp: exclusive_def nth_list_update)
qed (auto simp: exclusive_def nth_list_update)

lemma go_start_ok: "ordered (go_start progs)" "exclusive (go_start progs)"
  by (auto simp: ordered_def exclusive_def go_start_def)

lemma reachable_ok:
  assumes "lock_step\<^sup>*\<^sup>* (go_start progs) s"
  shows "ordered s" and "exclusive s"
  using assms by (induction rule: rtranclp_induct) (auto simp: go_start_ok lock_step_ordered lock_step_exclusive)

text \<open>A goroutine that waits for the highest mutex can always go on, or its holder can.\<close>

lemma lock_progress:
  assumes ord: "ordered s" and stuck: "\<not> (\<exists>s'. lock_step s s')"
  shows "go_ended s"
proof -
  have no_enter: "g_prog (s ! i) = [] \<or> g_want (s ! i) \<noteq> [] \<or> g_held (s ! i) \<noteq> []" if "i < length s" for i
    using stuck enter [OF that] by (metis neq_Nil_conv)
  have no_leave: "g_want (s ! i) \<noteq> [] \<or> g_held (s ! i) = []" if "i < length s" for i
    using stuck leave [OF that] by blast
  define W where "W = {g \<in> set s. g_want g \<noteq> []}"
  have "W = {}"
  proof (rule ccontr)
    assume "W \<noteq> {}"
    define m where "m = Max ((\<lambda>g. hd (g_want g)) ` W)"
    have fin: "finite W" by (simp add: W_def)
    then have "m \<in> (\<lambda>g. hd (g_want g)) ` W" unfolding m_def using \<open>W \<noteq> {}\<close> by (intro Max_in) auto
    then obtain i w where i: "i < length s" and w: "g_want (s ! i) = m # w"
      by (auto simp: W_def in_set_conv_nth) (metis list.collapse)
    from stuck acquire [OF i w] have "\<not> mutex_free s m" by blast
    then obtain j where j: "j < length s" and h: "m \<in> set (g_held (s ! j))"
      unfolding mutex_free_def by (metis in_set_conv_nth)
    with no_leave [OF j] obtain b w' where b: "g_want (s ! j) = b # w'" by (cases "g_want (s ! j)") auto
    have "sorted_wrt (<) (g_held (s ! j) @ g_want (s ! j))" using ord j unfolding ordered_def by (metis nth_mem)
    then have "m < b" using h b by (auto simp: sorted_wrt_append)
    moreover have "b \<le> m" unfolding m_def using fin j b
      by (intro Max_ge) (auto simp: W_def image_iff intro!: bexI [of _ "s ! j"])
    ultimately show False by simp
  qed
  then have "g_want (s ! i) = []" if "i < length s" for i using that by (auto simp: W_def)
  with no_enter no_leave show ?thesis by (auto simp: go_ended_def in_set_conv_nth)
qed

text \<open>Every step uses up work, so no run is infinite.\<close>

fun go_work :: "gostate \<Rightarrow> nat" where
  "go_work g = sum_list (map (\<lambda>r. 3 + 2 * length (lock_order r)) (g_prog g)) + 2 * length (g_want g)
     + length (g_held g) + (if g_want g = [] \<and> g_held g = [] then 0 else 1)"

definition total_work :: "threads \<Rightarrow> nat" where
  "total_work s = sum_list (map go_work s)"

lemma total_work_update:
  assumes "i < length s" and "go_work g < go_work (s ! i)"
  shows "total_work (s[i := g]) < total_work s"
  using assms
proof (induction s arbitrary: i)
  case (Cons h s)
  then show ?case by (cases i) (simp_all add: total_work_def del: go_work.simps)
qed simp

lemma lock_step_work: "lock_step s s' \<Longrightarrow> total_work s' < total_work s"
  by (induction rule: lock_step.induct) (rule total_work_update; simp)+

lemma lock_run_bound:
  "(\<forall>i<n. lock_step (run i) (run (Suc i))) \<Longrightarrow> n + total_work (run n) \<le> total_work (run 0)"
proof (induction n)
  case (Suc n)
  then have "n + total_work (run n) \<le> total_work (run 0)" and "lock_step (run n) (run (Suc n))" by auto
  with lock_step_work [of "run n" "run (Suc n)"] show ?case by simp
qed simp

section \<open>Properties\<close>

text \<open>
  \<^verbatim>\<open>lockNodes\<close> locks every inode of the group except nil exactly once, in ascending order, and
  \<^verbatim>\<open>unlockNodes\<close> releases the same; \<^verbatim>\<open>lockNode2\<close> locks its two inodes in the same order and
  \<^verbatim>\<open>unlockNode2\<close> releases them.
\<close>

theorem lock_order_correct:
  "set (lockNodes ns) = set ns - {0} \<and> sorted_wrt (<) (lockNodes ns) \<and> distinct (lockNodes ns)
   \<and> unlockNodes ns = lockNodes ns
   \<and> set (lockNode2 a b) = {a, b} \<and> sorted_wrt (<) (lockNode2 a b) \<and> distinct (lockNode2 a b)
   \<and> mset (unlockNode2 a b) = mset (lockNode2 a b)"
proof -
  have "distinct xs" if "sorted_wrt (<) xs" for xs :: "addr list"
    using that by (simp add: strict_sorted_iff)
  moreover have "unlockNodes ns = lockNodes ns" by (simp add: unlockNodes_def lockNodes_def)
  moreover have "set (lockNode2 a b) = {a, b}" "mset (unlockNode2 a b) = mset (lockNode2 a b)"
    by (auto simp: lockNode2_def unlockNode2_def)
  ultimately show ?thesis
    using lockNodes_ascending [of ns] lockNode2_ascending [of a b] by (simp add: lockNodes_set)
qed

text \<open>
  C6: goroutines that lock inodes only through \<^verbatim>\<open>lockNodes\<close> and \<^verbatim>\<open>lockNode2\<close>, one request at a
  time, never deadlock. In every state they can reach no mutex is held twice, some goroutine
  can go on unless all have finished, and no run is longer than the work there is.
\<close>

theorem locks_deadlock_free:
  assumes "lock_step\<^sup>*\<^sup>* (go_start progs) s"
  shows "exclusive s \<and> (go_ended s \<or> (\<exists>s'. lock_step s s'))
    \<and> (\<forall>run n. run 0 = s \<and> (\<forall>i<n. lock_step (run i) (run (Suc i))) \<longrightarrow> n \<le> total_work s)"
  using reachable_ok [OF assms] lock_progress [of s] lock_run_bound add_leD1 by metis

theorem locks_deadlock_free_witness:
  "exclusive (go_start [[Pair 2 1], [Group [1, 0, 2, 1]]])
    \<and> (\<exists>s'. lock_step (go_start [[Pair 2 1], [Group [1, 0, 2, 1]]]) s')"
  using locks_deadlock_free [OF rtranclp.rtrancl_refl, of "[[Pair 2 1], [Group [1, 0, 2, 1]]]"]
  by (simp add: go_ended_def go_start_def)

end
