(* ===== verification/OpcodeTable.thy ===== *)
theory OpcodeTable
  imports Layout FuseTypes
begin

text \<open>
  The opcodes of the protocol and the table of their handlers that \<^verbatim>\<open>init\<close> of \<^verbatim>\<open>fuse/opcode.go\<close>
  builds. A handler function is named by a constructor; \<^verbatim>\<open>Opcode\<close> gives it its meaning. The
  properties are the consistency of the table: the input and output sizes are those of the
  structs the functions use, and every reply fits the output buffer.
\<close>

section \<open>Opcodes\<close>

definition OP_LOOKUP :: nat where "OP_LOOKUP = 1"
definition OP_FORGET :: nat where "OP_FORGET = 2"
definition OP_GETATTR :: nat where "OP_GETATTR = 3"
definition OP_SETATTR :: nat where "OP_SETATTR = 4"
definition OP_READLINK :: nat where "OP_READLINK = 5"
definition OP_SYMLINK :: nat where "OP_SYMLINK = 6"
definition OP_MKNOD :: nat where "OP_MKNOD = 8"
definition OP_MKDIR :: nat where "OP_MKDIR = 9"
definition OP_UNLINK :: nat where "OP_UNLINK = 10"
definition OP_RMDIR :: nat where "OP_RMDIR = 11"
definition OP_RENAME :: nat where "OP_RENAME = 12"
definition OP_LINK :: nat where "OP_LINK = 13"
definition OP_OPEN :: nat where "OP_OPEN = 14"
definition OP_READ :: nat where "OP_READ = 15"
definition OP_WRITE :: nat where "OP_WRITE = 16"
definition OP_STATFS :: nat where "OP_STATFS = 17"
definition OP_RELEASE :: nat where "OP_RELEASE = 18"
definition OP_FSYNC :: nat where "OP_FSYNC = 20"
definition OP_SETXATTR :: nat where "OP_SETXATTR = 21"
definition OP_GETXATTR :: nat where "OP_GETXATTR = 22"
definition OP_LISTXATTR :: nat where "OP_LISTXATTR = 23"
definition OP_REMOVEXATTR :: nat where "OP_REMOVEXATTR = 24"
definition OP_FLUSH :: nat where "OP_FLUSH = 25"
definition OP_INIT :: nat where "OP_INIT = 26"
definition OP_OPENDIR :: nat where "OP_OPENDIR = 27"
definition OP_READDIR :: nat where "OP_READDIR = 28"
definition OP_RELEASEDIR :: nat where "OP_RELEASEDIR = 29"
definition OP_FSYNCDIR :: nat where "OP_FSYNCDIR = 30"
definition OP_GETLK :: nat where "OP_GETLK = 31"
definition OP_SETLK :: nat where "OP_SETLK = 32"
definition OP_SETLKW :: nat where "OP_SETLKW = 33"
definition OP_ACCESS :: nat where "OP_ACCESS = 34"
definition OP_CREATE :: nat where "OP_CREATE = 35"
definition OP_INTERRUPT :: nat where "OP_INTERRUPT = 36"
definition OP_BMAP :: nat where "OP_BMAP = 37"
definition OP_DESTROY :: nat where "OP_DESTROY = 38"
definition OP_IOCTL :: nat where "OP_IOCTL = 39"
definition OP_POLL :: nat where "OP_POLL = 40"
definition OP_NOTIFY_REPLY :: nat where "OP_NOTIFY_REPLY = 41"
definition OP_BATCH_FORGET :: nat where "OP_BATCH_FORGET = 42"
definition OP_FALLOCATE :: nat where "OP_FALLOCATE = 43"
definition OP_READDIRPLUS :: nat where "OP_READDIRPLUS = 44"
definition OP_RENAME2 :: nat where "OP_RENAME2 = 45"
definition OP_LSEEK :: nat where "OP_LSEEK = 46"
definition OP_COPY_FILE_RANGE :: nat where "OP_COPY_FILE_RANGE = 47"
definition OP_NOTIFY_INVAL_ENTRY :: nat where "OP_NOTIFY_INVAL_ENTRY = 100"
definition OP_NOTIFY_INVAL_INODE :: nat where "OP_NOTIFY_INVAL_INODE = 101"
definition OP_NOTIFY_STORE_CACHE :: nat where "OP_NOTIFY_STORE_CACHE = 102"
definition OP_NOTIFY_RETRIEVE_CACHE :: nat where "OP_NOTIFY_RETRIEVE_CACHE = 103"
definition OP_NOTIFY_DELETE :: nat where "OP_NOTIFY_DELETE = 104"

definition OPCODE_COUNT :: nat where "OPCODE_COUNT = 105"

lemmas op_defs = OP_LOOKUP_def OP_FORGET_def OP_GETATTR_def OP_SETATTR_def OP_READLINK_def
  OP_SYMLINK_def OP_MKNOD_def OP_MKDIR_def OP_UNLINK_def OP_RMDIR_def OP_RENAME_def OP_LINK_def
  OP_OPEN_def OP_READ_def OP_WRITE_def OP_STATFS_def OP_RELEASE_def OP_FSYNC_def OP_SETXATTR_def
  OP_GETXATTR_def OP_LISTXATTR_def OP_REMOVEXATTR_def OP_FLUSH_def OP_INIT_def OP_OPENDIR_def
  OP_READDIR_def OP_RELEASEDIR_def OP_FSYNCDIR_def OP_GETLK_def OP_SETLK_def OP_SETLKW_def
  OP_ACCESS_def OP_CREATE_def OP_INTERRUPT_def OP_BMAP_def OP_DESTROY_def OP_IOCTL_def OP_POLL_def
  OP_NOTIFY_REPLY_def OP_BATCH_FORGET_def OP_FALLOCATE_def OP_READDIRPLUS_def OP_RENAME2_def
  OP_LSEEK_def OP_COPY_FILE_RANGE_def OP_NOTIFY_INVAL_ENTRY_def OP_NOTIFY_INVAL_INODE_def
  OP_NOTIFY_STORE_CACHE_def OP_NOTIFY_RETRIEVE_CACHE_def OP_NOTIFY_DELETE_def

section \<open>The table\<close>

datatype opfunc =
    DoOpen | DoReadDir | DoWrite | DoOpenDir | DoCreate | DoSetattr | DoGetXAttr | DoGetAttr
  | DoForget | DoBatchForget | DoReadlink | DoInit | DoLookup | DoMknod | DoMkdir | DoUnlink
  | DoRmdir | DoLink | DoRead | DoFlush | DoRelease | DoFsync | DoReleaseDir | DoFsyncDir
  | DoSetXAttr | DoRemoveXAttr | DoGetLk | DoSetLk | DoSetLkw | DoAccess | DoSymlink | DoRename
  | DoStatFs | DoIoctl | DoDestroy | DoNotifyReply | DoFallocate | DoReadDirPlus | DoRename2 | DoInterrupt
  | DoCopyFileRange | DoLseek

record operationHandler =
  h_Name :: string
  h_Func :: "opfunc option"
  h_InputSize :: nat
  h_OutputSize :: nat
  h_FileNames :: nat
  h_FileNameOut :: bool

definition digit_char :: "nat \<Rightarrow> char" where
  "digit_char d = char_of (48 + d)"

fun decimal :: "nat \<Rightarrow> string" where
  "decimal n = (if n < 10 then [digit_char n] else decimal (n div 10) @ [digit_char (n mod 10)])"

declare decimal.simps [simp del]

definition input_sizes :: "(nat \<times> nat) list" where
  "input_sizes =
    [(OP_FORGET, sizeof ForgetIn_layout), (OP_BATCH_FORGET, sizeof BatchForgetIn_layout),
     (OP_GETATTR, sizeof GetAttrIn_layout), (OP_SETATTR, sizeof SetAttrIn_layout),
     (OP_MKNOD, sizeof MknodIn_layout), (OP_MKDIR, sizeof MkdirIn_layout),
     (OP_RENAME, sizeof Rename1In_layout), (OP_LINK, sizeof LinkIn_layout),
     (OP_OPEN, sizeof OpenIn_layout), (OP_READ, sizeof ReadIn_layout),
     (OP_WRITE, sizeof WriteIn_layout), (OP_RELEASE, sizeof ReleaseIn_layout),
     (OP_FSYNC, sizeof FsyncIn_layout), (OP_SETXATTR, sizeof SetXAttrIn_layout),
     (OP_GETXATTR, sizeof GetXAttrIn_layout), (OP_LISTXATTR, sizeof GetXAttrIn_layout),
     (OP_FLUSH, sizeof FlushIn_layout), (OP_INIT, sizeof InitIn_layout),
     (OP_OPENDIR, sizeof OpenIn_layout), (OP_READDIR, sizeof ReadIn_layout),
     (OP_RELEASEDIR, sizeof ReleaseIn_layout), (OP_FSYNCDIR, sizeof FsyncIn_layout),
     (OP_GETLK, sizeof LkIn_layout), (OP_SETLK, sizeof LkIn_layout), (OP_SETLKW, sizeof LkIn_layout),
     (OP_ACCESS, sizeof AccessIn_layout), (OP_CREATE, sizeof CreateIn_layout),
     (OP_INTERRUPT, sizeof InterruptIn_layout), (OP_BMAP, sizeof BmapIn_layout),
     (OP_IOCTL, sizeof IoctlIn_layout), (OP_POLL, sizeof PollIn_layout),
     (OP_NOTIFY_REPLY, sizeof NotifyRetrieveIn_layout), (OP_FALLOCATE, sizeof FallocateIn_layout),
     (OP_READDIRPLUS, sizeof ReadIn_layout), (OP_RENAME2, sizeof RenameIn_layout),
     (OP_LSEEK, sizeof LseekIn_layout), (OP_COPY_FILE_RANGE, sizeof CopyFileRangeIn_layout)]"

definition output_sizes :: "(nat \<times> nat) list" where
  "output_sizes =
    [(OP_LOOKUP, sizeof EntryOut_layout), (OP_GETATTR, sizeof AttrOut_layout),
     (OP_SETATTR, sizeof AttrOut_layout), (OP_SYMLINK, sizeof EntryOut_layout),
     (OP_MKNOD, sizeof EntryOut_layout), (OP_MKDIR, sizeof EntryOut_layout),
     (OP_LINK, sizeof EntryOut_layout), (OP_OPEN, sizeof OpenOut_layout),
     (OP_WRITE, sizeof WriteOut_layout), (OP_STATFS, sizeof StatfsOut_layout),
     (OP_GETXATTR, sizeof GetXAttrOut_layout), (OP_LISTXATTR, sizeof GetXAttrOut_layout),
     (OP_INIT, sizeof InitOut_layout), (OP_OPENDIR, sizeof OpenOut_layout),
     (OP_GETLK, sizeof LkOut_layout), (OP_CREATE, sizeof CreateOut_layout),
     (OP_BMAP, sizeof BmapOut_layout), (OP_IOCTL, sizeof IoctlOut_layout),
     (OP_POLL, sizeof PollOut_layout), (OP_NOTIFY_INVAL_ENTRY, sizeof NotifyInvalEntryOut_layout),
     (OP_NOTIFY_INVAL_INODE, sizeof NotifyInvalInodeOut_layout),
     (OP_NOTIFY_STORE_CACHE, sizeof NotifyStoreOut_layout),
     (OP_NOTIFY_RETRIEVE_CACHE, sizeof NotifyRetrieveOut_layout),
     (OP_NOTIFY_DELETE, sizeof NotifyInvalDeleteOut_layout), (OP_LSEEK, sizeof LseekOut_layout),
     (OP_COPY_FILE_RANGE, sizeof WriteOut_layout)]"

definition op_names :: "(nat \<times> string) list" where
  "op_names =
    [(OP_LOOKUP, ''LOOKUP''), (OP_FORGET, ''FORGET''), (OP_BATCH_FORGET, ''BATCH_FORGET''),
     (OP_GETATTR, ''GETATTR''), (OP_SETATTR, ''SETATTR''), (OP_READLINK, ''READLINK''),
     (OP_SYMLINK, ''SYMLINK''), (OP_MKNOD, ''MKNOD''), (OP_MKDIR, ''MKDIR''), (OP_UNLINK, ''UNLINK''),
     (OP_RMDIR, ''RMDIR''), (OP_RENAME, ''RENAME''), (OP_LINK, ''LINK''), (OP_OPEN, ''OPEN''),
     (OP_READ, ''READ''), (OP_WRITE, ''WRITE''), (OP_STATFS, ''STATFS''), (OP_RELEASE, ''RELEASE''),
     (OP_FSYNC, ''FSYNC''), (OP_SETXATTR, ''SETXATTR''), (OP_GETXATTR, ''GETXATTR''),
     (OP_LISTXATTR, ''LISTXATTR''), (OP_REMOVEXATTR, ''REMOVEXATTR''), (OP_FLUSH, ''FLUSH''),
     (OP_INIT, ''INIT''), (OP_OPENDIR, ''OPENDIR''), (OP_READDIR, ''READDIR''),
     (OP_RELEASEDIR, ''RELEASEDIR''), (OP_FSYNCDIR, ''FSYNCDIR''), (OP_GETLK, ''GETLK''),
     (OP_SETLK, ''SETLK''), (OP_SETLKW, ''SETLKW''), (OP_ACCESS, ''ACCESS''), (OP_CREATE, ''CREATE''),
     (OP_INTERRUPT, ''INTERRUPT''), (OP_BMAP, ''BMAP''), (OP_DESTROY, ''DESTROY''),
     (OP_IOCTL, ''IOCTL''), (OP_POLL, ''POLL''), (OP_NOTIFY_REPLY, ''NOTIFY_REPLY''),
     (OP_NOTIFY_INVAL_ENTRY, ''NOTIFY_INVAL_ENTRY''), (OP_NOTIFY_INVAL_INODE, ''NOTIFY_INVAL_INODE''),
     (OP_NOTIFY_STORE_CACHE, ''NOTIFY_STORE''), (OP_NOTIFY_RETRIEVE_CACHE, ''NOTIFY_RETRIEVE''),
     (OP_NOTIFY_DELETE, ''NOTIFY_DELETE''), (OP_FALLOCATE, ''FALLOCATE''),
     (OP_READDIRPLUS, ''READDIRPLUS''), (OP_RENAME2, ''RENAME2''), (OP_LSEEK, ''LSEEK''),
     (OP_COPY_FILE_RANGE, ''COPY_FILE_RANGE'')]"

definition op_funcs :: "(nat \<times> opfunc) list" where
  "op_funcs =
    [(OP_OPEN, DoOpen), (OP_READDIR, DoReadDir), (OP_WRITE, DoWrite), (OP_OPENDIR, DoOpenDir),
     (OP_CREATE, DoCreate), (OP_SETATTR, DoSetattr), (OP_GETXATTR, DoGetXAttr),
     (OP_LISTXATTR, DoGetXAttr), (OP_GETATTR, DoGetAttr), (OP_FORGET, DoForget),
     (OP_BATCH_FORGET, DoBatchForget), (OP_READLINK, DoReadlink), (OP_INIT, DoInit),
     (OP_LOOKUP, DoLookup), (OP_MKNOD, DoMknod), (OP_MKDIR, DoMkdir), (OP_UNLINK, DoUnlink),
     (OP_RMDIR, DoRmdir), (OP_LINK, DoLink), (OP_READ, DoRead), (OP_FLUSH, DoFlush),
     (OP_RELEASE, DoRelease), (OP_FSYNC, DoFsync), (OP_RELEASEDIR, DoReleaseDir),
     (OP_FSYNCDIR, DoFsyncDir), (OP_SETXATTR, DoSetXAttr), (OP_REMOVEXATTR, DoRemoveXAttr),
     (OP_GETLK, DoGetLk), (OP_SETLK, DoSetLk), (OP_SETLKW, DoSetLkw), (OP_ACCESS, DoAccess),
     (OP_SYMLINK, DoSymlink), (OP_RENAME, DoRename), (OP_STATFS, DoStatFs), (OP_IOCTL, DoIoctl),
     (OP_DESTROY, DoDestroy), (OP_NOTIFY_REPLY, DoNotifyReply), (OP_FALLOCATE, DoFallocate),
     (OP_READDIRPLUS, DoReadDirPlus), (OP_RENAME2, DoRename2), (OP_INTERRUPT, DoInterrupt),
     (OP_COPY_FILE_RANGE, DoCopyFileRange), (OP_LSEEK, DoLseek)]"

definition op_filenames :: "(nat \<times> nat) list" where
  "op_filenames =
    [(OP_CREATE, 1), (OP_SETXATTR, 1), (OP_GETXATTR, 1), (OP_LINK, 1), (OP_LOOKUP, 1), (OP_MKDIR, 1),
     (OP_MKNOD, 1), (OP_REMOVEXATTR, 1), (OP_RENAME, 2), (OP_RENAME2, 2), (OP_RMDIR, 1),
     (OP_SYMLINK, 2), (OP_UNLINK, 1)]"

definition op_filename_out :: "nat list" where
  "op_filename_out = [OP_READLINK, OP_NOTIFY_INVAL_ENTRY, OP_NOTIFY_DELETE]"

definition blank_handler :: "nat \<Rightarrow> operationHandler" where
  "blank_handler i = \<lparr>h_Name = ''OPCODE-'' @ decimal i, h_Func = None, h_InputSize = 0, h_OutputSize = 0,
     h_FileNames = 0, h_FileNameOut = False\<rparr>"

definition set_entries :: "('v \<Rightarrow> operationHandler \<Rightarrow> operationHandler) \<Rightarrow> (nat \<times> 'v) list
    \<Rightarrow> operationHandler list \<Rightarrow> operationHandler list" where
  "set_entries upd tab hs = fold (\<lambda>(op, v) hs. hs[op := upd v (hs ! op)]) tab hs"

definition operationHandlers :: "operationHandler list" where
  "operationHandlers =
     set_entries (\<lambda>n h. h\<lparr>h_FileNames := n\<rparr>) op_filenames
     (set_entries (\<lambda>f h. h\<lparr>h_Func := Some f\<rparr>) op_funcs
     (set_entries (\<lambda>n h. h\<lparr>h_Name := n\<rparr>) op_names
     (set_entries (\<lambda>n h. h\<lparr>h_OutputSize := n\<rparr>) output_sizes
     (set_entries (\<lambda>n h. h\<lparr>h_InputSize := n\<rparr>) input_sizes
     (set_entries (\<lambda>_ h. h\<lparr>h_FileNameOut := True\<rparr>) (map (\<lambda>op. (op, ())) op_filename_out)
       (map blank_handler [0..<OPCODE_COUNT]))))))"

text \<open>\<^verbatim>\<open>getHandler\<close> on an opcode that the kernel sent as a signed 32-bit number.\<close>

definition getHandler :: "i32 \<Rightarrow> operationHandler option go" where
  "getHandler o' = (if sint o' \<ge> int OPCODE_COUNT then Inr None
     else if sint o' < 0 then Inl IndexRange
     else Inr (Some (operationHandlers ! nat (sint o'))))"

definition operationName :: "i32 \<Rightarrow> string go" where
  "operationName op = bind_go (getHandler op) (\<lambda>h. Inr (case h of None \<Rightarrow> ''unknown'' | Some h \<Rightarrow> h_Name h))"

section \<open>Consistency\<close>

text \<open>The struct each function casts its input pointer to, and the one it writes.\<close>

fun func_reads :: "opfunc \<Rightarrow> nat" where
  "func_reads DoOpen = sizeof OpenIn_layout"
| "func_reads DoReadDir = sizeof ReadIn_layout"
| "func_reads DoWrite = sizeof WriteIn_layout"
| "func_reads DoOpenDir = sizeof OpenIn_layout"
| "func_reads DoCreate = sizeof CreateIn_layout"
| "func_reads DoSetattr = sizeof SetAttrIn_layout"
| "func_reads DoGetXAttr = sizeof GetXAttrIn_layout"
| "func_reads DoGetAttr = sizeof GetAttrIn_layout"
| "func_reads DoForget = sizeof ForgetIn_layout"
| "func_reads DoBatchForget = sizeof BatchForgetIn_layout"
| "func_reads DoReadlink = 0"
| "func_reads DoInit = sizeof InitIn_layout"
| "func_reads DoLookup = 0"
| "func_reads DoMknod = sizeof MknodIn_layout"
| "func_reads DoMkdir = sizeof MkdirIn_layout"
| "func_reads DoUnlink = 0"
| "func_reads DoRmdir = 0"
| "func_reads DoLink = sizeof LinkIn_layout"
| "func_reads DoRead = sizeof ReadIn_layout"
| "func_reads DoFlush = sizeof FlushIn_layout"
| "func_reads DoRelease = sizeof ReleaseIn_layout"
| "func_reads DoFsync = sizeof FsyncIn_layout"
| "func_reads DoReleaseDir = sizeof ReleaseIn_layout"
| "func_reads DoFsyncDir = sizeof FsyncIn_layout"
| "func_reads DoSetXAttr = sizeof SetXAttrIn_layout"
| "func_reads DoRemoveXAttr = 0"
| "func_reads DoGetLk = sizeof LkIn_layout"
| "func_reads DoSetLk = sizeof LkIn_layout"
| "func_reads DoSetLkw = sizeof LkIn_layout"
| "func_reads DoAccess = sizeof AccessIn_layout"
| "func_reads DoSymlink = 0"
| "func_reads DoRename = sizeof Rename1In_layout"
| "func_reads DoStatFs = 0"
| "func_reads DoIoctl = 0"
| "func_reads DoDestroy = 0"
| "func_reads DoNotifyReply = sizeof NotifyRetrieveIn_layout"
| "func_reads DoFallocate = sizeof FallocateIn_layout"
| "func_reads DoReadDirPlus = sizeof ReadIn_layout"
| "func_reads DoRename2 = sizeof RenameIn_layout"
| "func_reads DoInterrupt = sizeof InterruptIn_layout"
| "func_reads DoCopyFileRange = sizeof CopyFileRangeIn_layout"
| "func_reads DoLseek = sizeof LseekIn_layout"

fun func_writes :: "opfunc \<Rightarrow> nat" where
  "func_writes DoOpen = sizeof OpenOut_layout"
| "func_writes DoReadDir = 0"
| "func_writes DoWrite = sizeof WriteOut_layout"
| "func_writes DoOpenDir = sizeof OpenOut_layout"
| "func_writes DoCreate = sizeof CreateOut_layout"
| "func_writes DoSetattr = sizeof AttrOut_layout"
| "func_writes DoGetXAttr = sizeof GetXAttrOut_layout"
| "func_writes DoGetAttr = sizeof AttrOut_layout"
| "func_writes DoForget = 0"
| "func_writes DoBatchForget = 0"
| "func_writes DoReadlink = 0"
| "func_writes DoInit = sizeof InitOut_layout"
| "func_writes DoLookup = sizeof EntryOut_layout"
| "func_writes DoMknod = sizeof EntryOut_layout"
| "func_writes DoMkdir = sizeof EntryOut_layout"
| "func_writes DoUnlink = 0"
| "func_writes DoRmdir = 0"
| "func_writes DoLink = sizeof EntryOut_layout"
| "func_writes DoRead = 0"
| "func_writes DoFlush = 0"
| "func_writes DoRelease = 0"
| "func_writes DoFsync = 0"
| "func_writes DoReleaseDir = 0"
| "func_writes DoFsyncDir = 0"
| "func_writes DoSetXAttr = 0"
| "func_writes DoRemoveXAttr = 0"
| "func_writes DoGetLk = sizeof LkOut_layout"
| "func_writes DoSetLk = 0"
| "func_writes DoSetLkw = 0"
| "func_writes DoAccess = 0"
| "func_writes DoSymlink = sizeof EntryOut_layout"
| "func_writes DoRename = 0"
| "func_writes DoStatFs = sizeof StatfsOut_layout"
| "func_writes DoIoctl = 0"
| "func_writes DoDestroy = 0"
| "func_writes DoNotifyReply = 0"
| "func_writes DoFallocate = 0"
| "func_writes DoReadDirPlus = 0"
| "func_writes DoRename2 = 0"
| "func_writes DoInterrupt = 0"
| "func_writes DoCopyFileRange = sizeof WriteOut_layout"
| "func_writes DoLseek = sizeof LseekOut_layout"

definition handler_consistent :: "operationHandler \<Rightarrow> bool" where
  "handler_consistent h \<longleftrightarrow> (case h_Func h of None \<Rightarrow> True
     | Some f \<Rightarrow> func_reads f \<le> h_InputSize h \<and> func_writes f \<le> h_OutputSize h)"

definition reply_fits :: "operationHandler \<Rightarrow> bool" where
  "reply_fits h \<longleftrightarrow> h_OutputSize h + sizeof OutHeader_layout \<le> 160"

lemma length_set_entries [simp]: "length (set_entries u tab hs) = length hs"
  by (induction tab arbitrary: hs) (auto simp: set_entries_def)

lemma operationHandlers_length: "length operationHandlers = OPCODE_COUNT"
  by (simp add: operationHandlers_def)

lemma operationHandlers_ok: "list_all (\<lambda>h. handler_consistent h \<and> reply_fits h) operationHandlers"
  by code_simp

lemma wire_opcode_order: "distinct (map fst op_names)" "distinct (map fst op_funcs)"
  "distinct (map fst input_sizes)" "distinct (map fst output_sizes)" "distinct (map fst op_filenames)"
  by code_simp+

section \<open>Properties\<close>

text \<open>
  the handler table is consistent: for every opcode with a handler function the input size
  that \<^verbatim>\<open>parse\<close> checks covers the struct the function reads, the output size covers the struct it
  writes, and header and output struct fit the 160 bytes of the output buffer, so that \<^verbatim>\<open>init\<close>
  does not panic; the keys of every table are distinct, so the order in which Go ranges over
  them does not matter.
\<close>

theorem handler_table_consistent:
  "length operationHandlers = OPCODE_COUNT
   \<and> list_all (\<lambda>h. handler_consistent h \<and> reply_fits h) operationHandlers
   \<and> distinct (map fst op_names) \<and> distinct (map fst op_funcs) \<and> distinct (map fst input_sizes)
   \<and> distinct (map fst output_sizes) \<and> distinct (map fst op_filenames)"
  using operationHandlers_length operationHandlers_ok wire_opcode_order by blast

end
