(* ===== verification/FuseIn.thy ===== *)
theory FuseIn
  imports Layout FuseTypes
begin

text \<open>
  The request and reply structs of \<^verbatim>\<open>fuse/types.go\<close> and \<^verbatim>\<open>fuse/types_linux.go\<close> as records, without
  their padding. A request handler casts a pointer into the input buffer to the struct of its
  opcode; the cast reads the fields at the offsets of the layout. A reply is the image of the
  struct in the output buffer.
\<close>

section \<open>Casts\<close>

definition widths :: "(string \<times> fty) list \<Rightarrow> nat list" where
  "widths fs = map snd (leaves 8 0 (Struct fs))"

definition read_fields :: "(string \<times> fty) list \<Rightarrow> u8 list \<Rightarrow> u64 list" where
  "read_fields fs bs = decode_flat (widths fs) bs"

definition write_fields :: "(string \<times> fty) list \<Rightarrow> u64 list \<Rightarrow> u8 list" where
  "write_fields fs vs = encode_flat (widths fs) vs"

definition as_InHeader :: "u8 list \<Rightarrow> InHeader" where
  "as_InHeader bs = (let v = read_fields InHeader_layout bs in
     \<lparr>ih_Length = ucast (v ! 0), ih_Opcode = ucast (v ! 1), ih_Unique = v ! 2, ih_NodeId = v ! 3,
      ih_Caller = \<lparr>c_Owner = \<lparr>Uid = ucast (v ! 4), Gid = ucast (v ! 5)\<rparr>, c_Pid = ucast (v ! 6)\<rparr>\<rparr>)"

definition as_FileLock :: "u64 list \<Rightarrow> FileLock" where
  "as_FileLock v = \<lparr>lk_Start = v ! 0, lk_End = v ! 1, lk_Typ = ucast (v ! 2), lk_Pid = ucast (v ! 3)\<rparr>"

section \<open>Requests\<close>

record ForgetIn =
  fg_InHeader :: InHeader
  fg_Nlookup :: u64

definition as_ForgetIn :: "u8 list \<Rightarrow> ForgetIn" where
  "as_ForgetIn bs = (let v = read_fields ForgetIn_layout bs in
     \<lparr>fg_InHeader = as_InHeader bs,
      fg_Nlookup = v ! 8\<rparr>)"

record ForgetOne =
  fo_NodeId :: u64
  fo_Nlookup :: u64

definition as_ForgetOne :: "u8 list \<Rightarrow> ForgetOne" where
  "as_ForgetOne bs = (let v = read_fields ForgetOne_layout bs in
     \<lparr>fo_NodeId = v ! 0,
      fo_Nlookup = v ! 1\<rparr>)"

record BatchForgetIn =
  bf_InHeader :: InHeader
  bf_Count :: u32

definition as_BatchForgetIn :: "u8 list \<Rightarrow> BatchForgetIn" where
  "as_BatchForgetIn bs = (let v = read_fields BatchForgetIn_layout bs in
     \<lparr>bf_InHeader = as_InHeader bs,
      bf_Count = ucast (v ! 8)\<rparr>)"

record MkdirIn =
  mkd_InHeader :: InHeader
  mkd_Mode :: u32
  mkd_Umask :: u32

definition as_MkdirIn :: "u8 list \<Rightarrow> MkdirIn" where
  "as_MkdirIn bs = (let v = read_fields MkdirIn_layout bs in
     \<lparr>mkd_InHeader = as_InHeader bs,
      mkd_Mode = ucast (v ! 8),
      mkd_Umask = ucast (v ! 9)\<rparr>)"

record Rename1In =
  rn1_InHeader :: InHeader
  rn1_Newdir :: u64

definition as_Rename1In :: "u8 list \<Rightarrow> Rename1In" where
  "as_Rename1In bs = (let v = read_fields Rename1In_layout bs in
     \<lparr>rn1_InHeader = as_InHeader bs,
      rn1_Newdir = v ! 8\<rparr>)"

record RenameIn =
  rn_InHeader :: InHeader
  rn_Newdir :: u64
  rn_Flags :: u32

definition as_RenameIn :: "u8 list \<Rightarrow> RenameIn" where
  "as_RenameIn bs = (let v = read_fields RenameIn_layout bs in
     \<lparr>rn_InHeader = as_InHeader bs,
      rn_Newdir = v ! 8,
      rn_Flags = ucast (v ! 9)\<rparr>)"

record LinkIn =
  ln_InHeader :: InHeader
  ln_Oldnodeid :: u64

definition as_LinkIn :: "u8 list \<Rightarrow> LinkIn" where
  "as_LinkIn bs = (let v = read_fields LinkIn_layout bs in
     \<lparr>ln_InHeader = as_InHeader bs,
      ln_Oldnodeid = v ! 8\<rparr>)"

record ReleaseIn =
  rel_InHeader :: InHeader
  rel_Fh :: u64
  rel_Flags :: u32
  rel_ReleaseFlags :: u32
  rel_LockOwner :: u64

definition as_ReleaseIn :: "u8 list \<Rightarrow> ReleaseIn" where
  "as_ReleaseIn bs = (let v = read_fields ReleaseIn_layout bs in
     \<lparr>rel_InHeader = as_InHeader bs,
      rel_Fh = v ! 8,
      rel_Flags = ucast (v ! 9),
      rel_ReleaseFlags = ucast (v ! 10),
      rel_LockOwner = v ! 11\<rparr>)"

record OpenIn =
  opn_InHeader :: InHeader
  opn_Flags :: u32
  opn_Mode :: u32

definition as_OpenIn :: "u8 list \<Rightarrow> OpenIn" where
  "as_OpenIn bs = (let v = read_fields OpenIn_layout bs in
     \<lparr>opn_InHeader = as_InHeader bs,
      opn_Flags = ucast (v ! 8),
      opn_Mode = ucast (v ! 9)\<rparr>)"

record InitIn =
  ini_InHeader :: InHeader
  ini_Major :: u32
  ini_Minor :: u32
  ini_MaxReadAhead :: u32
  ini_Flags :: u32

definition as_InitIn :: "u8 list \<Rightarrow> InitIn" where
  "as_InitIn bs = (let v = read_fields InitIn_layout bs in
     \<lparr>ini_InHeader = as_InHeader bs,
      ini_Major = ucast (v ! 8),
      ini_Minor = ucast (v ! 9),
      ini_MaxReadAhead = ucast (v ! 10),
      ini_Flags = ucast (v ! 11)\<rparr>)"

record InterruptIn =
  int_InHeader :: InHeader
  int_Unique :: u64

definition as_InterruptIn :: "u8 list \<Rightarrow> InterruptIn" where
  "as_InterruptIn bs = (let v = read_fields InterruptIn_layout bs in
     \<lparr>int_InHeader = as_InHeader bs,
      int_Unique = v ! 8\<rparr>)"

record LkIn =
  lki_InHeader :: InHeader
  lki_Fh :: u64
  lki_Owner :: u64
  lki_Lk :: FileLock
  lki_LkFlags :: u32

definition as_LkIn :: "u8 list \<Rightarrow> LkIn" where
  "as_LkIn bs = (let v = read_fields LkIn_layout bs in
     \<lparr>lki_InHeader = as_InHeader bs,
      lki_Fh = v ! 8,
      lki_Owner = v ! 9,
      lki_Lk = as_FileLock (drop 10 v),
      lki_LkFlags = ucast (v ! 14)\<rparr>)"

record AccessIn =
  acc_InHeader :: InHeader
  acc_Mask :: u32

definition as_AccessIn :: "u8 list \<Rightarrow> AccessIn" where
  "as_AccessIn bs = (let v = read_fields AccessIn_layout bs in
     \<lparr>acc_InHeader = as_InHeader bs,
      acc_Mask = ucast (v ! 8)\<rparr>)"

record FsyncIn =
  fsy_InHeader :: InHeader
  fsy_Fh :: u64
  fsy_FsyncFlags :: u32

definition as_FsyncIn :: "u8 list \<Rightarrow> FsyncIn" where
  "as_FsyncIn bs = (let v = read_fields FsyncIn_layout bs in
     \<lparr>fsy_InHeader = as_InHeader bs,
      fsy_Fh = v ! 8,
      fsy_FsyncFlags = ucast (v ! 9)\<rparr>)"

record NotifyRetrieveIn =
  nri_InHeader :: InHeader
  nri_Offset :: u64
  nri_Size :: u32

definition as_NotifyRetrieveIn :: "u8 list \<Rightarrow> NotifyRetrieveIn" where
  "as_NotifyRetrieveIn bs = (let v = read_fields NotifyRetrieveIn_layout bs in
     \<lparr>nri_InHeader = as_InHeader bs,
      nri_Offset = v ! 9,
      nri_Size = ucast (v ! 10)\<rparr>)"

record FlushIn =
  fls_InHeader :: InHeader
  fls_Fh :: u64
  fls_LockOwner :: u64

definition as_FlushIn :: "u8 list \<Rightarrow> FlushIn" where
  "as_FlushIn bs = (let v = read_fields FlushIn_layout bs in
     \<lparr>fls_InHeader = as_InHeader bs,
      fls_Fh = v ! 8,
      fls_LockOwner = v ! 11\<rparr>)"

record LseekIn =
  lsi_InHeader :: InHeader
  lsi_Fh :: u64
  lsi_Offset :: u64
  lsi_Whence :: u32

definition as_LseekIn :: "u8 list \<Rightarrow> LseekIn" where
  "as_LseekIn bs = (let v = read_fields LseekIn_layout bs in
     \<lparr>lsi_InHeader = as_InHeader bs,
      lsi_Fh = v ! 8,
      lsi_Offset = v ! 9,
      lsi_Whence = ucast (v ! 10)\<rparr>)"

record CopyFileRangeIn =
  cfr_InHeader :: InHeader
  cfr_FhIn :: u64
  cfr_OffIn :: u64
  cfr_NodeIdOut :: u64
  cfr_FhOut :: u64
  cfr_OffOut :: u64
  cfr_Len :: u64
  cfr_Flags :: u64

definition as_CopyFileRangeIn :: "u8 list \<Rightarrow> CopyFileRangeIn" where
  "as_CopyFileRangeIn bs = (let v = read_fields CopyFileRangeIn_layout bs in
     \<lparr>cfr_InHeader = as_InHeader bs,
      cfr_FhIn = v ! 8,
      cfr_OffIn = v ! 9,
      cfr_NodeIdOut = v ! 10,
      cfr_FhOut = v ! 11,
      cfr_OffOut = v ! 12,
      cfr_Len = v ! 13,
      cfr_Flags = v ! 14\<rparr>)"

record FallocateIn =
  fal_InHeader :: InHeader
  fal_Fh :: u64
  fal_Offset :: u64
  fal_Length :: u64
  fal_Mode :: u32

definition as_FallocateIn :: "u8 list \<Rightarrow> FallocateIn" where
  "as_FallocateIn bs = (let v = read_fields FallocateIn_layout bs in
     \<lparr>fal_InHeader = as_InHeader bs,
      fal_Fh = v ! 8,
      fal_Offset = v ! 9,
      fal_Length = v ! 10,
      fal_Mode = ucast (v ! 11)\<rparr>)"

record GetAttrIn =
  gai_InHeader :: InHeader
  gai_Flags :: u32
  gai_Fh :: u64

definition as_GetAttrIn :: "u8 list \<Rightarrow> GetAttrIn" where
  "as_GetAttrIn bs = (let v = read_fields GetAttrIn_layout bs in
     \<lparr>gai_InHeader = as_InHeader bs,
      gai_Flags = ucast (v ! 8),
      gai_Fh = v ! 10\<rparr>)"

record CreateIn =
  cri_InHeader :: InHeader
  cri_Flags :: u32
  cri_Mode :: u32
  cri_Umask :: u32

definition as_CreateIn :: "u8 list \<Rightarrow> CreateIn" where
  "as_CreateIn bs = (let v = read_fields CreateIn_layout bs in
     \<lparr>cri_InHeader = as_InHeader bs,
      cri_Flags = ucast (v ! 8),
      cri_Mode = ucast (v ! 9),
      cri_Umask = ucast (v ! 10)\<rparr>)"

record MknodIn =
  mkn_InHeader :: InHeader
  mkn_Mode :: u32
  mkn_Rdev :: u32
  mkn_Umask :: u32

definition as_MknodIn :: "u8 list \<Rightarrow> MknodIn" where
  "as_MknodIn bs = (let v = read_fields MknodIn_layout bs in
     \<lparr>mkn_InHeader = as_InHeader bs,
      mkn_Mode = ucast (v ! 8),
      mkn_Rdev = ucast (v ! 9),
      mkn_Umask = ucast (v ! 10)\<rparr>)"

record ReadIn =
  rdi_InHeader :: InHeader
  rdi_Fh :: u64
  rdi_Offset :: u64
  rdi_Size :: u32
  rdi_ReadFlags :: u32
  rdi_LockOwner :: u64
  rdi_Flags :: u32

definition as_ReadIn :: "u8 list \<Rightarrow> ReadIn" where
  "as_ReadIn bs = (let v = read_fields ReadIn_layout bs in
     \<lparr>rdi_InHeader = as_InHeader bs,
      rdi_Fh = v ! 8,
      rdi_Offset = v ! 9,
      rdi_Size = ucast (v ! 10),
      rdi_ReadFlags = ucast (v ! 11),
      rdi_LockOwner = v ! 12,
      rdi_Flags = ucast (v ! 13)\<rparr>)"

record WriteIn =
  wri_InHeader :: InHeader
  wri_Fh :: u64
  wri_Offset :: u64
  wri_Size :: u32
  wri_WriteFlags :: u32
  wri_LockOwner :: u64
  wri_Flags :: u32

definition as_WriteIn :: "u8 list \<Rightarrow> WriteIn" where
  "as_WriteIn bs = (let v = read_fields WriteIn_layout bs in
     \<lparr>wri_InHeader = as_InHeader bs,
      wri_Fh = v ! 8,
      wri_Offset = v ! 9,
      wri_Size = ucast (v ! 10),
      wri_WriteFlags = ucast (v ! 11),
      wri_LockOwner = v ! 12,
      wri_Flags = ucast (v ! 13)\<rparr>)"

record SetXAttrIn =
  sxi_InHeader :: InHeader
  sxi_Size :: u32
  sxi_Flags :: u32

definition as_SetXAttrIn :: "u8 list \<Rightarrow> SetXAttrIn" where
  "as_SetXAttrIn bs = (let v = read_fields SetXAttrIn_layout bs in
     \<lparr>sxi_InHeader = as_InHeader bs,
      sxi_Size = ucast (v ! 8),
      sxi_Flags = ucast (v ! 9)\<rparr>)"

record GetXAttrIn =
  gxi_InHeader :: InHeader
  gxi_Size :: u32

definition as_GetXAttrIn :: "u8 list \<Rightarrow> GetXAttrIn" where
  "as_GetXAttrIn bs = (let v = read_fields GetXAttrIn_layout bs in
     \<lparr>gxi_InHeader = as_InHeader bs,
      gxi_Size = ucast (v ! 8)\<rparr>)"

definition as_SetAttrIn :: "u8 list \<Rightarrow> SetAttrIn" where
  "as_SetAttrIn bs = (let v = read_fields SetAttrIn_layout bs in
     \<lparr>sa_InHeader = as_InHeader bs, sa_Valid = ucast (v ! 8), sa_Fh = v ! 10, sa_Size = v ! 11,
      sa_LockOwner = v ! 12, sa_Atime = v ! 13, sa_Mtime = v ! 14, sa_Ctime = v ! 15,
      sa_Atimensec = ucast (v ! 16), sa_Mtimensec = ucast (v ! 17), sa_Ctimensec = ucast (v ! 18),
      sa_Mode = ucast (v ! 19), sa_Owner = \<lparr>Uid = ucast (v ! 21), Gid = ucast (v ! 22)\<rparr>\<rparr>)"

section \<open>Replies\<close>

record InitOut =
  ino_Major :: u32
  ino_Minor :: u32
  ino_MaxReadAhead :: u32
  ino_Flags :: u32
  ino_MaxBackground :: u16
  ino_CongestionThreshold :: u16
  ino_MaxWrite :: u32
  ino_TimeGran :: u32
  ino_MaxPages :: u16

definition zero_InitOut :: InitOut where
  "zero_InitOut = \<lparr>ino_Major = 0, ino_Minor = 0, ino_MaxReadAhead = 0, ino_Flags = 0, ino_MaxBackground = 0, ino_CongestionThreshold = 0, ino_MaxWrite = 0, ino_TimeGran = 0, ino_MaxPages = 0\<rparr>"

definition InitOut_bytes :: "InitOut \<Rightarrow> u8 list" where
  "InitOut_bytes r = write_fields InitOut_layout
     [ucast (ino_Major r), ucast (ino_Minor r), ucast (ino_MaxReadAhead r), ucast (ino_Flags r), ucast (ino_MaxBackground r), ucast (ino_CongestionThreshold r), ucast (ino_MaxWrite r), ucast (ino_TimeGran r), ucast (ino_MaxPages r), 0, 0, 0, 0, 0, 0, 0, 0, 0]"

record WriteOut =
  wro_Size :: u32

definition zero_WriteOut :: WriteOut where
  "zero_WriteOut = \<lparr>wro_Size = 0\<rparr>"

definition WriteOut_bytes :: "WriteOut \<Rightarrow> u8 list" where
  "WriteOut_bytes r = write_fields WriteOut_layout
     [ucast (wro_Size r), 0]"

record GetXAttrOut =
  gxo_Size :: u32

definition zero_GetXAttrOut :: GetXAttrOut where
  "zero_GetXAttrOut = \<lparr>gxo_Size = 0\<rparr>"

definition GetXAttrOut_bytes :: "GetXAttrOut \<Rightarrow> u8 list" where
  "GetXAttrOut_bytes r = write_fields GetXAttrOut_layout
     [ucast (gxo_Size r), 0]"

record LkOut =
  lko_Lk :: FileLock

definition zero_LkOut :: LkOut where
  "zero_LkOut = \<lparr>lko_Lk = \<lparr>lk_Start = 0, lk_End = 0, lk_Typ = 0, lk_Pid = 0\<rparr>\<rparr>"

definition LkOut_bytes :: "LkOut \<Rightarrow> u8 list" where
  "LkOut_bytes r = write_fields LkOut_layout
     [lk_Start (lko_Lk r), lk_End (lko_Lk r), ucast (lk_Typ (lko_Lk r)), ucast (lk_Pid (lko_Lk r))]"

record LseekOut =
  lso_Offset :: u64

definition zero_LseekOut :: LseekOut where
  "zero_LseekOut = \<lparr>lso_Offset = 0\<rparr>"

definition LseekOut_bytes :: "LseekOut \<Rightarrow> u8 list" where
  "LseekOut_bytes r = write_fields LseekOut_layout
     [lso_Offset r]"

record StatfsOut =
  sfo_Blocks :: u64
  sfo_Bfree :: u64
  sfo_Bavail :: u64
  sfo_Files :: u64
  sfo_Ffree :: u64
  sfo_Bsize :: u32
  sfo_NameLen :: u32
  sfo_Frsize :: u32

definition zero_StatfsOut :: StatfsOut where
  "zero_StatfsOut = \<lparr>sfo_Blocks = 0, sfo_Bfree = 0, sfo_Bavail = 0, sfo_Files = 0, sfo_Ffree = 0, sfo_Bsize = 0, sfo_NameLen = 0, sfo_Frsize = 0\<rparr>"

definition StatfsOut_bytes :: "StatfsOut \<Rightarrow> u8 list" where
  "StatfsOut_bytes r = write_fields StatfsOut_layout
     [sfo_Blocks r, sfo_Bfree r, sfo_Bavail r, sfo_Files r, sfo_Ffree r, ucast (sfo_Bsize r), ucast (sfo_NameLen r), ucast (sfo_Frsize r), 0, 0, 0, 0, 0, 0, 0]"

record OutHeader =
  oh_Length :: u32
  oh_Status :: i32
  oh_Unique :: u64

definition zero_OutHeader :: OutHeader where
  "zero_OutHeader = \<lparr>oh_Length = 0, oh_Status = 0, oh_Unique = 0\<rparr>"

definition OutHeader_bytes :: "OutHeader \<Rightarrow> u8 list" where
  "OutHeader_bytes r = write_fields OutHeader_layout
     [ucast (oh_Length r), ucast (oh_Status r), oh_Unique r]"

record NotifyInvalInodeOut =
  nii_Ino :: u64
  nii_Off :: i64
  nii_Length :: i64

definition zero_NotifyInvalInodeOut :: NotifyInvalInodeOut where
  "zero_NotifyInvalInodeOut = \<lparr>nii_Ino = 0, nii_Off = 0, nii_Length = 0\<rparr>"

definition NotifyInvalInodeOut_bytes :: "NotifyInvalInodeOut \<Rightarrow> u8 list" where
  "NotifyInvalInodeOut_bytes r = write_fields NotifyInvalInodeOut_layout
     [nii_Ino r, nii_Off r, nii_Length r]"

record NotifyInvalEntryOut =
  nie_Parent :: u64
  nie_NameLen :: u32

definition zero_NotifyInvalEntryOut :: NotifyInvalEntryOut where
  "zero_NotifyInvalEntryOut = \<lparr>nie_Parent = 0, nie_NameLen = 0\<rparr>"

definition NotifyInvalEntryOut_bytes :: "NotifyInvalEntryOut \<Rightarrow> u8 list" where
  "NotifyInvalEntryOut_bytes r = write_fields NotifyInvalEntryOut_layout
     [nie_Parent r, ucast (nie_NameLen r), 0]"

record NotifyInvalDeleteOut =
  nid_Parent :: u64
  nid_Child :: u64
  nid_NameLen :: u32

definition zero_NotifyInvalDeleteOut :: NotifyInvalDeleteOut where
  "zero_NotifyInvalDeleteOut = \<lparr>nid_Parent = 0, nid_Child = 0, nid_NameLen = 0\<rparr>"

definition NotifyInvalDeleteOut_bytes :: "NotifyInvalDeleteOut \<Rightarrow> u8 list" where
  "NotifyInvalDeleteOut_bytes r = write_fields NotifyInvalDeleteOut_layout
     [nid_Parent r, nid_Child r, ucast (nid_NameLen r), 0]"

record NotifyStoreOut =
  nso_Nodeid :: u64
  nso_Offset :: u64
  nso_Size :: u32

definition zero_NotifyStoreOut :: NotifyStoreOut where
  "zero_NotifyStoreOut = \<lparr>nso_Nodeid = 0, nso_Offset = 0, nso_Size = 0\<rparr>"

definition NotifyStoreOut_bytes :: "NotifyStoreOut \<Rightarrow> u8 list" where
  "NotifyStoreOut_bytes r = write_fields NotifyStoreOut_layout
     [nso_Nodeid r, nso_Offset r, ucast (nso_Size r), 0]"

record NotifyRetrieveOut =
  nro_NotifyUnique :: u64
  nro_Nodeid :: u64
  nro_Offset :: u64
  nro_Size :: u32

definition zero_NotifyRetrieveOut :: NotifyRetrieveOut where
  "zero_NotifyRetrieveOut = \<lparr>nro_NotifyUnique = 0, nro_Nodeid = 0, nro_Offset = 0, nro_Size = 0\<rparr>"

definition NotifyRetrieveOut_bytes :: "NotifyRetrieveOut \<Rightarrow> u8 list" where
  "NotifyRetrieveOut_bytes r = write_fields NotifyRetrieveOut_layout
     [nro_NotifyUnique r, nro_Nodeid r, nro_Offset r, ucast (nro_Size r), 0]"

definition attr_fields :: "Attr \<Rightarrow> u64 list" where
  "attr_fields a = [a_Ino a, a_Size a, a_Blocks a, a_Atime a, a_Mtime a, a_Ctime a,
     ucast (a_Atimensec a), ucast (a_Mtimensec a), ucast (a_Ctimensec a), ucast (a_Mode a), ucast (a_Nlink a),
     ucast (Uid (a_Owner a)), ucast (Gid (a_Owner a)), ucast (a_Rdev a), ucast (a_Blksize a), 0]"

definition entry_fields :: "EntryOut \<Rightarrow> u64 list" where
  "entry_fields e = [eo_NodeId e, eo_Generation e, eo_EntryValid e, eo_AttrValid e,
     ucast (eo_EntryValidNsec e), ucast (eo_AttrValidNsec e)] @ attr_fields (eo_Attr e)"

definition open_fields :: "OpenOut \<Rightarrow> u64 list" where
  "open_fields o' = [oo_Fh o', ucast (oo_OpenFlags o'), 0]"

definition EntryOut_bytes :: "EntryOut \<Rightarrow> u8 list" where
  "EntryOut_bytes e = write_fields EntryOut_layout (entry_fields e)"

definition AttrOut_bytes :: "AttrOut \<Rightarrow> u8 list" where
  "AttrOut_bytes o' = write_fields AttrOut_layout
     ([ao_AttrValid o', ucast (ao_AttrValidNsec o'), 0] @ attr_fields (ao_Attr o'))"

definition OpenOut_bytes :: "OpenOut \<Rightarrow> u8 list" where
  "OpenOut_bytes o' = write_fields OpenOut_layout (open_fields o')"

definition CreateOut_bytes :: "CreateOut \<Rightarrow> u8 list" where
  "CreateOut_bytes o' = write_fields CreateOut_layout (entry_fields (co_EntryOut o') @ open_fields (co_OpenOut o'))"

end
