(* ===== verification/DirEntryList.thy ===== *)
theory DirEntryList
  imports FuseTypes
begin

text \<open>
  \<^verbatim>\<open>fuse/direntry.go\<close>: the buffer of a READDIR or READDIRPLUS reply. The list is a prefix of a
  byte buffer of fixed size; adding an entry extends the prefix by a record in the format
  the kernel reads. The kernel's side of that format is the function \<^verbatim>\<open>parse_dirents\<close>, and the
  properties say that it reads back what was added.
\<close>

section \<open>Operations\<close>

record DirEntry =
  de_Mode :: u32
  de_Name :: string
  de_Ino :: u64

record DirEntryList =
  dl_data :: "u8 list"
  dl_len :: nat
  dl_offset :: u64

definition direntSize :: nat where
  "direntSize = 24"

definition NewDirEntryList :: "u8 list \<Rightarrow> u64 \<Rightarrow> DirEntryList" where
  "NewDirEntryList data off = \<lparr>dl_data = data, dl_len = 0, dl_offset = off\<rparr>"

definition dl_bytes :: "DirEntryList \<Rightarrow> u8 list" where
  "dl_bytes l = take (dl_len l) (dl_data l)"

definition name_padding :: "nat \<Rightarrow> nat" where
  "name_padding n = (8 - n mod 8) mod 8"

text \<open>The image of a \<^verbatim>\<open>_Dirent\<close> in memory.\<close>

definition dirent_bytes :: "u64 \<Rightarrow> u64 \<Rightarrow> u32 \<Rightarrow> u32 \<Rightarrow> u8 list" where
  "dirent_bytes ino off namelen d_type = le_bytes 8 ino @ le_bytes 8 off @ le_bytes 4 namelen @ le_bytes 4 d_type"

definition Add :: "nat \<Rightarrow> string \<Rightarrow> u64 \<Rightarrow> u32 \<Rightarrow> DirEntryList \<Rightarrow> bool \<times> DirEntryList" where
  "Add prefix name inode mode l =
     (let inode' = (if inode = 0 then FUSE_UNKNOWN_INO else inode);
          padding = name_padding (length name);
          delta = padding + direntSize + length name + prefix;
          newLen = delta + dl_len l
      in if newLen > length (dl_data l) then (False, l)
         else let oldLen = dl_len l + prefix;
                  off = dl_offset l + 1;
                  d1 = write_at oldLen (dirent_bytes inode' off (word_of_nat (length name))
                                          (drop_bit 12 (mode AND S_IFMT))) (dl_data l);
                  d2 = write_at (oldLen + direntSize) (str_bytes name) d1;
                  d3 = (if padding > 0
                        then write_at (oldLen + direntSize + length name) (replicate padding 0) d2
                        else d2)
              in (True, l\<lparr>dl_data := d3, dl_len := newLen, dl_offset := off\<rparr>))"

definition AddDirEntry :: "DirEntry \<Rightarrow> DirEntryList \<Rightarrow> bool \<times> DirEntryList" where
  "AddDirEntry e l = Add 0 (de_Name e) (de_Ino e) (de_Mode e) l"

text \<open>
  \<^verbatim>\<open>AddDirLookupEntry\<close> returns a pointer into the buffer, here its position, at which the
  caller stores an \<^verbatim>\<open>EntryOut\<close>. The struct takes 128 bytes and is cleared first.
\<close>

definition entryOutSize :: nat where
  "entryOutSize = 128"

definition attr_bytes :: "Attr \<Rightarrow> u8 list" where
  "attr_bytes a = le_bytes 8 (a_Ino a) @ le_bytes 8 (a_Size a) @ le_bytes 8 (a_Blocks a)
     @ le_bytes 8 (a_Atime a) @ le_bytes 8 (a_Mtime a) @ le_bytes 8 (a_Ctime a)
     @ le_bytes 4 (a_Atimensec a) @ le_bytes 4 (a_Mtimensec a) @ le_bytes 4 (a_Ctimensec a)
     @ le_bytes 4 (a_Mode a) @ le_bytes 4 (a_Nlink a) @ le_bytes 4 (Uid (a_Owner a)) @ le_bytes 4 (Gid (a_Owner a))
     @ le_bytes 4 (a_Rdev a) @ le_bytes 4 (a_Blksize a) @ replicate 4 0"

definition entry_bytes :: "EntryOut \<Rightarrow> u8 list" where
  "entry_bytes e = le_bytes 8 (eo_NodeId e) @ le_bytes 8 (eo_Generation e) @ le_bytes 8 (eo_EntryValid e)
     @ le_bytes 8 (eo_AttrValid e) @ le_bytes 4 (eo_EntryValidNsec e) @ le_bytes 4 (eo_AttrValidNsec e)
     @ attr_bytes (eo_Attr e)"

definition put_entry_out :: "nat \<Rightarrow> EntryOut \<Rightarrow> DirEntryList \<Rightarrow> DirEntryList" where
  "put_entry_out pos e l = l\<lparr>dl_data := write_at pos (entry_bytes e) (dl_data l)\<rparr>"

definition AddDirLookupEntry :: "DirEntry \<Rightarrow> DirEntryList \<Rightarrow> nat option \<times> DirEntryList" where
  "AddDirLookupEntry e l =
     (let lastStart = dl_len l; (ok, l') = Add entryOutSize (de_Name e) (de_Ino e) (de_Mode e) l
      in if \<not> ok then (None, l') else (Some lastStart, put_entry_out lastStart zero_EntryOut l'))"

section \<open>One record\<close>

definition dirent_image :: "u64 \<Rightarrow> DirEntry \<Rightarrow> u8 list" where
  "dirent_image off e =
     dirent_bytes (if de_Ino e = 0 then FUSE_UNKNOWN_INO else de_Ino e) off (word_of_nat (length (de_Name e)))
       (drop_bit 12 (de_Mode e AND S_IFMT)) @ str_bytes (de_Name e) @ replicate (name_padding (length (de_Name e))) 0"

definition dirent_size :: "DirEntry \<Rightarrow> nat" where
  "dirent_size e = direntSize + length (de_Name e) + name_padding (length (de_Name e))"

lemma length_dirent_bytes [simp]: "length (dirent_bytes i off n t) = direntSize"
  by (simp add: dirent_bytes_def direntSize_def)

lemma length_dirent_image [simp]: "length (dirent_image off e) = dirent_size e"
  by (simp add: dirent_image_def dirent_size_def)

lemma length_attr_bytes [simp]: "length (attr_bytes a) = 88"
  by (simp add: attr_bytes_def)

lemma length_entry_bytes [simp]: "length (entry_bytes e) = entryOutSize"
  by (simp add: entry_bytes_def entryOutSize_def)

lemma name_padding_aligned: "8 dvd n + name_padding n"
proof (cases "n mod 8 = 0")
  case True
  then show ?thesis by (simp add: name_padding_def mod_0_imp_dvd)
next
  case False
  then have p: "name_padding n = 8 - n mod 8" by (simp add: name_padding_def)
  have "n mod 8 < 8" by simp
  then have "n + (8 - n mod 8) = 8 * (n div 8) + 8" using mult_div_mod_eq [of 8 n] by linarith
  then show ?thesis unfolding p by simp
qed

lemma dirent_size_aligned: "8 dvd dirent_size e"
  using name_padding_aligned [of "length (de_Name e)"]
  by (simp add: dirent_size_def direntSize_def add.assoc)

lemma Add_spec:
  "Add prefix (de_Name e) (de_Ino e) (de_Mode e) l =
     (if dl_len l + prefix + dirent_size e > length (dl_data l) then (False, l)
      else (True, l\<lparr>dl_data := write_at (dl_len l + prefix) (dirent_image (dl_offset l + 1) e) (dl_data l),
                   dl_len := dl_len l + prefix + dirent_size e, dl_offset := dl_offset l + 1\<rparr>))"
proof -
  let ?h = "dirent_bytes (if de_Ino e = 0 then FUSE_UNKNOWN_INO else de_Ino e) (dl_offset l + 1)
       (word_of_nat (length (de_Name e))) (drop_bit 12 (de_Mode e AND S_IFMT))"
  let ?n = "length (de_Name e)" and ?i = "dl_len l + prefix" and ?d = "dl_data l"
  let ?z = "replicate (name_padding ?n) (0 :: u8)"
  have "write_at (?i + direntSize + ?n) ?z (write_at (?i + direntSize) (str_bytes (de_Name e)) (write_at ?i ?h ?d))
      = write_at ?i (dirent_image (dl_offset l + 1) e) ?d"
    if "?i + dirent_size e \<le> length ?d"
    using that write_at_write_at [of ?i ?h "str_bytes (de_Name e)" ?d]
      write_at_write_at [of ?i "?h @ str_bytes (de_Name e)" ?z ?d]
    by (simp add: dirent_size_def dirent_image_def add.assoc)
  moreover have "name_padding ?n = 0 \<Longrightarrow> write_at (?i + direntSize) (str_bytes (de_Name e)) (write_at ?i ?h ?d)
      = write_at ?i (dirent_image (dl_offset l + 1) e) ?d"
    if "?i + dirent_size e \<le> length ?d"
    using that write_at_write_at [of ?i ?h "str_bytes (de_Name e)" ?d]
    by (simp add: dirent_size_def dirent_image_def add.assoc)
  ultimately show ?thesis
    by (auto simp: Add_def Let_def dirent_size_def ac_simps)
qed

section \<open>What the kernel reads\<close>

text \<open>
  The kernel walks the reply record by record: an optional \<^verbatim>\<open>EntryOut\<close> of \<^verbatim>\<open>pre\<close> bytes, the fixed
  part with inode, offset, name length and type, the name, and padding to eight bytes.
\<close>

record dirent_read =
  dr_ino :: u64
  dr_off :: u64
  dr_name :: string
  dr_type :: u32

definition dirent_of :: "u64 \<Rightarrow> DirEntry \<Rightarrow> dirent_read" where
  "dirent_of off e = \<lparr>dr_ino = (if de_Ino e = 0 then FUSE_UNKNOWN_INO else de_Ino e), dr_off = off,
     dr_name = de_Name e, dr_type = drop_bit 12 (de_Mode e AND S_IFMT)\<rparr>"

function parse_dirents :: "nat \<Rightarrow> u8 list \<Rightarrow> (u8 list \<times> dirent_read) list option" where
  "parse_dirents pre bs =
     (if bs = [] then Some []
      else if length bs < pre + direntSize then None
      else let d = drop pre bs;
               namelen = unat (le_word (take 4 (drop 16 d)) :: u32);
               n = direntSize + namelen + name_padding namelen
           in if length d < n then None
              else map_option (Cons (take pre bs,
                     \<lparr>dr_ino = le_word (take 8 d), dr_off = le_word (take 8 (drop 8 d)),
                      dr_name = bytes_str (take namelen (drop direntSize d)),
                      dr_type = le_word (take 4 (drop 20 d))\<rparr>))
                   (parse_dirents pre (drop n d)))"
  by auto
termination
  by (relation "measure (\<lambda>(pre, bs). length bs)") (auto simp: direntSize_def)

declare parse_dirents.simps [simp del]

lemma parse_dirents_Nil [simp]: "parse_dirents pre [] = Some []"
  by (simp add: parse_dirents.simps)

lemma dirent_bytes_fields:
  "le_word (take 8 (dirent_bytes i off n t @ r)) = i"
  "le_word (take 8 (drop 8 (dirent_bytes i off n t @ r))) = off"
  "le_word (take 4 (drop 16 (dirent_bytes i off n t @ r))) = n"
  "le_word (take 4 (drop 20 (dirent_bytes i off n t @ r))) = t"
  "drop direntSize (dirent_bytes i off n t @ r) = r"
  by (simp_all add: dirent_bytes_def direntSize_def le_word_le_bytes)

lemma parse_dirents_step:
  assumes "length p = pre" and "namelen = unat (le_word (take 4 (drop 16 d)) :: u32)"
    and "n = direntSize + namelen + name_padding namelen" and "n \<le> length d"
  shows "parse_dirents pre (p @ d) = map_option (Cons (p,
           \<lparr>dr_ino = le_word (take 8 d), dr_off = le_word (take 8 (drop 8 d)),
            dr_name = bytes_str (take namelen (drop direntSize d)), dr_type = le_word (take 4 (drop 20 d))\<rparr>))
         (parse_dirents pre (drop n d))"
proof -
  have ne: "p @ d \<noteq> []" and "pre + direntSize \<le> length (p @ d)"
    using assms(1,3,4) by (auto simp: direntSize_def)
  then show ?thesis
    using assms by (subst parse_dirents.simps) (simp add: Let_def)
qed

lemma parse_dirents_image:
  assumes "length p = pre" and "length (de_Name e) < 2 ^ 32"
  shows "parse_dirents pre (p @ dirent_image off e @ r) =
     map_option (Cons (p, dirent_of off e)) (parse_dirents pre r)"
proof -
  let ?n = "length (de_Name e)"
  let ?h = "dirent_bytes (if de_Ino e = 0 then FUSE_UNKNOWN_INO else de_Ino e) off (word_of_nat ?n)
       (drop_bit 12 (de_Mode e AND S_IFMT))"
  let ?t = "str_bytes (de_Name e) @ replicate (name_padding ?n) 0 @ r"
  have img: "dirent_image off e @ r = ?h @ ?t" by (simp add: dirent_image_def)
  have n: "unat (word_of_nat ?n :: u32) = ?n" using assms(2) by (intro unat_of_nat_small) simp
  have len: "length (?h @ ?t) \<ge> direntSize + ?n + name_padding ?n" by simp
  have d: "drop (direntSize + ?n + name_padding ?n) (?h @ ?t) = r" by simp
  have nm: "bytes_str (take ?n ?t) = de_Name e" by simp
  show ?thesis
    unfolding img
    apply (subst parse_dirents_step [OF assms(1) _ refl])
      apply (simp only: dirent_bytes_fields n)
     apply (rule len)
    apply (subst d)
    apply (simp only: dirent_bytes_fields nm dirent_of_def)
    done
qed

section \<open>Lists of entries\<close>

definition dl_ok :: "DirEntryList \<Rightarrow> bool" where
  "dl_ok l \<longleftrightarrow> dl_len l \<le> length (dl_data l)"

lemma dl_ok_new [simp]: "dl_ok (NewDirEntryList data off)"
  by (simp add: dl_ok_def NewDirEntryList_def)

lemma dl_bytes_new [simp]: "dl_bytes (NewDirEntryList data off) = []"
  by (simp add: dl_bytes_def NewDirEntryList_def)

lemma AddDirEntry_spec:
  assumes "dl_ok l"
  shows "fst (AddDirEntry e l) \<longleftrightarrow> length (dl_bytes l) + dirent_size e \<le> length (dl_data l)"
    and "fst (AddDirEntry e l) \<Longrightarrow> dl_bytes (snd (AddDirEntry e l)) = dl_bytes l @ dirent_image (dl_offset l + 1) e"
    and "fst (AddDirEntry e l) \<Longrightarrow> dl_offset (snd (AddDirEntry e l)) = dl_offset l + 1"
    and "\<not> fst (AddDirEntry e l) \<Longrightarrow> snd (AddDirEntry e l) = l"
    and "dl_ok (snd (AddDirEntry e l))"
    and "length (dl_data (snd (AddDirEntry e l))) = length (dl_data l)"
proof -
  note A = AddDirEntry_def Add_spec [of 0]
  show "fst (AddDirEntry e l) \<longleftrightarrow> length (dl_bytes l) + dirent_size e \<le> length (dl_data l)"
    using assms by (auto simp: A dl_bytes_def dl_ok_def min_def)
  show "fst (AddDirEntry e l) \<Longrightarrow> dl_bytes (snd (AddDirEntry e l)) = dl_bytes l @ dirent_image (dl_offset l + 1) e"
    using take_write_at_end [of "dl_len l" "dl_data l" "dirent_image (dl_offset l + 1) e"] assms
    by (auto simp: A dl_bytes_def dl_ok_def split: if_splits)
qed (use assms in \<open>auto simp: AddDirEntry_def Add_spec [of 0] dl_ok_def split: if_splits\<close>)

text \<open>Adding entries until one does not fit, as the READDIR handlers do.\<close>

fun add_all :: "DirEntry list \<Rightarrow> DirEntryList \<Rightarrow> DirEntry list \<times> DirEntryList" where
  "add_all [] l = ([], l)"
| "add_all (e # es) l = (case AddDirEntry e l of (ok, l') \<Rightarrow> if ok then add_all es l' else (e # es, l'))"

fun dirents_of :: "u64 \<Rightarrow> DirEntry list \<Rightarrow> dirent_read list" where
  "dirents_of off [] = []"
| "dirents_of off (e # es) = dirent_of (off + 1) e # dirents_of (off + 1) es"

fun images_of :: "u64 \<Rightarrow> DirEntry list \<Rightarrow> u8 list" where
  "images_of off [] = []"
| "images_of off (e # es) = dirent_image (off + 1) e @ images_of (off + 1) es"

lemma parse_images:
  "\<forall>e\<in>set es. length (de_Name e) < 2 ^ 32 \<Longrightarrow>
     parse_dirents 0 (images_of off es) = Some (map (Pair []) (dirents_of off es))"
  by (induction es arbitrary: off) (auto simp: parse_dirents_image [of "[]" 0, simplified])

lemma add_all_spec:
  assumes "dl_ok l"
  shows "\<exists>done. es = done @ fst (add_all es l) \<and> dl_bytes (snd (add_all es l)) = dl_bytes l @ images_of (dl_offset l) done
    \<and> dl_offset (snd (add_all es l)) = dl_offset l + word_of_nat (length done)
    \<and> dl_ok (snd (add_all es l)) \<and> length (dl_data (snd (add_all es l))) = length (dl_data l)
    \<and> (fst (add_all es l) \<noteq> [] \<longrightarrow>
         length (dl_bytes (snd (add_all es l))) + dirent_size (hd (fst (add_all es l))) > length (dl_data l))"
  using assms
proof (induction es arbitrary: l)
  case Nil
  then show ?case by simp
next
  case (Cons e es)
  note A = AddDirEntry_spec [OF Cons.prems, of e]
  obtain ok l' where r: "AddDirEntry e l = (ok, l')" by force
  show ?case
  proof (cases ok)
    case False
    then show ?thesis using A r Cons.prems by (intro exI [of _ "[]"]) auto
  next
    case True
    with A r have l': "dl_ok l'" "dl_bytes l' = dl_bytes l @ dirent_image (dl_offset l + 1) e"
      "dl_offset l' = dl_offset l + 1" "length (dl_data l') = length (dl_data l)" by auto
    from Cons.IH [OF l'(1)] obtain dn where "es = dn @ fst (add_all es l')"
      "dl_bytes (snd (add_all es l')) = dl_bytes l' @ images_of (dl_offset l') dn"
      "dl_offset (snd (add_all es l')) = dl_offset l' + word_of_nat (length dn)"
      "dl_ok (snd (add_all es l'))" "length (dl_data (snd (add_all es l'))) = length (dl_data l')"
      "fst (add_all es l') \<noteq> [] \<longrightarrow>
         length (dl_bytes (snd (add_all es l'))) + dirent_size (hd (fst (add_all es l'))) > length (dl_data l')"
      by blast
    then show ?thesis using True r l' by (intro exI [of _ "e # dn"]) auto
  qed
qed

text \<open>READDIRPLUS: each entry is added with space for an \<^verbatim>\<open>EntryOut\<close>, which the handler then fills.\<close>

definition add_plus :: "DirEntry \<Rightarrow> EntryOut \<Rightarrow> DirEntryList \<Rightarrow> bool \<times> DirEntryList" where
  "add_plus e eo l = (case AddDirLookupEntry e l of (None, l') \<Rightarrow> (False, l')
     | (Some pos, l') \<Rightarrow> (True, put_entry_out pos eo l'))"

lemma put_entry_out_twice:
  "pos + entryOutSize \<le> length (dl_data l) \<Longrightarrow> put_entry_out pos a (put_entry_out pos b l) = put_entry_out pos a l"
  by (simp add: put_entry_out_def write_at_def)

lemma take_write_around:
  assumes "i + length p + length b \<le> length xs"
  shows "take (i + length p + length b) (write_at i p (write_at (i + length p) b xs)) = take i xs @ p @ b"
  using assms by (cases p; cases b) (auto simp: write_at_def min_def)

lemma add_plus_spec:
  assumes "dl_ok l"
  shows "fst (add_plus e eo l) \<longleftrightarrow> length (dl_bytes l) + entryOutSize + dirent_size e \<le> length (dl_data l)"
    and "fst (add_plus e eo l) \<Longrightarrow>
      dl_bytes (snd (add_plus e eo l)) = dl_bytes l @ entry_bytes eo @ dirent_image (dl_offset l + 1) e"
    and "fst (add_plus e eo l) \<Longrightarrow> dl_offset (snd (add_plus e eo l)) = dl_offset l + 1"
    and "\<not> fst (add_plus e eo l) \<Longrightarrow> snd (add_plus e eo l) = l"
    and "dl_ok (snd (add_plus e eo l))"
    and "length (dl_data (snd (add_plus e eo l))) = length (dl_data l)"
proof -
  let ?fit = "dl_len l + entryOutSize + dirent_size e \<le> length (dl_data l)"
  let ?img = "dirent_image (dl_offset l + 1) e"
  have eq: "add_plus e eo l = (if ?fit then
      (True, l\<lparr>dl_data := write_at (dl_len l) (entry_bytes eo) (write_at (dl_len l + entryOutSize) ?img (dl_data l)),
               dl_len := dl_len l + entryOutSize + dirent_size e, dl_offset := dl_offset l + 1\<rparr>) else (False, l))"
    by (simp add: add_plus_def AddDirLookupEntry_def Add_spec Let_def put_entry_out_twice)
       (simp add: put_entry_out_def)
  show "fst (add_plus e eo l) \<longleftrightarrow> length (dl_bytes l) + entryOutSize + dirent_size e \<le> length (dl_data l)"
    using assms by (auto simp: eq dl_bytes_def dl_ok_def min_def)
  show "fst (add_plus e eo l) \<Longrightarrow>
      dl_bytes (snd (add_plus e eo l)) = dl_bytes l @ entry_bytes eo @ dirent_image (dl_offset l + 1) e"
    using take_write_around [of "dl_len l" "entry_bytes eo" ?img "dl_data l"]
    by (simp add: eq dl_bytes_def split: if_splits)
  show "fst (add_plus e eo l) \<Longrightarrow> dl_offset (snd (add_plus e eo l)) = dl_offset l + 1"
    "\<not> fst (add_plus e eo l) \<Longrightarrow> snd (add_plus e eo l) = l"
    by (simp_all add: eq split: if_splits)
  show "dl_ok (snd (add_plus e eo l))" "length (dl_data (snd (add_plus e eo l))) = length (dl_data l)"
    using assms by (simp_all add: eq dl_ok_def)
qed

fun add_all_plus :: "(DirEntry \<times> EntryOut) list \<Rightarrow> DirEntryList \<Rightarrow> (DirEntry \<times> EntryOut) list \<times> DirEntryList" where
  "add_all_plus [] l = ([], l)"
| "add_all_plus ((e, eo) # es) l =
     (case add_plus e eo l of (ok, l') \<Rightarrow> if ok then add_all_plus es l' else ((e, eo) # es, l'))"

fun plus_images :: "u64 \<Rightarrow> (DirEntry \<times> EntryOut) list \<Rightarrow> u8 list" where
  "plus_images off [] = []"
| "plus_images off ((e, eo) # es) = entry_bytes eo @ dirent_image (off + 1) e @ plus_images (off + 1) es"

fun plus_of :: "u64 \<Rightarrow> (DirEntry \<times> EntryOut) list \<Rightarrow> (u8 list \<times> dirent_read) list" where
  "plus_of off [] = []"
| "plus_of off ((e, eo) # es) = (entry_bytes eo, dirent_of (off + 1) e) # plus_of (off + 1) es"

lemma parse_plus:
  "\<forall>(e, eo)\<in>set es. length (de_Name e) < 2 ^ 32 \<Longrightarrow>
     parse_dirents entryOutSize (plus_images off es) = Some (plus_of off es)"
  by (induction es arbitrary: off rule: list.induct) (auto simp: parse_dirents_image)

lemma add_all_plus_spec:
  assumes "dl_ok l"
  shows "\<exists>done. es = done @ fst (add_all_plus es l)
    \<and> dl_bytes (snd (add_all_plus es l)) = dl_bytes l @ plus_images (dl_offset l) done
    \<and> dl_ok (snd (add_all_plus es l)) \<and> length (dl_data (snd (add_all_plus es l))) = length (dl_data l)
    \<and> (fst (add_all_plus es l) \<noteq> [] \<longrightarrow> length (dl_bytes (snd (add_all_plus es l)))
         + entryOutSize + dirent_size (fst (hd (fst (add_all_plus es l)))) > length (dl_data l))"
  using assms
proof (induction es arbitrary: l)
  case Nil
  then show ?case by simp
next
  case (Cons p es)
  obtain e eo where p: "p = (e, eo)" by force
  note A = add_plus_spec [OF Cons.prems, of e eo]
  obtain ok l' where r: "add_plus e eo l = (ok, l')" by force
  show ?case
  proof (cases ok)
    case False
    then show ?thesis using A r Cons.prems p by (intro exI [of _ "[]"]) auto
  next
    case True
    with A r have l': "dl_ok l'" "dl_bytes l' = dl_bytes l @ entry_bytes eo @ dirent_image (dl_offset l + 1) e"
      "dl_offset l' = dl_offset l + 1" "length (dl_data l') = length (dl_data l)" by auto
    from Cons.IH [OF l'(1)] obtain dn where "es = dn @ fst (add_all_plus es l')"
      "dl_bytes (snd (add_all_plus es l')) = dl_bytes l' @ plus_images (dl_offset l') dn"
      "dl_ok (snd (add_all_plus es l'))" "length (dl_data (snd (add_all_plus es l'))) = length (dl_data l')"
      "fst (add_all_plus es l') \<noteq> [] \<longrightarrow> length (dl_bytes (snd (add_all_plus es l')))
         + entryOutSize + dirent_size (fst (hd (fst (add_all_plus es l')))) > length (dl_data l')"
      by blast
    then show ?thesis using True r l' p by (intro exI [of _ "p # dn"]) auto
  qed
qed

section \<open>Properties\<close>

text \<open>
  C13: the kernel reads back what was added: filling a fresh list with entries until one does not
  fit leaves a buffer that parses to exactly the entries that were accepted, a prefix of those
  offered, with consecutive offsets after the starting one, never exceeds the size of the
  reply, and stops only when the next entry does not fit.
\<close>

theorem dir_entry_list_roundtrip:
  assumes "\<forall>e\<in>set es. length (de_Name e) < 2 ^ 32"
    and "add_all es (NewDirEntryList data off) = (rest, l)"
  shows "\<exists>done. es = done @ rest \<and> parse_dirents 0 (dl_bytes l) = Some (map (Pair []) (dirents_of off done))
    \<and> length (dl_bytes l) \<le> length data
    \<and> (rest \<noteq> [] \<longrightarrow> length (dl_bytes l) + dirent_size (hd rest) > length data)"
proof -
  have o: "dl_offset (NewDirEntryList data off) = off" "dl_data (NewDirEntryList data off) = data"
    by (simp_all add: NewDirEntryList_def)
  from add_all_spec [OF dl_ok_new, of es data off] assms(2) obtain dn where
    d: "es = dn @ rest" "dl_bytes l = images_of off dn" "dl_ok l" "length (dl_data l) = length data"
      "rest \<noteq> [] \<longrightarrow> length (dl_bytes l) + dirent_size (hd rest) > length data"
    by (auto simp: o)
  moreover have "length (dl_bytes l) \<le> length data" using d(3,4) by (simp add: dl_bytes_def dl_ok_def)
  moreover have "parse_dirents 0 (dl_bytes l) = Some (map (Pair []) (dirents_of off dn))"
    unfolding d(2) using assms(1) d(1) by (intro parse_images) auto
  ultimately show ?thesis by blast
qed

theorem dir_entry_list_roundtrip_witness:
  "\<exists>done. [\<lparr>de_Mode = 16384, de_Name = ''a'', de_Ino = 7\<rparr>, \<lparr>de_Mode = 32768, de_Name = ''b'', de_Ino = 0\<rparr>]
      = done @ [\<lparr>de_Mode = 32768, de_Name = ''b'', de_Ino = 0\<rparr>]
    \<and> parse_dirents 0 (dl_bytes (snd (add_all [\<lparr>de_Mode = 16384, de_Name = ''a'', de_Ino = 7\<rparr>,
          \<lparr>de_Mode = 32768, de_Name = ''b'', de_Ino = 0\<rparr>] (NewDirEntryList (replicate 40 0) 5))))
      = Some (map (Pair []) (dirents_of 5 done))"
proof -
  let ?es = "[\<lparr>de_Mode = 16384, de_Name = ''a'', de_Ino = 7\<rparr>, \<lparr>de_Mode = 32768, de_Name = ''b'', de_Ino = 0\<rparr>]"
  let ?r = "add_all ?es (NewDirEntryList (replicate 40 0) 5)"
  have f: "fst ?r = [\<lparr>de_Mode = 32768, de_Name = ''b'', de_Ino = 0\<rparr>]"
    by (simp add: AddDirEntry_def Add_def NewDirEntryList_def name_padding_def direntSize_def Let_def)
  obtain l where r: "?r = ([\<lparr>de_Mode = 32768, de_Name = ''b'', de_Ino = 0\<rparr>], l)" using f by (cases ?r) simp
  have h: "\<forall>e\<in>set ?es. length (de_Name e) < 2 ^ 32" by simp
  show ?thesis unfolding r snd_conv using dir_entry_list_roundtrip [OF h r] by blast
qed

text \<open>
  C14: the same for READDIRPLUS: the buffer parses to the accepted entries, a prefix of those offered,
  each preceded by the image of the \<^verbatim>\<open>EntryOut\<close> that was stored for it, so filling one in never
  damages its neighbours; it never exceeds the size of the reply, and adding stops only when the next
  entry with its \<^verbatim>\<open>EntryOut\<close> does not fit.
\<close>

theorem dir_plus_list_roundtrip:
  assumes "\<forall>(e, eo)\<in>set es. length (de_Name e) < 2 ^ 32"
    and "add_all_plus es (NewDirEntryList data off) = (rest, l)"
  shows "\<exists>done. es = done @ rest \<and> parse_dirents entryOutSize (dl_bytes l) = Some (plus_of off done)
    \<and> length (dl_bytes l) \<le> length data
    \<and> (rest \<noteq> [] \<longrightarrow> length (dl_bytes l) + entryOutSize + dirent_size (fst (hd rest)) > length data)"
proof -
  have o: "dl_offset (NewDirEntryList data off) = off" "dl_data (NewDirEntryList data off) = data"
    by (simp_all add: NewDirEntryList_def)
  from add_all_plus_spec [OF dl_ok_new, of es data off] assms(2) obtain dn where
    d: "es = dn @ rest" "dl_bytes l = plus_images off dn" "dl_ok l" "length (dl_data l) = length data"
      "rest \<noteq> [] \<longrightarrow> length (dl_bytes l) + entryOutSize + dirent_size (fst (hd rest)) > length data"
    by (auto simp: o)
  moreover have "length (dl_bytes l) \<le> length data" using d(3,4) by (simp add: dl_bytes_def dl_ok_def)
  moreover have "parse_dirents entryOutSize (dl_bytes l) = Some (plus_of off dn)"
    unfolding d(2) using assms(1) d(1) by (intro parse_plus) auto
  ultimately show ?thesis by blast
qed

theorem dir_plus_list_roundtrip_witness:
  "\<exists>done. [(\<lparr>de_Mode = 16384, de_Name = ''a'', de_Ino = 7\<rparr>, zero_EntryOut), (\<lparr>de_Mode = 32768, de_Name = ''b'', de_Ino = 0\<rparr>, zero_EntryOut)]
      = done @ [(\<lparr>de_Mode = 32768, de_Name = ''b'', de_Ino = 0\<rparr>, zero_EntryOut)]
    \<and> parse_dirents entryOutSize (dl_bytes (snd (add_all_plus
          [(\<lparr>de_Mode = 16384, de_Name = ''a'', de_Ino = 7\<rparr>, zero_EntryOut), (\<lparr>de_Mode = 32768, de_Name = ''b'', de_Ino = 0\<rparr>, zero_EntryOut)]
          (NewDirEntryList (replicate 160 0) 5))))
      = Some (plus_of 5 done)"
proof -
  let ?es = "[(\<lparr>de_Mode = 16384, de_Name = ''a'', de_Ino = 7\<rparr>, zero_EntryOut), (\<lparr>de_Mode = 32768, de_Name = ''b'', de_Ino = 0\<rparr>, zero_EntryOut)]"
  let ?b = "[(\<lparr>de_Mode = 32768, de_Name = ''b'', de_Ino = 0\<rparr>, zero_EntryOut)]"
  let ?r = "add_all_plus ?es (NewDirEntryList (replicate 160 0) 5)"
  have f: "fst ?r = ?b"
    by (simp add: add_plus_def AddDirLookupEntry_def Add_def NewDirEntryList_def name_padding_def
        direntSize_def entryOutSize_def put_entry_out_def Let_def)
  obtain l where r: "?r = (?b, l)" using f by (cases ?r) simp
  have h: "\<forall>(e, eo)\<in>set ?es. length (de_Name e) < 2 ^ 32" by simp
  show ?thesis unfolding r snd_conv using dir_plus_list_roundtrip [OF h r] by blast
qed

end
