(* ===== verification/RawFS.thy ===== *)
theory RawFS
  imports FuseIn DirEntryList
begin

text \<open>
  The interface between the server and a file system, \<^verbatim>\<open>RawFileSystem\<close> of \<^verbatim>\<open>fuse/api.go\<close>, as a
  record of functions on the state of the file system, and its null implementation
  (\<^verbatim>\<open>fuse/defaultraw.go\<close>). An output argument is passed in and returned. The cancel channel of a
  call is not part of the model: no implementation here reads it.
\<close>

section \<open>The interface\<close>

type_synonym ('w, 'a) fsm = "'w \<Rightarrow> ('a \<times> 'w) go"

text \<open>What a READ returns: bytes, or a range of an open file for splicing.\<close>

datatype ReadResult =
    ReadResultData "u8 list"
  | ReadResultFd (rr_Fd: u64) (rr_Off: i64) (rr_Sz: nat)

fun rr_Size :: "ReadResult \<Rightarrow> nat" where
  "rr_Size (ReadResultData b) = length b"
| "rr_Size (ReadResultFd fd off sz) = sz"

record 'w RawFileSystem =
  fs_Lookup :: "InHeader \<Rightarrow> string \<Rightarrow> EntryOut \<Rightarrow> ('w, Status \<times> EntryOut) fsm"
  fs_Forget :: "u64 \<Rightarrow> u64 \<Rightarrow> ('w, unit) fsm"
  fs_GetAttr :: "GetAttrIn \<Rightarrow> AttrOut \<Rightarrow> ('w, Status \<times> AttrOut) fsm"
  fs_SetAttr :: "SetAttrIn \<Rightarrow> AttrOut \<Rightarrow> ('w, Status \<times> AttrOut) fsm"
  fs_Mknod :: "MknodIn \<Rightarrow> string \<Rightarrow> EntryOut \<Rightarrow> ('w, Status \<times> EntryOut) fsm"
  fs_Mkdir :: "MkdirIn \<Rightarrow> string \<Rightarrow> EntryOut \<Rightarrow> ('w, Status \<times> EntryOut) fsm"
  fs_Unlink :: "InHeader \<Rightarrow> string \<Rightarrow> ('w, Status) fsm"
  fs_Rmdir :: "InHeader \<Rightarrow> string \<Rightarrow> ('w, Status) fsm"
  fs_Rename :: "RenameIn \<Rightarrow> string \<Rightarrow> string \<Rightarrow> ('w, Status) fsm"
  fs_Link :: "LinkIn \<Rightarrow> string \<Rightarrow> EntryOut \<Rightarrow> ('w, Status \<times> EntryOut) fsm"
  fs_Symlink :: "InHeader \<Rightarrow> string \<Rightarrow> string \<Rightarrow> EntryOut \<Rightarrow> ('w, Status \<times> EntryOut) fsm"
  fs_Readlink :: "InHeader \<Rightarrow> ('w, u8 list \<times> Status) fsm"
  fs_Access :: "AccessIn \<Rightarrow> ('w, Status) fsm"
  fs_GetXAttr :: "InHeader \<Rightarrow> string \<Rightarrow> u8 list \<Rightarrow> ('w, u32 \<times> Status \<times> u8 list) fsm"
  fs_ListXAttr :: "InHeader \<Rightarrow> u8 list \<Rightarrow> ('w, u32 \<times> Status \<times> u8 list) fsm"
  fs_SetXAttr :: "SetXAttrIn \<Rightarrow> string \<Rightarrow> u8 list \<Rightarrow> ('w, Status) fsm"
  fs_RemoveXAttr :: "InHeader \<Rightarrow> string \<Rightarrow> ('w, Status) fsm"
  fs_Create :: "CreateIn \<Rightarrow> string \<Rightarrow> CreateOut \<Rightarrow> ('w, Status \<times> CreateOut) fsm"
  fs_Open :: "OpenIn \<Rightarrow> OpenOut \<Rightarrow> ('w, Status \<times> OpenOut) fsm"
  fs_Read :: "ReadIn \<Rightarrow> u8 list \<Rightarrow> ('w, ReadResult option \<times> Status) fsm"
  fs_Lseek :: "LseekIn \<Rightarrow> LseekOut \<Rightarrow> ('w, Status \<times> LseekOut) fsm"
  fs_GetLk :: "LkIn \<Rightarrow> LkOut \<Rightarrow> ('w, Status \<times> LkOut) fsm"
  fs_SetLk :: "LkIn \<Rightarrow> ('w, Status) fsm"
  fs_SetLkw :: "LkIn \<Rightarrow> ('w, Status) fsm"
  fs_Release :: "ReleaseIn \<Rightarrow> ('w, unit) fsm"
  fs_Write :: "WriteIn \<Rightarrow> u8 list \<Rightarrow> ('w, u32 \<times> Status) fsm"
  fs_CopyFileRange :: "CopyFileRangeIn \<Rightarrow> ('w, u32 \<times> Status) fsm"
  fs_Flush :: "FlushIn \<Rightarrow> ('w, Status) fsm"
  fs_Fsync :: "FsyncIn \<Rightarrow> ('w, Status) fsm"
  fs_Fallocate :: "FallocateIn \<Rightarrow> ('w, Status) fsm"
  fs_OpenDir :: "OpenIn \<Rightarrow> OpenOut \<Rightarrow> ('w, Status \<times> OpenOut) fsm"
  fs_ReadDir :: "ReadIn \<Rightarrow> DirEntryList \<Rightarrow> ('w, Status \<times> DirEntryList) fsm"
  fs_ReadDirPlus :: "ReadIn \<Rightarrow> DirEntryList \<Rightarrow> ('w, Status \<times> DirEntryList) fsm"
  fs_ReleaseDir :: "ReleaseIn \<Rightarrow> ('w, unit) fsm"
  fs_FsyncDir :: "FsyncIn \<Rightarrow> ('w, Status) fsm"
  fs_StatFs :: "InHeader \<Rightarrow> StatfsOut \<Rightarrow> ('w, Status \<times> StatfsOut) fsm"
  fs_Init :: "('w, unit) fsm"

section \<open>The null implementation\<close>

definition fs_return :: "'a \<Rightarrow> ('w, 'a) fsm" where
  "fs_return x = (\<lambda>w. Inr (x, w))"

text \<open>All operations are refused with ENOSYS, except that Open and Flush succeed.\<close>

definition defaultRawFileSystem :: "'w RawFileSystem" where
  "defaultRawFileSystem =
    \<lparr>fs_Lookup = (\<lambda>header name out. fs_return (ENOSYS, out)),
     fs_Forget = (\<lambda>nodeID nlookup. fs_return ()),
     fs_GetAttr = (\<lambda>input out. fs_return (ENOSYS, out)),
     fs_SetAttr = (\<lambda>input out. fs_return (ENOSYS, out)),
     fs_Mknod = (\<lambda>input name out. fs_return (ENOSYS, out)),
     fs_Mkdir = (\<lambda>input name out. fs_return (ENOSYS, out)),
     fs_Unlink = (\<lambda>header name. fs_return ENOSYS),
     fs_Rmdir = (\<lambda>header name. fs_return ENOSYS),
     fs_Rename = (\<lambda>input oldName newName. fs_return ENOSYS),
     fs_Link = (\<lambda>input name out. fs_return (ENOSYS, out)),
     fs_Symlink = (\<lambda>header pointedTo linkName out. fs_return (ENOSYS, out)),
     fs_Readlink = (\<lambda>header. fs_return ([], ENOSYS)),
     fs_Access = (\<lambda>input. fs_return ENOSYS),
     fs_GetXAttr = (\<lambda>header attr dest. fs_return (0, ENOSYS, dest)),
     fs_ListXAttr = (\<lambda>header dest. fs_return (0, ENOSYS, dest)),
     fs_SetXAttr = (\<lambda>input attr data. fs_return ENOSYS),
     fs_RemoveXAttr = (\<lambda>header attr. fs_return ENOSYS),
     fs_Create = (\<lambda>input name out. fs_return (ENOSYS, out)),
     fs_Open = (\<lambda>input out. fs_return (OK, out)),
     fs_Read = (\<lambda>input buf. fs_return (None, ENOSYS)),
     fs_Lseek = (\<lambda>input out. fs_return (ENOSYS, out)),
     fs_GetLk = (\<lambda>input out. fs_return (ENOSYS, out)),
     fs_SetLk = (\<lambda>input. fs_return ENOSYS),
     fs_SetLkw = (\<lambda>input. fs_return ENOSYS),
     fs_Release = (\<lambda>input. fs_return ()),
     fs_Write = (\<lambda>input data. fs_return (0, ENOSYS)),
     fs_CopyFileRange = (\<lambda>input. fs_return (0, ENOSYS)),
     fs_Flush = (\<lambda>input. fs_return OK),
     fs_Fsync = (\<lambda>input. fs_return ENOSYS),
     fs_Fallocate = (\<lambda>input. fs_return ENOSYS),
     fs_OpenDir = (\<lambda>input out. fs_return (ENOSYS, out)),
     fs_ReadDir = (\<lambda>input l. fs_return (ENOSYS, l)),
     fs_ReadDirPlus = (\<lambda>input l. fs_return (ENOSYS, l)),
     fs_ReleaseDir = (\<lambda>input. fs_return ()),
     fs_FsyncDir = (\<lambda>input. fs_return ENOSYS),
     fs_StatFs = (\<lambda>header out. fs_return (ENOSYS, out)),
     fs_Init = fs_return ()\<rparr>"

end
