(* ===== verification/BufferPool.thy ===== *)
theory BufferPool
  imports Prelude
begin

text \<open>
  \<^verbatim>\<open>fuse/bufferpool.go\<close>: buffers of whole pages, kept by page count for reuse. A buffer is its
  backing array and the length of the slice; the capacity is the length of the array. The page
  size is a parameter. A \<^verbatim>\<open>sync.Pool\<close> may drop what was put into it at any time: whether a \<^verbatim>\<open>Get\<close>
  finds a stored buffer is the argument \<^verbatim>\<open>hit\<close>.
\<close>

section \<open>Operations\<close>

record slice =
  sl_array :: "u8 list"
  sl_len :: nat

definition sl_cap :: "slice \<Rightarrow> nat" where
  "sl_cap s = length (sl_array s)"

definition sl_bytes :: "slice \<Rightarrow> u8 list" where
  "sl_bytes s = take (sl_len s) (sl_array s)"

text \<open>\<^verbatim>\<open>buffersBySize\<close>: the pool for each page count, nil until first used.\<close>

type_synonym bufferPool = "u8 list list option list"

definition getPool :: "nat \<Rightarrow> bufferPool \<Rightarrow> u8 list list \<times> bufferPool" where
  "getPool pageCount p =
     (let p1 = p @ replicate (pageCount + 1 - length p) None;
          p2 = (if p1 ! pageCount = None then p1[pageCount := Some []] else p1)
      in (the (p2 ! pageCount), p2))"

definition pool_Get :: "nat \<Rightarrow> bool \<Rightarrow> nat \<Rightarrow> bufferPool \<Rightarrow> u8 list \<times> bufferPool" where
  "pool_Get pageSize hit pageCount p =
     (case getPool pageCount p of (bs, p') \<Rightarrow>
        (case bs of
           b # rest \<Rightarrow> if hit then (b, p'[pageCount := Some rest]) else (replicate (pageSize * pageCount) 0, p')
         | [] \<Rightarrow> (replicate (pageSize * pageCount) 0, p')))"

definition pool_Put :: "nat \<Rightarrow> u8 list \<Rightarrow> bufferPool \<Rightarrow> bufferPool" where
  "pool_Put pageCount b p = (case getPool pageCount p of (bs, p') \<Rightarrow> p'[pageCount := Some (b # bs)])"

definition alloc_pages :: "nat \<Rightarrow> nat \<Rightarrow> nat" where
  "alloc_pages pageSize sz =
     (let s1 = (if sz < pageSize then pageSize else sz);
          s2 = (if s1 mod pageSize \<noteq> 0 then s1 + pageSize else s1)
      in s2 div pageSize)"

definition AllocBuffer :: "nat \<Rightarrow> bool \<Rightarrow> u32 \<Rightarrow> bufferPool \<Rightarrow> (slice \<times> bufferPool) go" where
  "AllocBuffer pageSize hit sz p =
     (case pool_Get pageSize hit (alloc_pages pageSize (unat sz)) p of (b, p') \<Rightarrow>
        if unat sz \<le> length b then Inr (\<lparr>sl_array = b, sl_len = unat sz\<rparr>, p') else Inl IndexRange)"

definition FreeBuffer :: "nat \<Rightarrow> slice option \<Rightarrow> bufferPool \<Rightarrow> bufferPool" where
  "FreeBuffer pageSize so p =
     (case so of None \<Rightarrow> p
      | Some s \<Rightarrow> if sl_cap s mod pageSize \<noteq> 0 \<or> sl_cap s = 0 then p
                  else pool_Put (sl_cap s div pageSize) (sl_array s) p)"

section \<open>Invariant\<close>

text \<open>The pool for n pages holds buffers of exactly n pages.\<close>

definition pool_inv :: "nat \<Rightarrow> bufferPool \<Rightarrow> bool" where
  "pool_inv pageSize p \<longleftrightarrow> (\<forall>n < length p. \<forall>bs. p ! n = Some bs \<longrightarrow> (\<forall>b\<in>set bs. length b = pageSize * n))"

text \<open>The buffers of n pages the pool holds.\<close>

definition stored :: "bufferPool \<Rightarrow> nat \<Rightarrow> u8 list list" where
  "stored p n = (if n < length p then (case p ! n of None \<Rightarrow> [] | Some bs \<Rightarrow> bs) else [])"

lemma pool_inv_stored: "pool_inv pageSize p \<longleftrightarrow> (\<forall>n. \<forall>b\<in>set (stored p n). length b = pageSize * n)"
proof -
  have st: "(n < length p \<longrightarrow> (\<forall>bs. p ! n = Some bs \<longrightarrow> (\<forall>b\<in>set bs. P b))) = (\<forall>b\<in>set (stored p n). P b)" for n P
  proof (cases "n < length p")
    case True
    then show ?thesis unfolding stored_def by (cases "p ! n") auto
  qed (simp add: stored_def)
  show ?thesis by (simp only: pool_inv_def flip: st)
qed

lemma getPool_spec:
  assumes "getPool n p = (bs, p')"
  shows "bs = stored p n" and "stored p' = stored p" and "n < length p'" and "p' ! n = Some bs"
proof -
  let ?p1 = "p @ replicate (n + 1 - length p) None"
  have len: "n < length ?p1" by simp
  have s1: "stored ?p1 = stored p"
    by (auto simp: stored_def nth_append fun_eq_iff split: option.splits)
  have p': "p' = (if ?p1 ! n = None then ?p1[n := Some []] else ?p1)" and bs: "bs = the (p' ! n)"
    using assms by (auto simp: getPool_def Let_def)
  show l: "n < length p'" using len by (simp add: p')
  show some: "p' ! n = Some bs" using len by (auto simp: p' bs)
  show s: "stored p' = stored p"
  proof
    fix m
    have "stored p' m = stored ?p1 m"
      using len by (cases "m = n") (auto simp: p' stored_def)
    then show "stored p' m = stored p m" using s1 by simp
  qed
  show "bs = stored p n" using s [THEN fun_cong, of n] l some by (simp add: stored_def)
qed

lemma stored_update:
  "n < length p \<Longrightarrow> stored (p[n := Some bs]) m = (if m = n then bs else stored p m)"
  by (simp add: stored_def)

lemma pool_Put_stored: "stored (pool_Put n b p) m = (if m = n then b # stored p n else stored p m)"
proof -
  obtain bs p' where g: "getPool n p = (bs, p')" by force
  note G = getPool_spec [OF g]
  show ?thesis by (simp add: pool_Put_def g stored_update [OF G(3)] G(1,2))
qed

lemma pool_Get_spec:
  assumes "pool_Get pageSize hit n p = (b, p')"
  shows "(\<exists>rest. stored p n = b # rest \<and> stored p' = (stored p)(n := rest))
       \<or> b = replicate (pageSize * n) 0 \<and> stored p' = stored p"
proof -
  obtain bs q where g: "getPool n p = (bs, q)" by force
  note G = getPool_spec [OF g]
  show ?thesis
  proof (cases "hit \<and> bs \<noteq> []")
    case True
    then obtain c rest where bs: "bs = c # rest" by (cases bs) auto
    then have "b = c" "p' = q[n := Some rest]" using assms g True by (auto simp: pool_Get_def)
    then show ?thesis using G bs by (auto simp: stored_update fun_eq_iff)
  next
    case False
    then have "b = replicate (pageSize * n) 0" "p' = q"
      using assms g by (auto simp: pool_Get_def split: list.splits)
    then show ?thesis using G by simp
  qed
qed

lemma alloc_pages_enough:
  assumes "0 < pageSize"
  shows "sz \<le> pageSize * alloc_pages pageSize sz" and "0 < alloc_pages pageSize sz"
proof -
  define s1 where "s1 = (if sz < pageSize then pageSize else sz)"
  define s2 where "s2 = (if s1 mod pageSize \<noteq> 0 then s1 + pageSize else s1)"
  have p: "alloc_pages pageSize sz = s2 div pageSize" by (simp add: alloc_pages_def Let_def s1_def s2_def)
  have ge: "pageSize \<le> s1" "sz \<le> s1" by (auto simp: s1_def)
  have s1: "s1 = pageSize * (s1 div pageSize) + s1 mod pageSize" "s1 mod pageSize < pageSize"
    using assms by simp_all
  have le: "s1 \<le> pageSize * (s2 div pageSize)"
  proof (cases "s1 mod pageSize = 0")
    case True
    then show ?thesis using s1 by (simp add: s2_def)
  next
    case False
    then have "pageSize * (s2 div pageSize) = pageSize * (s1 div pageSize) + pageSize"
      using assms div_add_self2 [of pageSize s1] by (simp add: s2_def)
    with s1 show ?thesis by linarith
  qed
  then show "sz \<le> pageSize * alloc_pages pageSize sz" using ge p by simp
  show "0 < alloc_pages pageSize sz"
    using le ge(1) assms p by (metis gr0I le_zero_eq mult_0_right not_le)
qed

lemma pool_Get_len:
  assumes "pool_inv pageSize p" and "pool_Get pageSize hit n p = (b, p')"
  shows "length b = pageSize * n" and "pool_inv pageSize p'"
  using pool_Get_spec [OF assms(2)] assms(1) unfolding pool_inv_stored by (auto split: if_splits)

section \<open>Properties\<close>

text \<open>
  C15: an allocated buffer has exactly the requested length and a capacity of whole pages that
  covers it, whatever the pool contains; freeing and allocating keep every pool free of buffers
  of the wrong size, and freeing a slice that did not come from the pool leaves it alone unless
  its capacity happens to be whole pages.
\<close>

theorem buffer_pool_correct:
  assumes "0 < pageSize" and "pool_inv pageSize p"
  shows "\<exists>s p'. AllocBuffer pageSize hit sz p = Inr (s, p') \<and> length (sl_bytes s) = unat sz
      \<and> pageSize dvd sl_cap s \<and> pool_inv pageSize p' \<and> pool_inv pageSize (FreeBuffer pageSize (Some s) p')
      \<and> (\<forall>f. pool_inv pageSize (FreeBuffer pageSize f p))
      \<and> (\<forall>f. \<not> pageSize dvd sl_cap f \<longrightarrow> FreeBuffer pageSize (Some f) p = p)"
proof -
  let ?n = "alloc_pages pageSize (unat sz)"
  obtain b p' where g: "pool_Get pageSize hit ?n p = (b, p')" by force
  note L = pool_Get_len [OF assms(2) g]
  have free: "pool_inv pageSize (FreeBuffer pageSize f q)" if "pool_inv pageSize q" for f q
    using that unfolding pool_inv_stored
    by (auto simp: FreeBuffer_def pool_Put_stored sl_cap_def split: option.splits if_splits)
  let ?s = "\<lparr>sl_array = b, sl_len = unat sz\<rparr>"
  have sz: "unat sz \<le> length b" using alloc_pages_enough(1) [OF assms(1)] L(1) by simp
  have "AllocBuffer pageSize hit sz p = Inr (?s, p')" using sz by (simp add: AllocBuffer_def g)
  moreover have "length (sl_bytes ?s) = unat sz" using sz by (simp add: sl_bytes_def)
  moreover have "pageSize dvd sl_cap ?s" by (simp add: sl_cap_def L(1))
  moreover have "FreeBuffer pageSize (Some f) p = p" if "\<not> pageSize dvd sl_cap f" for f
    using that by (simp add: FreeBuffer_def dvd_eq_mod_eq_0)
  ultimately show ?thesis using L(2) free [OF L(2)] free [OF assms(2)] by blast
qed

theorem buffer_pool_correct_witness:
  "\<exists>s p'. AllocBuffer 4 True 5 [None, None, Some [[1, 2, 3, 4, 5, 6, 7, 8]]] = Inr (s, p')
      \<and> length (sl_bytes s) = unat (5 :: u32) \<and> 4 dvd sl_cap s"
proof -
  have "pool_inv 4 [None, None, Some [[1, 2, 3, 4, 5, 6, 7, 8]]]"
    by (auto simp: pool_inv_def less_Suc_eq numeral_3_eq_3 nth_Cons split: nat.splits)
  with buffer_pool_correct [of 4 _ True 5] show ?thesis by (metis zero_less_numeral)
qed

end
