(* ===== verification/Request.thy ===== *)
theory Request
  imports OpcodeTable RawFS BufferPool
begin

text \<open>
  \<^verbatim>\<open>fuse/request.go\<close>: one request from the kernel and its reply. Input is a byte buffer that
  \<^verbatim>\<open>parse\<close> splits into header, struct, file names and payload; output is the header and struct in
  \<^verbatim>\<open>outBuf\<close> followed by flat data. The struct pointer is the buffer from its start.
\<close>

section \<open>State\<close>

definition outputHeaderSize :: nat where "outputHeaderSize = 160"
definition sizeOfOutHeader :: nat where "sizeOfOutHeader = 16"
definition sizeOfInHeader :: nat where "sizeOfInHeader = 40"
definition smallInputSize :: nat where "smallInputSize = 128"

record request =
  rq_inflightIndex :: nat
  rq_cancelled :: bool
  rq_interrupted :: bool
  rq_inputBuf :: "u8 list"
  rq_inHeader :: "InHeader option"
  rq_inData :: "u8 list option"
  rq_arg :: "u8 list"
  rq_filenames :: "string list"
  rq_status :: Status
  rq_flatData :: "u8 list"
  rq_fdData :: "ReadResult option"
  rq_readResult :: "ReadResult option"
  rq_handler :: "operationHandler option"
  rq_bufferPoolInputBuf :: "u8 list option"
  rq_bufferPoolOutputBuf :: "slice option"
  rq_outBuf :: "u8 list"

definition new_request :: request where
  "new_request = \<lparr>rq_inflightIndex = 0, rq_cancelled = False, rq_interrupted = False, rq_inputBuf = [],
     rq_inHeader = None, rq_inData = None, rq_arg = [], rq_filenames = [], rq_status = OK, rq_flatData = [],
     rq_fdData = None, rq_readResult = None, rq_handler = None, rq_bufferPoolInputBuf = None,
     rq_bufferPoolOutputBuf = None, rq_outBuf = replicate outputHeaderSize 0\<rparr>"

section \<open>Input\<close>

definition clear :: "request \<Rightarrow> request" where
  "clear r = r\<lparr>rq_inputBuf := [], rq_inHeader := None, rq_inData := None, rq_arg := [], rq_filenames := [],
     rq_status := OK, rq_flatData := [], rq_fdData := None, rq_handler := None, rq_readResult := None\<rparr>"

text \<open>\<^verbatim>\<open>setInput\<close> copies a small input and takes ownership of the backing array of a large one.\<close>

definition setInput :: "u8 list \<Rightarrow> u8 list \<Rightarrow> request \<Rightarrow> bool \<times> request" where
  "setInput input backing r =
     (if length input < smallInputSize then (False, r\<lparr>rq_inputBuf := input\<rparr>)
      else (True, r\<lparr>rq_inputBuf := input, rq_bufferPoolInputBuf := Some backing\<rparr>))"

definition parseHeader :: "request \<Rightarrow> Status \<times> request" where
  "parseHeader r =
     (if length (rq_inputBuf r) < sizeOfInHeader then (EINVAL, r)
      else (OK, r\<lparr>rq_inHeader := Some (as_InHeader (rq_inputBuf r))\<rparr>))"

text \<open>\<^verbatim>\<open>bytes.SplitN\<close> with a zero byte as separator.\<close>

fun splitN :: "nat \<Rightarrow> u8 list \<Rightarrow> u8 list list" where
  "splitN 0 s = []"
| "splitN (Suc 0) s = [s]"
| "splitN (Suc (Suc k)) s =
     (if 0 \<in> set s then takeWhile (\<lambda>b. b \<noteq> 0) s # splitN (Suc k) (tl (dropWhile (\<lambda>b. b \<noteq> 0) s)) else [s])"

definition drop_last :: "u8 list \<Rightarrow> u8 list go" where
  "drop_last s = (if s = [] then Inl IndexRange else Inr (butlast s))"

definition parse_names :: "operationHandler \<Rightarrow> InHeader \<Rightarrow> request \<Rightarrow> request go" where
  "parse_names h hdr r =
     (let count = h_FileNames h in
      if count = 0 then Inr r
      else if count = 1 \<and> sint (ih_Opcode hdr) = int OP_SETXATTR
      then Inr (r\<lparr>rq_filenames := [bytes_str (splitN 2 (rq_arg r) ! 0)]\<rparr>)
      else if count = 1
      then bind_go (drop_last (rq_arg r)) (\<lambda>s. Inr (r\<lparr>rq_filenames := [bytes_str s]\<rparr>))
      else bind_go (drop_last (rq_arg r)) (\<lambda>s.
             let names = splitN count s;
                 r' = r\<lparr>rq_filenames := map bytes_str names\<rparr>
             in Inr (if length names \<noteq> count then r'\<lparr>rq_status := EIO\<rparr> else r')))"

definition clear_out :: "operationHandler \<Rightarrow> request \<Rightarrow> request" where
  "clear_out h r = r\<lparr>rq_outBuf := write_at 0 (replicate (h_OutputSize h + sizeOfOutHeader) 0) (rq_outBuf r)\<rparr>"

definition parse_struct :: "operationHandler \<Rightarrow> request \<Rightarrow> request" where
  "parse_struct h r =
     (if h_InputSize h > 0
      then r\<lparr>rq_inData := Some (rq_arg r), rq_arg := drop (h_InputSize h) (rq_arg r)\<rparr>
      else r\<lparr>rq_arg := drop sizeOfInHeader (rq_arg r)\<rparr>)"

definition parse_with :: "operationHandler \<Rightarrow> InHeader \<Rightarrow> request \<Rightarrow> request go" where
  "parse_with h hdr r =
     (if length (rq_arg r) < h_InputSize h then Inr (r\<lparr>rq_status := EIO\<rparr>)
      else bind_go (parse_names h hdr (parse_struct h r)) (\<lambda>r'. Inr (clear_out h r')))"

definition parse :: "request \<Rightarrow> request go" where
  "parse r =
     (case rq_inHeader r of
        None \<Rightarrow> Inl NilDeref
      | Some hdr \<Rightarrow>
          bind_go (getHandler (ih_Opcode hdr)) (\<lambda>ho.
            let r1 = r\<lparr>rq_arg := rq_inputBuf r, rq_handler := ho\<rparr> in
            case ho of None \<Rightarrow> Inr (r1\<lparr>rq_status := ENOSYS\<rparr>) | Some h \<Rightarrow> parse_with h hdr r1))"

section \<open>Output\<close>

text \<open>Storing the output struct through the pointer \<^verbatim>\<open>outData\<close>.\<close>

definition put_out :: "u8 list \<Rightarrow> request \<Rightarrow> request" where
  "put_out bs r = r\<lparr>rq_outBuf := write_at sizeOfOutHeader bs (rq_outBuf r)\<rparr>"

definition flatDataSize :: "request \<Rightarrow> nat" where
  "flatDataSize r = (case rq_fdData r of Some fd \<Rightarrow> rr_Size fd | None \<Rightarrow> length (rq_flatData r))"

definition out_length :: "InHeader \<Rightarrow> request \<Rightarrow> nat go" where
  "out_length hdr r =
     (let n0 = (case rq_handler r of None \<Rightarrow> 0 | Some h \<Rightarrow> h_OutputSize h);
          n1 = (if rq_status r > OK then 0 else n0)
      in if sint (ih_Opcode hdr) = int OP_GETXATTR \<or> sint (ih_Opcode hdr) = int OP_LISTXATTR
         then (case rq_inData r of
                 None \<Rightarrow> Inl NilDeref
               | Some d \<Rightarrow> Inr (if gxi_Size (as_GetXAttrIn d) \<noteq> 0 then 0 else n1))
         else Inr n1)"

definition serializeHeader :: "nat \<Rightarrow> request \<Rightarrow> (u8 list \<times> request) go" where
  "serializeHeader flatSize r =
     (case rq_inHeader r of
        None \<Rightarrow> Inl NilDeref
      | Some hdr \<Rightarrow>
          bind_go (out_length hdr r) (\<lambda>dataLength.
            let o' = \<lparr>oh_Length = word_of_nat (sizeOfOutHeader + dataLength + flatSize),
                      oh_Status = word_of_int (- rq_status r), oh_Unique = ih_Unique hdr\<rparr>;
                buf = write_at 0 (OutHeader_bytes o') (rq_outBuf r)
            in Inr (take (sizeOfOutHeader + dataLength) buf, r\<lparr>rq_outBuf := buf\<rparr>)))"

section \<open>Facts\<close>

definition out_ok :: "request \<Rightarrow> bool" where
  "out_ok r \<longleftrightarrow> length (rq_outBuf r) = outputHeaderSize
     \<and> (\<forall>h. rq_handler r = Some h \<longrightarrow> h_OutputSize h + sizeOfOutHeader \<le> outputHeaderSize)"

lemma widths_OutHeader: "widths OutHeader_layout = [4, 4, 8]"
  unfolding widths_def by code_simp

lemma OutHeader_bytes_eq:
  "OutHeader_bytes o' = le_bytes 4 (ucast (oh_Length o') :: u64) @ le_bytes 4 (ucast (oh_Status o') :: u64)
     @ le_bytes 8 (oh_Unique o')"
  by (simp add: OutHeader_bytes_def write_fields_def widths_OutHeader encode_flat_def)

lemma length_OutHeader_bytes [simp]: "length (OutHeader_bytes o') = sizeOfOutHeader"
  by (simp add: OutHeader_bytes_eq sizeOfOutHeader_def)

text \<open>What the kernel reads of a reply: its length, its error, the request it answers.\<close>

definition reply_Length :: "u8 list \<Rightarrow> u32" where "reply_Length bs = le_word (take 4 bs)"
definition reply_Status :: "u8 list \<Rightarrow> i32" where "reply_Status bs = le_word (take 4 (drop 4 bs))"
definition reply_Unique :: "u8 list \<Rightarrow> u64" where "reply_Unique bs = le_word (take 8 (drop 8 bs))"

lemma le_word_le_bytes_cast: "le_word (le_bytes 4 (ucast (w :: u32) :: u64)) = w"
proof (rule bit_word_eqI)
  fix i assume i: "i < LENGTH(32)"
  then have "i div 8 < 4" by auto
  then show "bit (le_word (le_bytes 4 (ucast w :: u64)) :: u32) i = bit w i"
    using i by (simp add: bit_le_word le_bytes_def bit_ucast_iff bit_drop_bit_eq)
qed

lemma reply_fields:
  "reply_Length (OutHeader_bytes o' @ r) = oh_Length o'"
  "reply_Status (OutHeader_bytes o' @ r) = oh_Status o'"
  "reply_Unique (OutHeader_bytes o' @ r) = oh_Unique o'"
  by (simp_all add: reply_Length_def reply_Status_def reply_Unique_def OutHeader_bytes_eq
      le_word_le_bytes_cast le_word_le_bytes)

lemma out_length_bound:
  assumes "out_ok r" and "out_length hdr r = Inr n"
  shows "n + sizeOfOutHeader \<le> outputHeaderSize"
  using assms by (auto simp: out_length_def out_ok_def Let_def sizeOfOutHeader_def outputHeaderSize_def
      split: option.splits if_splits)

lemma serializeHeader_spec:
  assumes ok: "out_ok r" and s: "serializeHeader n r = Inr (header, r')"
  shows "\<exists>hdr d. rq_inHeader r = Some hdr \<and> out_length hdr r = Inr d \<and> length header = sizeOfOutHeader + d
    \<and> reply_Unique (header @ x) = ih_Unique hdr \<and> reply_Status (header @ x) = word_of_int (- rq_status r)
    \<and> reply_Length (header @ x) = word_of_nat (length header + n)"
    and "out_ok r'" and "rq_inHeader r' = rq_inHeader r" and "rq_flatData r' = rq_flatData r"
    and "rq_status r' = rq_status r" and "rq_fdData r' = rq_fdData r" and "rq_inflightIndex r' = rq_inflightIndex r"
    and "rq_inData r' = rq_inData r" and "rq_handler r' = rq_handler r" and "rq_readResult r' = rq_readResult r"
proof -
  from s obtain hdr d where hdr: "rq_inHeader r = Some hdr" and d: "out_length hdr r = Inr d"
    by (auto simp: serializeHeader_def bind_go_eq_Inr split: option.splits)
  define o' where "o' = \<lparr>oh_Length = word_of_nat (sizeOfOutHeader + d + n),
      oh_Status = word_of_int (- rq_status r), oh_Unique = ih_Unique hdr\<rparr>"
  define buf where "buf = write_at 0 (OutHeader_bytes o') (rq_outBuf r)"
  have h: "header = take (sizeOfOutHeader + d) buf" and r': "r' = r\<lparr>rq_outBuf := buf\<rparr>"
    using s hdr d by (auto simp: serializeHeader_def Let_def buf_def o'_def)
  have len: "length (rq_outBuf r) = outputHeaderSize" using ok by (simp add: out_ok_def)
  then have lb: "length buf = outputHeaderSize"
    by (simp add: buf_def outputHeaderSize_def sizeOfOutHeader_def)
  have lh: "length header = sizeOfOutHeader + d"
    using out_length_bound [OF ok d] by (simp add: h lb)
  have hd: "header = OutHeader_bytes o' @ take d (drop sizeOfOutHeader (rq_outBuf r))"
    by (simp add: h buf_def write_at_def)
  show "\<exists>hdr d. rq_inHeader r = Some hdr \<and> out_length hdr r = Inr d \<and> length header = sizeOfOutHeader + d
    \<and> reply_Unique (header @ x) = ih_Unique hdr \<and> reply_Status (header @ x) = word_of_int (- rq_status r)
    \<and> reply_Length (header @ x) = word_of_nat (length header + n)"
    using hdr d lh unfolding hd by (auto simp: reply_fields o'_def simp del: length_append)
  show "out_ok r'" using ok lb by (simp add: out_ok_def r')
qed (use s in \<open>auto simp: serializeHeader_def bind_go_eq_Inr Let_def split: option.splits\<close>)

end
