(* ===== verification/ServerState.thy ===== *)
theory ServerState
  imports Request
begin

text \<open>
  The state of the server (\<^verbatim>\<open>Server\<close> and \<^verbatim>\<open>MountOptions\<close> of the package \<^verbatim>\<open>fuse\<close>) and the accesses to it
  that the request handlers share. Requests live in a store indexed by address, because the list
  of requests in flight, the pool and a running handler refer to the same struct. The file system
  is a record of operations and its state is the field \<^verbatim>\<open>sv_w\<close>. What the operating system answers
  during one call of the server is a \<^verbatim>\<open>platform\<close>.
\<close>

section \<open>Options\<close>

record MountOptions =
  mo_AllowOther :: bool
  mo_Options :: "string list"
  mo_MaxBackground :: int
  mo_MaxWrite :: int
  mo_MaxReadAhead :: int
  mo_IgnoreSecurityLabels :: bool
  mo_RememberInodes :: bool
  mo_FsName :: string
  mo_Name :: string
  mo_SingleThreaded :: bool
  mo_DisableXAttrs :: bool
  mo_Debug :: bool
  mo_EnableLocks :: bool

definition zero_MountOptions :: MountOptions where
  "zero_MountOptions = \<lparr>mo_AllowOther = False, mo_Options = [], mo_MaxBackground = 0, mo_MaxWrite = 0,
     mo_MaxReadAhead = 0, mo_IgnoreSecurityLabels = False, mo_RememberInodes = False, mo_FsName = [],
     mo_Name = [], mo_SingleThreaded = False, mo_DisableXAttrs = False, mo_Debug = False,
     mo_EnableLocks = False\<rparr>"

section \<open>Server\<close>

record retrieveCacheRequest =
  rc_nodeid :: u64
  rc_offset :: u64
  rc_dest :: "u8 list"
  rc_n :: nat
  rc_st :: Status
  rc_ready :: bool

text \<open>
  The pools \<^verbatim>\<open>reqPool\<close> and \<^verbatim>\<open>readPool\<close> hold the objects given back to them; \<^verbatim>\<open>sv_nextReq\<close> is the first
  address not yet used for a request. \<^verbatim>\<open>sv_out\<close> collects the messages written to the device.
\<close>

record 'w Server =
  sv_w :: 'w
  sv_opts :: MountOptions
  sv_buffers :: bufferPool
  sv_req :: "addr \<Rightarrow> request"
  sv_nextReq :: addr
  sv_reqPool :: "addr list"
  sv_readPool :: "u8 list list"
  sv_reqReaders :: int
  sv_reqInflight :: "addr list"
  sv_kernelSettings :: InitIn
  sv_retrieve :: "addr \<Rightarrow> retrieveCacheRequest"
  sv_nextRetrieve :: addr
  sv_retrieveNext :: u64
  sv_retrieveTab :: "(u64, addr) gomap"
  sv_singleReader :: bool
  sv_canSplice :: bool
  sv_loops :: nat
  sv_out :: "u8 list list"

section \<open>The operating system\<close>

text \<open>The outcomes of the pipe operations of one attempt to splice; 0 is success.\<close>

record splice_run =
  sp_Get1 :: Errno
  sp_Grow1 :: Errno
  sp_LoadFromAt :: "u8 list \<times> Errno"
  sp_Get2 :: Errno
  sp_Grow2 :: Errno
  sp_Write :: "nat \<times> Errno"
  sp_LoadFrom :: "nat \<times> Errno"
  sp_WriteTo :: Errno

text \<open>
  \<^verbatim>\<open>pf_hit\<close> tells whether a pool hands out a used object when it has one, \<^verbatim>\<open>pf_read\<close> and \<^verbatim>\<open>pf_write\<close>
  list the outcomes of the successive reads and writes on the device in one call, \<^verbatim>\<open>pf_pread\<close> gives
  the bytes and the error of a read from a file.
\<close>

record platform =
  pf_pageSize :: nat
  pf_hit :: bool
  pf_resizable :: bool
  pf_read :: "(Errno + u8 list) list"
  pf_write :: "Errno list"
  pf_writev :: Errno
  pf_pread :: "u64 \<Rightarrow> i64 \<Rightarrow> nat \<Rightarrow> u8 list \<times> Errno"
  pf_splice :: splice_run

text \<open>
  \<^verbatim>\<open>handleEINTR\<close> repeats a system call while it is interrupted; the list holds the outcomes of the
  successive attempts, and a list without an end of the loop is a call that never returns.
\<close>

fun handleEINTR :: "Errno list \<Rightarrow> Errno go" where
  "handleEINTR [] = Inl OutOfFuel"
| "handleEINTR (e # es) = (if e = EINTR then handleEINTR es else Inr e)"

lemma handleEINTR_Inr: "handleEINTR es = Inr e \<Longrightarrow> e \<in> set es \<and> e \<noteq> EINTR"
  by (induction es) (auto split: if_splits)

lemma handleEINTR_returns: "(\<exists>e. handleEINTR es = Inr e) \<longleftrightarrow> (\<exists>e \<in> set es. e \<noteq> EINTR)"
  by (induction es) auto

section \<open>Access to requests\<close>

definition upd_req :: "addr \<Rightarrow> (request \<Rightarrow> request) \<Rightarrow> 'w Server \<Rightarrow> 'w Server" where
  "upd_req a f s = s\<lparr>sv_req := (sv_req s)(a := f (sv_req s a))\<rparr>"

definition set_status :: "addr \<Rightarrow> Status \<Rightarrow> 'w Server \<Rightarrow> 'w Server" where
  "set_status a st = upd_req a (\<lambda>r. r\<lparr>rq_status := st\<rparr>)"

definition req_inData :: "addr \<Rightarrow> 'w Server \<Rightarrow> u8 list go" where
  "req_inData a s = (case rq_inData (sv_req s a) of None \<Rightarrow> Inl NilDeref | Some d \<Rightarrow> Inr d)"

definition req_inHeader :: "addr \<Rightarrow> 'w Server \<Rightarrow> InHeader go" where
  "req_inHeader a s = (case rq_inHeader (sv_req s a) of None \<Rightarrow> Inl NilDeref | Some h \<Rightarrow> Inr h)"

definition req_filename :: "nat \<Rightarrow> addr \<Rightarrow> 'w Server \<Rightarrow> string go" where
  "req_filename i a s = slice_get (rq_filenames (sv_req s a)) i"

text \<open>A call of the file system, and storing its status and output struct in the request.\<close>

definition fs_call :: "('w, 'a) fsm \<Rightarrow> 'w Server \<Rightarrow> ('a \<times> 'w Server) go" where
  "fs_call m s = bind_go (m (sv_w s)) (\<lambda>(x, w). Inr (x, s\<lparr>sv_w := w\<rparr>))"

definition call_status :: "addr \<Rightarrow> ('w, Status) fsm \<Rightarrow> 'w Server \<Rightarrow> 'w Server go" where
  "call_status a m s = bind_go (fs_call m s) (\<lambda>(st, s'). Inr (set_status a st s'))"

definition call_unit :: "('w, unit) fsm \<Rightarrow> 'w Server \<Rightarrow> 'w Server go" where
  "call_unit m s = bind_go (fs_call m s) (\<lambda>(_, s'). Inr s')"

definition call_out :: "addr \<Rightarrow> ('o \<Rightarrow> u8 list) \<Rightarrow> ('w, Status \<times> 'o) fsm \<Rightarrow> 'w Server \<Rightarrow> 'w Server go" where
  "call_out a img m s = bind_go (fs_call m s) (\<lambda>((st, o'), s').
     Inr (upd_req a (\<lambda>r. (put_out (img o') r)\<lparr>rq_status := st\<rparr>) s'))"

text \<open>\<^verbatim>\<open>Server.allocOut\<close>.\<close>

definition allocOut :: "platform \<Rightarrow> addr \<Rightarrow> u32 \<Rightarrow> 'w Server \<Rightarrow> (slice \<times> 'w Server) go" where
  "allocOut pf a sz s =
     (let ob = rq_bufferPoolOutputBuf (sv_req s a);
          keep = (case ob of None \<Rightarrow> unat sz = 0 | Some b \<Rightarrow> sl_cap b \<ge> unat sz)
      in if keep
         then (case ob of
                 None \<Rightarrow> Inr (\<lparr>sl_array = [], sl_len = 0\<rparr>, s)
               | Some b \<Rightarrow> let b' = b\<lparr>sl_len := unat sz\<rparr>
                           in Inr (b', upd_req a (\<lambda>r. r\<lparr>rq_bufferPoolOutputBuf := Some b'\<rparr>) s))
         else bind_go (AllocBuffer (pf_pageSize pf) (pf_hit pf) sz (FreeBuffer (pf_pageSize pf) ob (sv_buffers s)))
                (\<lambda>(b', p). Inr (b', upd_req a (\<lambda>r. r\<lparr>rq_bufferPoolOutputBuf := Some b'\<rparr>) (s\<lparr>sv_buffers := p\<rparr>))))"

definition fill_buf :: "addr \<Rightarrow> slice \<Rightarrow> u8 list \<Rightarrow> 'w Server \<Rightarrow> slice \<times> 'w Server" where
  "fill_buf a b bs s =
     (let b' = b\<lparr>sl_array := write_at 0 (take (sl_len b) bs) (sl_array b)\<rparr>
      in (b', upd_req a (\<lambda>r. r\<lparr>rq_bufferPoolOutputBuf :=
                 map_option (\<lambda>_. b') (rq_bufferPoolOutputBuf r)\<rparr>) s))"

text \<open>\<^verbatim>\<open>ReadResult.Bytes\<close>: the data itself, or a read from the file into the buffer.\<close>

fun rr_Bytes :: "platform \<Rightarrow> nat \<Rightarrow> ReadResult \<Rightarrow> u8 list \<times> Status" where
  "rr_Bytes pf buflen (ReadResultData b) = (b, OK)"
| "rr_Bytes pf buflen (ReadResultFd fd off sz) =
     (let n = min sz buflen; (bs, e) = pf_pread pf fd off n in (take n bs, e))"

section \<open>Framing of the accesses\<close>

lemma sv_req_upd [simp]: "sv_req (upd_req a f s) = (sv_req s)(a := f (sv_req s a))"
  by (simp add: upd_req_def)

lemma upd_req_sel [simp]:
  "sv_w (upd_req a f s) = sv_w s" "sv_opts (upd_req a f s) = sv_opts s"
  "sv_buffers (upd_req a f s) = sv_buffers s" "sv_nextReq (upd_req a f s) = sv_nextReq s"
  "sv_reqPool (upd_req a f s) = sv_reqPool s" "sv_readPool (upd_req a f s) = sv_readPool s"
  "sv_reqReaders (upd_req a f s) = sv_reqReaders s" "sv_reqInflight (upd_req a f s) = sv_reqInflight s"
  "sv_kernelSettings (upd_req a f s) = sv_kernelSettings s" "sv_retrieve (upd_req a f s) = sv_retrieve s"
  "sv_nextRetrieve (upd_req a f s) = sv_nextRetrieve s" "sv_retrieveNext (upd_req a f s) = sv_retrieveNext s"
  "sv_retrieveTab (upd_req a f s) = sv_retrieveTab s" "sv_singleReader (upd_req a f s) = sv_singleReader s"
  "sv_canSplice (upd_req a f s) = sv_canSplice s" "sv_loops (upd_req a f s) = sv_loops s"
  "sv_out (upd_req a f s) = sv_out s"
  by (simp_all add: upd_req_def)

text \<open>
  A handler of a request leaves the bookkeeping of requests alone: what is in flight, the
  pools, the device, the headers and indices. Of the other requests only those in flight change,
  and they may only become interrupted.
\<close>

definition req_kept :: "request \<Rightarrow> request \<Rightarrow> bool" where
  "req_kept r r' \<longleftrightarrow> rq_inHeader r' = rq_inHeader r \<and> rq_inflightIndex r' = rq_inflightIndex r
     \<and> rq_inputBuf r' = rq_inputBuf r \<and> rq_inData r' = rq_inData r \<and> rq_arg r' = rq_arg r
     \<and> (out_ok r \<longrightarrow> out_ok r') \<and> rq_bufferPoolInputBuf r' = rq_bufferPoolInputBuf r
     \<and> (rq_interrupted r \<longrightarrow> rq_interrupted r')
     \<and> (rq_cancelled r = rq_interrupted r \<longrightarrow> rq_cancelled r' = rq_interrupted r')"

definition interrupt :: "request \<Rightarrow> request" where
  "interrupt r = r\<lparr>rq_cancelled := True, rq_interrupted := True\<rparr>"

lemma interrupt_interrupt [simp]: "interrupt (interrupt r) = interrupt r"
  by (simp add: interrupt_def)

definition others_kept :: "addr \<Rightarrow> addr set \<Rightarrow> (addr \<Rightarrow> request) \<Rightarrow> (addr \<Rightarrow> request) \<Rightarrow> bool" where
  "others_kept a fl f f' \<longleftrightarrow> (\<forall>b. b \<noteq> a \<longrightarrow> f' b = f b \<or> b \<in> fl \<and> f' b = interrupt (f b))"

lemma others_kept_refl [simp]: "others_kept a fl f f"
  by (simp add: others_kept_def)

lemma others_kept_upd [simp]: "others_kept a fl f (f(a := r))"
  by (simp add: others_kept_def)

lemma others_kept_trans: "others_kept a fl f f' \<Longrightarrow> others_kept a fl f' f'' \<Longrightarrow> others_kept a fl f f''"
  unfolding others_kept_def by (metis interrupt_interrupt)

definition book_kept :: "addr \<Rightarrow> 'w Server \<Rightarrow> 'w Server \<Rightarrow> bool" where
  "book_kept a s s' \<longleftrightarrow> sv_opts s' = sv_opts s \<and> sv_nextReq s' = sv_nextReq s \<and> sv_reqPool s' = sv_reqPool s
     \<and> sv_readPool s' = sv_readPool s \<and> sv_reqReaders s' = sv_reqReaders s
     \<and> sv_reqInflight s' = sv_reqInflight s \<and> sv_loops s' = sv_loops s \<and> sv_out s' = sv_out s
     \<and> sv_singleReader s' = sv_singleReader s \<and> (\<forall>b. req_kept (sv_req s b) (sv_req s' b))
     \<and> others_kept a (set (sv_reqInflight s)) (sv_req s) (sv_req s')"

named_theorems kept_dests "every completed call keeps the bookkeeping of the server"

lemma req_kept_refl [simp]: "req_kept r r"
  by (simp add: req_kept_def)

lemma req_kept_trans: "req_kept r r' \<Longrightarrow> req_kept r' r'' \<Longrightarrow> req_kept r r''"
  by (simp add: req_kept_def)

lemma book_kept_refl [simp]: "book_kept a s s"
  by (simp add: book_kept_def)

lemma book_kept_trans: "book_kept a s s' \<Longrightarrow> book_kept a s' s'' \<Longrightarrow> book_kept a s s''"
  unfolding book_kept_def by (auto intro: req_kept_trans others_kept_trans)

lemma book_kept_upd: "(\<And>r. req_kept r (f r)) \<Longrightarrow> book_kept a s (upd_req a f s)"
  by (simp add: book_kept_def)

lemma book_kept_status: "book_kept a s (set_status a st s)"
  unfolding set_status_def by (rule book_kept_upd) (simp add: req_kept_def out_ok_def)

lemma out_ok_put [simp]: "out_ok r \<Longrightarrow> sizeOfOutHeader + length bs \<le> outputHeaderSize \<Longrightarrow> out_ok (put_out bs r)"
  by (simp add: out_ok_def put_out_def)

lemma put_out_sel [simp]:
  "rq_inHeader (put_out bs r) = rq_inHeader r" "rq_inflightIndex (put_out bs r) = rq_inflightIndex r"
  "rq_inputBuf (put_out bs r) = rq_inputBuf r" "rq_inData (put_out bs r) = rq_inData r"
  "rq_arg (put_out bs r) = rq_arg r" "rq_interrupted (put_out bs r) = rq_interrupted r"
  "rq_handler (put_out bs r) = rq_handler r" "rq_status (put_out bs r) = rq_status r"
  "rq_bufferPoolInputBuf (put_out bs r) = rq_bufferPoolInputBuf r" "rq_flatData (put_out bs r) = rq_flatData r"
  "rq_fdData (put_out bs r) = rq_fdData r" "rq_readResult (put_out bs r) = rq_readResult r"
  "rq_filenames (put_out bs r) = rq_filenames r" "rq_cancelled (put_out bs r) = rq_cancelled r"
  "rq_bufferPoolOutputBuf (put_out bs r) = rq_bufferPoolOutputBuf r"
  by (simp_all add: put_out_def)

lemma fs_call_kept: "fs_call m s = Inr (x, s') \<Longrightarrow> (\<forall>a. book_kept a s s') \<and> sv_req s' = sv_req s"
  by (auto simp: fs_call_def bind_go_eq_Inr book_kept_def)

lemma fs_call_upd_kept:
  "fs_call m s = Inr (x, s1) \<Longrightarrow> (\<And>r. req_kept r (f r)) \<Longrightarrow> book_kept a s (upd_req a f s1)"
  by (rule book_kept_trans [of a s s1]) (auto dest!: fs_call_kept intro: book_kept_upd)

lemma call_status_kept [kept_dests]: "call_status a m s = Inr s' \<Longrightarrow> book_kept a s s'"
  by (auto simp: call_status_def bind_go_eq_Inr dest!: fs_call_kept intro: book_kept_trans book_kept_status)

lemma call_unit_kept [kept_dests]: "call_unit m s = Inr s' \<Longrightarrow> \<forall>a. book_kept a s s'"
  by (auto simp: call_unit_def bind_go_eq_Inr dest!: fs_call_kept)

lemma call_out_kept:
  assumes "\<And>o'. sizeOfOutHeader + length (img o') \<le> outputHeaderSize" and "call_out a img m s = Inr s'"
  shows "book_kept a s s'"
proof -
  from assms(2) obtain st o' s1 where c: "fs_call m s = Inr ((st, o'), s1)"
    and s': "s' = upd_req a (\<lambda>r. (put_out (img o') r)\<lparr>rq_status := st\<rparr>) s1"
    by (auto simp: call_out_def bind_go_eq_Inr)
  have "out_ok ((put_out (img o') r)\<lparr>rq_status := st\<rparr>)" if "out_ok r" for r
    using out_ok_put [OF that assms(1)] by (simp add: out_ok_def)
  then have "book_kept a s1 s'"
    unfolding s' by (intro book_kept_upd) (simp add: req_kept_def)
  then show ?thesis using fs_call_kept [OF c] book_kept_trans by blast
qed

lemma allocOut_kept: "allocOut pf a sz s = Inr (b, s') \<Longrightarrow> book_kept a s s'"
  by (auto simp: allocOut_def Let_def bind_go_eq_Inr book_kept_def req_kept_def out_ok_def
      split: option.splits if_splits)

lemma fill_buf_kept: "book_kept a s (snd (fill_buf a b bs s))"
  by (auto simp: fill_buf_def Let_def book_kept_def req_kept_def out_ok_def)

end
