(* ===== verification/Opcode.thy ===== *)
theory Opcode
  imports ServerState
begin

text \<open>
  The request handlers of \<^verbatim>\<open>fuse/opcode.go\<close>, one definition each, and the poll hack of \<^verbatim>\<open>fuse/poll.go\<close>.
  A handler reads the request at its address, calls the file system and stores status, output
  struct and flat data in the request. Output structs start out zero, since parsing clears them.
\<close>

type_synonym 'w handler = "platform \<Rightarrow> 'w RawFileSystem \<Rightarrow> addr \<Rightarrow> 'w Server \<Rightarrow> 'w Server go"

section \<open>Capabilities and versions\<close>

definition FUSE_KERNEL_VERSION :: u32 where "FUSE_KERNEL_VERSION = 7"
definition MINIMUM_MINOR_VERSION :: u32 where "MINIMUM_MINOR_VERSION = 12"
definition OUR_MINOR_VERSION :: u32 where "OUR_MINOR_VERSION = 23"

definition CAP_ASYNC_READ :: u32 where "CAP_ASYNC_READ = 1"
definition CAP_POSIX_LOCKS :: u32 where "CAP_POSIX_LOCKS = push_bit 1 1"
definition CAP_FILE_OPS :: u32 where "CAP_FILE_OPS = push_bit 2 1"
definition CAP_BIG_WRITES :: u32 where "CAP_BIG_WRITES = push_bit 5 1"
definition CAP_FLOCK_LOCKS :: u32 where "CAP_FLOCK_LOCKS = push_bit 10 1"
definition CAP_AUTO_INVAL_DATA :: u32 where "CAP_AUTO_INVAL_DATA = push_bit 12 1"
definition CAP_READDIRPLUS :: u32 where "CAP_READDIRPLUS = push_bit 13 1"
definition CAP_NO_OPEN_SUPPORT :: u32 where "CAP_NO_OPEN_SUPPORT = push_bit 17 1"
definition CAP_PARALLEL_DIROPS :: u32 where "CAP_PARALLEL_DIROPS = push_bit 18 1"

lemmas cap_defs = CAP_ASYNC_READ_def CAP_POSIX_LOCKS_def CAP_FILE_OPS_def CAP_BIG_WRITES_def
  CAP_FLOCK_LOCKS_def CAP_AUTO_INVAL_DATA_def CAP_READDIRPLUS_def CAP_NO_OPEN_SUPPORT_def
  CAP_PARALLEL_DIROPS_def

definition wanted_caps :: u32 where
  "wanted_caps = CAP_ASYNC_READ OR CAP_BIG_WRITES OR CAP_FILE_OPS OR CAP_AUTO_INVAL_DATA OR CAP_READDIRPLUS
     OR CAP_NO_OPEN_SUPPORT OR CAP_PARALLEL_DIROPS"

section \<open>INIT\<close>

definition init_settings :: "MountOptions \<Rightarrow> InitIn \<Rightarrow> InitIn" where
  "init_settings opts input =
     (let f = ini_Flags input AND wanted_caps
      in input\<lparr>ini_Flags := (if mo_EnableLocks opts then f OR (CAP_FLOCK_LOCKS OR CAP_POSIX_LOCKS) else f)\<rparr>)"

definition init_reply :: "MountOptions \<Rightarrow> InitIn \<Rightarrow> InitOut" where
  "init_reply opts input =
     (let ahead = (if mo_MaxReadAhead opts \<noteq> 0 \<and> word_of_int (mo_MaxReadAhead opts) < ini_MaxReadAhead input
                   then word_of_int (mo_MaxReadAhead opts) else ini_MaxReadAhead input);
          minor = (if OUR_MINOR_VERSION > ini_Minor input then ini_Minor input else OUR_MINOR_VERSION)
      in zero_InitOut\<lparr>ino_Major := FUSE_KERNEL_VERSION, ino_Minor := minor, ino_MaxReadAhead := ahead,
           ino_Flags := ini_Flags (init_settings opts input),
           ino_MaxWrite := word_of_int (mo_MaxWrite opts),
           ino_CongestionThreshold :=
             word_of_int (quot_int (sint (word_of_int (mo_MaxBackground opts * 3) :: i64)) 4),
           ino_MaxBackground := word_of_int (mo_MaxBackground opts)\<rparr>)"

definition doInit :: "'w handler" where
  "doInit pf fs a s =
     bind_go (req_inData a s) (\<lambda>d.
       let input = as_InitIn d in
       if ini_Major input \<noteq> FUSE_KERNEL_VERSION then Inr (set_status a EIO s)
       else if ini_Minor input < MINIMUM_MINOR_VERSION then Inr (set_status a EIO s)
       else let s1 = s\<lparr>sv_kernelSettings := init_settings (sv_opts s) input\<rparr>;
                s2 = (if ini_Minor input \<ge> 13 then s1\<lparr>sv_canSplice := pf_resizable pf\<rparr> else s1);
                out = init_reply (sv_opts s) input;
                tweak = (\<lambda>r. if ino_Minor out \<le> 22
                             then r\<lparr>rq_handler := map_option (\<lambda>h. h\<lparr>h_OutputSize := 24\<rparr>) (rq_handler r)\<rparr> else r)
            in Inr (upd_req a (\<lambda>r. (tweak (put_out (InitOut_bytes out) r))\<lparr>rq_status := OK\<rparr>) s2))"

section \<open>Opening, reading and writing\<close>

definition doOpen :: "'w handler" where
  "doOpen pf fs a s = bind_go (req_inData a s) (\<lambda>d.
     call_out a OpenOut_bytes (fs_Open fs (as_OpenIn d) zero_OpenOut) s)"

definition doCreate :: "'w handler" where
  "doCreate pf fs a s = bind_go (req_inData a s) (\<lambda>d. bind_go (req_filename 0 a s) (\<lambda>name.
     call_out a CreateOut_bytes (fs_Create fs (as_CreateIn d) name zero_CreateOut) s))"

definition read_dir :: "(ReadIn \<Rightarrow> DirEntryList \<Rightarrow> ('w, Status \<times> DirEntryList) fsm) \<Rightarrow> platform \<Rightarrow> addr \<Rightarrow> 'w Server \<Rightarrow> 'w Server go" where
  "read_dir op pf a s =
     bind_go (req_inData a s) (\<lambda>d.
     let input = as_ReadIn d in
     bind_go (allocOut pf a (rdi_Size input) s) (\<lambda>(buf, s1).
     bind_go (fs_call (op input (NewDirEntryList (sl_bytes buf) (rdi_Offset input))) s1) (\<lambda>((code, out), s2).
     Inr (upd_req a (\<lambda>r. r\<lparr>rq_flatData := dl_bytes out, rq_status := code\<rparr>) (snd (fill_buf a buf (dl_data out) s2))))))"

definition doReadDir :: "'w handler" where
  "doReadDir pf fs a s = read_dir (fs_ReadDir fs) pf a s"

definition doReadDirPlus :: "'w handler" where
  "doReadDirPlus pf fs a s = read_dir (fs_ReadDirPlus fs) pf a s"

definition doOpenDir :: "'w handler" where
  "doOpenDir pf fs a s = bind_go (req_inData a s) (\<lambda>d.
     call_out a OpenOut_bytes (fs_OpenDir fs (as_OpenIn d) zero_OpenOut) s)"

definition doSetattr :: "'w handler" where
  "doSetattr pf fs a s = bind_go (req_inData a s) (\<lambda>d.
     call_out a AttrOut_bytes (fs_SetAttr fs (as_SetAttrIn d) zero_AttrOut) s)"

definition doWrite :: "'w handler" where
  "doWrite pf fs a s = bind_go (req_inData a s) (\<lambda>d.
     bind_go (fs_call (fs_Write fs (as_WriteIn d) (rq_arg (sv_req s a))) s) (\<lambda>((n, status), s1).
     Inr (upd_req a (\<lambda>r. (put_out (WriteOut_bytes (zero_WriteOut\<lparr>wro_Size := n\<rparr>)) r)\<lparr>rq_status := status\<rparr>) s1)))"

definition read_reply :: "ReadResult option \<Rightarrow> Status \<Rightarrow> request \<Rightarrow> request" where
  "read_reply res st r =
     (let r1 = r\<lparr>rq_readResult := res, rq_status := st\<rparr> in
      case res of
        Some (ReadResultFd fd off sz) \<Rightarrow> r1\<lparr>rq_fdData := Some (ReadResultFd fd off sz), rq_flatData := []\<rparr>
      | Some (ReadResultData b) \<Rightarrow> if st = OK then r1\<lparr>rq_flatData := b, rq_status := OK\<rparr> else r1
      | None \<Rightarrow> r1)"

definition doRead :: "'w handler" where
  "doRead pf fs a s =
     bind_go (req_inData a s) (\<lambda>d.
     let input = as_ReadIn d in
     bind_go (allocOut pf a (rdi_Size input) s) (\<lambda>(buf, s1).
     bind_go (fs_call (fs_Read fs input (sl_bytes buf)) s1) (\<lambda>((res, st), s2).
     Inr (upd_req a (read_reply res st) s2))))"

section \<open>Reply of a cache retrieval\<close>

text \<open>\<^verbatim>\<open>copy\<close> moves as many bytes as both slices hold.\<close>

definition retrieve_answer :: "NotifyRetrieveIn \<Rightarrow> u8 list \<Rightarrow> retrieveCacheRequest \<Rightarrow> retrieveCacheRequest" where
  "retrieve_answer reply arg rc =
     (if rc_nodeid rc \<noteq> ih_NodeId (nri_InHeader reply) \<or> rc_offset rc \<noteq> nri_Offset reply
      then rc\<lparr>rc_n := 0, rc_st := EIO, rc_ready := True\<rparr>
      else let n = min (length (rc_dest rc)) (length arg)
           in rc\<lparr>rc_dest := write_at 0 (take n arg) (rc_dest rc), rc_n := n, rc_st := OK, rc_ready := True\<rparr>)"

definition doNotifyReply :: "'w handler" where
  "doNotifyReply pf fs a s =
     bind_go (req_inData a s) (\<lambda>d.
       let reply = as_NotifyRetrieveIn d;
           reading = gm_get (sv_retrieveTab s) (ih_Unique (nri_InHeader reply));
           s1 = s\<lparr>sv_retrieveTab := gm_del (sv_retrieveTab s) (ih_Unique (nri_InHeader reply))\<rparr>
       in case reading of
            None \<Rightarrow> Inr s1
          | Some q \<Rightarrow> Inr (s1\<lparr>sv_retrieve := (sv_retrieve s1)(q :=
                retrieve_answer reply (rq_arg (sv_req s a)) (sv_retrieve s1 q))\<rparr>))"

section \<open>Extended attributes\<close>

definition SECURITY_CAPABILITY :: string where "SECURITY_CAPABILITY = ''security.capability''"
definition SECURITY_ACL :: string where "SECURITY_ACL = ''system.posix_acl_access''"
definition SECURITY_ACL_DEFAULT :: string where "SECURITY_ACL_DEFAULT = ''system.posix_acl_default''"

definition xattr_result :: "u32 \<Rightarrow> u32 \<Rightarrow> Status \<Rightarrow> slice \<Rightarrow> request \<Rightarrow> request go" where
  "xattr_result insize n st buf r =
     (let out = GetXAttrOut_bytes (zero_GetXAttrOut\<lparr>gxo_Size := n\<rparr>) in
      if insize = 0 \<and> st = ERANGE
      then Inr ((put_out out r)\<lparr>rq_status := OK, rq_flatData := sl_bytes buf\<rparr>)
      else if st = OK
      then (if unat n \<le> sl_cap buf
            then Inr ((put_out out r)\<lparr>rq_status := OK, rq_flatData := take (unat n) (sl_array buf)\<rparr>)
            else Inl IndexRange)
      else Inr (r\<lparr>rq_status := st, rq_flatData := []\<rparr>))"

definition get_xattr :: "InHeader \<Rightarrow> u32 \<Rightarrow> (u8 list \<Rightarrow> ('w, u32 \<times> Status \<times> u8 list) fsm) \<Rightarrow> platform \<Rightarrow> addr \<Rightarrow> 'w Server \<Rightarrow> 'w Server go" where
  "get_xattr hdr insize op pf a s =
     bind_go (allocOut pf a insize s) (\<lambda>(buf, s1).
     bind_go (fs_call (op (sl_bytes buf)) s1) (\<lambda>((n, st, dest), s2).
     let s3 = snd (fill_buf a buf dest s2) in
     bind_go (xattr_result insize n st (fst (fill_buf a buf dest s2)) (sv_req s3 a)) (\<lambda>r. Inr (upd_req a (\<lambda>_. r) s3))))"

definition doGetXAttr :: "'w handler" where
  "doGetXAttr pf fs a s =
     (if mo_DisableXAttrs (sv_opts s) then Inr (set_status a ENOSYS s)
      else bind_go (req_inHeader a s) (\<lambda>hdr.
        let op = sint (ih_Opcode hdr) in
        bind_go (if mo_IgnoreSecurityLabels (sv_opts s) \<and> op = int OP_GETXATTR
                 then bind_go (req_filename 0 a s) (\<lambda>fn.
                        Inr (fn = SECURITY_CAPABILITY \<or> fn = SECURITY_ACL_DEFAULT \<or> fn = SECURITY_ACL))
                 else Inr False) (\<lambda>label.
        if label then Inr (set_status a ENOATTR s)
        else bind_go (req_inData a s) (\<lambda>d.
          let insize = gxi_Size (as_GetXAttrIn d) in
          if op = int OP_GETXATTR
          then bind_go (req_filename 0 a s) (\<lambda>name. get_xattr hdr insize (fs_GetXAttr fs hdr name) pf a s)
          else if op = int OP_LISTXATTR then get_xattr hdr insize (fs_ListXAttr fs hdr) pf a s
          else get_xattr hdr insize (\<lambda>dest. fs_return (0, ENOSYS, dest)) pf a s))))"

definition doSetXAttr :: "'w handler" where
  "doSetXAttr pf fs a s = bind_go (req_inData a s) (\<lambda>d.
     let splits = splitN 2 (rq_arg (sv_req s a)) in
     bind_go (slice_get splits 0) (\<lambda>name. bind_go (slice_get splits 1) (\<lambda>data.
     call_status a (fs_SetXAttr fs (as_SetXAttrIn d) (bytes_str name) data) s)))"

definition doRemoveXAttr :: "'w handler" where
  "doRemoveXAttr pf fs a s = bind_go (req_inHeader a s) (\<lambda>h. bind_go (req_filename 0 a s) (\<lambda>name.
     call_status a (fs_RemoveXAttr fs h name) s))"

section \<open>Forgetting\<close>

definition pollHackInode :: u64 where "pollHackInode = NOT 0"
definition pollHackName :: string where "pollHackName = ''.go-fuse-epoll-hack''"

definition doForget :: "'w handler" where
  "doForget pf fs a s =
     (if mo_RememberInodes (sv_opts s) then Inr s
      else bind_go (req_inHeader a s) (\<lambda>h. bind_go (req_inData a s) (\<lambda>d.
        call_unit (fs_Forget fs (ih_NodeId h) (fg_Nlookup (as_ForgetIn d))) s)))"

fun forget_all :: "'w RawFileSystem \<Rightarrow> ForgetOne list \<Rightarrow> 'w Server \<Rightarrow> 'w Server go" where
  "forget_all fs [] s = Inr s"
| "forget_all fs (f # fl) s =
     (if fo_NodeId f = pollHackInode then forget_all fs fl s
      else bind_go (call_unit (fs_Forget fs (fo_NodeId f) (fo_Nlookup f)) s) (forget_all fs fl))"

text \<open>
  The slice of \<^verbatim>\<open>_ForgetOne\<close> is laid over the argument without a check of its length; reading past
  the argument is undefined, which the model reports as a fault.
\<close>

definition forget_ones :: "nat \<Rightarrow> u8 list \<Rightarrow> ForgetOne list" where
  "forget_ones n bs = map (\<lambda>i. as_ForgetOne (take 16 (drop (16 * i) bs))) [0..<n]"

definition doBatchForget :: "'w handler" where
  "doBatchForget pf fs a s = bind_go (req_inData a s) (\<lambda>d.
     let n = unat (bf_Count (as_BatchForgetIn d)); arg = rq_arg (sv_req s a) in
     if arg = [] then Inl IndexRange
     else if length arg < 16 * n then Inl (Panic ''read past the request'')
     else forget_all fs (forget_ones n arg) s)"

section \<open>Names\<close>

definition doReadlink :: "'w handler" where
  "doReadlink pf fs a s = bind_go (req_inHeader a s) (\<lambda>h.
     bind_go (fs_call (fs_Readlink fs h) s) (\<lambda>((data, st), s1).
     Inr (upd_req a (\<lambda>r. r\<lparr>rq_flatData := data, rq_status := st\<rparr>) s1)))"

definition doLookup :: "'w handler" where
  "doLookup pf fs a s = bind_go (req_inHeader a s) (\<lambda>h. bind_go (req_filename 0 a s) (\<lambda>name.
     call_out a EntryOut_bytes (fs_Lookup fs h name zero_EntryOut) s))"

definition doMknod :: "'w handler" where
  "doMknod pf fs a s = bind_go (req_inData a s) (\<lambda>d. bind_go (req_filename 0 a s) (\<lambda>name.
     call_out a EntryOut_bytes (fs_Mknod fs (as_MknodIn d) name zero_EntryOut) s))"

definition doMkdir :: "'w handler" where
  "doMkdir pf fs a s = bind_go (req_inData a s) (\<lambda>d. bind_go (req_filename 0 a s) (\<lambda>name.
     call_out a EntryOut_bytes (fs_Mkdir fs (as_MkdirIn d) name zero_EntryOut) s))"

definition doUnlink :: "'w handler" where
  "doUnlink pf fs a s = bind_go (req_inHeader a s) (\<lambda>h. bind_go (req_filename 0 a s) (\<lambda>name.
     call_status a (fs_Unlink fs h name) s))"

definition doRmdir :: "'w handler" where
  "doRmdir pf fs a s = bind_go (req_inHeader a s) (\<lambda>h. bind_go (req_filename 0 a s) (\<lambda>name.
     call_status a (fs_Rmdir fs h name) s))"

definition doLink :: "'w handler" where
  "doLink pf fs a s = bind_go (req_inData a s) (\<lambda>d. bind_go (req_filename 0 a s) (\<lambda>name.
     call_out a EntryOut_bytes (fs_Link fs (as_LinkIn d) name zero_EntryOut) s))"

definition doSymlink :: "'w handler" where
  "doSymlink pf fs a s = bind_go (req_inHeader a s) (\<lambda>h.
     bind_go (req_filename 1 a s) (\<lambda>to. bind_go (req_filename 0 a s) (\<lambda>name.
     call_out a EntryOut_bytes (fs_Symlink fs h to name zero_EntryOut) s)))"

definition doRename :: "'w handler" where
  "doRename pf fs a s = bind_go (req_inData a s) (\<lambda>d.
     bind_go (req_filename 0 a s) (\<lambda>old. bind_go (req_filename 1 a s) (\<lambda>new.
     call_status a (fs_Rename fs \<lparr>rn_InHeader = rn1_InHeader (as_Rename1In d), rn_Newdir = rn1_Newdir (as_Rename1In d),
       rn_Flags = 0\<rparr> old new) s)))"

definition doRename2 :: "'w handler" where
  "doRename2 pf fs a s = bind_go (req_inData a s) (\<lambda>d.
     bind_go (req_filename 0 a s) (\<lambda>old. bind_go (req_filename 1 a s) (\<lambda>new.
     call_status a (fs_Rename fs (as_RenameIn d) old new) s)))"

section \<open>Attributes, files and locks\<close>

definition doGetAttr :: "'w handler" where
  "doGetAttr pf fs a s = bind_go (req_inData a s) (\<lambda>d.
     call_out a AttrOut_bytes (fs_GetAttr fs (as_GetAttrIn d) zero_AttrOut) s)"

definition doFlush :: "'w handler" where
  "doFlush pf fs a s = bind_go (req_inData a s) (\<lambda>d. call_status a (fs_Flush fs (as_FlushIn d)) s)"

definition doRelease :: "'w handler" where
  "doRelease pf fs a s = bind_go (req_inData a s) (\<lambda>d. call_unit (fs_Release fs (as_ReleaseIn d)) s)"

definition doFsync :: "'w handler" where
  "doFsync pf fs a s = bind_go (req_inData a s) (\<lambda>d. call_status a (fs_Fsync fs (as_FsyncIn d)) s)"

definition doReleaseDir :: "'w handler" where
  "doReleaseDir pf fs a s = bind_go (req_inData a s) (\<lambda>d. call_unit (fs_ReleaseDir fs (as_ReleaseIn d)) s)"

definition doFsyncDir :: "'w handler" where
  "doFsyncDir pf fs a s = bind_go (req_inData a s) (\<lambda>d. call_status a (fs_FsyncDir fs (as_FsyncIn d)) s)"

definition doAccess :: "'w handler" where
  "doAccess pf fs a s = bind_go (req_inData a s) (\<lambda>d. call_status a (fs_Access fs (as_AccessIn d)) s)"

definition doStatFs :: "'w handler" where
  "doStatFs pf fs a s = bind_go (req_inHeader a s) (\<lambda>h.
     call_out a StatfsOut_bytes (fs_StatFs fs h zero_StatfsOut) s)"

definition doIoctl :: "'w handler" where
  "doIoctl pf fs a s = Inr (set_status a ENOSYS s)"

definition doDestroy :: "'w handler" where
  "doDestroy pf fs a s = Inr (set_status a OK s)"

definition doFallocate :: "'w handler" where
  "doFallocate pf fs a s = bind_go (req_inData a s) (\<lambda>d. call_status a (fs_Fallocate fs (as_FallocateIn d)) s)"

definition doGetLk :: "'w handler" where
  "doGetLk pf fs a s = bind_go (req_inData a s) (\<lambda>d.
     call_out a LkOut_bytes (fs_GetLk fs (as_LkIn d) zero_LkOut) s)"

definition doSetLk :: "'w handler" where
  "doSetLk pf fs a s = bind_go (req_inData a s) (\<lambda>d. call_status a (fs_SetLk fs (as_LkIn d)) s)"

definition doSetLkw :: "'w handler" where
  "doSetLkw pf fs a s = bind_go (req_inData a s) (\<lambda>d. call_status a (fs_SetLkw fs (as_LkIn d)) s)"

definition doLseek :: "'w handler" where
  "doLseek pf fs a s = bind_go (req_inData a s) (\<lambda>d.
     call_out a LseekOut_bytes (fs_Lseek fs (as_LseekIn d) zero_LseekOut) s)"

definition doCopyFileRange :: "'w handler" where
  "doCopyFileRange pf fs a s = bind_go (req_inData a s) (\<lambda>d.
     bind_go (fs_call (fs_CopyFileRange fs (as_CopyFileRangeIn d)) s) (\<lambda>((n, status), s1).
     Inr (upd_req a (\<lambda>r. (put_out (WriteOut_bytes (zero_WriteOut\<lparr>wro_Size := n\<rparr>)) r)\<lparr>rq_status := status\<rparr>) s1)))"

section \<open>Interrupts\<close>

fun interrupt_loop :: "u64 \<Rightarrow> addr list \<Rightarrow> 'w Server \<Rightarrow> ('w Server option) go" where
  "interrupt_loop u [] s = Inr None"
| "interrupt_loop u (b # bs) s =
     bind_go (req_inHeader b s) (\<lambda>h.
       if u = ih_Unique h \<and> \<not> rq_interrupted (sv_req s b)
       then (if rq_cancelled (sv_req s b) then Inl (Panic ''close of closed channel'')
             else Inr (Some (upd_req b interrupt s)))
       else interrupt_loop u bs s)"

definition doInterrupt :: "'w handler" where
  "doInterrupt pf fs a s =
     bind_go (req_inData a s) (\<lambda>d.
     bind_go (interrupt_loop (int_Unique (as_InterruptIn d)) (sv_reqInflight s) s) (\<lambda>found.
     case found of Some s1 \<Rightarrow> Inr (set_status a OK s1) | None \<Rightarrow> Inr (set_status a EAGAIN s)))"

section \<open>The poll hack\<close>

definition doPollHackLookup :: "addr \<Rightarrow> 'w Server \<Rightarrow> 'w Server go" where
  "doPollHackLookup a s =
     bind_go (req_inHeader a s) (\<lambda>h.
       if sint (ih_Opcode h) = int OP_CREATE
       then let out = \<lparr>co_EntryOut = zero_EntryOut\<lparr>eo_NodeId := pollHackInode,
                         eo_Attr := zero_Attr\<lparr>a_Ino := pollHackInode, a_Mode := S_IFREG OR 420, a_Nlink := 1\<rparr>\<rparr>,
                       co_OpenOut = zero_OpenOut\<lparr>oo_Fh := pollHackInode\<rparr>\<rparr>
            in Inr (upd_req a (\<lambda>r. (put_out (CreateOut_bytes out) r)\<lparr>rq_status := OK\<rparr>) s)
       else if sint (ih_Opcode h) = int OP_LOOKUP
       then Inr (upd_req a (\<lambda>r. (put_out (EntryOut_bytes zero_EntryOut) r)\<lparr>rq_status := ENOENT\<rparr>) s)
       else Inr (set_status a EIO s))"

section \<open>Dispatch\<close>

fun run_func :: "opfunc \<Rightarrow> 'w handler" where
  "run_func DoOpen = doOpen"
| "run_func DoReadDir = doReadDir"
| "run_func DoWrite = doWrite"
| "run_func DoOpenDir = doOpenDir"
| "run_func DoCreate = doCreate"
| "run_func DoSetattr = doSetattr"
| "run_func DoGetXAttr = doGetXAttr"
| "run_func DoGetAttr = doGetAttr"
| "run_func DoForget = doForget"
| "run_func DoBatchForget = doBatchForget"
| "run_func DoReadlink = doReadlink"
| "run_func DoInit = doInit"
| "run_func DoLookup = doLookup"
| "run_func DoMknod = doMknod"
| "run_func DoMkdir = doMkdir"
| "run_func DoUnlink = doUnlink"
| "run_func DoRmdir = doRmdir"
| "run_func DoLink = doLink"
| "run_func DoRead = doRead"
| "run_func DoFlush = doFlush"
| "run_func DoRelease = doRelease"
| "run_func DoFsync = doFsync"
| "run_func DoReleaseDir = doReleaseDir"
| "run_func DoFsyncDir = doFsyncDir"
| "run_func DoSetXAttr = doSetXAttr"
| "run_func DoRemoveXAttr = doRemoveXAttr"
| "run_func DoGetLk = doGetLk"
| "run_func DoSetLk = doSetLk"
| "run_func DoSetLkw = doSetLkw"
| "run_func DoAccess = doAccess"
| "run_func DoSymlink = doSymlink"
| "run_func DoRename = doRename"
| "run_func DoStatFs = doStatFs"
| "run_func DoIoctl = doIoctl"
| "run_func DoDestroy = doDestroy"
| "run_func DoNotifyReply = doNotifyReply"
| "run_func DoFallocate = doFallocate"
| "run_func DoReadDirPlus = doReadDirPlus"
| "run_func DoRename2 = doRename2"
| "run_func DoInterrupt = doInterrupt"
| "run_func DoCopyFileRange = doCopyFileRange"
| "run_func DoLseek = doLseek"

end
