(* ===== verification/Server.thy ===== *)
theory Server
  imports Opcode
begin

text \<open>
  \<^verbatim>\<open>fuse/server.go\<close> with its Linux parts \<^verbatim>\<open>server_linux.go\<close> and \<^verbatim>\<open>splice_linux.go\<close>: creating a server, reading
  requests, dispatching them, writing replies, and the notifications to the kernel. The phases of
  \<^verbatim>\<open>handleRequest\<close> are separate definitions, because requests of several goroutines interleave
  between them. The single-threading mutex, the latency statistics and debug output are left out.
\<close>

section \<open>Creating a server\<close>

definition MAX_KERNEL_WRITE :: int where "MAX_KERNEL_WRITE = 128 * 1024"
definition MAX_NAME_LEN :: nat where "MAX_NAME_LEN = 20"
definition MAX_READERS :: int where "MAX_READERS = 2"
definition DEFAULT_BACKGROUND_TASKS :: int where "DEFAULT_BACKGROUND_TASKS = 12"

definition optionsStrings :: "MountOptions \<Rightarrow> string list" where
  "optionsStrings o' = mo_Options o'
     @ (if mo_AllowOther o' then [''allow_other''] else [])
     @ (if mo_FsName o' \<noteq> [] then [''fsname='' @ mo_FsName o'] else [])
     @ (if mo_Name o' \<noteq> [] then [''subtype='' @ mo_Name o'] else [])"

definition server_options :: "string \<Rightarrow> MountOptions option \<Rightarrow> MountOptions" where
  "server_options fsname opts =
     (let o0 = (case opts of None \<Rightarrow> zero_MountOptions\<lparr>mo_MaxBackground := DEFAULT_BACKGROUND_TASKS\<rparr> | Some o' \<Rightarrow> o');
          w0 = mo_MaxWrite o0;
          w1 = (if w0 < 0 then 0 else w0);
          w2 = (if w1 = 0 then 65536 else w1);
          w3 = (if w2 > MAX_KERNEL_WRITE then MAX_KERNEL_WRITE else w2);
          nm = (if mo_Name o0 = []
                then map (\<lambda>c. if c = CHR '','' then CHR '';'' else c) (take MAX_NAME_LEN fsname)
                else mo_Name o0)
      in o0\<lparr>mo_MaxWrite := w3, mo_Name := nm\<rparr>)"

definition options_ok :: "MountOptions \<Rightarrow> bool" where
  "options_ok o' \<longleftrightarrow> (\<forall>x \<in> set (optionsStrings o'). CHR '','' \<notin> set x)"

definition zero_InitIn :: InitIn where
  "zero_InitIn = \<lparr>ini_InHeader = zero_InHeader, ini_Major = 0, ini_Minor = 0, ini_MaxReadAhead = 0, ini_Flags = 0\<rparr>"

definition zero_retrieve :: retrieveCacheRequest where
  "zero_retrieve = \<lparr>rc_nodeid = 0, rc_offset = 0, rc_dest = [], rc_n = 0, rc_st = OK, rc_ready = False\<rparr>"

definition new_server :: "MountOptions \<Rightarrow> 'w \<Rightarrow> 'w Server" where
  "new_server o' w = \<lparr>sv_w = w, sv_opts = o', sv_buffers = [], sv_req = (\<lambda>_. new_request), sv_nextReq = 0,
     sv_reqPool = [], sv_readPool = [], sv_reqReaders = 0, sv_reqInflight = [],
     sv_kernelSettings = zero_InitIn, sv_retrieve = (\<lambda>_. zero_retrieve), sv_nextRetrieve = 0,
     sv_retrieveNext = 0, sv_retrieveTab = Some [], sv_singleReader = False, sv_canSplice = False,
     sv_loops = 0, sv_out = []\<rparr>"

section \<open>Reading requests\<close>

fun read_device :: "(Errno + u8 list) list \<Rightarrow> (Errno + u8 list) go" where
  "read_device [] = Inl OutOfFuel"
| "read_device (x # xs) = (if x = Inl EINTR then read_device xs else Inr x)"

definition get_request :: "platform \<Rightarrow> 'w Server \<Rightarrow> addr \<times> 'w Server" where
  "get_request pf s =
     (case sv_reqPool s of
        a # rest \<Rightarrow> if pf_hit pf then (a, s\<lparr>sv_reqPool := rest\<rparr>)
                    else (sv_nextReq s, s\<lparr>sv_nextReq := sv_nextReq s + 1, sv_req := (sv_req s)(sv_nextReq s := new_request)\<rparr>)
      | [] \<Rightarrow> (sv_nextReq s, s\<lparr>sv_nextReq := sv_nextReq s + 1, sv_req := (sv_req s)(sv_nextReq s := new_request)\<rparr>))"

definition get_dest :: "platform \<Rightarrow> 'w Server \<Rightarrow> u8 list \<times> 'w Server" where
  "get_dest pf s =
     (case sv_readPool s of
        b # rest \<Rightarrow> if pf_hit pf then (b, s\<lparr>sv_readPool := rest\<rparr>)
                    else (replicate (nat (mo_MaxWrite (sv_opts s)) + pf_pageSize pf) 0, s)
      | [] \<Rightarrow> (replicate (nat (mo_MaxWrite (sv_opts s)) + pf_pageSize pf) 0, s))"

text \<open>The part of \<^verbatim>\<open>readRequest\<close> under the lock after a successful read.\<close>

definition accept_request :: "addr \<Rightarrow> u8 list \<Rightarrow> u8 list \<Rightarrow> 'w Server \<Rightarrow> (addr option \<times> Status) \<times> 'w Server" where
  "accept_request a dest bs s =
     (let n = length bs;
          (gobbled, r1) = setInput bs (write_at 0 bs dest) (sv_req s a);
          (status, r2) = parseHeader r1
      in if status \<noteq> OK then ((None, status), upd_req a (\<lambda>_. r2) s)
         else let s1 = upd_req a (\<lambda>_. r2\<lparr>rq_inflightIndex := length (sv_reqInflight s)\<rparr>) s;
                  s2 = s1\<lparr>sv_reqInflight := sv_reqInflight s @ [a], sv_reqReaders := sv_reqReaders s - 1\<rparr>;
                  s3 = (if gobbled then s2 else s2\<lparr>sv_readPool := write_at 0 bs dest # sv_readPool s2\<rparr>)
              in ((Some a, OK),
                  if \<not> sv_singleReader s3 \<and> sv_reqReaders s3 \<le> 0 then s3\<lparr>sv_loops := sv_loops s3 + 1\<rparr> else s3))"

text \<open>
  \<^verbatim>\<open>readRequest\<close> as one step: the two sections under \<^verbatim>\<open>reqMu\<close> and the read of the device between them,
  during which it holds no lock. What other goroutines do during that read is not part of the model.
\<close>

definition readRequest :: "platform \<Rightarrow> 'w Server \<Rightarrow> ((addr option \<times> Status) \<times> 'w Server) go" where
  "readRequest pf s =
     (if sv_reqReaders s > MAX_READERS then Inr ((None, OK), s)
      else case get_request pf s of (a, s1) \<Rightarrow>
           case get_dest pf s1 of (dest, s2) \<Rightarrow>
           let s3 = s2\<lparr>sv_reqReaders := sv_reqReaders s2 + 1\<rparr> in
           bind_go (read_device (pf_read pf)) (\<lambda>x.
             case x of
               Inl e \<Rightarrow> Inr ((None, e), s3\<lparr>sv_reqPool := a # sv_reqPool s3, sv_reqReaders := sv_reqReaders s3 - 1\<rparr>)
             | Inr bs \<Rightarrow> Inr (accept_request a dest (take (length dest) bs) s3)))"

section \<open>Giving requests back\<close>

definition remove_inflight :: "addr \<Rightarrow> 'w Server \<Rightarrow> 'w Server go" where
  "remove_inflight a s =
     (let this = rq_inflightIndex (sv_req s a); infl = sv_reqInflight s; lst = length infl - 1 in
      if infl = [] then Inl IndexRange
      else if this = lst then Inr (s\<lparr>sv_reqInflight := swap_remove this infl\<rparr>)
      else if length infl \<le> this then Inl IndexRange
      else Inr (upd_req (infl ! lst) (\<lambda>r. r\<lparr>rq_inflightIndex := this\<rparr>) (s\<lparr>sv_reqInflight := swap_remove this infl\<rparr>)))"

definition recycle :: "platform \<Rightarrow> addr \<Rightarrow> 'w Server \<Rightarrow> 'w Server" where
  "recycle pf a s =
     (let r = sv_req s a;
          s1 = s\<lparr>sv_buffers := FreeBuffer (pf_pageSize pf) (rq_bufferPoolOutputBuf r) (sv_buffers s)\<rparr>;
          s2 = upd_req a (\<lambda>r. (clear r)\<lparr>rq_bufferPoolOutputBuf := None, rq_bufferPoolInputBuf := None\<rparr>) s1;
          s3 = (case rq_bufferPoolInputBuf r of None \<Rightarrow> s2 | Some p \<Rightarrow> s2\<lparr>sv_readPool := p # sv_readPool s2\<rparr>)
      in s3\<lparr>sv_reqPool := a # sv_reqPool s3\<rparr>)"

definition returnRequest :: "platform \<Rightarrow> addr \<Rightarrow> 'w Server \<Rightarrow> 'w Server go" where
  "returnRequest pf a s =
     bind_go (remove_inflight a s) (\<lambda>s1.
       if rq_interrupted (sv_req s1 a) then Inr s1 else Inr (recycle pf a s1))"

section \<open>Writing replies\<close>

definition emit :: "u8 list \<Rightarrow> 'w Server \<Rightarrow> 'w Server" where
  "emit msg s = s\<lparr>sv_out := sv_out s @ [msg]\<rparr>"

text \<open>
  \<^verbatim>\<open>trySplice\<close>: the reply is assembled in two pipes; the result tells whether it was sent. The header
  is serialised again for the number of bytes that the file delivered.
\<close>

definition trySplice :: "splice_run \<Rightarrow> addr \<Rightarrow> nat \<Rightarrow> 'w Server \<Rightarrow> (bool \<times> 'w Server) go" where
  "trySplice run a sz s =
     (if sp_Get1 run \<noteq> 0 \<or> sp_Grow1 run \<noteq> 0 \<or> snd (sp_LoadFromAt run) \<noteq> 0 \<or> sp_Get2 run \<noteq> 0 then Inr (False, s)
      else let payload = take sz (fst (sp_LoadFromAt run)) in
        bind_go (serializeHeader (length payload) (sv_req s a)) (\<lambda>(header, r).
          let s1 = upd_req a (\<lambda>_. r) s in
          if sp_Grow2 run \<noteq> 0 then Inr (False, s1)
          else if snd (sp_Write run) \<noteq> 0 \<or> fst (sp_Write run) \<noteq> length header then Inr (False, s1)
          else if snd (sp_LoadFrom run) \<noteq> 0 \<or> fst (sp_LoadFrom run) \<noteq> length payload then Inr (False, s1)
          else if sp_WriteTo run \<noteq> 0 then Inr (False, s1)
          else Inr (True, emit (header @ payload) s1)))"

definition write_vec :: "platform \<Rightarrow> u8 list \<Rightarrow> addr \<Rightarrow> 'w Server \<Rightarrow> (Status \<times> 'w Server) go" where
  "write_vec pf header a s =
     Inr (pf_writev pf, if pf_writev pf = OK then emit (header @ rq_flatData (sv_req s a)) s else s)"

definition write_copied :: "platform \<Rightarrow> ReadResult \<Rightarrow> nat \<Rightarrow> addr \<Rightarrow> 'w Server \<Rightarrow> (Status \<times> 'w Server) go" where
  "write_copied pf fd sz a s =
     bind_go (allocOut pf a (word_of_nat sz) s) (\<lambda>(buf, s2).
       case rr_Bytes pf (sl_len buf) fd of (bs, st) \<Rightarrow>
       let s3 = upd_req a (\<lambda>r. r\<lparr>rq_flatData := bs, rq_status := st\<rparr>) s2 in
       bind_go (serializeHeader (length bs) (sv_req s3 a)) (\<lambda>(header', r').
         write_vec pf header' a (upd_req a (\<lambda>_. r') s3)))"

definition systemWrite :: "platform \<Rightarrow> u8 list \<Rightarrow> addr \<Rightarrow> 'w Server \<Rightarrow> (Status \<times> 'w Server) go" where
  "systemWrite pf header a s =
     (let r = sv_req s a; sz = flatDataSize r in
      if sz = 0
      then bind_go (handleEINTR (pf_write pf)) (\<lambda>e. Inr (e, if e = OK then emit header s else s))
      else case rq_fdData r of
             None \<Rightarrow> write_vec pf header a s
           | Some fd \<Rightarrow>
               bind_go (if sv_canSplice s then trySplice (pf_splice pf) a (rr_Size fd) s else Inr (False, s)) (\<lambda>(sent, s1).
                 if sent then Inr (OK, s1)
                 else write_copied pf fd sz a s1))"

definition no_reply :: "request \<Rightarrow> InHeader \<Rightarrow> bool" where
  "no_reply r hdr \<longleftrightarrow> sint (ih_Opcode hdr) \<in> {int OP_FORGET, int OP_BATCH_FORGET, int OP_NOTIFY_REPLY}
     \<or> sint (ih_Opcode hdr) = int OP_INTERRUPT \<and> rq_status r = OK"

definition server_write :: "platform \<Rightarrow> addr \<Rightarrow> 'w Server \<Rightarrow> (Status \<times> 'w Server) go" where
  "server_write pf a s =
     bind_go (req_inHeader a s) (\<lambda>hdr.
       if no_reply (sv_req s a) hdr then Inr (OK, s)
       else bind_go (serializeHeader (flatDataSize (sv_req s a)) (sv_req s a)) (\<lambda>(header, r).
              systemWrite pf header a (upd_req a (\<lambda>_. r) s)))"

section \<open>Handling requests\<close>

definition parse_request :: "addr \<Rightarrow> 'w Server \<Rightarrow> 'w Server go" where
  "parse_request a s =
     bind_go (parse (sv_req s a)) (\<lambda>r.
       Inr (upd_req a (\<lambda>_. if rq_handler r = None then r\<lparr>rq_status := ENOSYS\<rparr> else r) s))"

definition dispatch :: "'w handler" where
  "dispatch pf fs a s =
     bind_go (req_inHeader a s) (\<lambda>hdr.
       let r = sv_req s a in
       if ih_NodeId hdr = pollHackInode
       then Inr (set_status a (if sint (ih_Opcode hdr) = int OP_POLL then ENOSYS else EIO) s)
       else if ih_NodeId hdr = FUSE_ROOT_ID \<and> rq_filenames r \<noteq> [] \<and> rq_filenames r ! 0 = pollHackName
       then doPollHackLookup a s
       else if rq_status r = OK
       then (case rq_handler r of
               None \<Rightarrow> Inl NilDeref
             | Some h \<Rightarrow> (case h_Func h of None \<Rightarrow> Inr (set_status a ENOSYS s) | Some f \<Rightarrow> run_func f pf fs a s))
       else Inr s)"

definition handleRequest :: "platform \<Rightarrow> 'w RawFileSystem \<Rightarrow> addr \<Rightarrow> 'w Server \<Rightarrow> (Status \<times> 'w Server) go" where
  "handleRequest pf fs a s =
     bind_go (parse_request a s) (\<lambda>s1.
     bind_go (dispatch pf fs a s1) (\<lambda>s2.
     bind_go (server_write pf a s2) (\<lambda>(errNo, s3).
     bind_go (returnRequest pf a s3) (\<lambda>s4. Inr (errNo, s4)))))"

definition handleInit :: "platform \<Rightarrow> 'w RawFileSystem \<Rightarrow> 'w Server \<Rightarrow> (Status \<times> 'w Server) go" where
  "handleInit pf fs s =
     bind_go (readRequest pf (s\<lparr>sv_singleReader := True\<rparr>)) (\<lambda>((req, errNo), s1).
       let s2 = s1\<lparr>sv_singleReader := sv_singleReader s\<rparr> in
       case req of
         None \<Rightarrow> Inr (errNo, s2)
       | Some a \<Rightarrow>
           if errNo \<noteq> OK then Inr (errNo, s2)
           else bind_go (handleRequest pf fs a s2) (\<lambda>(code, s3).
                  if code \<noteq> OK then Inr (code, s3)
                  else bind_go (call_unit (fs_Init fs) s3) (\<lambda>s4. Inr (OK, s4))))"

text \<open>
  \<^verbatim>\<open>NewServer\<close>: the error case carries no message; mounting is the parameter \<^verbatim>\<open>mount\<close>, which tells
  whether a connection to the kernel was obtained.
\<close>

definition NewServer :: "platform \<Rightarrow> 'w RawFileSystem \<Rightarrow> string \<Rightarrow> (MountOptions \<Rightarrow> bool) \<Rightarrow> MountOptions option \<Rightarrow> 'w \<Rightarrow> 'w Server option go" where
  "NewServer pf fs fsname mount opts w =
     (let o' = server_options fsname opts in
      if \<not> options_ok o' then Inr None
      else if \<not> mount o' then Inr None
      else bind_go (handleInit pf fs (new_server o' w)) (\<lambda>(code, s). Inr (if code = OK then Some s else None)))"

text \<open>One goroutine of the serve loop; the list holds the answers of the system in each iteration.\<close>

fun loop :: "'w RawFileSystem \<Rightarrow> platform list \<Rightarrow> 'w Server \<Rightarrow> 'w Server go" where
  "loop fs [] s = Inl OutOfFuel"
| "loop fs (pf # pfs) s =
     bind_go (readRequest pf s) (\<lambda>((req, errNo), s1).
       if errNo = OK
       then (case req of
               None \<Rightarrow> Inr (s1\<lparr>sv_loops := sv_loops s1 - 1\<rparr>)
             | Some a \<Rightarrow> bind_go (handleRequest pf fs a s1) (\<lambda>(_, s2). loop fs pfs s2))
       else if errNo = ENOENT then loop fs pfs s1
       else Inr (s1\<lparr>sv_loops := sv_loops s1 - 1\<rparr>))"

text \<open>The end of \<^verbatim>\<open>Serve\<close>: pending retrievals are woken up with ENODEV.\<close>

definition shutdown :: "'w Server \<Rightarrow> 'w Server" where
  "shutdown s = s\<lparr>sv_retrieveTab := Some [],
     sv_retrieve := (\<lambda>q. if q \<in> snd ` set (gm_entries (sv_retrieveTab s))
                         then (sv_retrieve s q)\<lparr>rc_n := 0, rc_st := ENODEV, rc_ready := True\<rparr> else sv_retrieve s q)\<rparr>"

section \<open>Notifications\<close>

definition NOTIFY_INVAL_INODE :: int where "NOTIFY_INVAL_INODE = - 2"
definition NOTIFY_INVAL_ENTRY :: int where "NOTIFY_INVAL_ENTRY = - 3"
definition NOTIFY_STORE_CACHE :: int where "NOTIFY_STORE_CACHE = - 4"
definition NOTIFY_RETRIEVE_CACHE :: int where "NOTIFY_RETRIEVE_CACHE = - 5"
definition NOTIFY_DELETE :: int where "NOTIFY_DELETE = - 6"

lemmas notify_defs = NOTIFY_INVAL_INODE_def NOTIFY_INVAL_ENTRY_def NOTIFY_STORE_CACHE_def
  NOTIFY_RETRIEVE_CACHE_def NOTIFY_DELETE_def

definition SupportsVersion :: "InitIn \<Rightarrow> u32 \<Rightarrow> u32 \<Rightarrow> bool" where
  "SupportsVersion i maj mn \<longleftrightarrow> ini_Major i \<ge> maj \<or> ini_Major i = maj \<and> ini_Minor i \<ge> mn"

definition SupportsNotify :: "InitIn \<Rightarrow> int \<Rightarrow> bool" where
  "SupportsNotify i t =
     (if t = NOTIFY_INVAL_ENTRY then SupportsVersion i 7 12
      else if t = NOTIFY_INVAL_INODE then SupportsVersion i 7 12
      else if t = NOTIFY_STORE_CACHE \<or> t = NOTIFY_RETRIEVE_CACHE then SupportsVersion i 7 15
      else if t = NOTIFY_DELETE then SupportsVersion i 7 18
      else False)"

text \<open>The local request of a notification, with its output struct and data, and its write.\<close>

definition notify_request :: "nat \<Rightarrow> int \<Rightarrow> u8 list \<Rightarrow> u8 list \<Rightarrow> request" where
  "notify_request op st out data =
     put_out out (new_request\<lparr>rq_inHeader := Some (zero_InHeader\<lparr>ih_Opcode := word_of_nat op\<rparr>),
       rq_handler := Some (operationHandlers ! op), rq_status := st, rq_flatData := data\<rparr>)"

definition notify :: "platform \<Rightarrow> request \<Rightarrow> 'w Server \<Rightarrow> (Status \<times> 'w Server) go" where
  "notify pf r s = server_write pf (sv_nextReq s) (s\<lparr>sv_nextReq := sv_nextReq s + 1, sv_req := (sv_req s)(sv_nextReq s := r)\<rparr>)"

definition InodeNotify :: "platform \<Rightarrow> u64 \<Rightarrow> i64 \<Rightarrow> i64 \<Rightarrow> 'w Server \<Rightarrow> (Status \<times> 'w Server) go" where
  "InodeNotify pf node off len s =
     (if \<not> SupportsNotify (sv_kernelSettings s) NOTIFY_INVAL_INODE then Inr (ENOSYS, s)
      else notify pf (notify_request OP_NOTIFY_INVAL_INODE NOTIFY_INVAL_INODE
             (NotifyInvalInodeOut_bytes \<lparr>nii_Ino = node, nii_Off = off, nii_Length = len\<rparr>) []) s)"

definition name_bytes :: "string \<Rightarrow> u8 list" where
  "name_bytes name = str_bytes name @ [0]"

definition EntryNotify :: "platform \<Rightarrow> u64 \<Rightarrow> string \<Rightarrow> 'w Server \<Rightarrow> (Status \<times> 'w Server) go" where
  "EntryNotify pf parent name s =
     (if \<not> SupportsNotify (sv_kernelSettings s) NOTIFY_INVAL_ENTRY then Inr (ENOSYS, s)
      else notify pf (notify_request OP_NOTIFY_INVAL_ENTRY NOTIFY_INVAL_ENTRY
             (NotifyInvalEntryOut_bytes \<lparr>nie_Parent = parent, nie_NameLen = word_of_nat (length name)\<rparr>)
             (name_bytes name)) s)"

definition DeleteNotify :: "platform \<Rightarrow> u64 \<Rightarrow> u64 \<Rightarrow> string \<Rightarrow> 'w Server \<Rightarrow> (Status \<times> 'w Server) go" where
  "DeleteNotify pf parent child name s =
     (if ini_Minor (sv_kernelSettings s) < 18 then EntryNotify pf parent name s
      else notify pf (notify_request OP_NOTIFY_DELETE NOTIFY_DELETE
             (NotifyInvalDeleteOut_bytes \<lparr>nid_Parent = parent, nid_Child = child, nid_NameLen = word_of_nat (length name)\<rparr>)
             (name_bytes name)) s)"

definition MaxInt32 :: nat where "MaxInt32 = 2147483647"

definition inodeNotifyStoreCache32 :: "platform \<Rightarrow> u64 \<Rightarrow> i64 \<Rightarrow> u8 list \<Rightarrow> 'w Server \<Rightarrow> (Status \<times> 'w Server) go" where
  "inodeNotifyStoreCache32 pf node offset data s =
     notify pf (notify_request OP_NOTIFY_STORE_CACHE NOTIFY_STORE_CACHE
       (NotifyStoreOut_bytes \<lparr>nso_Nodeid = node, nso_Offset = offset, nso_Size = word_of_nat (length data)\<rparr>) data) s"

text \<open>\<^verbatim>\<open>pfs k\<close> is what the system answers for the k-th chunk.\<close>

function store_loop :: "(nat \<Rightarrow> platform) \<Rightarrow> nat \<Rightarrow> u64 \<Rightarrow> i64 \<Rightarrow> u8 list \<Rightarrow> 'w Server \<Rightarrow> (Status \<times> 'w Server) go" where
  "store_loop pfs k node offset data s =
     (if data = [] then Inr (OK, s)
      else let sz = min (length data) MaxInt32 in
        bind_go (inodeNotifyStoreCache32 (pfs k) node offset (take sz data) s) (\<lambda>(st, s1).
          if st \<noteq> OK then Inr (st, s1)
          else store_loop pfs (Suc k) node (offset + word_of_nat sz) (drop sz data) s1))"
  by pat_completeness auto
termination
  by (relation "measure (\<lambda>(pfs, k, node, offset, data, s). length data)") (auto simp: MaxInt32_def)

declare store_loop.simps [simp del]

definition InodeNotifyStoreCache :: "(nat \<Rightarrow> platform) \<Rightarrow> u64 \<Rightarrow> i64 \<Rightarrow> u8 list \<Rightarrow> 'w Server \<Rightarrow> (Status \<times> 'w Server) go" where
  "InodeNotifyStoreCache pfs node offset data s =
     (if \<not> SupportsNotify (sv_kernelSettings s) NOTIFY_STORE_CACHE then Inr (ENOSYS, s)
      else store_loop pfs 0 node offset data s)"

section \<open>Retrieving the kernel's cache\<close>

text \<open>
  A retrieval registers itself, asks the kernel and waits. What the other goroutines do to the
  server while it waits is a function \<^verbatim>\<open>env\<close>; a retrieval that is not answered by then blocks.
\<close>

definition retrieve_send :: "platform \<Rightarrow> u64 \<Rightarrow> i64 \<Rightarrow> u8 list \<Rightarrow> 'w Server \<Rightarrow> (Status \<times> u64 \<times> addr \<times> 'w Server) go" where
  "retrieve_send pf node offset dest s =
     (let q = sv_nextRetrieve s;
          u = sv_retrieveNext s;
          dest' = take MaxInt32 dest
      in bind_go (gm_set (sv_retrieveTab s) u q) (\<lambda>tab.
           let s1 = s\<lparr>sv_nextRetrieve := q + 1, sv_retrieveNext := u + 1, sv_retrieveTab := tab,
                      sv_retrieve := (sv_retrieve s)(q := zero_retrieve\<lparr>rc_nodeid := node, rc_offset := offset, rc_dest := dest'\<rparr>)\<rparr>
           in bind_go (notify pf (notify_request OP_NOTIFY_RETRIEVE_CACHE NOTIFY_RETRIEVE_CACHE
                  (NotifyRetrieveOut_bytes \<lparr>nro_NotifyUnique = u, nro_Nodeid = node, nro_Offset = offset,
                     nro_Size = word_of_nat (length dest')\<rparr>) []) s1) (\<lambda>(st, s2). Inr (st, u, q, s2))))"

definition inodeRetrieveCache1 :: "platform \<Rightarrow> ('w Server \<Rightarrow> 'w Server) \<Rightarrow> u64 \<Rightarrow> i64 \<Rightarrow> u8 list \<Rightarrow> 'w Server \<Rightarrow> ((u8 list \<times> nat \<times> Status) \<times> 'w Server) go" where
  "inodeRetrieveCache1 pf env node offset dest s =
     (if \<not> SupportsNotify (sv_kernelSettings s) NOTIFY_RETRIEVE_CACHE then Inr ((dest, 0, ENOSYS), s)
      else bind_go (retrieve_send pf node offset dest s) (\<lambda>(result, u, q, s1).
        if result \<noteq> OK
        then Inr ((dest, 0, result),
               if gm_get (sv_retrieveTab s1) u = Some q then s1\<lparr>sv_retrieveTab := gm_del (sv_retrieveTab s1) u\<rparr> else s1)
        else let s2 = env s1; rc = sv_retrieve s2 q in
             if rc_ready rc then Inr ((rc_dest rc @ drop MaxInt32 dest, rc_n rc, rc_st rc), s2) else Inl OutOfFuel))"

text \<open>
  The loop of \<^verbatim>\<open>InodeRetrieveCache\<close>, one pair of answers and environment per chunk; \<^verbatim>\<open>got\<close> is the part
  of the destination already filled.
\<close>

fun retrieve_loop :: "(platform \<times> ('w Server \<Rightarrow> 'w Server)) list \<Rightarrow> u64 \<Rightarrow> i64 \<Rightarrow> u8 list \<Rightarrow> u8 list \<Rightarrow> 'w Server \<Rightarrow> ((u8 list \<times> nat \<times> Status) \<times> 'w Server) go" where
  "retrieve_loop [] node offset got dest s = Inl OutOfFuel"
| "retrieve_loop ((pf, env) # es) node offset got dest s =
     (let chunk = min (length dest) (nat (mo_MaxWrite (sv_opts s))) in
      bind_go (inodeRetrieveCache1 pf env node offset (take chunk dest) s) (\<lambda>((d, n, st), s1).
        let dest' = d @ drop chunk dest in
        if st \<noteq> OK \<or> n = 0 then Inr ((got @ dest', length got, if length got > 0 then OK else st), s1)
        else retrieve_loop es node (offset + word_of_nat n) (got @ take n dest') (drop n dest') s1))"

definition InodeRetrieveCache :: "(platform \<times> ('w Server \<Rightarrow> 'w Server)) list \<Rightarrow> u64 \<Rightarrow> i64 \<Rightarrow> u8 list \<Rightarrow> 'w Server \<Rightarrow> ((u8 list \<times> nat \<times> Status) \<times> 'w Server) go" where
  "InodeRetrieveCache es node offset dest s = retrieve_loop es node offset [] dest s"

end
