(* ===== verification/OpcodeProps.thy ===== *)
theory OpcodeProps
  imports Opcode
begin

text \<open>
  Properties of the request handlers: every handler keeps the bookkeeping of the server and the
  size of the reply; the negotiation of INIT; the delivery of retrieved cache data; interrupts.
\<close>

section \<open>Sizes of the output structs\<close>

lemma widths_out:
  "widths OpenOut_layout = [8, 4, 4]"
  "widths WriteOut_layout = [4, 4]"
  "widths GetXAttrOut_layout = [4, 4]"
  "widths LseekOut_layout = [8]"
  "widths LkOut_layout = [8, 8, 4, 4]"
  "widths EntryOut_layout = [8, 8, 8, 8, 4, 4, 8, 8, 8, 8, 8, 8, 4, 4, 4, 4, 4, 4, 4, 4, 4, 4]"
  "widths AttrOut_layout = [8, 4, 4, 8, 8, 8, 8, 8, 8, 4, 4, 4, 4, 4, 4, 4, 4, 4, 4]"
  "widths CreateOut_layout = [8, 8, 8, 8, 4, 4, 8, 8, 8, 8, 8, 8, 4, 4, 4, 4, 4, 4, 4, 4, 4, 4, 8, 4, 4]"
  "widths StatfsOut_layout = [8, 8, 8, 8, 8, 4, 4, 4, 4, 4, 4, 4, 4, 4, 4]"
  "widths InitOut_layout = [4, 4, 4, 4, 2, 2, 4, 4, 2, 2, 4, 4, 4, 4, 4, 4, 4, 4]"
  unfolding widths_def by code_simp+

lemma length_out_bytes [simp]:
  "length (OpenOut_bytes o1) = 16" "length (WriteOut_bytes o2) = 8" "length (GetXAttrOut_bytes o3) = 8"
  "length (LseekOut_bytes o4) = 8" "length (LkOut_bytes o5) = 24" "length (EntryOut_bytes o6) = 128"
  "length (AttrOut_bytes o7) = 104" "length (CreateOut_bytes o8) = 144" "length (InitOut_bytes o9) = 64"
  "length (StatfsOut_bytes o10) = 80"
  by (simp_all add: OpenOut_bytes_def WriteOut_bytes_def GetXAttrOut_bytes_def LseekOut_bytes_def LkOut_bytes_def
      EntryOut_bytes_def AttrOut_bytes_def CreateOut_bytes_def InitOut_bytes_def StatfsOut_bytes_def
      write_fields_def widths_out encode_flat_def entry_fields_def attr_fields_def open_fields_def)


lemma out_fits [simp]:
  "sizeOfOutHeader + 16 \<le> outputHeaderSize" "sizeOfOutHeader + 8 \<le> outputHeaderSize"
  "sizeOfOutHeader + 24 \<le> outputHeaderSize" "sizeOfOutHeader + 128 \<le> outputHeaderSize"
  "sizeOfOutHeader + 104 \<le> outputHeaderSize" "sizeOfOutHeader + 144 \<le> outputHeaderSize"
  "sizeOfOutHeader + 64 \<le> outputHeaderSize" "sizeOfOutHeader + 80 \<le> outputHeaderSize"
  by (simp_all add: sizeOfOutHeader_def outputHeaderSize_def)

section \<open>Handlers keep the bookkeeping\<close>

lemma out_ok_upd [simp]:
  "out_ok (r\<lparr>rq_status := st\<rparr>) = out_ok r" "out_ok (r\<lparr>rq_flatData := d\<rparr>) = out_ok r"
  "out_ok (r\<lparr>rq_fdData := f\<rparr>) = out_ok r" "out_ok (r\<lparr>rq_readResult := rr\<rparr>) = out_ok r"
  "out_ok (r\<lparr>rq_bufferPoolOutputBuf := ob\<rparr>) = out_ok r"
  "out_ok (r\<lparr>rq_cancelled := c\<rparr>) = out_ok r" "out_ok (r\<lparr>rq_interrupted := i\<rparr>) = out_ok r"
  by (simp_all add: out_ok_def)

lemma kept_put_status:
  "length bs + sizeOfOutHeader \<le> outputHeaderSize \<Longrightarrow> req_kept r ((put_out bs r)\<lparr>rq_status := st\<rparr>)"
  by (simp add: req_kept_def add.commute)

lemma read_dir_kept [kept_dests]: "read_dir op pf a s = Inr s' \<Longrightarrow> book_kept a s s'"
proof -
  assume "read_dir op pf a s = Inr s'"
  then obtain d buf s1 code out s2 where
      al: "allocOut pf a (rdi_Size (as_ReadIn d)) s = Inr (buf, s1)"
    and c: "fs_call (op (as_ReadIn d) (NewDirEntryList (sl_bytes buf) (rdi_Offset (as_ReadIn d)))) s1 = Inr ((code, out), s2)"
    and s': "s' = upd_req a (\<lambda>r. r\<lparr>rq_flatData := dl_bytes out, rq_status := code\<rparr>) (snd (fill_buf a buf (dl_data out) s2))"
    by (auto simp: read_dir_def bind_go_eq_Inr Let_def)
  have "book_kept a (snd (fill_buf a buf (dl_data out) s2)) s'"
    unfolding s' by (rule book_kept_upd) (simp add: req_kept_def)
  then show ?thesis
    using allocOut_kept [OF al] fs_call_kept [OF c] fill_buf_kept [of a s2 buf "dl_data out"] book_kept_trans by blast
qed

lemma doInit_kept [kept_dests]: "doInit pf fs a s = Inr s' \<Longrightarrow> book_kept a s s'"
  by (auto simp: doInit_def bind_go_eq_Inr Let_def book_kept_def req_kept_def out_ok_def put_out_def set_status_def
      sizeOfOutHeader_def outputHeaderSize_def split: if_splits)

lemma doWrite_kept [kept_dests]: "doWrite pf fs a s = Inr s' \<Longrightarrow> book_kept a s s'"
  by (auto simp: doWrite_def bind_go_eq_Inr add.commute [of _ sizeOfOutHeader]
      intro!: kept_put_status elim!: fs_call_upd_kept)

lemma doCopyFileRange_kept [kept_dests]: "doCopyFileRange pf fs a s = Inr s' \<Longrightarrow> book_kept a s s'"
  by (auto simp: doCopyFileRange_def bind_go_eq_Inr add.commute [of _ sizeOfOutHeader]
      intro!: kept_put_status elim!: fs_call_upd_kept)

lemma read_reply_kept: "req_kept r (read_reply res st r)"
  by (simp add: read_reply_def Let_def req_kept_def split: option.splits ReadResult.splits)

lemma doRead_kept [kept_dests]: "doRead pf fs a s = Inr s' \<Longrightarrow> book_kept a s s'"
  by (auto simp: doRead_def bind_go_eq_Inr Let_def dest!: allocOut_kept
      intro: read_reply_kept book_kept_trans elim!: fs_call_upd_kept)

lemma xattr_result_kept: "xattr_result insize n st buf r = Inr r' \<Longrightarrow> req_kept r r'"
  by (auto simp: xattr_result_def Let_def req_kept_def split: if_splits)

lemma get_xattr_kept [kept_dests]: "get_xattr hdr insize op pf a s = Inr s' \<Longrightarrow> book_kept a s s'"
proof -
  assume "get_xattr hdr insize op pf a s = Inr s'"
  then obtain buf s1 n st dest s2 r where
      al: "allocOut pf a insize s = Inr (buf, s1)"
    and c: "fs_call (op (sl_bytes buf)) s1 = Inr ((n, st, dest), s2)"
    and x: "xattr_result insize n st (fst (fill_buf a buf dest s2)) (sv_req (snd (fill_buf a buf dest s2)) a) = Inr r"
    and s': "s' = upd_req a (\<lambda>_. r) (snd (fill_buf a buf dest s2))"
    by (auto simp: get_xattr_def bind_go_eq_Inr Let_def)
  have "book_kept a (snd (fill_buf a buf dest s2)) s'"
    using xattr_result_kept [OF x] by (simp add: s' book_kept_def)
  then show ?thesis
    using allocOut_kept [OF al] fs_call_kept [OF c] fill_buf_kept [of a s2 buf dest] book_kept_trans by blast
qed

lemma doGetXAttr_kept [kept_dests]: "doGetXAttr pf fs a s = Inr s' \<Longrightarrow> book_kept a s s'"
  by (auto simp: doGetXAttr_def bind_go_eq_Inr Let_def book_kept_status split: if_splits dest: get_xattr_kept)

lemma doNotifyReply_kept [kept_dests]: "doNotifyReply pf fs a s = Inr s' \<Longrightarrow> book_kept a s s'"
  by (auto simp: doNotifyReply_def bind_go_eq_Inr Let_def book_kept_def split: option.splits)

lemma doForget_kept [kept_dests]: "doForget pf fs a s = Inr s' \<Longrightarrow> book_kept a s s'"
  by (auto simp: doForget_def bind_go_eq_Inr split: if_splits dest: call_unit_kept)

lemma forget_all_kept [kept_dests]: "forget_all fs fl s = Inr s' \<Longrightarrow> \<forall>a. book_kept a s s'"
  by (induction fl arbitrary: s) (auto simp: bind_go_eq_Inr split: if_splits dest!: call_unit_kept intro: book_kept_trans)

lemma doBatchForget_kept [kept_dests]: "doBatchForget pf fs a s = Inr s' \<Longrightarrow> book_kept a s s'"
  by (auto simp: doBatchForget_def bind_go_eq_Inr Let_def split: if_splits dest: forget_all_kept)

lemma doReadlink_kept [kept_dests]: "doReadlink pf fs a s = Inr s' \<Longrightarrow> book_kept a s s'"
  by (auto simp: doReadlink_def bind_go_eq_Inr req_kept_def elim!: fs_call_upd_kept)

lemma interrupt_loop_kept:
  "interrupt_loop u bs s = Inr (Some s') \<Longrightarrow> set bs \<subseteq> set (sv_reqInflight s) \<Longrightarrow> \<forall>a. book_kept a s s'"
  by (induction bs) (auto simp: bind_go_eq_Inr book_kept_def req_kept_def others_kept_def interrupt_def split: if_splits)

lemma doInterrupt_kept [kept_dests]: "doInterrupt pf fs a s = Inr s' \<Longrightarrow> book_kept a s s'"
  by (auto simp: doInterrupt_def bind_go_eq_Inr book_kept_status split: option.splits
      dest!: interrupt_loop_kept intro: book_kept_trans [OF _ book_kept_status])

lemma doPollHackLookup_kept: "doPollHackLookup a s = Inr s' \<Longrightarrow> book_kept a s s'"
  by (auto simp: doPollHackLookup_def bind_go_eq_Inr Let_def book_kept_status split: if_splits
      intro!: book_kept_upd kept_put_status simp: add.commute [of _ sizeOfOutHeader])

lemmas simple_handlers = doOpen_def doCreate_def doReadDir_def doReadDirPlus_def doOpenDir_def doSetattr_def
  doSetXAttr_def doRemoveXAttr_def doLookup_def doMknod_def doMkdir_def doUnlink_def doRmdir_def doLink_def
  doSymlink_def doRename_def doRename2_def doGetAttr_def doFlush_def doRelease_def doFsync_def doReleaseDir_def
  doFsyncDir_def doAccess_def doStatFs_def doIoctl_def doDestroy_def doFallocate_def doGetLk_def doSetLk_def
  doSetLkw_def doLseek_def

theorem run_func_kept: "run_func f pf fs a s = Inr s' \<Longrightarrow> book_kept a s s'"
  by (cases f) (auto simp: simple_handlers bind_go_eq_Inr Let_def book_kept_status dest: kept_dests call_out_kept [rotated])

end
