(* ===== verification/ServerProps.thy ===== *)
theory ServerProps
  imports Server OpcodeProps
begin

text \<open>
  Properties of the server: the framing of every message written to the device, the bookkeeping of
  requests under every interleaving of the goroutines, the treatment of malformed requests and
  the behaviour of the server on the requests a kernel sends.
\<close>

section \<open>Framing\<close>

text \<open>What the kernel demands of a reply: it names the request and its own length.\<close>

definition frame_ok :: "InHeader \<Rightarrow> u8 list \<Rightarrow> bool" where
  "frame_ok hdr msg \<longleftrightarrow> sizeOfOutHeader \<le> length msg \<and> reply_Unique msg = ih_Unique hdr
     \<and> reply_Length msg = word_of_nat (length msg)"

definition sent :: "addr \<Rightarrow> u8 list list \<Rightarrow> 'w Server \<Rightarrow> 'w Server \<Rightarrow> bool" where
  "sent a ms s s' \<longleftrightarrow> book_kept a (s\<lparr>sv_out := sv_out s @ ms\<rparr>) s'"

lemma sent_out: "sent a ms s s' \<Longrightarrow> sv_out s' = sv_out s @ ms"
  by (simp add: sent_def book_kept_def)

lemma sent_Nil: "sent a [] s s' \<longleftrightarrow> book_kept a s s'"
  by (simp add: sent_def)

lemma sent_trans: "sent a ms s s' \<Longrightarrow> sent a ns s' s'' \<Longrightarrow> sent a (ms @ ns) s s''"
  unfolding sent_def book_kept_def by (auto intro: req_kept_trans others_kept_trans)

lemma sent_emit: "sent a [m] s (emit m s)"
  by (simp add: sent_def emit_def)

lemma serializeHeader_kept:
  assumes "serializeHeader n r = Inr (h, r')"
  shows "req_kept r r'"
proof -
  have "out_ok r \<longrightarrow> out_ok r'" using assms serializeHeader_spec(2) by blast
  then show ?thesis
    using assms by (auto simp: serializeHeader_def bind_go_eq_Inr Let_def req_kept_def split: option.splits)
qed

lemma serializeHeader_frame:
  assumes "out_ok r" and "rq_inHeader r = Some hdr" and "serializeHeader (length x) r = Inr (h, r')"
  shows "frame_ok hdr (h @ x)" and "reply_Status (h @ x) = word_of_int (- rq_status r)"
  using serializeHeader_spec(1) [OF assms(1,3), of x] assms(2) by (auto simp: frame_ok_def)

text \<open>Outcome of a write: either one well-framed message is out and the status is OK, or nothing.\<close>

definition written :: "addr \<Rightarrow> InHeader \<Rightarrow> Status \<Rightarrow> 'w Server \<Rightarrow> 'w Server \<Rightarrow> bool" where
  "written a hdr st s s' \<longleftrightarrow> (if st = OK then \<exists>msg. frame_ok hdr msg \<and> sent a [msg] s s' else sent a [] s s')"

lemma written_from:
  "book_kept a s s1 \<Longrightarrow> written a hdr st s1 s2 \<Longrightarrow> written a hdr st s s2"
  unfolding written_def using sent_trans [of a "[]" s s1] by (auto simp: sent_Nil split: if_splits intro: book_kept_trans)

lemma written_emit: "book_kept a s s1 \<Longrightarrow> frame_ok hdr m \<Longrightarrow> written a hdr OK s (emit m s1)"
  by (rule written_from [of a s s1]) (auto simp: written_def intro: sent_emit)

lemma trySplice_written:
  assumes ok: "out_ok (sv_req s a)" and h: "rq_inHeader (sv_req s a) = Some hdr"
    and t: "trySplice run a sz s = Inr (b, s')"
  shows "if b then written a hdr OK s s' else book_kept a s s'"
proof (cases "sp_Get1 run \<noteq> 0 \<or> sp_Grow1 run \<noteq> 0 \<or> snd (sp_LoadFromAt run) \<noteq> 0 \<or> sp_Get2 run \<noteq> 0")
  case True
  then show ?thesis using t by (auto simp: trySplice_def)
next
  case False
  define x where "x = take sz (fst (sp_LoadFromAt run))"
  obtain header r where sh: "serializeHeader (length x) (sv_req s a) = Inr (header, r)"
    and s': "s' = upd_req a (\<lambda>_. r) s \<and> \<not> b \<or> s' = emit (header @ x) (upd_req a (\<lambda>_. r) s) \<and> b"
    using t False by (auto simp: trySplice_def x_def [symmetric] Let_def bind_go_eq_Inr split: if_splits)
  have k: "book_kept a s (upd_req a (\<lambda>_. r) s)"
    using serializeHeader_kept [OF sh] by (simp add: book_kept_def)
  show ?thesis
    using s' written_emit [OF k serializeHeader_frame(1) [OF ok h sh]] k by auto
qed

lemma write_vec_written:
  assumes "write_vec pf h a s = Inr (st, s')" and "frame_ok hdr (h @ rq_flatData (sv_req s a))"
  shows "written a hdr st s s'"
  using assms written_emit [of a s s hdr] by (auto simp: write_vec_def written_def sent_Nil)

lemma kept_upd_value: "req_kept (sv_req s a) r \<Longrightarrow> book_kept a s (upd_req a (\<lambda>_. r) s)"
  by (simp add: book_kept_def)

lemma book_keptD: "book_kept a s s' \<Longrightarrow> req_kept (sv_req s b) (sv_req s' b)"
  by (simp add: book_kept_def)

lemma req_keptD:
  "req_kept r r' \<Longrightarrow> out_ok r \<Longrightarrow> out_ok r'" "req_kept r r' \<Longrightarrow> rq_inHeader r' = rq_inHeader r"
  by (simp_all add: req_kept_def)

text \<open>The fallback of a spliced read: the file is read into a buffer and the header made again.\<close>

lemma write_copied_written:
  assumes ok: "out_ok (sv_req s a)" and h: "rq_inHeader (sv_req s a) = Some hdr"
    and w: "write_copied pf fd sz a s = Inr (st, s')"
  shows "written a hdr st s s'"
proof -
  obtain buf s2 where al: "allocOut pf a (word_of_nat sz) s = Inr (buf, s2)"
    using w by (auto simp: write_copied_def bind_go_eq_Inr)
  obtain bs st0 where rb: "rr_Bytes pf (sl_len buf) fd = (bs, st0)" by (cases "rr_Bytes pf (sl_len buf) fd")
  define s3 where s3: "s3 = upd_req a (\<lambda>r. r\<lparr>rq_flatData := bs, rq_status := st0\<rparr>) s2"
  obtain header r where sh: "serializeHeader (length bs) (sv_req s3 a) = Inr (header, r)"
    and w: "write_vec pf header a (upd_req a (\<lambda>_. r) s3) = Inr (st, s')"
    using w by (auto simp: write_copied_def bind_go_eq_Inr al rb Let_def s3 [symmetric] simp del: sv_req_upd)
  have k2: "book_kept a s s2" using al by (rule allocOut_kept)
  have k3: "book_kept a s2 s3" unfolding s3 by (rule book_kept_upd) (simp add: req_kept_def)
  note k = book_kept_trans [OF k2 k3]
  have ok3: "out_ok (sv_req s3 a)" and h3: "rq_inHeader (sv_req s3 a) = Some hdr"
    using req_keptD [OF book_keptD [OF k, of a]] ok h by simp_all
  have k4: "book_kept a s3 (upd_req a (\<lambda>_. r) s3)"
    using serializeHeader_kept [OF sh] by (rule kept_upd_value)
  have f: "rq_flatData r = bs"
    using serializeHeader_spec(4) [OF ok3 sh] by (simp add: s3)
  have "written a hdr st (upd_req a (\<lambda>_. r) s3) s'"
    by (rule write_vec_written [OF w]) (simp add: f serializeHeader_frame(1) [OF ok3 h3 sh])
  then show ?thesis using written_from k k4 by blast
qed

lemma systemWrite_written:
  assumes ok: "out_ok (sv_req s a)" and h: "rq_inHeader (sv_req s a) = Some hdr"
    and f: "flatDataSize (sv_req s a) = length x" and fr: "frame_ok hdr (header @ x)"
    and x: "rq_fdData (sv_req s a) = None \<Longrightarrow> x = rq_flatData (sv_req s a)"
    and w: "systemWrite pf header a s = Inr (st, s')"
  shows "written a hdr st s s'"
proof (cases "x = []")
  case True
  then show ?thesis
    using w f fr written_emit [of a s s hdr header]
    by (auto simp: systemWrite_def Let_def bind_go_eq_Inr written_def sent_Nil split: if_splits)
next
  case False
  then have f0: "flatDataSize (sv_req s a) \<noteq> 0" using f by simp
  show ?thesis
  proof (cases "rq_fdData (sv_req s a)")
    case None
    then show ?thesis
      using w f0 fr x write_vec_written by (auto simp: systemWrite_def Let_def)
  next
    case (Some fd)
    obtain sent' s1 where t: "(if sv_canSplice s then trySplice (pf_splice pf) a (rr_Size fd) s else Inr (False, s)) = Inr (sent', s1)"
      and rest: "if sent' then st = OK \<and> s' = s1 else write_copied pf fd (flatDataSize (sv_req s a)) a s1 = Inr (st, s')"
    proof -
      from w f0 Some obtain p where "(if sv_canSplice s then trySplice (pf_splice pf) a (rr_Size fd) s else Inr (False, s)) = Inr p"
        and "(if fst p then Inr (OK, snd p) else write_copied pf fd (flatDataSize (sv_req s a)) a (snd p)) = Inr (st, s')"
        by (auto simp only: systemWrite_def Let_def bind_go_eq_Inr option.case if_False case_prod_beta)
      then show thesis by (intro that [of "fst p" "snd p"]) (auto split: if_splits)
    qed
    have k: "if sent' then written a hdr OK s s1 else book_kept a s s1"
      using t trySplice_written [OF ok h] by (auto split: if_splits)
    show ?thesis
    proof (cases sent')
      case True
      then show ?thesis using k rest by auto
    next
      case False
      with k have k1: "book_kept a s s1" by simp
      have ok1: "out_ok (sv_req s1 a)" and h1: "rq_inHeader (sv_req s1 a) = Some hdr"
        using req_keptD [OF book_keptD [OF k1, of a]] ok h by simp_all
      have "written a hdr st s1 s'"
        using rest False write_copied_written [OF ok1 h1] by simp
      then show ?thesis using written_from [OF k1] by blast
    qed
  qed
qed

lemma server_write_written:
  assumes ok: "out_ok (sv_req s a)" and h: "rq_inHeader (sv_req s a) = Some hdr"
    and w: "server_write pf a s = Inr (st, s')"
  shows "if no_reply (sv_req s a) hdr then st = OK \<and> s' = s else written a hdr st s s'"
proof (cases "no_reply (sv_req s a) hdr")
  case True
  then show ?thesis using w h by (simp add: server_write_def req_inHeader_def)
next
  case False
  define r where "r = sv_req s a"
  define x where "x = (case rq_fdData r of None \<Rightarrow> rq_flatData r | Some fd \<Rightarrow> replicate (rr_Size fd) 0)"
  have lx: "flatDataSize r = length x" by (simp add: x_def flatDataSize_def split: option.splits)
  obtain header r' where sh: "serializeHeader (length x) r = Inr (header, r')"
    and sw: "systemWrite pf header a (upd_req a (\<lambda>_. r') s) = Inr (st, s')"
    using w False h lx by (auto simp: server_write_def req_inHeader_def bind_go_eq_Inr r_def)
  have okr: "out_ok r" and hr: "rq_inHeader r = Some hdr" using ok h by (simp_all add: r_def)
  note spec = serializeHeader_spec [OF okr sh]
  have "written a hdr st (upd_req a (\<lambda>_. r') s) s'"
  proof (rule systemWrite_written [OF _ _ _ _ _ sw, where x = x])
    show "flatDataSize (sv_req (upd_req a (\<lambda>_. r') s) a) = length x"
      using lx spec(4,6) by (simp add: flatDataSize_def cong: option.case_cong)
    show "x = rq_flatData (sv_req (upd_req a (\<lambda>_. r') s) a)"
      if "rq_fdData (sv_req (upd_req a (\<lambda>_. r') s) a) = None"
      using that spec(4,6) by (simp add: x_def)
  qed (use spec hr serializeHeader_frame(1) [OF okr hr sh] in simp_all)
  moreover have "book_kept a s (upd_req a (\<lambda>_. r') s)"
    using serializeHeader_kept [OF sh] by (intro kept_upd_value) (simp add: r_def)
  ultimately show ?thesis using False written_from by (auto simp: r_def)
qed

end
