(* ===== verification/ServerInv.thy ===== *)
theory ServerInv
  imports ServerProps
begin

text \<open>
  The bookkeeping of requests. The goroutines of the server run the phases of their requests in any
  order; the step relation below interleaves them with reads and notifications, and the invariant
  says that the table of requests in flight is exact in every reachable state.
\<close>

section \<open>Invariant\<close>

text \<open>A request struct in the pool carries nothing of its last use.\<close>

definition clean :: "request \<Rightarrow> bool" where
  "clean r \<longleftrightarrow> \<not> rq_interrupted r \<and> rq_inHeader r = None \<and> rq_inData r = None \<and> rq_arg r = [] \<and> rq_filenames r = []
     \<and> rq_status r = OK \<and> rq_flatData r = [] \<and> rq_fdData r = None \<and> rq_readResult r = None \<and> rq_handler r = None
     \<and> rq_bufferPoolInputBuf r = None \<and> rq_bufferPoolOutputBuf r = None"

definition server_inv :: "'w Server \<Rightarrow> bool" where
  "server_inv s \<longleftrightarrow> distinct (sv_reqInflight s @ sv_reqPool s)
     \<and> (\<forall>b \<in> set (sv_reqInflight s) \<union> set (sv_reqPool s). b < sv_nextReq s)
     \<and> (\<forall>i < length (sv_reqInflight s). rq_inflightIndex (sv_req s (sv_reqInflight s ! i)) = i)
     \<and> (\<forall>b \<in> set (sv_reqInflight s). rq_inHeader (sv_req s b) \<noteq> None)
     \<and> (\<forall>b. out_ok (sv_req s b) \<and> rq_cancelled (sv_req s b) = rq_interrupted (sv_req s b))
     \<and> (\<forall>b \<in> set (sv_reqPool s). clean (sv_req s b))"

lemma server_invD:
  assumes "server_inv s"
  shows "distinct (sv_reqInflight s)" "distinct (sv_reqPool s)" "set (sv_reqInflight s) \<inter> set (sv_reqPool s) = {}"
    "b \<in> set (sv_reqInflight s) \<Longrightarrow> b < sv_nextReq s" "b \<in> set (sv_reqPool s) \<Longrightarrow> b < sv_nextReq s"
    "i < length (sv_reqInflight s) \<Longrightarrow> rq_inflightIndex (sv_req s (sv_reqInflight s ! i)) = i"
    "b \<in> set (sv_reqInflight s) \<Longrightarrow> rq_inHeader (sv_req s b) \<noteq> None"
    "out_ok (sv_req s b)" "rq_cancelled (sv_req s b) = rq_interrupted (sv_req s b)"
    "b \<in> set (sv_reqPool s) \<Longrightarrow> clean (sv_req s b)"
  using assms by (auto simp: server_inv_def)

lemma new_server_inv: "server_inv (new_server o' w)"
  by (simp add: server_inv_def new_server_def out_ok_def new_request_def)

lemma book_kept_inv:
  assumes k: "book_kept a s s'" and i: "server_inv s" and a: "a \<notin> set (sv_reqPool s)"
  shows "server_inv s'"
proof -
  have eq: "sv_reqInflight s' = sv_reqInflight s" "sv_reqPool s' = sv_reqPool s" "sv_nextReq s' = sv_nextReq s"
    and rk: "\<And>b. req_kept (sv_req s b) (sv_req s' b)"
    and same: "\<And>b. b \<noteq> a \<Longrightarrow> b \<notin> set (sv_reqInflight s) \<Longrightarrow> sv_req s' b = sv_req s b"
    using k by (auto simp: book_kept_def others_kept_def)
  have "sv_req s' b = sv_req s b" if "b \<in> set (sv_reqPool s)" for b
    using that a server_invD(3) [OF i] by (intro same) auto
  then have pool: "clean (sv_req s' b)" if "b \<in> set (sv_reqPool s)" for b
    using that server_invD(10) [OF i that] by simp
  have idx: "rq_inflightIndex (sv_req s' b) = rq_inflightIndex (sv_req s b)"
    and hdr: "rq_inHeader (sv_req s' b) = rq_inHeader (sv_req s b)" for b
    using rk [of b] by (simp_all add: req_kept_def)
  have ok: "out_ok (sv_req s' b)" "rq_cancelled (sv_req s' b) = rq_interrupted (sv_req s' b)" for b
    using rk [of b] server_invD(8,9) [OF i, of b] by (simp_all add: req_kept_def)
  show ?thesis
    using i unfolding server_inv_def eq by (simp add: idx hdr pool ok)
qed

lemma sent_inv:
  assumes "sent a ms s s'" and i: "server_inv s" and "a \<notin> set (sv_reqPool s)"
  shows "server_inv s'"
proof -
  have "server_inv (s\<lparr>sv_out := sv_out s @ ms\<rparr>)" using i by (simp add: server_inv_def)
  with assms(1) show ?thesis
    unfolding sent_def by (rule book_kept_inv) (use assms(3) in simp)
qed

lemma written_inv:
  "written a hdr st s s' \<Longrightarrow> server_inv s \<Longrightarrow> a \<notin> set (sv_reqPool s) \<Longrightarrow> server_inv s'"
  by (auto simp: written_def intro: sent_inv split: if_splits)

lemma nth_neq: "x \<notin> set xs \<Longrightarrow> i < length xs \<Longrightarrow> xs ! i \<noteq> x"
  by auto

lemma server_inv_store:
  assumes i: "server_inv s" and b: "b \<notin> set (sv_reqInflight s)" "b \<notin> set (sv_reqPool s)"
    and r: "out_ok r" "rq_cancelled r = rq_interrupted r"
  shows "server_inv (s\<lparr>sv_req := (sv_req s)(b := r)\<rparr>)"
proof -
  have "sv_reqInflight s ! i \<noteq> b" if "i < length (sv_reqInflight s)" for i
    using b(1) that by (rule nth_neq)
  moreover have "c \<noteq> b" if "c \<in> set (sv_reqInflight s) \<or> c \<in> set (sv_reqPool s)" for c
    using b that by auto
  ultimately show ?thesis
    using i r unfolding server_inv_def by simp
qed

lemma server_inv_next: "server_inv s \<Longrightarrow> server_inv (s\<lparr>sv_nextReq := sv_nextReq s + 1\<rparr>)"
  by (auto simp: server_inv_def less_Suc_eq)

lemma new_request_ok: "out_ok new_request" "rq_cancelled new_request = rq_interrupted new_request" "clean new_request"
  by (simp_all add: new_request_def clean_def out_ok_def)

section \<open>Reading\<close>

lemma get_request_inv:
  assumes i: "server_inv s" and g: "get_request pf s = (a, s')"
  shows "server_inv s'" and "clean (sv_req s' a)" and "a \<notin> set (sv_reqInflight s')" and "a \<notin> set (sv_reqPool s')"
    and "a < sv_nextReq s'" and "sv_reqInflight s' = sv_reqInflight s"
proof -
  define n where "n = sv_nextReq s"
  have n: "n \<notin> set (sv_reqInflight s)" "n \<notin> set (sv_reqPool s)"
    using server_invD(4,5) [OF i] by (auto simp: n_def)
  define t where "t = s\<lparr>sv_nextReq := n + 1, sv_req := (sv_req s)(n := new_request)\<rparr>"
  have "server_inv t"
    using server_inv_store [OF server_inv_next [OF i], of n new_request] n new_request_ok by (simp add: t_def n_def)
  moreover have "clean (sv_req t n)" by (simp add: t_def new_request_ok)
  ultimately have fresh: "server_inv t" "clean (sv_req t n)" by simp_all
  consider (pool) p where "sv_reqPool s = a # p" "s' = s\<lparr>sv_reqPool := p\<rparr>" | (new) "a = n" "s' = t"
    using g by (auto simp: get_request_def n_def t_def split: list.splits if_splits)
  then have "server_inv s' \<and> clean (sv_req s' a) \<and> a \<notin> set (sv_reqInflight s') \<and> a \<notin> set (sv_reqPool s')
    \<and> a < sv_nextReq s' \<and> sv_reqInflight s' = sv_reqInflight s"
  proof cases
    case pool
    then show ?thesis using i by (simp add: server_inv_def)
  next
    case new
    then show ?thesis using fresh n by (simp add: t_def)
  qed
  then show "server_inv s'" and "clean (sv_req s' a)" and "a \<notin> set (sv_reqInflight s')" and "a \<notin> set (sv_reqPool s')"
    and "a < sv_nextReq s'" and "sv_reqInflight s' = sv_reqInflight s" by blast+
qed


lemma get_dest_inv:
  assumes "server_inv s" and "get_dest pf s = (d, s')"
  shows "server_inv s'" "sv_req s' = sv_req s" "sv_reqInflight s' = sv_reqInflight s" "sv_reqPool s' = sv_reqPool s"
    "sv_nextReq s' = sv_nextReq s"
  using assms by (auto simp: get_dest_def server_inv_def split: list.splits if_splits)

text \<open>A request accepted from the device is clean but for its input, and last in the table.\<close>

definition accepted :: "request \<Rightarrow> bool" where
  "accepted r \<longleftrightarrow> \<not> rq_interrupted r \<and> rq_inHeader r = Some (as_InHeader (rq_inputBuf r)) \<and> sizeOfInHeader \<le> length (rq_inputBuf r)
     \<and> rq_inData r = None \<and> rq_arg r = [] \<and> rq_filenames r = [] \<and> rq_status r = OK \<and> rq_flatData r = []
     \<and> rq_fdData r = None \<and> rq_readResult r = None \<and> rq_handler r = None \<and> rq_bufferPoolOutputBuf r = None"

lemma setInput_sel:
  assumes "setInput bs d r = (g, r')"
  shows "\<exists>p. r' = r\<lparr>rq_inputBuf := bs, rq_bufferPoolInputBuf := p\<rparr>"
  using assms by (auto simp: setInput_def intro: exI [of _ "rq_bufferPoolInputBuf r"] split: if_splits)

lemma push_inflight_inv:
  assumes i: "server_inv s" and a: "a \<notin> set (sv_reqInflight s)" "a \<notin> set (sv_reqPool s)" "a < sv_nextReq s"
    and r: "out_ok r" "rq_cancelled r = rq_interrupted r" "rq_inHeader r \<noteq> None"
      "rq_inflightIndex r = length (sv_reqInflight s)"
    and s': "sv_req s' = (sv_req s)(a := r)" "sv_reqInflight s' = sv_reqInflight s @ [a]"
      "sv_reqPool s' = sv_reqPool s" "sv_nextReq s' = sv_nextReq s"
  shows "server_inv s'"
proof -
  have j: "server_inv (s\<lparr>sv_req := (sv_req s)(a := r)\<rparr>)"
    by (rule server_inv_store [OF i a(1,2) r(1,2)])
  show ?thesis
    using j a r(3,4) unfolding server_inv_def s' by (auto simp: nth_append less_Suc_eq split: if_splits)
qed

lemma accept_request_inv:
  assumes i: "server_inv s" and c: "clean (sv_req s a)"
    and a: "a \<notin> set (sv_reqInflight s)" "a \<notin> set (sv_reqPool s)" "a < sv_nextReq s"
    and ac: "accept_request a dest bs s = ((ro, st), s')"
  shows "server_inv s'" and "case ro of None \<Rightarrow> sv_reqInflight s' = sv_reqInflight s \<and> st = EINVAL
    | Some b \<Rightarrow> b = a \<and> st = OK \<and> sv_reqInflight s' = sv_reqInflight s @ [a] \<and> accepted (sv_req s' a)
        \<and> rq_inputBuf (sv_req s' a) = bs"
    and "\<And>b. b \<noteq> a \<Longrightarrow> sv_req s' b = sv_req s b"
proof -
  obtain g r1 where si: "setInput bs (write_at 0 bs dest) (sv_req s a) = (g, r1)" by fastforce
  then obtain p where r1: "r1 = (sv_req s a)\<lparr>rq_inputBuf := bs, rq_bufferPoolInputBuf := p\<rparr>"
    using setInput_sel by blast
  have ok1: "out_ok (r1\<lparr>rq_inHeader := h, rq_inflightIndex := n\<rparr>)" "out_ok r1" for h n
    using server_invD(8) [OF i, of a] by (simp_all add: r1 out_ok_def)
  have ci: "rq_cancelled r1 = rq_interrupted r1" using server_invD(9) [OF i, of a] by (simp add: r1)
  have "server_inv s' \<and> (case ro of None \<Rightarrow> sv_reqInflight s' = sv_reqInflight s \<and> st = EINVAL
    | Some b \<Rightarrow> b = a \<and> st = OK \<and> sv_reqInflight s' = sv_reqInflight s @ [a] \<and> accepted (sv_req s' a)
        \<and> rq_inputBuf (sv_req s' a) = bs) \<and> (\<forall>b. b \<noteq> a \<longrightarrow> sv_req s' b = sv_req s b)"
  proof (cases "length bs < sizeOfInHeader")
    case True
    then have "s' = upd_req a (\<lambda>_. r1) s" "ro = None" "st = EINVAL"
      using ac by (auto simp: accept_request_def si parseHeader_def r1 EINVAL_def OK_def)
    then show ?thesis
      using server_inv_store [OF i a(1,2) ok1(2) ci] by (simp add: upd_req_def)
  next
    case False
    define r where "r = r1\<lparr>rq_inHeader := Some (as_InHeader bs), rq_inflightIndex := length (sv_reqInflight s)\<rparr>"
    have s': "sv_req s' = (sv_req s)(a := r)" "sv_reqInflight s' = sv_reqInflight s @ [a]"
      "sv_reqPool s' = sv_reqPool s" "sv_nextReq s' = sv_nextReq s" "ro = Some a" "st = OK"
      using ac False by (auto simp: accept_request_def si parseHeader_def r1 r_def Let_def split: if_splits)
    have "server_inv s'"
      by (rule push_inflight_inv [OF i a _ _ _ _ s'(1-4)]) (use ok1 ci in \<open>simp_all add: r_def\<close>)
    moreover have "accepted r" using c False by (simp add: accepted_def clean_def r_def r1)
    ultimately show ?thesis by (simp add: s') (simp add: r_def r1)
  qed
  then show "server_inv s'" and "case ro of None \<Rightarrow> sv_reqInflight s' = sv_reqInflight s \<and> st = EINVAL
    | Some b \<Rightarrow> b = a \<and> st = OK \<and> sv_reqInflight s' = sv_reqInflight s @ [a] \<and> accepted (sv_req s' a)
        \<and> rq_inputBuf (sv_req s' a) = bs"
    and "\<And>b. b \<noteq> a \<Longrightarrow> sv_req s' b = sv_req s b" by simp_all
qed


lemma server_inv_readers: "server_inv (s\<lparr>sv_reqReaders := n\<rparr>) = server_inv s"
  by (simp add: server_inv_def)

lemma push_pool_inv:
  assumes i: "server_inv s" and a: "a \<notin> set (sv_reqInflight s)" "a \<notin> set (sv_reqPool s)" "a < sv_nextReq s"
    and c: "clean (sv_req s a)"
  shows "server_inv (s\<lparr>sv_reqPool := a # sv_reqPool s\<rparr>)"
  using assms by (simp add: server_inv_def)

lemma readRequest_inv:
  assumes i: "server_inv s" and r: "readRequest pf s = Inr ((ro, st), s')"
  shows "server_inv s'"
    and "case ro of None \<Rightarrow> sv_reqInflight s' = sv_reqInflight s
      | Some a \<Rightarrow> st = OK \<and> a \<notin> set (sv_reqInflight s) \<and> sv_reqInflight s' = sv_reqInflight s @ [a] \<and> accepted (sv_req s' a)"
    and "\<And>b. b \<in> set (sv_reqInflight s) \<Longrightarrow> sv_req s' b = sv_req s b"
proof -
  let ?P = "server_inv s' \<and> (case ro of None \<Rightarrow> sv_reqInflight s' = sv_reqInflight s
      | Some a \<Rightarrow> st = OK \<and> a \<notin> set (sv_reqInflight s) \<and> sv_reqInflight s' = sv_reqInflight s @ [a] \<and> accepted (sv_req s' a))
      \<and> (\<forall>b \<in> set (sv_reqInflight s). sv_req s' b = sv_req s b)"
  have ?P
  proof (cases "sv_reqReaders s > MAX_READERS")
    case True
    then show ?thesis using r i by (auto simp: readRequest_def)
  next
    case False
    obtain a s1 where g: "get_request pf s = (a, s1)" by fastforce
    obtain dest s2 where d: "get_dest pf s1 = (dest, s2)" by fastforce
    note g' = get_request_inv [OF i g] and d' = get_dest_inv [OF get_request_inv(1) [OF i g] d]
    define s3 where "s3 = s2\<lparr>sv_reqReaders := sv_reqReaders s2 + 1\<rparr>"
    have s3: "server_inv s3" "clean (sv_req s3 a)" "a \<notin> set (sv_reqInflight s3)" "a \<notin> set (sv_reqPool s3)" "a < sv_nextReq s3"
      using g' d' by (simp_all add: s3_def server_inv_readers)
    have same: "sv_req s3 b = sv_req s b" if "b \<in> set (sv_reqInflight s)" for b
    proof -
      have "b < sv_nextReq s" using i that by (rule server_invD(4))
      then show ?thesis using g by (auto simp: s3_def d'(2) get_request_def split: list.splits if_splits)
    qed
    have fl: "sv_reqInflight s3 = sv_reqInflight s" using d'(3) g'(6) by (simp add: s3_def)
    obtain x where k0: "(case x of Inl e \<Rightarrow> Inr ((None, e), s3\<lparr>sv_reqPool := a # sv_reqPool s3, sv_reqReaders := sv_reqReaders s3 - 1\<rparr>)
             | Inr bs \<Rightarrow> Inr (accept_request a dest (take (length dest) bs) s3)) = (Inr ((ro, st), s') :: _ go)"
      using r False by (simp only: readRequest_def g d s3_def [symmetric] Let_def bind_go_eq_Inr if_False prod.case) blast
    then have k: "(case x of Inl e \<Rightarrow> ((None, e), s3\<lparr>sv_reqPool := a # sv_reqPool s3, sv_reqReaders := sv_reqReaders s3 - 1\<rparr>)
             | Inr bs \<Rightarrow> accept_request a dest (take (length dest) bs) s3) = ((ro, st), s')"
      by (cases x) simp_all
    show ?thesis
    proof (cases x)
      case (Inl e)
      then have s': "s' = s3\<lparr>sv_reqPool := a # sv_reqPool s3, sv_reqReaders := sv_reqReaders s3 - 1\<rparr>" "ro = None"
        using k by auto
      then have "server_inv s'"
        using push_pool_inv [OF s3(1,3-5,2)] by (simp add: server_inv_readers)
      then show ?thesis using same by (simp add: s' fl)
    next
      case (Inr bs)
      then have ac: "accept_request a dest (take (length dest) bs) s3 = ((ro, st), s')" using k by simp
      note A = accept_request_inv [OF s3 ac]
      have "sv_req s' b = sv_req s b" if "b \<in> set (sv_reqInflight s)" for b
        using A(3) [of b] same [OF that] that s3(3) fl by metis
      then show ?thesis using A(1,2) s3(3) by (auto simp: fl split: option.splits)
    qed
  qed
  then show "server_inv s'"
    and "case ro of None \<Rightarrow> sv_reqInflight s' = sv_reqInflight s
      | Some a \<Rightarrow> st = OK \<and> a \<notin> set (sv_reqInflight s) \<and> sv_reqInflight s' = sv_reqInflight s @ [a] \<and> accepted (sv_req s' a)"
    and "\<And>b. b \<in> set (sv_reqInflight s) \<Longrightarrow> sv_req s' b = sv_req s b" by blast+
qed

section \<open>Returning\<close>

lemma inflight_at:
  assumes "server_inv s" and "a \<in> set (sv_reqInflight s)"
  shows "rq_inflightIndex (sv_req s a) < length (sv_reqInflight s)"
    and "sv_reqInflight s ! rq_inflightIndex (sv_req s a) = a"
  using assms server_invD(6) [OF assms(1)] by (auto simp: in_set_conv_nth)

lemma remove_inflight_inv:
  assumes i: "server_inv s" and a: "a \<in> set (sv_reqInflight s)"
  shows "\<exists>s'. remove_inflight a s = Inr s' \<and> server_inv s' \<and> set (sv_reqInflight s') = set (sv_reqInflight s) - {a}
    \<and> sv_reqPool s' = sv_reqPool s \<and> sv_nextReq s' = sv_nextReq s \<and> sv_out s' = sv_out s
    \<and> (\<forall>b. \<exists>n. sv_req s' b = (sv_req s b)\<lparr>rq_inflightIndex := n\<rparr>) \<and> sv_req s' a = sv_req s a"
proof -
  define fl this where "fl = sv_reqInflight s" and "this = rq_inflightIndex (sv_req s a)"
  have t: "this < length fl" "fl ! this = a" using inflight_at [OF i a] by (simp_all add: fl_def this_def)
  have ne: "fl \<noteq> []" using t by auto
  have lst: "fl ! (length fl - 1) = last fl" using ne by (simp add: last_conv_nth)
  have dist: "distinct fl" using server_invD(1) [OF i] by (simp add: fl_def)
  define s' where "s' = (if this = length fl - 1 then s\<lparr>sv_reqInflight := swap_remove this fl\<rparr>
    else upd_req (last fl) (\<lambda>r. r\<lparr>rq_inflightIndex := this\<rparr>) (s\<lparr>sv_reqInflight := swap_remove this fl\<rparr>))"
  have rm: "remove_inflight a s = Inr s'"
    using t ne lst by (auto simp: remove_inflight_def Let_def fl_def [symmetric] this_def [symmetric] s'_def)
  have fl': "sv_reqInflight s' = swap_remove this fl" by (simp add: s'_def)
  have set': "set (swap_remove this fl) = set fl - {a}" using set_swap_remove [OF dist t(1)] t(2) by simp
  have same: "\<exists>n. sv_req s' b = (sv_req s b)\<lparr>rq_inflightIndex := n\<rparr>" for b
    by (auto simp: s'_def intro: exI [of _ "rq_inflightIndex (sv_req s b)"])
  have a': "sv_req s' a = sv_req s a"
  proof (cases "this = length fl - 1")
    case False
    then have "last fl \<noteq> a" using t dist ne lst nth_eq_iff_index_eq [OF dist t(1), of "length fl - 1"] by auto
    then show ?thesis by (simp add: s'_def)
  qed (simp add: s'_def)
  have idx: "rq_inflightIndex (sv_req s' (swap_remove this fl ! j)) = j" if "j < length fl - 1" for j
  proof -
    have jl: "fl ! j \<noteq> last fl" using that dist ne lst nth_eq_iff_index_eq [OF dist, of j "length fl - 1"] by auto
    have ix: "rq_inflightIndex (sv_req s (fl ! j)) = j" using server_invD(6) [OF i, of j] that by (simp add: fl_def)
    show ?thesis
      using swap_remove_nth [OF t(1) that] that jl ix by (auto simp: s'_def)
  qed
  have sel: "out_ok (sv_req s' b) = out_ok (sv_req s b)" "rq_cancelled (sv_req s' b) = rq_cancelled (sv_req s b)"
    "rq_interrupted (sv_req s' b) = rq_interrupted (sv_req s b)" "rq_inHeader (sv_req s' b) = rq_inHeader (sv_req s b)"
    "clean (sv_req s' b) = clean (sv_req s b)" for b
    using same [of b] by (auto simp: out_ok_def clean_def)
  have pool: "sv_reqPool s' = sv_reqPool s" "sv_nextReq s' = sv_nextReq s" "sv_out s' = sv_out s" by (simp_all add: s'_def)
  have "server_inv s'"
    using i distinct_swap_remove [OF dist t(1)] idx
    unfolding server_inv_def fl' pool sel by (auto simp: set' fl_def [symmetric])
  then show ?thesis using rm fl' set' pool same a' by (auto simp: fl_def [symmetric])
qed

lemma recycle_inv:
  assumes i: "server_inv s" and a: "a \<notin> set (sv_reqInflight s)" "a \<notin> set (sv_reqPool s)" "a < sv_nextReq s"
    and n: "\<not> rq_interrupted (sv_req s a)"
  shows "server_inv (recycle pf a s)" and "sv_reqInflight (recycle pf a s) = sv_reqInflight s"
    and "sv_out (recycle pf a s) = sv_out s" and "\<And>b. b \<noteq> a \<Longrightarrow> sv_req (recycle pf a s) b = sv_req s b"
proof -
  define r where "r = (clear (sv_req s a))\<lparr>rq_bufferPoolOutputBuf := None, rq_bufferPoolInputBuf := None\<rparr>"
  have r: "out_ok r" "rq_cancelled r = rq_interrupted r" "clean r"
    using server_invD(8,9) [OF i, of a] n by (simp_all add: r_def clear_def out_ok_def clean_def)
  have sel: "sv_req (recycle pf a s) = (sv_req s)(a := r)" "sv_reqPool (recycle pf a s) = a # sv_reqPool s"
    "sv_reqInflight (recycle pf a s) = sv_reqInflight s" "sv_nextReq (recycle pf a s) = sv_nextReq s"
    "sv_out (recycle pf a s) = sv_out s"
    by (simp_all add: recycle_def Let_def r_def split: option.splits)
  have "server_inv (s\<lparr>sv_req := (sv_req s)(a := r), sv_reqPool := a # sv_reqPool s\<rparr>)"
    using push_pool_inv [OF server_inv_store [OF i a(1,2) r(1,2)]] a r(3) by simp
  then show "server_inv (recycle pf a s)" by (simp add: server_inv_def sel)
qed (simp_all add: recycle_def Let_def split: option.splits)

lemma returnRequest_inv:
  assumes i: "server_inv s" and a: "a \<in> set (sv_reqInflight s)"
  shows "\<exists>s'. returnRequest pf a s = Inr s' \<and> server_inv s' \<and> set (sv_reqInflight s') = set (sv_reqInflight s) - {a}
    \<and> sv_out s' = sv_out s \<and> (\<forall>b. b \<noteq> a \<longrightarrow> (\<exists>n. sv_req s' b = (sv_req s b)\<lparr>rq_inflightIndex := n\<rparr>))"
proof -
  obtain s1 where s1: "remove_inflight a s = Inr s1" "server_inv s1" "set (sv_reqInflight s1) = set (sv_reqInflight s) - {a}"
    "sv_reqPool s1 = sv_reqPool s" "sv_nextReq s1 = sv_nextReq s" "sv_out s1 = sv_out s"
    "\<forall>b. \<exists>n. sv_req s1 b = (sv_req s b)\<lparr>rq_inflightIndex := n\<rparr>"
    using remove_inflight_inv [OF i a] by blast
  have a1: "a \<notin> set (sv_reqInflight s1)" "a \<notin> set (sv_reqPool s1)" "a < sv_nextReq s1"
    using s1 server_invD(3,4) [OF i] a by auto
  show ?thesis
  proof (cases "rq_interrupted (sv_req s1 a)")
    case True
    then show ?thesis using s1 by (simp add: returnRequest_def)
  next
    case False
    then show ?thesis
      using s1 recycle_inv [OF s1(2) a1 False, where pf = pf] by (simp add: returnRequest_def)
  qed
qed


section \<open>Handling and notifying\<close>

lemma update_inflight_inv:
  assumes i: "server_inv s" and a: "a \<in> set (sv_reqInflight s)"
    and r: "out_ok r" "rq_cancelled r = rq_interrupted r" "rq_inHeader r \<noteq> None"
      "rq_inflightIndex r = rq_inflightIndex (sv_req s a)"
  shows "server_inv (upd_req a (\<lambda>_. r) s)"
proof -
  have "b \<noteq> a" if "b \<in> set (sv_reqPool s)" for b using that a server_invD(3) [OF i] by auto
  then show ?thesis
    using i r unfolding server_inv_def by (auto simp: upd_req_def)
qed

lemma getHandler_fits:
  assumes "getHandler o' = Inr (Some h)"
  shows "h_OutputSize h + sizeOfOutHeader \<le> outputHeaderSize"
proof -
  have "h \<in> set operationHandlers"
    using assms by (auto simp: getHandler_def operationHandlers_length split: if_splits)
  then have "reply_fits h" using operationHandlers_ok by (simp add: list_all_iff)
  moreover have "sizeof OutHeader_layout = 16" by code_simp
  ultimately show ?thesis by (simp add: reply_fits_def sizeOfOutHeader_def outputHeaderSize_def)
qed

text \<open>Parsing changes the parsed parts of a request only.\<close>

definition parse_rel :: "request \<Rightarrow> request \<Rightarrow> bool" where
  "parse_rel r r' \<longleftrightarrow> rq_inHeader r' = rq_inHeader r \<and> rq_inflightIndex r' = rq_inflightIndex r
     \<and> rq_interrupted r' = rq_interrupted r \<and> rq_cancelled r' = rq_cancelled r \<and> rq_inputBuf r' = rq_inputBuf r
     \<and> rq_flatData r' = rq_flatData r \<and> rq_fdData r' = rq_fdData r \<and> rq_readResult r' = rq_readResult r
     \<and> rq_bufferPoolInputBuf r' = rq_bufferPoolInputBuf r \<and> rq_bufferPoolOutputBuf r' = rq_bufferPoolOutputBuf r"

lemma parse_names_rel:
  assumes "parse_names h hdr r = Inr r'"
  shows "parse_rel r r' \<and> rq_outBuf r' = rq_outBuf r \<and> rq_handler r' = rq_handler r \<and> rq_inData r' = rq_inData r
    \<and> rq_arg r' = rq_arg r"
proof -
  have "r' = r \<or> (\<exists>f. r' = r\<lparr>rq_filenames := f\<rparr>) \<or> (\<exists>f st. r' = r\<lparr>rq_filenames := f, rq_status := st\<rparr>)"
    using assms unfolding parse_names_def Let_def by (auto simp only: bind_go_eq_Inr sum.inject split: if_splits)
  then show ?thesis by (elim disjE exE) (simp_all add: parse_rel_def)
qed

lemma parse_with_rel:
  assumes "parse_with h hdr r = Inr r'"
  shows "parse_rel r r'" and "rq_handler r' = rq_handler r"
    and "h_OutputSize h + sizeOfOutHeader \<le> length (rq_outBuf r) \<Longrightarrow> length (rq_outBuf r') = length (rq_outBuf r)"
proof -
  have "parse_rel r r' \<and> rq_handler r' = rq_handler r
    \<and> (h_OutputSize h + sizeOfOutHeader \<le> length (rq_outBuf r) \<longrightarrow> length (rq_outBuf r') = length (rq_outBuf r))"
  proof (cases "length (rq_arg r) < h_InputSize h")
    case True
    then show ?thesis using assms by (auto simp: parse_with_def parse_rel_def)
  next
    case False
    then obtain r3 where n: "parse_names h hdr (parse_struct h r) = Inr r3" and r': "r' = clear_out h r3"
      using assms by (auto simp: parse_with_def bind_go_eq_Inr)
    show ?thesis
      using parse_names_rel [OF n] by (simp add: r' clear_out_def parse_rel_def parse_struct_def)
  qed
  then show "parse_rel r r'" and "rq_handler r' = rq_handler r"
    and "h_OutputSize h + sizeOfOutHeader \<le> length (rq_outBuf r) \<Longrightarrow> length (rq_outBuf r') = length (rq_outBuf r)"
    by simp_all
qed

lemma parse_keeps:
  assumes p: "parse r = Inr r'" and ok: "out_ok r"
  shows "parse_rel r r'" and "out_ok r'" and "rq_inHeader r \<noteq> None"
proof -
  obtain hdr where hdr: "rq_inHeader r = Some hdr" using p by (auto simp: parse_def split: option.splits)
  obtain ho where gh: "getHandler (ih_Opcode hdr) = Inr ho" using p hdr by (auto simp: parse_def bind_go_eq_Inr)
  define r1 where "r1 = r\<lparr>rq_arg := rq_inputBuf r, rq_handler := ho\<rparr>"
  have r1: "parse_rel r r1" "rq_outBuf r1 = rq_outBuf r" "rq_handler r1 = ho" by (simp_all add: parse_rel_def r1_def)
  have body: "(case ho of None \<Rightarrow> Inr (r1\<lparr>rq_status := ENOSYS\<rparr>) | Some h \<Rightarrow> parse_with h hdr r1) = Inr r'"
    using p hdr gh by (cases ho) (simp_all add: parse_def r1_def)
  have "parse_rel r r' \<and> out_ok r'"
  proof (cases ho)
    case None
    then show ?thesis using body r1 ok by (auto simp: parse_rel_def out_ok_def)
  next
    case (Some h)
    then have pw: "parse_with h hdr r1 = Inr r'" using body by simp
    have fit: "h_OutputSize h + sizeOfOutHeader \<le> outputHeaderSize" using gh Some by (intro getHandler_fits) simp
    show ?thesis
      using parse_with_rel [OF pw] r1 fit ok Some by (auto simp: parse_rel_def out_ok_def)
  qed
  then show "parse_rel r r'" and "out_ok r'" by simp_all
  show "rq_inHeader r \<noteq> None" using hdr by simp
qed

lemma parse_request_inv:
  assumes i: "server_inv s" and a: "a \<in> set (sv_reqInflight s)" and p: "parse_request a s = Inr s'"
  shows "server_inv s'" and "sv_reqInflight s' = sv_reqInflight s" and "sv_out s' = sv_out s" and "sv_w s' = sv_w s"
    and "\<And>b. b \<noteq> a \<Longrightarrow> sv_req s' b = sv_req s b"
proof -
  obtain r where r: "parse (sv_req s a) = Inr r"
    and s': "s' = upd_req a (\<lambda>_. if rq_handler r = None then r\<lparr>rq_status := ENOSYS\<rparr> else r) s"
    using p by (auto simp: parse_request_def bind_go_eq_Inr)
  note K = parse_keeps [OF r server_invD(8) [OF i]]
  show "server_inv s'" unfolding s'
    by (rule update_inflight_inv [OF i a]) (use K server_invD(9) [OF i, of a] in \<open>auto simp: parse_rel_def out_ok_def\<close>)
qed (use p in \<open>auto simp: parse_request_def bind_go_eq_Inr\<close>)

lemma dispatch_kept:
  assumes "dispatch pf fs a s = Inr s'"
  shows "book_kept a s s'"
  using assms doPollHackLookup_kept [of a s s'] run_func_kept
  by (auto simp: dispatch_def bind_go_eq_Inr Let_def book_kept_status split: if_splits option.splits)

lemma server_write_inv:
  assumes i: "server_inv s" and a: "a \<notin> set (sv_reqPool s)" and w: "server_write pf a s = Inr (st, s')"
  shows "server_inv s'" and "\<exists>ms. sent a ms s s'"
proof -
  obtain hdr where h: "rq_inHeader (sv_req s a) = Some hdr"
    using w by (auto simp: server_write_def bind_go_eq_Inr req_inHeader_def split: option.splits)
  have W: "if no_reply (sv_req s a) hdr then st = OK \<and> s' = s else written a hdr st s s'"
    using server_write_written [OF server_invD(8) [OF i] h w] .
  then show "server_inv s'" using i a written_inv by (auto split: if_splits)
  show "\<exists>ms. sent a ms s s'"
    using W by (auto simp: written_def sent_Nil split: if_splits intro: exI [of _ "[]"])
qed

lemma notify_inv:
  assumes i: "server_inv s" and r: "out_ok r" "rq_cancelled r = rq_interrupted r" and n: "notify pf r s = Inr (st, s')"
  shows "server_inv s'" and "sv_reqInflight s' = sv_reqInflight s"
    and "\<And>b. b < sv_nextReq s \<Longrightarrow> req_kept (sv_req s b) (sv_req s' b)"
    and "\<And>b. b < sv_nextReq s \<Longrightarrow> sv_req s' b = sv_req s b \<or> sv_req s' b = interrupt (sv_req s b)"
proof -
  define b where "b = sv_nextReq s"
  have b: "b \<notin> set (sv_reqInflight s)" "b \<notin> set (sv_reqPool s)" using server_invD(4,5) [OF i] by (auto simp: b_def)
  define t where "t = s\<lparr>sv_nextReq := b + 1, sv_req := (sv_req s)(b := r)\<rparr>"
  have t: "server_inv t"
    using server_inv_store [OF server_inv_next [OF i], of b r] b r by (simp add: t_def b_def)
  have w: "server_write pf b t = Inr (st, s')" using n by (simp add: notify_def t_def b_def)
  have bt: "b \<notin> set (sv_reqPool t)" using b by (simp add: t_def)
  show "server_inv s'" by (rule server_write_inv(1) [OF t bt w])
  obtain ms where "sent b ms t s'" using server_write_inv(2) [OF t bt w] by blast
  then have k: "sv_reqInflight s' = sv_reqInflight s" "\<And>c. req_kept (sv_req t c) (sv_req s' c)"
    "\<And>c. c \<noteq> b \<Longrightarrow> sv_req s' c = sv_req t c \<or> sv_req s' c = interrupt (sv_req t c)"
    by (auto simp: sent_def book_kept_def others_kept_def t_def)
  have t_req: "sv_req t c = sv_req s c" "c \<noteq> b" if "c < sv_nextReq s" for c using that by (auto simp: t_def b_def)
  show "sv_reqInflight s' = sv_reqInflight s" by (rule k(1))
  show "req_kept (sv_req s c) (sv_req s' c)" if "c < sv_nextReq s" for c
    using k(2) [of c] t_req [OF that] by simp
  show "sv_req s' c = sv_req s c \<or> sv_req s' c = interrupt (sv_req s c)" if "c < sv_nextReq s" for c
    using k(3) [of c] t_req [OF that] by simp
qed

end
