(* ===== verification/ServerSteps.thy ===== *)
theory ServerSteps
  imports ServerInv
begin

text \<open>
  The server as a state machine: every goroutine takes its request through the phases of
  \<^verbatim>\<open>handleRequest\<close>, readers take requests from the device, other goroutines send notifications.
  The properties here hold in every state these steps reach.
\<close>

section \<open>Steps\<close>

datatype phase = Accepted | Parsed | Handled | Written

type_synonym 'w system = "'w Server \<times> (addr \<Rightarrow> phase option)"

inductive server_step :: "'w RawFileSystem \<Rightarrow> 'w system \<Rightarrow> 'w system \<Rightarrow> bool" for fs where
  step_read: "readRequest pf s = Inr ((Some a, st), s') \<Longrightarrow> server_step fs (s, pc) (s', pc(a \<mapsto> Accepted))"
| step_idle: "readRequest pf s = Inr ((None, st), s') \<Longrightarrow> server_step fs (s, pc) (s', pc)"
| step_parse: "pc a = Some Accepted \<Longrightarrow> parse_request a s = Inr s' \<Longrightarrow> server_step fs (s, pc) (s', pc(a \<mapsto> Parsed))"
| step_handle: "pc a = Some Parsed \<Longrightarrow> dispatch pf fs a s = Inr s' \<Longrightarrow> server_step fs (s, pc) (s', pc(a \<mapsto> Handled))"
| step_write: "pc a = Some Handled \<Longrightarrow> server_write pf a s = Inr (st, s') \<Longrightarrow> server_step fs (s, pc) (s', pc(a \<mapsto> Written))"
| step_return: "pc a = Some Written \<Longrightarrow> returnRequest pf a s = Inr s' \<Longrightarrow> server_step fs (s, pc) (s', pc(a := None))"
| step_inode: "InodeNotify pf node off len s = Inr (st, s') \<Longrightarrow> server_step fs (s, pc) (s', pc)"
| step_entry: "EntryNotify pf node name s = Inr (st, s') \<Longrightarrow> server_step fs (s, pc) (s', pc)"
| step_delete: "DeleteNotify pf node child name s = Inr (st, s') \<Longrightarrow> server_step fs (s, pc) (s', pc)"
| step_store: "inodeNotifyStoreCache32 pf node offset data s = Inr (st, s') \<Longrightarrow> server_step fs (s, pc) (s', pc)"
| step_retrieve: "retrieve_send pf node offset dest s = Inr (st, u, q, s') \<Longrightarrow> server_step fs (s, pc) (s', pc)"
| step_shutdown: "server_step fs (s, pc) (shutdown s, pc)"

section \<open>Invariant\<close>

text \<open>An accepted request that nobody has parsed yet; an interrupt may already have reached it.\<close>

definition unparsed :: "request \<Rightarrow> bool" where
  "unparsed r \<longleftrightarrow> rq_inHeader r = Some (as_InHeader (rq_inputBuf r)) \<and> sizeOfInHeader \<le> length (rq_inputBuf r)
     \<and> rq_inData r = None \<and> rq_filenames r = [] \<and> rq_status r = OK \<and> rq_flatData r = [] \<and> rq_fdData r = None
     \<and> rq_readResult r = None"

definition system_inv :: "'w system \<Rightarrow> bool" where
  "system_inv x \<longleftrightarrow> server_inv (fst x) \<and> (\<forall>a. snd x a \<noteq> None \<longleftrightarrow> a \<in> set (sv_reqInflight (fst x)))
     \<and> (\<forall>a. snd x a = Some Accepted \<longrightarrow> unparsed (sv_req (fst x) a))"

lemma unparsed_interrupt [simp]: "unparsed (interrupt r) = unparsed r"
  by (simp add: unparsed_def interrupt_def)

lemma unparsed_index [simp]: "unparsed (r\<lparr>rq_inflightIndex := n\<rparr>) = unparsed r"
  by (simp add: unparsed_def)

lemma accepted_unparsed: "accepted r \<Longrightarrow> unparsed r"
  by (simp add: accepted_def unparsed_def)

lemma sent_others:
  assumes "sent a ms s s'" and "b \<noteq> a" and "unparsed (sv_req s b)"
  shows "unparsed (sv_req s' b)"
  using assms by (auto simp: sent_def book_kept_def others_kept_def)

lemma sent_inflight: "sent a ms s s' \<Longrightarrow> sv_reqInflight s' = sv_reqInflight s"
  by (simp add: sent_def book_kept_def)

lemma system_inv_sent:
  assumes x: "system_inv (s, pc)" and a: "pc a \<noteq> None" and k: "sent a ms s s'" and i: "server_inv s'" and p: "p \<noteq> Accepted"
  shows "system_inv (s', pc(a \<mapsto> p))"
  using x a i p sent_others [OF k] sent_inflight [OF k] by (auto simp: system_inv_def)

lemma notify_request_ok: 
  assumes "op < OPCODE_COUNT" and "sizeOfOutHeader + length out \<le> outputHeaderSize"
  shows "out_ok (notify_request op st out data)"
    and "rq_cancelled (notify_request op st out data) = rq_interrupted (notify_request op st out data)"
proof -
  have "operationHandlers ! op \<in> set operationHandlers" using assms(1) by (simp add: operationHandlers_length)
  then have "reply_fits (operationHandlers ! op)" using operationHandlers_ok by (simp add: list_all_iff)
  moreover have "sizeof OutHeader_layout = 16" by code_simp
  ultimately have "h_OutputSize (operationHandlers ! op) + sizeOfOutHeader \<le> outputHeaderSize"
    by (simp add: reply_fits_def sizeOfOutHeader_def outputHeaderSize_def)
  then show "out_ok (notify_request op st out data)"
    using assms(2) by (simp add: out_ok_def notify_request_def put_out_def new_request_def)
qed (simp add: notify_request_def new_request_def)

lemma length_notify_out [simp]:
  "length (NotifyInvalInodeOut_bytes n1) = 24" "length (NotifyInvalEntryOut_bytes n2) = 16"
  "length (NotifyInvalDeleteOut_bytes n3) = 24" "length (NotifyStoreOut_bytes n4) = 24"
  "length (NotifyRetrieveOut_bytes n5) = 32"
proof -
  have w: "widths NotifyInvalInodeOut_layout = [8, 8, 8]" "widths NotifyInvalEntryOut_layout = [8, 4, 4]"
    "widths NotifyInvalDeleteOut_layout = [8, 8, 4, 4]" "widths NotifyStoreOut_layout = [8, 8, 4, 4]"
    "widths NotifyRetrieveOut_layout = [8, 8, 8, 4, 4]"
    unfolding widths_def by code_simp+
  show "length (NotifyInvalInodeOut_bytes n1) = 24" "length (NotifyInvalEntryOut_bytes n2) = 16"
    "length (NotifyInvalDeleteOut_bytes n3) = 24" "length (NotifyStoreOut_bytes n4) = 24"
    "length (NotifyRetrieveOut_bytes n5) = 32"
    by (simp_all add: NotifyInvalInodeOut_bytes_def NotifyInvalEntryOut_bytes_def NotifyInvalDeleteOut_bytes_def
        NotifyStoreOut_bytes_def NotifyRetrieveOut_bytes_def write_fields_def w encode_flat_def)
qed

lemma notify_codes:
  "OP_NOTIFY_INVAL_INODE < OPCODE_COUNT" "OP_NOTIFY_INVAL_ENTRY < OPCODE_COUNT" "OP_NOTIFY_DELETE < OPCODE_COUNT"
  "OP_NOTIFY_STORE_CACHE < OPCODE_COUNT" "OP_NOTIFY_RETRIEVE_CACHE < OPCODE_COUNT"
  by (simp_all add: op_defs OPCODE_COUNT_def)

lemma system_inv_notify:
  assumes x: "system_inv (s, pc)" and r: "op < OPCODE_COUNT" "sizeOfOutHeader + length out \<le> outputHeaderSize"
    and n: "notify pf (notify_request op st0 out data) s = Inr (st, s')"
  shows "system_inv (s', pc)"
proof -
  have i: "server_inv s" using x by (simp add: system_inv_def)
  note N = notify_inv [OF i notify_request_ok [OF r] n]
  have "unparsed (sv_req s' a)" if "pc a = Some Accepted" for a
  proof -
    have u: "unparsed (sv_req s a)" and "a \<in> set (sv_reqInflight s)"
      using x that by (auto simp: system_inv_def)
    then have "a < sv_nextReq s" using server_invD(4) [OF i] by simp
    then show ?thesis using N(4) [of a] u by auto
  qed
  then show ?thesis using x N(1,2) by (simp add: system_inv_def)
qed


lemma InodeNotify_inv:
  "system_inv (s, pc) \<Longrightarrow> InodeNotify pf node off len s = Inr (st, s') \<Longrightarrow> system_inv (s', pc)"
  by (auto simp: InodeNotify_def notify_codes elim!: system_inv_notify [rotated 3] split: if_splits)

lemma EntryNotify_inv:
  "system_inv (s, pc) \<Longrightarrow> EntryNotify pf node name s = Inr (st, s') \<Longrightarrow> system_inv (s', pc)"
  by (auto simp: EntryNotify_def notify_codes elim!: system_inv_notify [rotated 3] split: if_splits)

lemma DeleteNotify_inv:
  "system_inv (s, pc) \<Longrightarrow> DeleteNotify pf node child name s = Inr (st, s') \<Longrightarrow> system_inv (s', pc)"
  by (auto simp: DeleteNotify_def notify_codes EntryNotify_inv elim!: system_inv_notify [rotated 3] split: if_splits)

lemma store_inv:
  "system_inv (s, pc) \<Longrightarrow> inodeNotifyStoreCache32 pf node offset data s = Inr (st, s') \<Longrightarrow> system_inv (s', pc)"
  by (auto simp: inodeNotifyStoreCache32_def notify_codes elim!: system_inv_notify [rotated 3])

lemma system_inv_retrieve:
  "system_inv (s\<lparr>sv_nextRetrieve := q, sv_retrieveNext := u, sv_retrieveTab := tab, sv_retrieve := rs\<rparr>, pc) = system_inv (s, pc)"
  by (simp add: system_inv_def server_inv_def)

lemma retrieve_inv:
  assumes x: "system_inv (s, pc)" and r: "retrieve_send pf node offset dest s = Inr (st, u, q, s')"
  shows "system_inv (s', pc)"
proof -
  define q0 u0 dest' where "q0 = sv_nextRetrieve s" and "u0 = sv_retrieveNext s" and "dest' = take MaxInt32 dest"
  obtain tab where "notify pf (notify_request OP_NOTIFY_RETRIEVE_CACHE NOTIFY_RETRIEVE_CACHE
        (NotifyRetrieveOut_bytes \<lparr>nro_NotifyUnique = u0, nro_Nodeid = node, nro_Offset = offset,
           nro_Size = word_of_nat (length dest')\<rparr>) [])
        (s\<lparr>sv_nextRetrieve := q0 + 1, sv_retrieveNext := u0 + 1, sv_retrieveTab := tab,
           sv_retrieve := (sv_retrieve s)(q0 := zero_retrieve\<lparr>rc_nodeid := node, rc_offset := offset, rc_dest := dest'\<rparr>)\<rparr>)
      = Inr (st, s')"
    using r by (auto simp: retrieve_send_def Let_def bind_go_eq_Inr q0_def u0_def dest'_def)
  then show ?thesis
    by (rule system_inv_notify [rotated 3]) (use x in \<open>simp_all add: system_inv_retrieve notify_codes sizeOfOutHeader_def outputHeaderSize_def\<close>)
qed

lemma initial_inv: "system_inv (new_server o' w, Map.empty)"
  using new_server_inv [of o' w] by (simp add: system_inv_def new_server_def)

lemma read_step_inv:
  assumes x: "system_inv (s, pc)" and r: "readRequest pf s = Inr ((ro, st), s')"
  shows "system_inv (s', case ro of None \<Rightarrow> pc | Some a \<Rightarrow> pc(a \<mapsto> Accepted))"
proof -
  have i: "server_inv s" using x by (simp add: system_inv_def)
  note R = readRequest_inv [OF i r]
  have old: "unparsed (sv_req s' b)" if "pc b = Some Accepted" for b
  proof -
    have "b \<in> set (sv_reqInflight s)" "unparsed (sv_req s b)" using x that by (auto simp: system_inv_def)
    then show ?thesis using R(3) [of b] by simp
  qed
  show ?thesis
    using x R(1,2) old accepted_unparsed by (cases ro) (auto simp: system_inv_def)
qed

lemma return_step_inv:
  assumes x: "system_inv (s, pc)" and a: "pc a = Some p" and r: "returnRequest pf a s = Inr s'"
  shows "system_inv (s', pc(a := None))"
proof -
  have i: "server_inv s" and fl: "a \<in> set (sv_reqInflight s)" using x a by (auto simp: system_inv_def)
  have s': "server_inv s'" "set (sv_reqInflight s') = set (sv_reqInflight s) - {a}"
    and same: "\<forall>b. b \<noteq> a \<longrightarrow> (\<exists>n. sv_req s' b = (sv_req s b)\<lparr>rq_inflightIndex := n\<rparr>)"
    using returnRequest_inv [OF i fl, of pf] r by auto
  have "unparsed (sv_req s' b)" if "b \<noteq> a" "pc b = Some Accepted" for b
  proof -
    have "unparsed (sv_req s b)" using x that by (simp add: system_inv_def)
    then show ?thesis using same that(1) by (metis unparsed_index)
  qed
  then show ?thesis using x s' by (auto simp: system_inv_def)
qed

lemma phase_step_inv:
  assumes x: "system_inv (s, pc)" and a: "pc a = Some p"
  shows "parse_request a s = Inr s' \<Longrightarrow> system_inv (s', pc(a \<mapsto> Parsed))"
    and "dispatch pf fs a s = Inr s' \<Longrightarrow> system_inv (s', pc(a \<mapsto> Handled))"
    and "server_write pf a s = Inr (st, s') \<Longrightarrow> system_inv (s', pc(a \<mapsto> Written))"
proof -
  have i: "server_inv s" and fl: "a \<in> set (sv_reqInflight s)" using x a by (auto simp: system_inv_def)
  have np: "a \<notin> set (sv_reqPool s)" using server_invD(3) [OF i] fl by auto
  show "system_inv (s', pc(a \<mapsto> Parsed))" if "parse_request a s = Inr s'"
    using x a parse_request_inv [OF i fl that] by (auto simp: system_inv_def)
  show "system_inv (s', pc(a \<mapsto> Handled))" if "dispatch pf fs a s = Inr s'"
    using dispatch_kept [OF that] book_kept_inv [OF _ i np] a
    by (intro system_inv_sent [OF x, where ms = "[]"]) (auto simp: sent_Nil)
  show "system_inv (s', pc(a \<mapsto> Written))" if w: "server_write pf a s = Inr (st, s')"
    using server_write_inv [OF i np w] a by (auto intro: system_inv_sent [OF x])
qed

lemma shutdown_inv: "system_inv (s, pc) \<Longrightarrow> system_inv (shutdown s, pc)"
  by (simp add: shutdown_def system_inv_def server_inv_def)

lemma server_step_inv:
  assumes "server_step fs x y" and "system_inv x"
  shows "system_inv y"
  using assms
proof (induction rule: server_step.induct)
  case (step_read pf s a st s' pc)
  then show ?case using read_step_inv [of s pc pf "Some a"] by simp
next
  case (step_idle pf s st s' pc)
  then show ?case using read_step_inv [of s pc pf None] by simp
next
  case (step_parse pc a s s')
  then show ?case by (intro phase_step_inv(1))
next
  case (step_handle pc a pf s s')
  then show ?case by (intro phase_step_inv(2))
next
  case (step_write pc a pf s st s')
  then show ?case by (intro phase_step_inv(3))
next
  case (step_return pc a pf s s')
  then show ?case by (intro return_step_inv)
qed (rule InodeNotify_inv EntryNotify_inv DeleteNotify_inv store_inv retrieve_inv shutdown_inv; assumption)+

lemma reachable_inv:
  assumes "(server_step fs)\<^sup>*\<^sup>* (new_server o' w, Map.empty) x"
  shows "system_inv x"
  using assms by (induction rule: rtranclp_induct) (auto simp: initial_inv intro: server_step_inv)


section \<open>Handling one request\<close>

lemma handleRequest_phases:
  assumes "handleRequest pf fs a s = Inr (st, s')"
  obtains s1 s2 s3 where "parse_request a s = Inr s1" "dispatch pf fs a s1 = Inr s2"
    "server_write pf a s2 = Inr (st, s3)" "returnRequest pf a s3 = Inr s'"
  using assms by (auto simp: handleRequest_def bind_go_eq_Inr)

lemma handle_request_outcome:
  assumes i: "server_inv s" and a: "a \<in> set (sv_reqInflight s)" and h: "rq_inHeader (sv_req s a) = Some hdr"
    and r: "handleRequest pf fs a s = Inr (st, s')"
  shows "server_inv s'" and "set (sv_reqInflight s') = set (sv_reqInflight s) - {a}"
    and "\<exists>r. if no_reply r hdr then sv_out s' = sv_out s \<and> st = OK
           else if st = OK then \<exists>m. sv_out s' = sv_out s @ [m] \<and> frame_ok hdr m else sv_out s' = sv_out s"
proof -
  obtain s1 s2 s3 where ph: "parse_request a s = Inr s1" "dispatch pf fs a s1 = Inr s2"
    "server_write pf a s2 = Inr (st, s3)" "returnRequest pf a s3 = Inr s'"
    using r by (rule handleRequest_phases)
  note P = parse_request_inv [OF i a ph(1)]
  have a1: "a \<in> set (sv_reqInflight s1)" using a P(2) by simp
  have h1: "rq_inHeader (sv_req s1 a) = Some hdr"
    using ph(1) h parse_keeps(1) [OF _ server_invD(8) [OF i]] by (auto simp: parse_request_def bind_go_eq_Inr parse_rel_def)
  have np1: "a \<notin> set (sv_reqPool s1)" using server_invD(3) [OF P(1)] a1 by auto
  have k: "book_kept a s1 s2" by (rule dispatch_kept [OF ph(2)])
  have i2: "server_inv s2" by (rule book_kept_inv [OF k P(1) np1])
  have fl2: "sv_reqInflight s2 = sv_reqInflight s" "sv_reqPool s2 = sv_reqPool s1" "sv_out s2 = sv_out s"
    using k P(2,3) by (simp_all add: book_kept_def)
  have h2: "rq_inHeader (sv_req s2 a) = Some hdr" using req_keptD(2) [OF book_keptD [OF k]] h1 by simp
  have np2: "a \<notin> set (sv_reqPool s2)" using np1 fl2 by simp
  note W = server_write_inv [OF i2 np2 ph(3)]
  obtain ms where ms: "sent a ms s2 s3" using W(2) by blast
  have fl3: "sv_reqInflight s3 = sv_reqInflight s" using sent_inflight [OF ms] fl2 by simp
  have R: "server_inv s'" "set (sv_reqInflight s') = set (sv_reqInflight s) - {a}" "sv_out s' = sv_out s3"
    using returnRequest_inv [OF W(1), of a pf] ph(4) a fl3 by auto
  have "if no_reply (sv_req s2 a) hdr then st = OK \<and> s3 = s2 else written a hdr st s2 s3"
    by (rule server_write_written [OF server_invD(8) [OF i2] h2 ph(3)])
  then have "if no_reply (sv_req s2 a) hdr then sv_out s' = sv_out s \<and> st = OK
     else if st = OK then \<exists>m. sv_out s' = sv_out s @ [m] \<and> frame_ok hdr m else sv_out s' = sv_out s"
    using R(3) fl2(3) by (auto simp: written_def dest: sent_out split: if_splits)
  then show "\<exists>r. if no_reply r hdr then sv_out s' = sv_out s \<and> st = OK
     else if st = OK then \<exists>m. sv_out s' = sv_out s @ [m] \<and> frame_ok hdr m else sv_out s' = sv_out s" by blast
  show "server_inv s'" and "set (sv_reqInflight s') = set (sv_reqInflight s) - {a}" by (fact R)+
qed

text \<open>A request refused before dispatch: only its status travels back.\<close>

lemma refused_request:
  assumes i: "server_inv s" and a: "a \<in> set (sv_reqInflight s)" and u: "unparsed (sv_req s a)"
    and h: "hdr = as_InHeader (rq_inputBuf (sv_req s a))" and pf: "handleEINTR (pf_write pf) = Inr OK"
    and p: "parse_request a s = Inr s1" and st: "rq_status (sv_req s1 a) = e" "e > 0" "e \<noteq> OK"
    and poll: "ih_NodeId hdr \<noteq> pollHackInode" "rq_filenames (sv_req s1 a) = []"
    and op: "sint (ih_Opcode hdr) \<notin> {int OP_FORGET, int OP_BATCH_FORGET, int OP_NOTIFY_REPLY, int OP_GETXATTR, int OP_LISTXATTR}"
  shows "\<exists>s' m. handleRequest pf fs a s = Inr (OK, s') \<and> sv_out s' = sv_out s @ [m] \<and> length m = sizeOfOutHeader
    \<and> frame_ok hdr m \<and> reply_Status m = word_of_int (- e) \<and> sv_w s' = sv_w s"
proof -
  define r where "r = sv_req s1 a"
  note P = parse_request_inv [OF i a p]
  obtain r0 where r0: "parse (sv_req s a) = Inr r0" "r = (if rq_handler r0 = None then r0\<lparr>rq_status := ENOSYS\<rparr> else r0)"
    using p by (auto simp: parse_request_def bind_go_eq_Inr r_def)
  have pr: "parse_rel (sv_req s a) r" using parse_keeps(1) [OF r0(1) server_invD(8) [OF i]] by (auto simp: r0(2) parse_rel_def)
  have hr: "rq_inHeader r = Some hdr" using pr u h by (auto simp: parse_rel_def unparsed_def)
  have fl: "rq_flatData r = []" "rq_fdData r = None" using pr u by (auto simp: parse_rel_def unparsed_def)
  have ok: "out_ok r" using server_invD(8) [OF P(1)] by (simp add: r_def)
  have d: "dispatch pf fs a s1 = Inr s1"
    using hr st poll by (simp add: dispatch_def req_inHeader_def r_def)
  have ol: "out_length hdr r = Inr 0" using st op by (simp add: out_length_def r_def OK_def)
  have nr: "\<not> no_reply r hdr" using st op by (simp add: no_reply_def r_def)
  have fs0: "flatDataSize r = 0" using fl by (simp add: flatDataSize_def)
  obtain header r' where sh: "serializeHeader 0 r = Inr (header, r')"
    using hr ol by (simp add: serializeHeader_def Let_def)
  note S = serializeHeader_spec [OF ok sh]
  have lh: "length header = sizeOfOutHeader" using S(1) hr ol by auto
  have m: "frame_ok hdr header" "reply_Status header = word_of_int (- e)"
    using serializeHeader_frame [OF ok hr, of "[]"] sh st(1) by (simp_all add: r_def)
  define s2 where "s2 = emit header (upd_req a (\<lambda>_. r') s1)"
  have w: "server_write pf a s1 = Inr (OK, s2)"
    using hr nr sh fs0 S(4,6) fl pf
    by (simp add: server_write_def req_inHeader_def r_def [symmetric] systemWrite_def s2_def Let_def flatDataSize_def)
  have np: "a \<notin> set (sv_reqPool s1)" and a1: "a \<in> set (sv_reqInflight s1)"
    using server_invD(3) [OF P(1)] a P(2) by auto
  have i2: "server_inv s2" by (rule server_write_inv(1) [OF P(1) np w])
  have a2: "a \<in> set (sv_reqInflight s2)" using a1 by (simp add: s2_def emit_def)
  obtain s' where s': "returnRequest pf a s2 = Inr s'" "sv_out s' = sv_out s2"
    using returnRequest_inv [OF i2 a2] by blast
  have sw: "sv_w s' = sv_w s2"
    using s'(1) by (auto simp: returnRequest_def bind_go_eq_Inr remove_inflight_def Let_def recycle_def split: if_splits option.splits)
  have "handleRequest pf fs a s = Inr (OK, s')"
    by (simp add: handleRequest_def p d w s'(1))
  then show ?thesis
    using s' sw m lh P(3,4) by (auto simp: s2_def emit_def)
qed


lemma parse_unknown:
  assumes "unparsed (sv_req s a)" and "hdr = as_InHeader (rq_inputBuf (sv_req s a))" and "sint (ih_Opcode hdr) \<ge> int OPCODE_COUNT"
  shows "\<exists>s1. parse_request a s = Inr s1 \<and> rq_status (sv_req s1 a) = ENOSYS \<and> rq_filenames (sv_req s1 a) = []"
  using assms by (simp add: parse_request_def parse_def getHandler_def unparsed_def Let_def)


section \<open>A run\<close>

text \<open>A server that has read one request: opcode 200, unique 7, node 1.\<close>

definition demo_bytes :: "u8 list" where
  "demo_bytes = [40, 0, 0, 0, 200, 0, 0, 0, 7, 0, 0, 0, 0, 0, 0, 0, 1, 0, 0, 0, 0, 0, 0, 0] @ replicate 16 0"

definition demo_run :: splice_run where
  "demo_run = \<lparr>sp_Get1 = 0, sp_Grow1 = 0, sp_LoadFromAt = ([], 0), sp_Get2 = 0, sp_Grow2 = 0, sp_Write = (0, 0),
     sp_LoadFrom = (0, 0), sp_WriteTo = 0\<rparr>"

definition demo_pf :: platform where
  "demo_pf = \<lparr>pf_pageSize = 4096, pf_hit = False, pf_resizable = True, pf_read = [Inl EINTR, Inr demo_bytes],
     pf_write = [EINTR, OK], pf_writev = OK, pf_pread = (\<lambda>_ _ _. ([], 0)), pf_splice = demo_run\<rparr>"

definition demo_server :: "unit Server" where
  "demo_server = snd (projr (readRequest demo_pf (new_server zero_MountOptions ())))"

lemma demo_header:
  "ih_Opcode (as_InHeader demo_bytes) = 200" "ih_Unique (as_InHeader demo_bytes) = 7" "ih_NodeId (as_InHeader demo_bytes) = 1"
  by code_simp+

lemma demo_read: "readRequest demo_pf (new_server zero_MountOptions ()) = Inr ((Some 0, OK), demo_server)"
proof -
  have "\<exists>s'. readRequest demo_pf (new_server zero_MountOptions ()) = Inr ((Some 0, OK), s')"
    by (simp add: readRequest_def get_request_def get_dest_def new_server_def demo_pf_def MAX_READERS_def
        accept_request_def setInput_def parseHeader_def new_request_def demo_bytes_def smallInputSize_def sizeOfInHeader_def
        Let_def OK_def EINTR_def)
  then show ?thesis by (auto simp: demo_server_def)
qed

lemma demo_state:
  "server_inv demo_server" "sv_reqInflight demo_server = [0]" "unparsed (sv_req demo_server 0)"
  using readRequest_inv [OF new_server_inv demo_read] accepted_unparsed by (auto simp: new_server_def)

lemma demo_input:
  "rq_inputBuf (sv_req demo_server 0) = demo_bytes" "sv_out demo_server = []" "sv_w demo_server = ()"
proof -
  show "rq_inputBuf (sv_req demo_server 0) = demo_bytes" "sv_out demo_server = []"
    by (simp_all add: demo_server_def readRequest_def get_request_def get_dest_def new_server_def demo_pf_def MAX_READERS_def
        accept_request_def setInput_def parseHeader_def new_request_def demo_bytes_def smallInputSize_def sizeOfInHeader_def
        Let_def OK_def EINTR_def)
qed simp

lemma demo_inHeader: "rq_inHeader (sv_req demo_server 0) = Some (as_InHeader demo_bytes)"
  using demo_state(3) by (simp add: unparsed_def demo_input)

lemma demo_device: "handleEINTR (pf_write demo_pf) = Inr OK"
  by (simp add: demo_pf_def OK_def EINTR_def)

lemma demo_opcode: "sint (ih_Opcode (as_InHeader demo_bytes)) = 200"
  unfolding demo_header by code_simp

lemma demo_handled:
  "\<exists>s' m. handleRequest demo_pf fs 0 demo_server = Inr (OK, s') \<and> sv_out s' = [m]"
proof -
  obtain s1 where s1: "parse_request 0 demo_server = Inr s1" "rq_status (sv_req s1 0) = ENOSYS" "rq_filenames (sv_req s1 0) = []"
    using parse_unknown [OF demo_state(3) refl] demo_opcode by (auto simp: demo_input OPCODE_COUNT_def)
  show ?thesis
    using refused_request [OF demo_state(1) _ demo_state(3) refl demo_device s1(1,2), where fs = fs] s1(3)
    by (auto simp: demo_state demo_input demo_header demo_opcode op_defs pollHackInode_def ENOSYS_def OK_def)
qed

section \<open>Properties\<close>

text \<open>
  C16: in every state that reads, request phases of any number of goroutines and notifications
  reach from a new server, the requests in flight are exactly the requests being processed; the
  table lists each of them once, and every request knows its own index; no request struct is at
  the same time in flight and in the pool, the pool holds only cleared structs; a request not yet
  parsed has its header and a clear status; and a finished request can always be returned: the
  swap in \<^verbatim>\<open>returnRequest\<close> never indexes out of range.
\<close>

theorem server_bookkeeping_exact:
  assumes "(server_step fs)\<^sup>*\<^sup>* (new_server o' w, Map.empty) (s, pc)"
  shows "(\<forall>a. pc a \<noteq> None \<longleftrightarrow> a \<in> set (sv_reqInflight s))
    \<and> distinct (sv_reqInflight s @ sv_reqPool s)
    \<and> (\<forall>i < length (sv_reqInflight s). rq_inflightIndex (sv_req s (sv_reqInflight s ! i)) = i)
    \<and> (\<forall>a \<in> set (sv_reqPool s). clean (sv_req s a))
    \<and> (\<forall>a. pc a = Some Accepted \<longrightarrow> unparsed (sv_req s a))
    \<and> (\<forall>a pf. pc a = Some Written \<longrightarrow> (\<exists>s'. returnRequest pf a s = Inr s' \<and> a \<notin> set (sv_reqInflight s')))"
proof -
  have x: "system_inv (s, pc)" using assms by (rule reachable_inv)
  then have i: "server_inv s" by (simp add: system_inv_def)
  have "\<exists>s'. returnRequest pf a s = Inr s' \<and> a \<notin> set (sv_reqInflight s')" if "pc a = Some Written" for a pf
  proof -
    have "a \<in> set (sv_reqInflight s)" using x that by (auto simp: system_inv_def)
    then show ?thesis using returnRequest_inv [OF i, of a pf] by auto
  qed
  then show ?thesis using x by (auto simp: system_inv_def server_inv_def)
qed

theorem server_bookkeeping_exact_witness:
  "(server_step defaultRawFileSystem)\<^sup>*\<^sup>* (new_server zero_MountOptions (), Map.empty) (demo_server, [0 \<mapsto> Accepted])
   \<and> sv_reqInflight demo_server = [0] \<and> unparsed (sv_req demo_server 0)"
proof -
  have r: "(server_step defaultRawFileSystem)\<^sup>*\<^sup>* (new_server zero_MountOptions (), Map.empty) (demo_server, [0 \<mapsto> Accepted])"
    using step_read [OF demo_read] by (rule r_into_rtranclp)
  show ?thesis using server_bookkeeping_exact [OF r] r demo_state(2) by auto
qed

text \<open>
  C17: when \<^verbatim>\<open>handleRequest\<close> returns for a request in flight, the request has left the table, and at
  most one message went to the device; the message carries the unique id of the request and its
  own length, on every path: no data, flat data, spliced data and the copy after a failed splice.
  FORGET, BATCH_FORGET and NOTIFY_REPLY are not answered; every other request but INTERRUPT is
  answered exactly when the result is OK.
\<close>

theorem handle_request_replies_once:
  assumes "server_inv s" and "a \<in> set (sv_reqInflight s)" and "rq_inHeader (sv_req s a) = Some hdr"
    and "handleRequest pf fs a s = Inr (st, s')"
  shows "server_inv s' \<and> set (sv_reqInflight s') = set (sv_reqInflight s) - {a}
    \<and> (\<exists>ms. sv_out s' = sv_out s @ ms \<and> length ms \<le> 1 \<and> (\<forall>m \<in> set ms. frame_ok hdr m)
         \<and> (sint (ih_Opcode hdr) \<in> {int OP_FORGET, int OP_BATCH_FORGET, int OP_NOTIFY_REPLY} \<longrightarrow> ms = [])
         \<and> (sint (ih_Opcode hdr) \<notin> {int OP_FORGET, int OP_BATCH_FORGET, int OP_NOTIFY_REPLY, int OP_INTERRUPT}
            \<longrightarrow> (ms \<noteq> [] \<longleftrightarrow> st = OK)))"
proof -
  obtain r where r: "if no_reply r hdr then sv_out s' = sv_out s \<and> st = OK
      else if st = OK then \<exists>m. sv_out s' = sv_out s @ [m] \<and> frame_ok hdr m else sv_out s' = sv_out s"
    using handle_request_outcome(3) [OF assms] by blast
  have "\<exists>ms. sv_out s' = sv_out s @ ms \<and> length ms \<le> 1 \<and> (\<forall>m \<in> set ms. frame_ok hdr m)
      \<and> (no_reply r hdr \<longrightarrow> ms = []) \<and> (\<not> no_reply r hdr \<longrightarrow> (ms \<noteq> [] \<longleftrightarrow> st = OK))"
    using r by (cases "no_reply r hdr \<or> st \<noteq> OK") (auto intro: exI [of _ "[]"] split: if_splits)
  then show ?thesis
    using handle_request_outcome(1,2) [OF assms] by (auto simp: no_reply_def)
qed

theorem handle_request_replies_once_witness:
  "\<exists>s' m. handleRequest demo_pf defaultRawFileSystem 0 demo_server = Inr (OK, s') \<and> sv_reqInflight s' = []
    \<and> sv_out s' = [m] \<and> frame_ok (as_InHeader demo_bytes) m"
proof -
  obtain s' m where h: "handleRequest demo_pf defaultRawFileSystem 0 demo_server = Inr (OK, s')" "sv_out s' = [m]"
    using demo_handled by blast
  have a: "0 \<in> set (sv_reqInflight demo_server)" by (simp add: demo_state)
  show ?thesis
    using handle_request_replies_once [OF demo_state(1) a demo_inHeader h(1)] h demo_state(2) demo_input(2) by auto
qed



end
