(* ===== verification/ServerInit.thy ===== *)
theory ServerInit
  imports ServerSteps
begin

text \<open>
  Two handlers of \<^verbatim>\<open>fuse/opcode.go\<close> that change the server itself: the negotiation of INIT and the
  interruption of a request in flight.
\<close>

section \<open>Negotiation\<close>

text \<open>
  C35: INIT agrees on what both sides support. A kernel with another major version or too old a minor
  version gets \<^verbatim>\<open>EIO\<close> and the server does not change but for that status. Otherwise the server keeps
  what the kernel sent, its minor version and read-ahead included, except that the capabilities are
  those it answers with: each of them was offered, apart from the lock capabilities when locks are
  enabled. In the answer the minor version is the smaller of both, the read-ahead exceeds neither
  what the kernel offered nor a limit set in the mount options, and the short form of the reply is
  used exactly when that minor version is at most 22. No other request changes.
\<close>

theorem init_negotiation:
  assumes "req_inData a s = Inr d" and "input = as_InitIn d"
    and "out = init_reply (sv_opts s) input"
    and "locks = (if mo_EnableLocks (sv_opts s) then CAP_FLOCK_LOCKS OR CAP_POSIX_LOCKS else 0)"
  shows "if ini_Major input \<noteq> FUSE_KERNEL_VERSION \<or> ini_Minor input < MINIMUM_MINOR_VERSION
     then doInit pf fs a s = Inr (set_status a EIO s)
     else \<exists>s'. doInit pf fs a s = Inr s' \<and> rq_status (sv_req s' a) = OK
       \<and> rq_outBuf (sv_req s' a) = write_at sizeOfOutHeader (InitOut_bytes out) (rq_outBuf (sv_req s a))
       \<and> sv_kernelSettings s' = input\<lparr>ini_Flags := ino_Flags out\<rparr>
       \<and> ino_Flags out AND NOT (ini_Flags input OR locks) = 0
       \<and> ino_Minor out = min (ini_Minor input) OUR_MINOR_VERSION
       \<and> ino_MaxReadAhead out \<le> ini_MaxReadAhead input
       \<and> (mo_MaxReadAhead (sv_opts s) \<noteq> 0 \<longrightarrow> ino_MaxReadAhead out \<le> word_of_int (mo_MaxReadAhead (sv_opts s)))
       \<and> rq_handler (sv_req s' a) = (if ino_Minor out \<le> 22
            then map_option (\<lambda>h. h\<lparr>h_OutputSize := 24\<rparr>) (rq_handler (sv_req s a)) else rq_handler (sv_req s a))
       \<and> (\<forall>b. b \<noteq> a \<longrightarrow> sv_req s' b = sv_req s b)"
proof -
  have sub: "((x AND w) OR l) AND NOT (x OR l) = 0" for x w l :: u32
    by (auto intro!: bit_word_eqI simp: bit_simps)
  have flags: "ino_Flags out = ini_Flags (init_settings (sv_opts s) input)"
    by (simp add: assms(3) init_reply_def Let_def zero_InitOut_def)
  have "ini_Flags (init_settings (sv_opts s) input) = (ini_Flags input AND wanted_caps) OR locks"
    by (simp add: init_settings_def assms(4) Let_def)
  then have "ino_Flags out AND NOT (ini_Flags input OR locks) = 0" unfolding flags using sub by simp
  moreover have "ino_Minor out = min (ini_Minor input) OUR_MINOR_VERSION"
    by (auto simp: assms(3) init_reply_def Let_def min_def zero_InitOut_def)
  moreover have "ino_MaxReadAhead out \<le> ini_MaxReadAhead input"
    "mo_MaxReadAhead (sv_opts s) \<noteq> 0 \<longrightarrow> ino_MaxReadAhead out \<le> word_of_int (mo_MaxReadAhead (sv_opts s))"
    by (auto simp: assms(3) init_reply_def Let_def zero_InitOut_def)
  moreover have "init_settings (sv_opts s) input = input\<lparr>ini_Flags := ino_Flags out\<rparr>"
    unfolding flags by (simp add: init_settings_def Let_def)
  ultimately show ?thesis
    using assms(1) unfolding assms(2,3)
    by (simp add: doInit_def Let_def put_out_def upd_req_def set_status_def)
qed

section \<open>Interruption\<close>

text \<open>
  INTERRUPT cancels the request it names and no other. When the requests in flight are readable and
  one of them carries the number and was not interrupted before, the first such request is
  cancelled and marked, every other request stays as it is, and the answer is \<^verbatim>\<open>OK\<close>; without one nothing
  changes but the status, which is \<^verbatim>\<open>EAGAIN\<close>.
\<close>

theorem interrupt_cancels_one:
  assumes "req_inData a s = Inr d" and "u = int_Unique (as_InterruptIn d)"
    and "\<forall>b\<in>set (sv_reqInflight s). \<exists>h. rq_inHeader (sv_req s b) = Some h"
    and "\<forall>b\<in>set (sv_reqInflight s). rq_cancelled (sv_req s b) = rq_interrupted (sv_req s b)"
    and "hit = find (\<lambda>b. (\<exists>h. rq_inHeader (sv_req s b) = Some h \<and> ih_Unique h = u) \<and> \<not> rq_interrupted (sv_req s b))
           (sv_reqInflight s)"
  shows "doInterrupt pf fs a s = Inr (case hit of
      None \<Rightarrow> set_status a EAGAIN s | Some b \<Rightarrow> set_status a OK (upd_req b interrupt s))"
proof -
  have "interrupt_loop u bs s = Inr (map_option (\<lambda>b. upd_req b interrupt s)
      (find (\<lambda>b. (\<exists>h. rq_inHeader (sv_req s b) = Some h \<and> ih_Unique h = u) \<and> \<not> rq_interrupted (sv_req s b)) bs))"
    if "set bs \<subseteq> set (sv_reqInflight s)" for bs
    using that
  proof (induction bs)
    case (Cons b bs)
    then obtain h where h: "rq_inHeader (sv_req s b) = Some h" using assms(3) by auto
    have "rq_cancelled (sv_req s b) = rq_interrupted (sv_req s b)" using assms(4) Cons.prems by auto
    then show ?case using Cons h by (auto simp: req_inHeader_def)
  qed simp
  then have "interrupt_loop u (sv_reqInflight s) s = Inr (map_option (\<lambda>b. upd_req b interrupt s) hit)"
    unfolding assms(5) by blast
  then show ?thesis using assms(1,2) by (cases hit) (simp_all add: doInterrupt_def)
qed

section \<open>A server with two requests\<close>

text \<open>
  Request 1 carries the bytes of INIT or INTERRUPT; request 0 is in flight with the number 7.
\<close>

definition demo_int_bytes :: "u8 list" where
  "demo_int_bytes = [48, 0, 0, 0, 36, 0, 0, 0, 8, 0, 0, 0, 0, 0, 0, 0] @ replicate 24 0 @ [7, 0, 0, 0, 0, 0, 0, 0]"

definition demo_init_bytes :: "u8 list" where
  "demo_init_bytes = [56, 0, 0, 0, 26, 0, 0, 0, 1, 0, 0, 0, 0, 0, 0, 0] @ replicate 24 0
     @ [7, 0, 0, 0, 23, 0, 0, 0, 0, 0, 2, 0, 255, 255, 0, 0]"

lemma demo_int_unique: "int_Unique (as_InterruptIn demo_int_bytes) = 7"
  by code_simp

lemma demo_init_version:
  "ini_Major (as_InitIn demo_init_bytes) = 7" "ini_Minor (as_InitIn demo_init_bytes) = 23"
  by code_simp+

definition demo_busy :: "u8 list \<Rightarrow> unit Server" where
  "demo_busy bs =
     (upd_req 0 (\<lambda>r. r\<lparr>rq_inHeader := Some ((as_InHeader bs)\<lparr>ih_Unique := 7\<rparr>), rq_interrupted := False, rq_cancelled := False\<rparr>)
     (upd_req 1 (\<lambda>r. r\<lparr>rq_inData := Some bs, rq_inHeader := Some (as_InHeader bs), rq_interrupted := False, rq_cancelled := False\<rparr>)
        demo_server))\<lparr>sv_reqInflight := [0, 1]\<rparr>"

theorem init_negotiation_witness:
  "\<exists>s'. doInit demo_pf defaultRawFileSystem 1 (demo_busy demo_init_bytes) = Inr s' \<and> rq_status (sv_req s' 1) = OK
     \<and> ini_Flags (sv_kernelSettings s') = ino_Flags (init_reply (sv_opts (demo_busy demo_init_bytes)) (as_InitIn demo_init_bytes))"
proof -
  have d: "req_inData 1 (demo_busy demo_init_bytes) = Inr demo_init_bytes"
    by (simp add: req_inData_def demo_busy_def upd_req_def)
  have v: "\<not> (ini_Major (as_InitIn demo_init_bytes) \<noteq> FUSE_KERNEL_VERSION \<or> ini_Minor (as_InitIn demo_init_bytes) < MINIMUM_MINOR_VERSION)"
    by (simp add: demo_init_version FUSE_KERNEL_VERSION_def MINIMUM_MINOR_VERSION_def)
  show ?thesis
    using init_negotiation [OF d refl refl refl, of demo_pf defaultRawFileSystem] unfolding if_not_P [OF v] by auto
qed

theorem interrupt_cancels_one_witness:
  "doInterrupt demo_pf defaultRawFileSystem 1 (demo_busy demo_int_bytes)
     = Inr (set_status 1 OK (upd_req 0 interrupt (demo_busy demo_int_bytes)))"
proof -
  let ?s = "demo_busy demo_int_bytes"
  have d: "req_inData 1 ?s = Inr demo_int_bytes"
    by (simp add: req_inData_def demo_busy_def upd_req_def)
  have f: "sv_reqInflight ?s = [0, 1]" by (simp add: demo_busy_def)
  have h: "rq_inHeader (sv_req ?s 0) = Some ((as_InHeader demo_int_bytes)\<lparr>ih_Unique := 7\<rparr>)"
    "\<exists>h. rq_inHeader (sv_req ?s 1) = Some h" "\<not> rq_interrupted (sv_req ?s 0)" "\<not> rq_interrupted (sv_req ?s 1)"
    "\<not> rq_cancelled (sv_req ?s 0)" "\<not> rq_cancelled (sv_req ?s 1)"
    by (simp_all add: demo_busy_def upd_req_def)
  show ?thesis
    using interrupt_cancels_one [OF d refl _ _ refl, of demo_pf defaultRawFileSystem] h
    by (auto simp: f demo_int_unique)
qed

end
