(* ===== verification/NodeApi.thy ===== *)
theory NodeApi
  imports NodeTree RawFS
begin

text \<open>
  The interfaces of the package \<^verbatim>\<open>nodefs\<close> (\<^verbatim>\<open>nodefs/api.go\<close>, \<^verbatim>\<open>nodefs/dirstream.go\<close>) and the state of the
  bridge between them and the wire protocol (the types of \<^verbatim>\<open>nodefs/bridge.go\<close>). The methods of the
  node implementations are a record of functions on the state of the bridge: a node may create
  inodes and change the tree while it answers. A node is named by the address of its inode, an
  open file by a number; the caller stands for the context argument.
\<close>

section \<open>Sequencing\<close>

definition fs_bind :: "('w, 'a) fsm \<Rightarrow> ('a \<Rightarrow> ('w, 'b) fsm) \<Rightarrow> ('w, 'b) fsm" where
  "fs_bind m k = (\<lambda>w. bind_go (m w) (\<lambda>(x, w'). k x w'))"

definition fs_get :: "('w \<Rightarrow> 'a) \<Rightarrow> ('w, 'a) fsm" where
  "fs_get f = (\<lambda>w. Inr (f w, w))"

definition fs_fault :: "fault \<Rightarrow> ('w, 'a) fsm" where
  "fs_fault e = (\<lambda>w. Inl e)"

definition fs_step :: "('w \<Rightarrow> 'w go) \<Rightarrow> ('w, unit) fsm" where
  "fs_step f = (\<lambda>w. bind_go (f w) (\<lambda>w'. Inr ((), w')))"

lemma fs_bind_cong [fundef_cong]:
  assumes "w = w'" and "m w' = m' w'" and "\<And>x v. m' w' = Inr (x, v) \<Longrightarrow> k x v = k' x v"
  shows "fs_bind m k w = fs_bind m' k' w'"
  using assms by (cases "m' w'") (auto simp: fs_bind_def)

lemma fs_bind_Inr: "fs_bind m k w = Inr y \<longleftrightarrow> (\<exists>x w'. m w = Inr (x, w') \<and> k x w' = Inr y)"
  by (auto simp: fs_bind_def bind_go_eq_Inr)

lemma fs_bind_eq: "m w = Inr (x, w') \<Longrightarrow> fs_bind m k w = k x w'"
  by (simp add: fs_bind_def)

lemma fs_prim_simps [simp]:
  "fs_return x w = Inr (x, w)" "fs_get f w = Inr (f w, w)" "fs_fault e w = Inl e"
  "fs_bind (fs_return x) k w = k x w" "fs_bind (fs_get f) k w = k (f w) w" "fs_bind (fs_fault e) k w = Inl e"
  by (simp_all add: fs_return_def fs_get_def fs_fault_def fs_bind_def)

section \<open>Streams of directory entries\<close>

text \<open>
  A \<^verbatim>\<open>DirStream\<close> is a \<^verbatim>\<open>dirArray\<close> of this package or an implementation of the user, here a number.
\<close>

datatype dirstream = DirArray "DirEntry list" | UserStream nat

definition NewListDirStream :: "DirEntry list \<Rightarrow> dirstream" where
  "NewListDirStream l = DirArray l"

definition array_HasNext :: "DirEntry list \<Rightarrow> bool" where
  "array_HasNext es \<longleftrightarrow> length es > 0"

definition array_Next :: "DirEntry list \<Rightarrow> (DirEntry \<times> Errno \<times> DirEntry list) go" where
  "array_Next es = bind_go (slice_get es 0) (\<lambda>e. Inr (e, 0, tl es))"

section \<open>State of the bridge\<close>

type_synonym handle = nat

record Options =
  bo_EntryTimeout :: "Duration option"
  bo_AttrTimeout :: "Duration option"
  bo_NegativeTimeout :: "Duration option"
  bo_FirstAutomaticIno :: u64

record fileEntry =
  fe_file :: "handle option"
  fe_nodeIndex :: nat
  fe_dirStream :: "dirstream option"
  fe_hasOverflow :: bool
  fe_overflow :: DirEntry

definition zero_DirEntry :: DirEntry where
  "zero_DirEntry = \<lparr>de_Mode = 0, de_Name = [], de_Ino = 0\<rparr>"

definition zero_fileEntry :: fileEntry where
  "zero_fileEntry = \<lparr>fe_file = None, fe_nodeIndex = 0, fe_dirStream = None, fe_hasOverflow = False,
     fe_overflow = zero_DirEntry\<rparr>"

record 'w rawBridge = tree +
  rb_w :: 'w
  rb_options :: Options
  rb_root :: addr
  rb_automaticIno :: u64
  rb_files :: "fileEntry list"
  rb_freeFiles :: "u32 list"

section \<open>Methods of the nodes\<close>

type_synonym ('w, 'a) bop = "('w rawBridge, 'a) fsm"

record 'w node_ops =
  o_isDir :: "addr \<Rightarrow> bool"
  o_isMutableDir :: "addr \<Rightarrow> bool"
  o_isFile :: "addr \<Rightarrow> bool"
  o_isSymlink :: "addr \<Rightarrow> bool"
  o_isXAttr :: "addr \<Rightarrow> bool"
  o_isLock :: "addr \<Rightarrow> bool"
  o_Statfs :: "Caller \<Rightarrow> addr \<Rightarrow> StatfsOut \<Rightarrow> ('w, Errno \<times> StatfsOut) bop"
  o_Access :: "Caller \<Rightarrow> addr \<Rightarrow> u32 \<Rightarrow> ('w, Errno) bop"
  o_Getattr :: "Caller \<Rightarrow> addr \<Rightarrow> AttrOut \<Rightarrow> ('w, Errno \<times> AttrOut) bop"
  o_Setattr :: "Caller \<Rightarrow> addr \<Rightarrow> SetAttrIn \<Rightarrow> AttrOut \<Rightarrow> ('w, Errno \<times> AttrOut) bop"
  o_OnAdd :: "addr \<Rightarrow> ('w, unit) bop"
  o_Getxattr :: "Caller \<Rightarrow> addr \<Rightarrow> string \<Rightarrow> u8 list \<Rightarrow> ('w, u32 \<times> Errno \<times> u8 list) bop"
  o_Setxattr :: "Caller \<Rightarrow> addr \<Rightarrow> string \<Rightarrow> u8 list \<Rightarrow> u32 \<Rightarrow> ('w, Errno) bop"
  o_Removexattr :: "Caller \<Rightarrow> addr \<Rightarrow> string \<Rightarrow> ('w, Errno) bop"
  o_Listxattr :: "Caller \<Rightarrow> addr \<Rightarrow> u8 list \<Rightarrow> ('w, u32 \<times> Errno \<times> u8 list) bop"
  o_Readlink :: "Caller \<Rightarrow> addr \<Rightarrow> ('w, u8 list \<times> Errno) bop"
  o_Open :: "Caller \<Rightarrow> addr \<Rightarrow> u32 \<Rightarrow> ('w, handle option \<times> u32 \<times> Errno) bop"
  o_Read :: "Caller \<Rightarrow> addr \<Rightarrow> handle option \<Rightarrow> u8 list \<Rightarrow> i64 \<Rightarrow> ('w, ReadResult option \<times> Errno) bop"
  o_Write :: "Caller \<Rightarrow> addr \<Rightarrow> handle option \<Rightarrow> u8 list \<Rightarrow> i64 \<Rightarrow> ('w, u32 \<times> Errno) bop"
  o_Fsync :: "Caller \<Rightarrow> addr \<Rightarrow> handle option \<Rightarrow> u32 \<Rightarrow> ('w, Errno) bop"
  o_Flush :: "Caller \<Rightarrow> addr \<Rightarrow> handle option \<Rightarrow> ('w, Errno) bop"
  o_Release :: "Caller \<Rightarrow> addr \<Rightarrow> handle option \<Rightarrow> ('w, Errno) bop"
  o_Allocate :: "Caller \<Rightarrow> addr \<Rightarrow> handle option \<Rightarrow> u64 \<Rightarrow> u64 \<Rightarrow> u32 \<Rightarrow> ('w, Errno) bop"
  o_Fgetattr :: "Caller \<Rightarrow> addr \<Rightarrow> handle option \<Rightarrow> AttrOut \<Rightarrow> ('w, Errno \<times> AttrOut) bop"
  o_Fsetattr :: "Caller \<Rightarrow> addr \<Rightarrow> handle option \<Rightarrow> SetAttrIn \<Rightarrow> AttrOut \<Rightarrow> ('w, Errno \<times> AttrOut) bop"
  o_CopyFileRange :: "Caller \<Rightarrow> addr \<Rightarrow> handle option \<Rightarrow> u64 \<Rightarrow> addr \<Rightarrow> handle option \<Rightarrow> u64 \<Rightarrow> u64 \<Rightarrow> u64 \<Rightarrow> ('w, u32 \<times> Errno) bop"
  o_Lseek :: "Caller \<Rightarrow> addr \<Rightarrow> handle option \<Rightarrow> u64 \<Rightarrow> u32 \<Rightarrow> ('w, u64 \<times> Errno) bop"
  o_Getlk :: "Caller \<Rightarrow> addr \<Rightarrow> handle option \<Rightarrow> u64 \<Rightarrow> FileLock \<Rightarrow> u32 \<Rightarrow> FileLock \<Rightarrow> ('w, Errno \<times> FileLock) bop"
  o_Setlk :: "Caller \<Rightarrow> addr \<Rightarrow> handle option \<Rightarrow> u64 \<Rightarrow> FileLock \<Rightarrow> u32 \<Rightarrow> ('w, Errno) bop"
  o_Setlkw :: "Caller \<Rightarrow> addr \<Rightarrow> handle option \<Rightarrow> u64 \<Rightarrow> FileLock \<Rightarrow> u32 \<Rightarrow> ('w, Errno) bop"
  o_Lookup :: "Caller \<Rightarrow> addr \<Rightarrow> string \<Rightarrow> EntryOut \<Rightarrow> ('w, addr \<times> Errno \<times> EntryOut) bop"
  o_Opendir :: "Caller \<Rightarrow> addr \<Rightarrow> ('w, Errno) bop"
  o_Readdir :: "Caller \<Rightarrow> addr \<Rightarrow> ('w, dirstream \<times> Errno) bop"
  o_Mkdir :: "Caller \<Rightarrow> addr \<Rightarrow> string \<Rightarrow> u32 \<Rightarrow> EntryOut \<Rightarrow> ('w, addr \<times> Errno \<times> EntryOut) bop"
  o_Mknod :: "Caller \<Rightarrow> addr \<Rightarrow> string \<Rightarrow> u32 \<Rightarrow> u32 \<Rightarrow> EntryOut \<Rightarrow> ('w, addr \<times> Errno \<times> EntryOut) bop"
  o_Link :: "Caller \<Rightarrow> addr \<Rightarrow> addr \<Rightarrow> string \<Rightarrow> EntryOut \<Rightarrow> ('w, addr \<times> Errno \<times> EntryOut) bop"
  o_Symlink :: "Caller \<Rightarrow> addr \<Rightarrow> string \<Rightarrow> string \<Rightarrow> EntryOut \<Rightarrow> ('w, addr \<times> Errno \<times> EntryOut) bop"
  o_Create :: "Caller \<Rightarrow> addr \<Rightarrow> string \<Rightarrow> u32 \<Rightarrow> u32 \<Rightarrow> ('w, addr \<times> handle option \<times> u32 \<times> Errno) bop"
  o_Unlink :: "Caller \<Rightarrow> addr \<Rightarrow> string \<Rightarrow> ('w, Errno) bop"
  o_Rmdir :: "Caller \<Rightarrow> addr \<Rightarrow> string \<Rightarrow> ('w, Errno) bop"
  o_Rename :: "Caller \<Rightarrow> addr \<Rightarrow> string \<Rightarrow> addr \<Rightarrow> string \<Rightarrow> u32 \<Rightarrow> ('w, Errno) bop"
  h_Getattr :: "Caller \<Rightarrow> handle \<Rightarrow> AttrOut \<Rightarrow> ('w, Errno \<times> AttrOut) bop"
  s_HasNext :: "nat \<Rightarrow> ('w, bool) bop"
  s_Next :: "nat \<Rightarrow> ('w, DirEntry \<times> Errno) bop"
  s_Close :: "nat \<Rightarrow> ('w, unit) bop"

fun stream_HasNext :: "'w node_ops \<Rightarrow> dirstream \<Rightarrow> ('w, bool) bop" where
  "stream_HasNext ops (DirArray es) s = Inr (array_HasNext es, s)"
| "stream_HasNext ops (UserStream n) s = s_HasNext ops n s"

fun stream_Next :: "'w node_ops \<Rightarrow> dirstream \<Rightarrow> ('w, DirEntry \<times> Errno \<times> dirstream) bop" where
  "stream_Next ops (DirArray es) s = bind_go (array_Next es) (\<lambda>(e, errno, es'). Inr ((e, errno, DirArray es'), s))"
| "stream_Next ops (UserStream n) s = bind_go (s_Next ops n s) (\<lambda>((e, errno), s'). Inr ((e, errno, UserStream n), s'))"

fun stream_Close :: "'w node_ops \<Rightarrow> dirstream \<Rightarrow> ('w, unit) bop" where
  "stream_Close ops (DirArray es) s = Inr ((), s)"
| "stream_Close ops (UserStream n) s = s_Close ops n s"

text \<open>The type assertions \<^verbatim>\<open>dirOps\<close>, \<^verbatim>\<open>fileOps\<close> and \<^verbatim>\<open>linkOps\<close>.\<close>

definition dirOps :: "'w node_ops \<Rightarrow> addr \<Rightarrow> ('w, unit) bop" where
  "dirOps ops n s = (if o_isDir ops n then Inr ((), s) else Inl TypeAssertion)"

definition fileOps :: "'w node_ops \<Rightarrow> addr \<Rightarrow> ('w, unit) bop" where
  "fileOps ops n s = (if o_isFile ops n then Inr ((), s) else Inl TypeAssertion)"

definition linkOps :: "'w node_ops \<Rightarrow> addr \<Rightarrow> ('w, unit) bop" where
  "linkOps ops n s = (if o_isSymlink ops n then Inr ((), s) else Inl TypeAssertion)"

end
