(* ===== verification/Bridge.thy ===== *)
theory Bridge
  imports NodeApi
begin

text \<open>
  \<^verbatim>\<open>nodefs/bridge.go\<close>: the file system of the wire protocol over a tree of nodes. Every method of
  \<^verbatim>\<open>rawBridge\<close> is one definition on the state of the bridge; a method runs without interference. The
  fuel argument \<^verbatim>\<open>k\<close> bounds the search for an unused inode number and the recursion of \<^verbatim>\<open>removeRef\<close>
  through the parents of a node.
\<close>

section \<open>Creating inodes\<close>

definition errnoToStatus :: "Errno \<Rightarrow> Status" where
  "errnoToStatus errno = Status_of errno"

definition perm_bits :: u32 where "perm_bits = 4095"

fun auto_ino :: "nat \<Rightarrow> ('w, u64) bop" where
  "auto_ino 0 s = Inl OutOfFuel"
| "auto_ino (Suc k) s =
     (let ino = rb_automaticIno s; s' = s\<lparr>rb_automaticIno := ino + 1\<rparr>
      in if tr_nodes s' ino = None then Inr (ino, s') else auto_ino k s')"

text \<open>\<^verbatim>\<open>InodeEmbed.init\<close>.\<close>

definition init_Inode :: "NodeAttr \<Rightarrow> bool \<Rightarrow> Inode" where
  "init_Inode attr persistent =
     \<lparr>n_nodeAttr = attr, n_openFiles = [], n_persistent = persistent, n_changeCounter = 0, n_lookupCount = 0,
      n_children = (if na_Mode attr = S_IFDIR then Some [] else None), n_parents = []\<rparr>"

text \<open>The switch on the file type, which asserts the interface the node must implement.\<close>

definition check_type :: "'w node_ops \<Rightarrow> addr \<Rightarrow> u32 \<Rightarrow> ('w, unit) bop" where
  "check_type ops a mode =
     (if mode = S_IFDIR then dirOps ops a
      else if mode = S_IFLNK then linkOps ops a
      else if mode = S_IFREG then fileOps ops a
      else if mode = S_IFIFO \<or> mode = S_IFSOCK then fs_return ()
      else fs_fault (Panic ''filetype unimplemented''))"

text \<open>
  \<^verbatim>\<open>newInode\<close> holds the mutex of the bridge until it returns, also while it calls \<^verbatim>\<open>OnAdd\<close>; the mutex is
  not part of the state, so an \<^verbatim>\<open>OnAdd\<close> that creates inodes, and would wait for itself, is not told apart.
\<close>

definition newInode :: "nat \<Rightarrow> 'w node_ops \<Rightarrow> addr \<Rightarrow> NodeAttr \<Rightarrow> bool \<Rightarrow> ('w, addr) bop" where
  "newInode k ops a sid persistent =
     (if Reserved sid then fs_fault (Panic ''using reserved ID'')
      else fs_bind (fs_get (\<lambda>s. tr_heap s a)) (\<lambda>populated.
        if populated \<noteq> None then fs_return a
        else if a = 0 then fs_fault NilDeref
        else fs_bind (if na_Ino sid = 0 then auto_ino k else fs_return (na_Ino sid)) (\<lambda>ino.
             fs_bind (fs_get (\<lambda>s. tr_nodes s ino)) (\<lambda>old.
             case old of
               Some o' \<Rightarrow> fs_return o'
             | None \<Rightarrow>
                 let m = na_Mode sid AND NOT perm_bits;
                     mode = (if m = 0 then S_IFREG else m);
                     attr = sid\<lparr>na_Ino := ino, na_Mode := mode\<rparr>
                 in fs_bind (check_type ops a mode) (\<lambda>_.
                    fs_bind (fs_step (\<lambda>s. Inr (s\<lparr>tr_nodes := (tr_nodes s)(ino \<mapsto> a),
                                               tr_heap := (tr_heap s)(a \<mapsto> init_Inode attr persistent)\<rparr>))) (\<lambda>_.
                    fs_bind (o_OnAdd ops a) (\<lambda>_. fs_return a)))))))"

section \<open>Open files\<close>

definition set_file :: "nat \<Rightarrow> (fileEntry \<Rightarrow> fileEntry) \<Rightarrow> 'w rawBridge \<Rightarrow> 'w rawBridge" where
  "set_file fh f s = s\<lparr>rb_files := (rb_files s)[fh := f (rb_files s ! fh)]\<rparr>"

text \<open>
  \<^verbatim>\<open>registerFile\<close>: a handle from the free list, or a new one. A reused entry keeps its stream and
  overflow fields.
\<close>

definition registerFile :: "addr \<Rightarrow> handle option \<Rightarrow> u32 \<Rightarrow> ('w, u32) bop" where
  "registerFile n f flags s =
     bind_go (node s n) (\<lambda>N.
       let (fh, s1) = (if rb_freeFiles s \<noteq> []
                       then (last (rb_freeFiles s), s\<lparr>rb_freeFiles := butlast (rb_freeFiles s)\<rparr>)
                       else (word_of_nat (length (rb_files s)), s\<lparr>rb_files := rb_files s @ [zero_fileEntry]\<rparr>))
       in if length (rb_files s1) \<le> unat fh then Inl IndexRange
          else let s2 = set_file (unat fh) (\<lambda>e. e\<lparr>fe_nodeIndex := length (n_openFiles N), fe_file := f\<rparr>) s1
               in Inr (fh, upd n (\<lambda>N. N\<lparr>n_openFiles := n_openFiles N @ [fh]\<rparr>) s2))"

text \<open>\<^verbatim>\<open>releaseFileEntry\<close> returns the inode and, unless the handle is 0, the entry.\<close>

definition releaseFileEntry :: "u64 \<Rightarrow> u64 \<Rightarrow> ('w, addr \<times> nat option) bop" where
  "releaseFileEntry nid fh s =
     (let n = (case tr_nodes s nid of None \<Rightarrow> 0 | Some a \<Rightarrow> a) in
      if fh = 0 then Inr ((n, None), s)
      else bind_go (node s n) (\<lambda>N.
           bind_go (slice_get (rb_files s) (unat fh)) (\<lambda>entry.
           let opens = n_openFiles N; i = fe_nodeIndex entry in
           if opens = [] then Inl IndexRange
           else if length opens - 1 = i
           then Inr ((n, Some (unat fh)), upd n (\<lambda>N. N\<lparr>n_openFiles := swap_remove i opens\<rparr>) s)
           else if length opens \<le> i then Inl IndexRange
           else let moved = unat (last opens) in
                if length (rb_files s) \<le> moved then Inl IndexRange
                else Inr ((n, Some (unat fh)),
                       upd n (\<lambda>N. N\<lparr>n_openFiles := swap_remove i opens\<rparr>) (set_file moved (\<lambda>e. e\<lparr>fe_nodeIndex := i\<rparr>) s)))))"

definition free_handle :: "u64 \<Rightarrow> ('w, unit) bop" where
  "free_handle fh = fs_step (\<lambda>s. Inr (s\<lparr>rb_freeFiles := rb_freeFiles s @ [ucast fh]\<rparr>))"

section \<open>Entering children\<close>

definition addNewChild :: "addr \<Rightarrow> string \<Rightarrow> addr \<Rightarrow> handle option \<Rightarrow> u32 \<Rightarrow> EntryOut \<Rightarrow> ('w, u32 \<times> EntryOut) bop" where
  "addNewChild parent name child file fileFlags out =
     fs_bind (fs_step (setEntry parent name child)) (\<lambda>_.
     fs_bind (fs_step (\<lambda>s. Inr (upd child (\<lambda>N. N\<lparr>n_lookupCount := n_lookupCount N + 1\<rparr>) s))) (\<lambda>_.
     fs_bind (if file \<noteq> None then registerFile child file fileFlags else fs_return 0) (\<lambda>fh.
     fs_bind (\<lambda>s. bind_go (node s child) (\<lambda>N. Inr (n_nodeAttr N, s))) (\<lambda>at.
     fs_return (fh, out\<lparr>eo_NodeId := na_Ino at, eo_Generation := na_Gen at,
                        eo_Attr := (eo_Attr out)\<lparr>a_Ino := na_Ino at\<rparr>\<rparr>)))))"

definition setEntryOutTimeout :: "Options \<Rightarrow> EntryOut \<Rightarrow> EntryOut" where
  "setEntryOutTimeout o' out =
     (let out1 = (case bo_AttrTimeout o' of
                    Some dt \<Rightarrow> if AttrTimeout out = 0 then SetAttrTimeout dt out else out | None \<Rightarrow> out)
      in case bo_EntryTimeout o' of
           Some dt \<Rightarrow> if EntryTimeout out1 = 0 then SetEntryTimeout dt out1 else out1 | None \<Rightarrow> out1)"

definition setAttrTimeout :: "Options \<Rightarrow> AttrOut \<Rightarrow> AttrOut" where
  "setAttrTimeout o' out =
     (case bo_AttrTimeout o' of Some dt \<Rightarrow> if Timeout out = 0 then SetTimeout dt out else out | None \<Rightarrow> out)"

text \<open>
  \<^verbatim>\<open>NewNodeFS\<close> reads \<^verbatim>\<open>FirstAutomaticIno\<close> before it tests the options for nil, so nil options fault.
\<close>

definition NewNodeFS :: "'w node_ops \<Rightarrow> addr \<Rightarrow> Options option \<Rightarrow> 'w \<Rightarrow> 'w rawBridge go" where
  "NewNodeFS ops root opts w =
     (case opts of
        None \<Rightarrow> Inl NilDeref
      | Some o' \<Rightarrow>
          let f = bo_FirstAutomaticIno o';
              f1 = (if f = 1 then 2 else f);
              f2 = (if f1 = 0 then push_bit 63 1 else f1);
              rootN = (init_Inode \<lparr>na_Mode = S_IFDIR, na_Ino = 1, na_Gen = 0\<rparr> False)\<lparr>n_lookupCount := 1\<rparr>;
              s = \<lparr>tr_heap = [root \<mapsto> rootN], tr_nodes = [1 \<mapsto> root], rb_w = w, rb_options = o',
                   rb_root = root, rb_automaticIno = f2, rb_files = [zero_fileEntry], rb_freeFiles = []\<rparr>
          in bind_go (o_OnAdd ops root s) (\<lambda>(_, s'). Inr s'))"

text \<open>\<^verbatim>\<open>rawBridge.inode\<close>.\<close>

definition inode :: "u64 \<Rightarrow> u64 \<Rightarrow> ('w, addr \<times> nat) bop" where
  "inode nid fh s =
     bind_go (slice_get (rb_files s) (unat fh)) (\<lambda>_.
       case tr_nodes s nid of
         None \<Rightarrow> Inl (Panic ''unknown node'')
       | Some n \<Rightarrow> Inr ((n, unat fh), s))"

definition file_of :: "nat \<Rightarrow> ('w, handle option) bop" where
  "file_of fh = fs_get (\<lambda>s. fe_file (rb_files s ! fh))"

definition nodeAttr_of :: "addr \<Rightarrow> ('w, NodeAttr) bop" where
  "nodeAttr_of n s = bind_go (node s n) (\<lambda>N. Inr (n_nodeAttr N, s))"

text \<open>Entering a child that an operation returned, with the default timeouts.\<close>

definition enter_child :: "addr \<Rightarrow> string \<Rightarrow> addr \<Rightarrow> EntryOut \<Rightarrow> ('w, EntryOut) bop" where
  "enter_child parent name child out =
     fs_bind (addNewChild parent name child None 0 out) (\<lambda>(fh, out1).
     fs_bind (fs_get rb_options) (\<lambda>opts. fs_return (setEntryOutTimeout opts out1)))"

section \<open>Names\<close>

definition rawBridge_Lookup :: "'w node_ops \<Rightarrow> InHeader \<Rightarrow> string \<Rightarrow> EntryOut \<Rightarrow> ('w, Status \<times> EntryOut) bop" where
  "rawBridge_Lookup ops header name out =
     fs_bind (inode (ih_NodeId header) 0) (\<lambda>(parent, _).
     fs_bind (dirOps ops parent) (\<lambda>_.
     fs_bind (o_Lookup ops (ih_Caller header) parent name out) (\<lambda>(child, errno, out1).
     fs_bind (fs_get rb_options) (\<lambda>opts.
     if errno \<noteq> 0
     then fs_return (errnoToStatus errno,
            case bo_NegativeTimeout opts of
              Some dt \<Rightarrow> if EntryTimeout out1 = 0 then SetEntryTimeout dt out1 else out1 | None \<Rightarrow> out1)
     else fs_bind (enter_child parent name child out1) (\<lambda>out2.
          fs_bind (nodeAttr_of child) (\<lambda>at.
          fs_return (OK, out2\<lparr>eo_Attr := (eo_Attr out2)\<lparr>a_Mode := na_Mode at OR (a_Mode (eo_Attr out2) AND perm_bits)\<rparr>\<rparr>)))))))"

definition rawBridge_Rmdir :: "nat \<Rightarrow> 'w node_ops \<Rightarrow> InHeader \<Rightarrow> string \<Rightarrow> ('w, Status) bop" where
  "rawBridge_Rmdir k ops header name =
     fs_bind (inode (ih_NodeId header) 0) (\<lambda>(parent, _).
     fs_bind (if o_isMutableDir ops parent then o_Rmdir ops (ih_Caller header) parent name else fs_return 0) (\<lambda>errno.
     fs_bind (if errno = 0
              then fs_step (\<lambda>s. bind_go (RmChild k [] s parent [name]) (\<lambda>(_, _, s'). Inr s')) else fs_return ()) (\<lambda>_.
     fs_return (errnoToStatus errno))))"

definition rawBridge_Unlink :: "nat \<Rightarrow> 'w node_ops \<Rightarrow> InHeader \<Rightarrow> string \<Rightarrow> ('w, Status) bop" where
  "rawBridge_Unlink k ops header name =
     fs_bind (inode (ih_NodeId header) 0) (\<lambda>(parent, _).
     fs_bind (if o_isMutableDir ops parent then o_Unlink ops (ih_Caller header) parent name else fs_return 0) (\<lambda>errno.
     fs_bind (if errno = 0
              then fs_step (\<lambda>s. bind_go (RmChild k [] s parent [name]) (\<lambda>(_, _, s'). Inr s')) else fs_return ()) (\<lambda>_.
     fs_return (errnoToStatus errno))))"

definition rawBridge_Mkdir :: "'w node_ops \<Rightarrow> MkdirIn \<Rightarrow> string \<Rightarrow> EntryOut \<Rightarrow> ('w, Status \<times> EntryOut) bop" where
  "rawBridge_Mkdir ops input name out =
     fs_bind (inode (ih_NodeId (mkd_InHeader input)) 0) (\<lambda>(parent, _).
     fs_bind (if o_isMutableDir ops parent
              then o_Mkdir ops (ih_Caller (mkd_InHeader input)) parent name (mkd_Mode input) out
              else fs_return (0, 0, out)) (\<lambda>(child, errno, out1).
     if errno \<noteq> 0 then fs_return (errnoToStatus errno, out1)
     else if a_Mode (eo_Attr out1) AND NOT perm_bits \<noteq> S_IFDIR then fs_fault (Panic ''Mkdir: mode must be S_IFDIR'')
     else fs_bind (enter_child parent name child out1) (\<lambda>out2. fs_return (OK, out2))))"

definition rawBridge_Mknod :: "'w node_ops \<Rightarrow> MknodIn \<Rightarrow> string \<Rightarrow> EntryOut \<Rightarrow> ('w, Status \<times> EntryOut) bop" where
  "rawBridge_Mknod ops input name out =
     fs_bind (inode (ih_NodeId (mkn_InHeader input)) 0) (\<lambda>(parent, _).
     fs_bind (if o_isMutableDir ops parent
              then o_Mknod ops (ih_Caller (mkn_InHeader input)) parent name (mkn_Mode input) (mkn_Rdev input) out
              else fs_return (0, 0, out)) (\<lambda>(child, errno, out1).
     if errno \<noteq> 0 then fs_return (errnoToStatus errno, out1)
     else fs_bind (enter_child parent name child out1) (\<lambda>out2. fs_return (OK, out2))))"

definition O_CREAT :: u32 where "O_CREAT = 64"

definition rawBridge_Create :: "'w node_ops \<Rightarrow> CreateIn \<Rightarrow> string \<Rightarrow> CreateOut \<Rightarrow> ('w, Status \<times> CreateOut) bop" where
  "rawBridge_Create ops input name out =
     (let caller = ih_Caller (cri_InHeader input) in
      fs_bind (inode (ih_NodeId (cri_InHeader input)) 0) (\<lambda>(parent, _).
      fs_bind (if o_isMutableDir ops parent
               then o_Create ops caller parent name (cri_Flags input) (cri_Mode input)
               else fs_return (0, None, 0, 0)) (\<lambda>(child, f, flags, errno).
      fs_bind (fs_get rb_options) (\<lambda>opts.
      if errno \<noteq> 0
      then fs_return (errnoToStatus errno,
             case bo_NegativeTimeout opts of
               Some dt \<Rightarrow> out\<lparr>co_EntryOut := SetEntryTimeout dt (co_EntryOut out)\<rparr> | None \<Rightarrow> out)
      else fs_bind (addNewChild parent name child f (cri_Flags input OR O_CREAT) (co_EntryOut out)) (\<lambda>(fh, e1).
           let e2 = setEntryOutTimeout opts e1 in
           case f of
             None \<Rightarrow> fs_fault NilDeref
           | Some h \<Rightarrow>
               fs_bind (h_Getattr ops caller h zero_AttrOut) (\<lambda>(_, temp).
               fs_bind (nodeAttr_of child) (\<lambda>at.
               let e3 = e2\<lparr>eo_Attr := (ao_Attr temp)\<lparr>a_Ino := na_Ino at\<rparr>, eo_AttrValid := ao_AttrValid temp,
                           eo_AttrValidNsec := ao_AttrValidNsec temp, eo_Generation := na_Gen at, eo_NodeId := na_Ino at\<rparr>;
                   e4 = setEntryOutTimeout opts e3;
                   e5 = e4\<lparr>eo_Attr := (eo_Attr e4)\<lparr>a_Mode := (a_Mode (eo_Attr e4) AND perm_bits) OR na_Mode at\<rparr>\<rparr>
               in fs_return (OK, \<lparr>co_EntryOut = e5,
                    co_OpenOut = (co_OpenOut out)\<lparr>oo_Fh := ucast fh, oo_OpenFlags := flags\<rparr>\<rparr>))))))))"

definition rawBridge_Forget :: "nat \<Rightarrow> u64 \<Rightarrow> u64 \<Rightarrow> ('w, unit) bop" where
  "rawBridge_Forget k nodeid nlookup =
     fs_bind (inode nodeid 0) (\<lambda>(n, _).
     fs_step (\<lambda>s. bind_go (removeRef k [] s n nlookup False) (\<lambda>(_, _, _, s'). Inr s')))"

definition RENAME_EXCHANGE :: u32 where "RENAME_EXCHANGE = 2"

definition rawBridge_Rename :: "nat \<Rightarrow> 'w node_ops \<Rightarrow> RenameIn \<Rightarrow> string \<Rightarrow> string \<Rightarrow> ('w, Status) bop" where
  "rawBridge_Rename k ops input oldName newName =
     fs_bind (inode (ih_NodeId (rn_InHeader input)) 0) (\<lambda>(p1, _).
     fs_bind (inode (rn_Newdir input) 0) (\<lambda>(p2, _).
     if o_isMutableDir ops p1
     then fs_bind (o_Rename ops (ih_Caller (rn_InHeader input)) p1 oldName p2 newName (rn_Flags input)) (\<lambda>errno.
          if errno = 0
          then fs_bind (if rn_Flags input AND RENAME_EXCHANGE \<noteq> 0
                        then fs_step (\<lambda>s. ExchangeChild [] s p1 oldName p2 newName)
                        else fs_step (\<lambda>s. bind_go (MvChild k [] s p1 oldName p2 newName True) (\<lambda>(_, s'). Inr s'))) (\<lambda>_.
               fs_return (errnoToStatus errno))
          else fs_return ENOTSUP)
     else fs_return ENOTSUP))"

definition rawBridge_Link :: "'w node_ops \<Rightarrow> LinkIn \<Rightarrow> string \<Rightarrow> EntryOut \<Rightarrow> ('w, Status \<times> EntryOut) bop" where
  "rawBridge_Link ops input name out =
     fs_bind (inode (ih_NodeId (ln_InHeader input)) 0) (\<lambda>(parent, _).
     fs_bind (inode (ln_Oldnodeid input) 0) (\<lambda>(target, _).
     if o_isMutableDir ops parent
     then fs_bind (o_Link ops (ih_Caller (ln_InHeader input)) parent target name out) (\<lambda>(child, errno, out1).
          if errno \<noteq> 0 then fs_return (errnoToStatus errno, out1)
          else fs_bind (enter_child parent name child out1) (\<lambda>out2. fs_return (OK, out2)))
     else fs_return (ENOTSUP, out)))"

definition rawBridge_Symlink :: "'w node_ops \<Rightarrow> InHeader \<Rightarrow> string \<Rightarrow> string \<Rightarrow> EntryOut \<Rightarrow> ('w, Status \<times> EntryOut) bop" where
  "rawBridge_Symlink ops header target name out =
     fs_bind (inode (ih_NodeId header) 0) (\<lambda>(parent, _).
     if o_isMutableDir ops parent
     then fs_bind (o_Symlink ops (ih_Caller header) parent target name out) (\<lambda>(child, status, out1).
          if status \<noteq> 0 then fs_return (errnoToStatus status, out1)
          else fs_bind (enter_child parent name child out1) (\<lambda>out2. fs_return (OK, out2)))
     else fs_return (ENOTSUP, out))"

definition rawBridge_Readlink :: "'w node_ops \<Rightarrow> InHeader \<Rightarrow> ('w, u8 list \<times> Status) bop" where
  "rawBridge_Readlink ops header =
     fs_bind (inode (ih_NodeId header) 0) (\<lambda>(n, _).
     fs_bind (linkOps ops n) (\<lambda>_.
     fs_bind (o_Readlink ops (ih_Caller header) n) (\<lambda>(result, errno).
     fs_return (if errno \<noteq> 0 then ([], errnoToStatus errno) else (result, OK)))))"


section \<open>Attributes\<close>

definition FUSE_GETATTR_FH :: u32 where "FUSE_GETATTR_FH = 1"

text \<open>Without a handle in the request, the first open file of the node answers.\<close>

definition any_file :: "addr \<Rightarrow> handle option \<Rightarrow> ('w, handle option) bop" where
  "any_file n f s = bind_go (node s n) (\<lambda>N.
     case n_openFiles N of
       [] \<Rightarrow> Inr (f, s)
     | fh # _ \<Rightarrow> bind_go (slice_get (rb_files s) (unat fh)) (\<lambda>e. Inr (fe_file e, s)))"

definition rawBridge_GetAttr :: "'w node_ops \<Rightarrow> GetAttrIn \<Rightarrow> AttrOut \<Rightarrow> ('w, Status \<times> AttrOut) bop" where
  "rawBridge_GetAttr ops input out =
     (let caller = ih_Caller (gai_InHeader input); nid = ih_NodeId (gai_InHeader input) in
      fs_bind (inode nid (gai_Fh input)) (\<lambda>(n, fEntry).
      if o_isFile ops n
      then fs_bind (file_of fEntry) (\<lambda>f0.
           fs_bind (if gai_Flags input AND FUSE_GETATTR_FH = 0 then any_file n f0 else fs_return f0) (\<lambda>f.
           fs_bind (o_Fgetattr ops caller n f out) (\<lambda>(errno, out1).
           fs_bind (fs_get rb_options) (\<lambda>opts.
           fs_bind (nodeAttr_of n) (\<lambda>at.
           let out2 = setAttrTimeout opts out1;
               a2 = ao_Attr out2
           in fs_return (errnoToStatus errno,
                out2\<lparr>ao_Attr := a2\<lparr>a_Ino := nid, a_Mode := (a_Mode a2 AND perm_bits) OR na_Mode at\<rparr>\<rparr>))))))
      else fs_bind (o_Getattr ops caller n out) (\<lambda>(errno, out1). fs_return (errnoToStatus errno, out1))))"

definition rawBridge_SetAttr :: "'w node_ops \<Rightarrow> SetAttrIn \<Rightarrow> AttrOut \<Rightarrow> ('w, Status \<times> AttrOut) bop" where
  "rawBridge_SetAttr ops input out =
     (let caller = ih_Caller (sa_InHeader input) in
      fs_bind (inode (ih_NodeId (sa_InHeader input)) (sa_Fh input)) (\<lambda>(n, fEntry).
      fs_bind (file_of fEntry) (\<lambda>f0.
      let f = (if sa_Valid input AND FATTR_FH = 0 then None else f0) in
      fs_bind (if o_isFile ops n then o_Fsetattr ops caller n f input out else o_Setattr ops caller n input out)
        (\<lambda>(errno, out1). fs_return (errnoToStatus errno, out1)))))"

definition rawBridge_Access :: "'w node_ops \<Rightarrow> AccessIn \<Rightarrow> ('w, Status) bop" where
  "rawBridge_Access ops input =
     fs_bind (inode (ih_NodeId (acc_InHeader input)) 0) (\<lambda>(n, _).
     fs_bind (o_Access ops (ih_Caller (acc_InHeader input)) n (acc_Mask input)) (\<lambda>errno. fs_return (errnoToStatus errno)))"

definition rawBridge_StatFs :: "'w node_ops \<Rightarrow> InHeader \<Rightarrow> StatfsOut \<Rightarrow> ('w, Status \<times> StatfsOut) bop" where
  "rawBridge_StatFs ops input out =
     fs_bind (inode (ih_NodeId input) 0) (\<lambda>(n, _).
     fs_bind (o_Statfs ops (ih_Caller input) n out) (\<lambda>(errno, out1). fs_return (errnoToStatus errno, out1)))"

section \<open>Extended attributes\<close>

definition rawBridge_GetXAttr :: "'w node_ops \<Rightarrow> InHeader \<Rightarrow> string \<Rightarrow> u8 list \<Rightarrow> ('w, u32 \<times> Status \<times> u8 list) bop" where
  "rawBridge_GetXAttr ops header attr data =
     fs_bind (inode (ih_NodeId header) 0) (\<lambda>(n, _).
     if o_isXAttr ops n
     then fs_bind (o_Getxattr ops (ih_Caller header) n attr data) (\<lambda>(nb, errno, d). fs_return (nb, errnoToStatus errno, d))
     else fs_return (0, ENOTSUP, data))"

definition rawBridge_ListXAttr :: "'w node_ops \<Rightarrow> InHeader \<Rightarrow> u8 list \<Rightarrow> ('w, u32 \<times> Status \<times> u8 list) bop" where
  "rawBridge_ListXAttr ops header dest =
     fs_bind (inode (ih_NodeId header) 0) (\<lambda>(n, _).
     if o_isXAttr ops n
     then fs_bind (o_Listxattr ops (ih_Caller header) n dest) (\<lambda>(sz, errno, d). fs_return (sz, errnoToStatus errno, d))
     else fs_return (0, ENOTSUP, dest))"

definition rawBridge_SetXAttr :: "'w node_ops \<Rightarrow> SetXAttrIn \<Rightarrow> string \<Rightarrow> u8 list \<Rightarrow> ('w, Status) bop" where
  "rawBridge_SetXAttr ops input attr data =
     fs_bind (inode (ih_NodeId (sxi_InHeader input)) 0) (\<lambda>(n, _).
     if o_isXAttr ops n
     then fs_bind (o_Setxattr ops (ih_Caller (sxi_InHeader input)) n attr data (sxi_Flags input))
            (\<lambda>errno. fs_return (errnoToStatus errno))
     else fs_return ENOTSUP)"

definition rawBridge_RemoveXAttr :: "'w node_ops \<Rightarrow> InHeader \<Rightarrow> string \<Rightarrow> ('w, Status) bop" where
  "rawBridge_RemoveXAttr ops header attr =
     fs_bind (inode (ih_NodeId header) 0) (\<lambda>(n, _).
     if o_isXAttr ops n
     then fs_bind (o_Removexattr ops (ih_Caller header) n attr) (\<lambda>errno. fs_return (errnoToStatus errno))
     else fs_return ENOTSUP)"

section \<open>Files\<close>

definition rawBridge_Open :: "'w node_ops \<Rightarrow> OpenIn \<Rightarrow> OpenOut \<Rightarrow> ('w, Status \<times> OpenOut) bop" where
  "rawBridge_Open ops input out =
     fs_bind (inode (ih_NodeId (opn_InHeader input)) 0) (\<lambda>(n, _).
     fs_bind (fileOps ops n) (\<lambda>_.
     fs_bind (o_Open ops (ih_Caller (opn_InHeader input)) n (opn_Flags input)) (\<lambda>(f, flags, errno).
     if errno \<noteq> 0 then fs_return (errnoToStatus errno, out)
     else fs_bind (if f \<noteq> None
                   then fs_bind (registerFile n f (opn_Flags input)) (\<lambda>fh. fs_return (out\<lparr>oo_Fh := ucast fh\<rparr>))
                   else fs_return out) (\<lambda>out1. fs_return (OK, out1\<lparr>oo_OpenFlags := flags\<rparr>)))))"

text \<open>A call of a file method with the open file that the request names.\<close>

definition on_file :: "'w node_ops \<Rightarrow> InHeader \<Rightarrow> u64 \<Rightarrow> (Caller \<Rightarrow> addr \<Rightarrow> handle option \<Rightarrow> ('w, 'a) bop) \<Rightarrow> ('w, 'a) bop" where
  "on_file ops header fh method =
     fs_bind (inode (ih_NodeId header) fh) (\<lambda>(n, e).
     fs_bind (fileOps ops n) (\<lambda>_.
     fs_bind (file_of e) (\<lambda>f. method (ih_Caller header) n f)))"

definition rawBridge_Read :: "'w node_ops \<Rightarrow> ReadIn \<Rightarrow> u8 list \<Rightarrow> ('w, ReadResult option \<times> Status) bop" where
  "rawBridge_Read ops input buf =
     fs_bind (on_file ops (rdi_InHeader input) (rdi_Fh input) (\<lambda>c n f. o_Read ops c n f buf (rdi_Offset input)))
       (\<lambda>(res, errno). fs_return (res, errnoToStatus errno))"

definition rawBridge_Write :: "'w node_ops \<Rightarrow> WriteIn \<Rightarrow> u8 list \<Rightarrow> ('w, u32 \<times> Status) bop" where
  "rawBridge_Write ops input data =
     fs_bind (on_file ops (wri_InHeader input) (wri_Fh input) (\<lambda>c n f. o_Write ops c n f data (wri_Offset input)))
       (\<lambda>(w, errno). fs_return (w, errnoToStatus errno))"

definition rawBridge_Flush :: "'w node_ops \<Rightarrow> FlushIn \<Rightarrow> ('w, Status) bop" where
  "rawBridge_Flush ops input =
     fs_bind (on_file ops (fls_InHeader input) (fls_Fh input) (o_Flush ops)) (\<lambda>errno. fs_return (errnoToStatus errno))"

definition rawBridge_Fsync :: "'w node_ops \<Rightarrow> FsyncIn \<Rightarrow> ('w, Status) bop" where
  "rawBridge_Fsync ops input =
     fs_bind (on_file ops (fsy_InHeader input) (fsy_Fh input) (\<lambda>c n f. o_Fsync ops c n f (fsy_FsyncFlags input)))
       (\<lambda>errno. fs_return (errnoToStatus errno))"

definition rawBridge_Fallocate :: "'w node_ops \<Rightarrow> FallocateIn \<Rightarrow> ('w, Status) bop" where
  "rawBridge_Fallocate ops input =
     fs_bind (on_file ops (fal_InHeader input) (fal_Fh input)
         (\<lambda>c n f. o_Allocate ops c n f (fal_Offset input) (fal_Length input) (fal_Mode input)))
       (\<lambda>errno. fs_return (errnoToStatus errno))"

definition rawBridge_Lseek :: "'w node_ops \<Rightarrow> LseekIn \<Rightarrow> LseekOut \<Rightarrow> ('w, Status \<times> LseekOut) bop" where
  "rawBridge_Lseek ops input out =
     fs_bind (on_file ops (lsi_InHeader input) (lsi_Fh input)
         (\<lambda>c n f. o_Lseek ops c n f (lsi_Offset input) (lsi_Whence input)))
       (\<lambda>(off, errno). fs_return (errnoToStatus errno, out\<lparr>lso_Offset := off\<rparr>))"

definition rawBridge_CopyFileRange :: "'w node_ops \<Rightarrow> CopyFileRangeIn \<Rightarrow> ('w, u32 \<times> Status) bop" where
  "rawBridge_CopyFileRange ops input =
     fs_bind (inode (ih_NodeId (cfr_InHeader input)) (cfr_FhIn input)) (\<lambda>(n1, e1).
     fs_bind (inode (cfr_NodeIdOut input) (cfr_FhOut input)) (\<lambda>(n2, e2).
     fs_bind (fileOps ops n1) (\<lambda>_.
     fs_bind (file_of e1) (\<lambda>f1. fs_bind (file_of e2) (\<lambda>f2.
     fs_bind (o_CopyFileRange ops (ih_Caller (cfr_InHeader input)) n1 f1 (cfr_OffIn input) n2 f2
                (cfr_OffOut input) (cfr_Len input) (cfr_Flags input)) (\<lambda>(sz, errno).
     fs_return (sz, errnoToStatus errno)))))))"

definition rawBridge_Release :: "'w node_ops \<Rightarrow> ReleaseIn \<Rightarrow> ('w, unit) bop" where
  "rawBridge_Release ops input =
     fs_bind (releaseFileEntry (ih_NodeId (rel_InHeader input)) (rel_Fh input)) (\<lambda>(n, e).
     case e of
       None \<Rightarrow> fs_return ()
     | Some i \<Rightarrow>
         fs_bind (fileOps ops n) (\<lambda>_.
         fs_bind (file_of i) (\<lambda>f.
         fs_bind (o_Release ops (ih_Caller (rel_InHeader input)) n f) (\<lambda>_. free_handle (rel_Fh input)))))"

section \<open>Locks\<close>

definition rawBridge_GetLk :: "'w node_ops \<Rightarrow> LkIn \<Rightarrow> LkOut \<Rightarrow> ('w, Status \<times> LkOut) bop" where
  "rawBridge_GetLk ops input out =
     fs_bind (inode (ih_NodeId (lki_InHeader input)) (lki_Fh input)) (\<lambda>(n, e).
     if o_isLock ops n
     then fs_bind (file_of e) (\<lambda>f.
          fs_bind (o_Getlk ops (ih_Caller (lki_InHeader input)) n f (lki_Owner input) (lki_Lk input) (lki_LkFlags input) (lko_Lk out))
            (\<lambda>(errno, lk). fs_return (errnoToStatus errno, out\<lparr>lko_Lk := lk\<rparr>)))
     else fs_return (ENOTSUP, out))"

definition rawBridge_SetLk :: "'w node_ops \<Rightarrow> LkIn \<Rightarrow> ('w, Status) bop" where
  "rawBridge_SetLk ops input =
     fs_bind (inode (ih_NodeId (lki_InHeader input)) (lki_Fh input)) (\<lambda>(n, e).
     if o_isLock ops n
     then fs_bind (file_of e) (\<lambda>f.
          fs_bind (o_Setlk ops (ih_Caller (lki_InHeader input)) n f (lki_Owner input) (lki_Lk input) (lki_LkFlags input))
            (\<lambda>errno. fs_return (errnoToStatus errno)))
     else fs_return ENOTSUP)"

definition rawBridge_SetLkw :: "'w node_ops \<Rightarrow> LkIn \<Rightarrow> ('w, Status) bop" where
  "rawBridge_SetLkw ops input =
     fs_bind (inode (ih_NodeId (lki_InHeader input)) (lki_Fh input)) (\<lambda>(n, e).
     if o_isLock ops n
     then fs_bind (file_of e) (\<lambda>f.
          fs_bind (o_Setlkw ops (ih_Caller (lki_InHeader input)) n f (lki_Owner input) (lki_Lk input) (lki_LkFlags input))
            (\<lambda>errno. fs_return (errnoToStatus errno)))
     else fs_return ENOTSUP)"

section \<open>Directories\<close>

definition rawBridge_OpenDir :: "'w node_ops \<Rightarrow> OpenIn \<Rightarrow> OpenOut \<Rightarrow> ('w, Status \<times> OpenOut) bop" where
  "rawBridge_OpenDir ops input out =
     fs_bind (inode (ih_NodeId (opn_InHeader input)) 0) (\<lambda>(n, _).
     fs_bind (dirOps ops n) (\<lambda>_.
     fs_bind (o_Opendir ops (ih_Caller (opn_InHeader input)) n) (\<lambda>errno.
     if errno \<noteq> 0 then fs_return (errnoToStatus errno, out)
     else fs_bind (registerFile n None 0) (\<lambda>fh. fs_return (OK, out\<lparr>oo_Fh := ucast fh\<rparr>)))))"

definition rawBridge_ReleaseDir :: "'w node_ops \<Rightarrow> ReleaseIn \<Rightarrow> ('w, unit) bop" where
  "rawBridge_ReleaseDir ops input =
     fs_bind (releaseFileEntry (ih_NodeId (rel_InHeader input)) (rel_Fh input)) (\<lambda>(n, e).
     case e of
       None \<Rightarrow> fs_fault NilDeref
     | Some i \<Rightarrow>
         fs_bind (fs_get (\<lambda>s. fe_dirStream (rb_files s ! i))) (\<lambda>str.
         fs_bind (case str of None \<Rightarrow> fs_return () | Some d \<Rightarrow> stream_Close ops d) (\<lambda>_. free_handle (rel_Fh input))))"

definition set_stream :: "nat \<Rightarrow> dirstream option \<Rightarrow> ('w, unit) bop" where
  "set_stream i str = fs_step (\<lambda>s. Inr (set_file i (\<lambda>e. e\<lparr>fe_dirStream := str\<rparr>) s))"

definition set_overflow :: "nat \<Rightarrow> DirEntry option \<Rightarrow> ('w, unit) bop" where
  "set_overflow i eo = fs_step (\<lambda>s. Inr (set_file i (\<lambda>f. case eo of
       None \<Rightarrow> f\<lparr>fe_hasOverflow := False\<rparr> | Some e \<Rightarrow> f\<lparr>fe_overflow := e, fe_hasOverflow := True\<rparr>) s))"

definition getStream :: "'w node_ops \<Rightarrow> ReadIn \<Rightarrow> addr \<Rightarrow> nat \<Rightarrow> ('w, Errno) bop" where
  "getStream ops input n i =
     fs_bind (fs_get (\<lambda>s. fe_dirStream (rb_files s ! i))) (\<lambda>str.
     if str = None \<or> rdi_Offset input = 0
     then fs_bind (case str of
                     None \<Rightarrow> fs_return ()
                   | Some d \<Rightarrow> fs_bind (stream_Close ops d) (\<lambda>_. set_stream i None)) (\<lambda>_.
          fs_bind (dirOps ops n) (\<lambda>_.
          fs_bind (o_Readdir ops (ih_Caller (rdi_InHeader input)) n) (\<lambda>(d, errno).
          if errno \<noteq> 0 then fs_return errno
          else fs_bind (set_overflow i None) (\<lambda>_. fs_bind (set_stream i (Some d)) (\<lambda>_. fs_return 0)))))
     else fs_return 0)"

text \<open>The stream of an open directory, which the loops below use after \<^verbatim>\<open>getStream\<close> succeeded.\<close>

definition stream_of :: "nat \<Rightarrow> ('w, dirstream) bop" where
  "stream_of i s = (case fe_dirStream (rb_files s ! i) of None \<Rightarrow> Inl NilDeref | Some d \<Rightarrow> Inr (d, s))"

definition next_entry :: "'w node_ops \<Rightarrow> nat \<Rightarrow> ('w, DirEntry \<times> Errno) bop" where
  "next_entry ops i =
     fs_bind (stream_of i) (\<lambda>d. fs_bind (stream_Next ops d) (\<lambda>(e, errno, d').
     fs_bind (set_stream i (Some d')) (\<lambda>_. fs_return (e, errno))))"

definition room :: "DirEntryList \<Rightarrow> nat" where
  "room l = length (dl_data l) - dl_len l"

lemma AddDirEntry_room:
  assumes "AddDirEntry e l = (True, l')"
  shows "room l' < room l"
proof -
  from assms have "dl_len l + dirent_size e \<le> length (dl_data l)"
    and "l' = l\<lparr>dl_data := write_at (dl_len l) (dirent_image (dl_offset l + 1) e) (dl_data l),
                dl_len := dl_len l + dirent_size e, dl_offset := dl_offset l + 1\<rparr>"
    by (auto simp: AddDirEntry_def Add_spec [of 0] split: if_splits)
  then show ?thesis by (simp add: room_def dirent_size_def direntSize_def)
qed

lemma AddDirLookupEntry_room:
  assumes "AddDirLookupEntry e l = (Some pos, l')"
  shows "room (put_entry_out pos eo l') < room l"
proof -
  from assms have fit: "dl_len l + entryOutSize + dirent_size e \<le> length (dl_data l)" and "pos = dl_len l"
    and "l' = put_entry_out (dl_len l) zero_EntryOut
          (l\<lparr>dl_data := write_at (dl_len l + entryOutSize) (dirent_image (dl_offset l + 1) e) (dl_data l),
             dl_len := dl_len l + entryOutSize + dirent_size e, dl_offset := dl_offset l + 1\<rparr>)"
    by (auto simp: AddDirLookupEntry_def Add_spec Let_def split: if_splits)
  then show ?thesis by (simp add: room_def put_entry_out_def dirent_size_def direntSize_def)
qed

text \<open>
  The loop of \<^verbatim>\<open>ReadDir\<close>. An iteration returns or uses up space of the reply, so the loop ends
  whatever the stream does.
\<close>

function ReadDir_loop :: "'w node_ops \<Rightarrow> nat \<Rightarrow> DirEntryList \<Rightarrow> ('w, Status \<times> DirEntryList) bop" where
  "ReadDir_loop ops i out =
     fs_bind (stream_of i) (\<lambda>d.
     fs_bind (stream_HasNext ops d) (\<lambda>more.
     if \<not> more then fs_return (OK, out)
     else fs_bind (next_entry ops i) (\<lambda>(e, errno).
          if errno \<noteq> 0 then fs_return (errnoToStatus errno, out)
          else case AddDirEntry e out of (ok, out') \<Rightarrow>
            if ok then ReadDir_loop ops i out'
            else fs_bind (set_overflow i (Some e)) (\<lambda>_. fs_return (errnoToStatus errno, out')))))"
  by pat_completeness auto
termination
  by (relation "measure (\<lambda>(_, _, out). room out)") (auto intro: AddDirEntry_room dest: sym)

declare ReadDir_loop.simps [simp del]

definition rawBridge_ReadDir :: "'w node_ops \<Rightarrow> ReadIn \<Rightarrow> DirEntryList \<Rightarrow> ('w, Status \<times> DirEntryList) bop" where
  "rawBridge_ReadDir ops input out =
     fs_bind (inode (ih_NodeId (rdi_InHeader input)) (rdi_Fh input)) (\<lambda>(n, i).
     fs_bind (getStream ops input n i) (\<lambda>errno.
     if errno \<noteq> 0 then fs_return (errnoToStatus errno, out)
     else fs_bind (fs_get (\<lambda>s. rb_files s ! i)) (\<lambda>f.
          if fe_hasOverflow f
          then fs_bind (set_overflow i None) (\<lambda>_. ReadDir_loop ops i (snd (AddDirEntry (fe_overflow f) out)))
          else ReadDir_loop ops i out)))"

text \<open>
  One iteration of \<^verbatim>\<open>ReadDirPlus\<close> looks the entry up and stores the answer in the space that
  \<^verbatim>\<open>AddDirLookupEntry\<close> left for it.
\<close>

definition lookup_plus :: "'w node_ops \<Rightarrow> Caller \<Rightarrow> addr \<Rightarrow> DirEntry \<Rightarrow> ('w, EntryOut) bop" where
  "lookup_plus ops caller n e =
     fs_bind (dirOps ops n) (\<lambda>_.
     fs_bind (o_Lookup ops caller n (de_Name e) zero_EntryOut) (\<lambda>(child, errno, eo).
     if errno \<noteq> 0
     then fs_bind (fs_get rb_options) (\<lambda>opts.
          fs_return (case bo_NegativeTimeout opts of Some dt \<Rightarrow> SetEntryTimeout dt eo | None \<Rightarrow> eo))
     else fs_bind (enter_child n (de_Name e) child eo) (\<lambda>eo1.
          fs_bind (nodeAttr_of child) (\<lambda>at.
          if de_Mode e AND NOT perm_bits \<noteq> na_Mode at AND NOT perm_bits
          then fs_fault (Panic ''mode mismatch between readdir and lookup'')
          else fs_return (eo1\<lparr>eo_Attr := (eo_Attr eo1)\<lparr>a_Mode := na_Mode at OR (a_Mode (eo_Attr eo1) AND perm_bits)\<rparr>\<rparr>)))))"

definition overflow_or_next :: "'w node_ops \<Rightarrow> nat \<Rightarrow> ('w, DirEntry \<times> Errno) bop" where
  "overflow_or_next ops i =
     fs_bind (fs_get (\<lambda>s. rb_files s ! i)) (\<lambda>f.
     if fe_hasOverflow f then fs_bind (set_overflow i None) (\<lambda>_. fs_return (fe_overflow f, 0))
     else next_entry ops i)"

function ReadDirPlus_loop ::
  "'w node_ops \<Rightarrow> Caller \<Rightarrow> addr \<Rightarrow> nat \<Rightarrow> DirEntryList \<Rightarrow> ('w, Status \<times> DirEntryList) bop" where
  "ReadDirPlus_loop ops caller n i out =
     fs_bind (stream_of i) (\<lambda>d.
     fs_bind (stream_HasNext ops d) (\<lambda>more.
     if \<not> more then fs_return (OK, out)
     else fs_bind (overflow_or_next ops i) (\<lambda>(e, errno).
          if errno \<noteq> 0 then fs_return (errnoToStatus errno, out)
          else case AddDirLookupEntry e out of
              (None, out') \<Rightarrow> fs_bind (set_overflow i (Some e)) (\<lambda>_. fs_return (OK, out'))
            | (Some pos, out') \<Rightarrow>
                fs_bind (lookup_plus ops caller n e) (\<lambda>eo. ReadDirPlus_loop ops caller n i (put_entry_out pos eo out')))))"
  by pat_completeness auto
termination
  by (relation "measure (\<lambda>(_, _, _, _, out). room out)") (auto intro: AddDirLookupEntry_room dest: sym)

declare ReadDirPlus_loop.simps [simp del]

definition rawBridge_ReadDirPlus :: "'w node_ops \<Rightarrow> ReadIn \<Rightarrow> DirEntryList \<Rightarrow> ('w, Status \<times> DirEntryList) bop" where
  "rawBridge_ReadDirPlus ops input out =
     fs_bind (inode (ih_NodeId (rdi_InHeader input)) (rdi_Fh input)) (\<lambda>(n, i).
     fs_bind (getStream ops input n i) (\<lambda>errno.
     if errno \<noteq> 0 then fs_return (errnoToStatus errno, out)
     else ReadDirPlus_loop ops (ih_Caller (rdi_InHeader input)) n i out))"

definition rawBridge_FsyncDir :: "'w node_ops \<Rightarrow> FsyncIn \<Rightarrow> ('w, Status) bop" where
  "rawBridge_FsyncDir ops input =
     fs_bind (inode (ih_NodeId (fsy_InHeader input)) (fsy_Fh input)) (\<lambda>(n, _).
     fs_bind (fileOps ops n) (\<lambda>_.
     fs_bind (o_Fsync ops (ih_Caller (fsy_InHeader input)) n None (fsy_FsyncFlags input)) (\<lambda>errno.
     fs_return (errnoToStatus errno))))"

section \<open>The bridge as a raw file system\<close>

text \<open>
  \<^verbatim>\<open>Init\<close> keeps the server for notifications that file systems send; nothing modelled here reads it.
\<close>

definition bridge_fs :: "nat \<Rightarrow> 'w node_ops \<Rightarrow> 'w rawBridge RawFileSystem" where
  "bridge_fs k ops =
     \<lparr>fs_Lookup = rawBridge_Lookup ops, fs_Forget = rawBridge_Forget k,
      fs_GetAttr = rawBridge_GetAttr ops, fs_SetAttr = rawBridge_SetAttr ops,
      fs_Mknod = rawBridge_Mknod ops, fs_Mkdir = rawBridge_Mkdir ops,
      fs_Unlink = rawBridge_Unlink k ops, fs_Rmdir = rawBridge_Rmdir k ops,
      fs_Rename = rawBridge_Rename k ops, fs_Link = rawBridge_Link ops,
      fs_Symlink = rawBridge_Symlink ops, fs_Readlink = rawBridge_Readlink ops,
      fs_Access = rawBridge_Access ops, fs_GetXAttr = rawBridge_GetXAttr ops,
      fs_ListXAttr = rawBridge_ListXAttr ops, fs_SetXAttr = rawBridge_SetXAttr ops,
      fs_RemoveXAttr = rawBridge_RemoveXAttr ops, fs_Create = rawBridge_Create ops,
      fs_Open = rawBridge_Open ops, fs_Read = rawBridge_Read ops, fs_Lseek = rawBridge_Lseek ops,
      fs_GetLk = rawBridge_GetLk ops, fs_SetLk = rawBridge_SetLk ops, fs_SetLkw = rawBridge_SetLkw ops,
      fs_Release = rawBridge_Release ops, fs_Write = rawBridge_Write ops,
      fs_CopyFileRange = rawBridge_CopyFileRange ops, fs_Flush = rawBridge_Flush ops,
      fs_Fsync = rawBridge_Fsync ops, fs_Fallocate = rawBridge_Fallocate ops,
      fs_OpenDir = rawBridge_OpenDir ops, fs_ReadDir = rawBridge_ReadDir ops,
      fs_ReadDirPlus = rawBridge_ReadDirPlus ops, fs_ReleaseDir = rawBridge_ReleaseDir ops,
      fs_FsyncDir = rawBridge_FsyncDir ops, fs_StatFs = rawBridge_StatFs ops, fs_Init = fs_return ()\<rparr>"

end
