(* ===== verification/BridgeFiles.thy ===== *)
theory BridgeFiles
  imports Bridge HandleTable
begin

text \<open>
  The open files of the bridge. The kernel keeps, for every file handle it was given, the node it
  opened and the file; the table of \<^verbatim>\<open>nodefs/bridge.go\<close> with its free list and the lists of open
  files of the nodes implements this map, so that the requests that open and release files and
  directories are an instance of the handle table.
\<close>

type_synonym 'w opens = "'w rawBridge \<times> (u32 \<rightharpoonup> u64 \<times> handle option)"

section \<open>The invariant\<close>

text \<open>Registered nodes exist and carry the number they are registered under.\<close>

definition ids_ok :: "'w rawBridge \<Rightarrow> bool" where
  "ids_ok s \<longleftrightarrow> (\<forall>nid a. tr_nodes s nid = Some a \<longrightarrow> (\<exists>N. tr_heap s a = Some N \<and> na_Ino (n_nodeAttr N) = nid))"

definition opens_at :: "'w rawBridge \<Rightarrow> u64 \<Rightarrow> u32 list" where
  "opens_at s nid = (case tr_nodes s nid of None \<Rightarrow> []
     | Some a \<Rightarrow> (case tr_heap s a of None \<Rightarrow> [] | Some N \<Rightarrow> n_openFiles N))"

definition handles_ok :: "'w rawBridge \<Rightarrow> (u32 \<rightharpoonup> u64 \<times> handle option) \<Rightarrow> bool" where
  "handles_ok s k \<longleftrightarrow> 0 < length (rb_files s) \<and> length (rb_files s) \<le> 2 ^ 32 \<and> distinct (rb_freeFiles s)
     \<and> (\<forall>h \<in> set (rb_freeFiles s). 0 < h \<and> unat h < length (rb_files s))
     \<and> dom k = {h. 0 < h \<and> unat h < length (rb_files s)} - set (rb_freeFiles s)"

text \<open>An open handle stands in the list of its node at the index its entry holds, and nowhere else.\<close>

definition links :: "fileEntry list \<Rightarrow> (u64 \<Rightarrow> u32 list) \<Rightarrow> (u32 \<rightharpoonup> u64 \<times> handle option) \<Rightarrow> bool" where
  "links F O' k \<longleftrightarrow>
     (\<forall>h nid f. k h = Some (nid, f) \<longrightarrow>
        unat h < length F \<and> fe_file (F ! unat h) = f \<and> fe_nodeIndex (F ! unat h) < length (O' nid)
        \<and> O' nid ! fe_nodeIndex (F ! unat h) = h)
   \<and> (\<forall>nid j. j < length (O' nid) \<longrightarrow>
        (\<exists>f. k (O' nid ! j) = Some (nid, f)) \<and> fe_nodeIndex (F ! unat (O' nid ! j)) = j)"

fun opens_inv :: "'w opens \<Rightarrow> bool" where
  "opens_inv (s, k) = (ids_ok s \<and> handles_ok s k \<and> links (rb_files s) (opens_at s) k)"

section \<open>The operations\<close>

fun opens_ready :: "'w opens \<Rightarrow> u64 \<times> handle option \<Rightarrow> bool" where
  "opens_ready (s, k) (nid, f) =
     (tr_nodes s nid \<noteq> None \<and> (rb_freeFiles s \<noteq> [] \<or> length (rb_files s) < 2 ^ 32))"

text \<open>
  A node file system that answers an open request with the file \<^term>\<open>f\<close>, grants every other request
  concerned and keeps its own state; its other methods are arbitrary.
\<close>

definition answering :: "'w node_ops \<Rightarrow> handle option \<Rightarrow> 'w node_ops" where
  "answering ops f = ops\<lparr>o_isDir := \<lambda>_. True, o_isFile := \<lambda>_. True, o_Open := \<lambda>_ _ _. fs_return (f, 0, 0),
     o_Opendir := \<lambda>_ _. fs_return 0, o_Release := \<lambda>_ _ _. fs_return 0, s_Close := \<lambda>_. fs_return ()\<rparr>"

definition open_in :: "u64 \<Rightarrow> OpenIn" where
  "open_in nid = \<lparr>opn_InHeader = zero_InHeader\<lparr>ih_NodeId := nid\<rparr>, opn_Flags = 0, opn_Mode = 0\<rparr>"

definition release_in :: "u64 \<Rightarrow> u32 \<Rightarrow> ReleaseIn" where
  "release_in nid h = \<lparr>rel_InHeader = zero_InHeader\<lparr>ih_NodeId := nid\<rparr>, rel_Fh = ucast h, rel_Flags = 0,
     rel_ReleaseFlags = 0, rel_LockOwner = 0\<rparr>"

text \<open>OPEN for a file and OPENDIR for a directory, whose entry holds no file; RELEASE and RELEASEDIR.\<close>

fun opens_alloc :: "'w node_ops \<Rightarrow> 'w opens \<Rightarrow> u64 \<times> handle option \<Rightarrow> (u32 \<times> 'w opens) go" where
  "opens_alloc ops (s, k) (nid, f) =
     bind_go ((if f \<noteq> None then rawBridge_Open else rawBridge_OpenDir) (answering ops f) (open_in nid) zero_OpenOut s)
       (\<lambda>((status, out), s'). Inr (ucast (oo_Fh out), s', k(ucast (oo_Fh out) \<mapsto> (nid, f))))"

fun opens_release :: "'w node_ops \<Rightarrow> 'w opens \<Rightarrow> u32 \<Rightarrow> 'w opens go" where
  "opens_release ops (s, k) h =
     (case k h of
        None \<Rightarrow> Inl NilDeref
      | Some (nid, f) \<Rightarrow>
          bind_go ((if f \<noteq> None then rawBridge_Release else rawBridge_ReleaseDir) (answering ops f) (release_in nid h) s)
            (\<lambda>(_, s'). Inr (s', k(h := None))))"

lemma ucast_up_down: "(ucast (ucast (h :: u32) :: u64) :: u32) = h"
  by transfer (simp add: min_def)

lemma open_requests:
  "(if f \<noteq> None then rawBridge_Open else rawBridge_OpenDir) (answering ops f) (open_in nid) zero_OpenOut s
     = bind_go (fs_bind (inode nid 0) (\<lambda>(n, _). registerFile n f 0) s)
         (\<lambda>(h, s'). Inr ((OK, zero_OpenOut\<lparr>oo_Fh := ucast h\<rparr>), s'))"
  by (cases "inode nid 0 s"; cases f)
     (auto simp: rawBridge_Open_def rawBridge_OpenDir_def answering_def open_in_def fs_bind_def fileOps_def dirOps_def
       zero_OpenOut_def bind_go_assoc registerFile_def split_def)

lemma release_requests:
  assumes "releaseFileEntry nid (ucast h) s = Inr ((n, Some i), s')"
  shows "(if f \<noteq> None then rawBridge_Release else rawBridge_ReleaseDir) (answering ops f) (release_in nid h) s
     = free_handle (ucast h) s'"
proof (cases "fe_dirStream (rb_files s' ! i)")
  case None
  then show ?thesis using assms
    by (cases f) (simp_all add: rawBridge_Release_def rawBridge_ReleaseDir_def answering_def release_in_def fs_bind_def
        fileOps_def file_of_def)
next
  case (Some d)
  then show ?thesis using assms
    by (cases f; cases d) (simp_all add: rawBridge_Release_def rawBridge_ReleaseDir_def answering_def release_in_def
        fs_bind_def fileOps_def file_of_def)
qed

section \<open>The links between entries and nodes\<close>

lemma linksD:
  assumes "links F O' k" and "k h = Some (nid, f)"
  shows "unat h < length F" and "fe_file (F ! unat h) = f" and "fe_nodeIndex (F ! unat h) < length (O' nid)"
    and "O' nid ! fe_nodeIndex (F ! unat h) = h"
  using assms unfolding links_def by blast+

lemma links_back:
  assumes "links F O' k" and "j < length (O' nid)"
  obtains f where "k (O' nid ! j) = Some (nid, f)" and "fe_nodeIndex (F ! unat (O' nid ! j)) = j"
  using assms unfolding links_def by blast

lemma links_append: "links F O' k \<Longrightarrow> links (F @ [z]) O' k"
  unfolding links_def by (fastforce simp: nth_append)

lemma links_register:
  assumes l: "links F O' k" and n: "k h = None" and h: "unat h < length F"
  shows "links (F[unat h := (F ! unat h)\<lparr>fe_nodeIndex := length (O' nid), fe_file := f\<rparr>])
           (O'(nid := O' nid @ [h])) (k(h \<mapsto> (nid, f)))"
    (is "links ?F ?O ?k")
proof -
  have F: "?F ! unat h' = (if h' = h then (F ! unat h)\<lparr>fe_nodeIndex := length (O' nid), fe_file := f\<rparr> else F ! unat h')" for h'
    using h by (auto simp: nth_list_update word_unat_eq_iff)
  have "unat h' < length ?F \<and> fe_file (?F ! unat h') = f' \<and> fe_nodeIndex (?F ! unat h') < length (?O m)
        \<and> ?O m ! fe_nodeIndex (?F ! unat h') = h'" if "?k h' = Some (m, f')" for h' m f'
    using that linksD [OF l, of h' m f'] h unfolding F by (cases "h' = h") (auto simp: nth_append)
  moreover have "(\<exists>f. ?k (?O m ! j) = Some (m, f)) \<and> fe_nodeIndex (?F ! unat (?O m ! j)) = j"
    if j: "j < length (?O m)" for m j
  proof (cases "m = nid \<and> j = length (O' nid)")
    case True
    then show ?thesis unfolding F by simp
  next
    case False
    with j have jl: "j < length (O' m)" and e: "?O m ! j = O' m ! j"
      by (auto simp: nth_append split: if_splits)
    obtain f' where f': "k (O' m ! j) = Some (m, f')" and i: "fe_nodeIndex (F ! unat (O' m ! j)) = j"
      by (rule links_back [OF l jl])
    with n have "O' m ! j \<noteq> h" by auto
    with f' i show ?thesis unfolding F e by auto
  qed
  ultimately show ?thesis unfolding links_def by blast
qed

definition renumber :: "nat \<Rightarrow> u32 list \<Rightarrow> fileEntry list \<Rightarrow> fileEntry list" where
  "renumber i xs F = (if length xs - 1 = i then F
     else F[unat (last xs) := (F ! unat (last xs))\<lparr>fe_nodeIndex := i\<rparr>])"

lemma links_release:
  assumes l: "links F O' k" and h: "k h = Some (nid, f)" and i: "i = fe_nodeIndex (F ! unat h)"
  shows "links (renumber i (O' nid) F) (O'(nid := swap_remove i (O' nid))) (k(h := None))"
    (is "links ?F ?O ?k")
proof -
  let ?xs = "O' nid" and ?y = "last (O' nid)"
  note H = linksD [OF l h, folded i]
  from H(3) have ne: "?xs \<noteq> []" by auto
  then have y: "?y = ?xs ! (length ?xs - 1)" by (simp add: last_conv_nth)
  obtain fy where ky: "k ?y = Some (nid, fy)" and iy: "fe_nodeIndex (F ! unat ?y) = length ?xs - 1"
    using links_back [OF l, of "length ?xs - 1" nid] ne unfolding y by auto
  note Y = linksD [OF l ky]
  have F: "?F ! unat h' = (if h' = ?y \<and> length ?xs - 1 \<noteq> i then (F ! unat ?y)\<lparr>fe_nodeIndex := i\<rparr> else F ! unat h')" for h'
    using Y(1) by (auto simp: renumber_def nth_list_update word_unat_eq_iff)
  have len: "length ?F = length F" by (simp add: renumber_def)
  have yh: "?y = h \<longleftrightarrow> length ?xs - 1 = i" using H(4) iy i y by auto
  have "unat h' < length ?F \<and> fe_file (?F ! unat h') = f' \<and> fe_nodeIndex (?F ! unat h') < length (?O m)
        \<and> ?O m ! fe_nodeIndex (?F ! unat h') = h'" if k': "?k h' = Some (m, f')" for h' m f'
  proof -
    from k' have ne': "h' \<noteq> h" and k0: "k h' = Some (m, f')" by (auto split: if_splits)
    note D = linksD [OF l k0]
    show ?thesis
    proof (cases "m = nid")
      case False
      then have "h' \<noteq> ?y" using k0 ky by auto
      with D False show ?thesis unfolding F len by simp
    next
      case True
      have ix: "fe_nodeIndex (F ! unat h') \<noteq> i" using D(4) H(4) ne' True by auto
      show ?thesis
      proof (cases "h' = ?y")
        case True
        with ne' yh have c: "length ?xs - 1 \<noteq> i" by auto
        with H(3) have "i < length ?xs - 1" by simp
        with D True c \<open>m = nid\<close> show ?thesis unfolding F len by (simp add: swap_remove_nth [OF H(3)])
      next
        case False
        with D(4) y \<open>m = nid\<close> have "fe_nodeIndex (F ! unat h') \<noteq> length ?xs - 1" by auto
        with D(3) \<open>m = nid\<close> have "fe_nodeIndex (F ! unat h') < length ?xs - 1" by simp
        with D False ix \<open>m = nid\<close> show ?thesis unfolding F len by (simp add: swap_remove_nth [OF H(3)])
      qed
    qed
  qed
  moreover have "(\<exists>f. ?k (?O m ! j) = Some (m, f)) \<and> fe_nodeIndex (?F ! unat (?O m ! j)) = j"
    if j: "j < length (?O m)" for m j
  proof (cases "m = nid")
    case False
    with j obtain f' where f': "k (O' m ! j) = Some (m, f')" and ix: "fe_nodeIndex (F ! unat (O' m ! j)) = j"
      using links_back [OF l, of j m] by auto
    with False h ky have "O' m ! j \<noteq> h" and "O' m ! j \<noteq> ?y" by auto
    with f' ix False show ?thesis unfolding F by simp
  next
    case True
    with j have j': "j < length ?xs - 1" by simp
    then have jx: "j < length ?xs" by simp
    obtain f' where f': "k (?xs ! j) = Some (nid, f')" and ix: "fe_nodeIndex (F ! unat (?xs ! j)) = j"
      by (rule links_back [OF l jx])
    have nth: "?O m ! j = (if j = i then ?y else ?xs ! j)"
      using True swap_remove_nth [OF H(3) j'] by simp
    show ?thesis
    proof (cases "j = i")
      case c: True
      then have "length ?xs - 1 \<noteq> i" using j' by simp
      then show ?thesis using c ky yh True unfolding nth F by simp
    next
      case c: False
      have "?xs ! j \<noteq> h" using ix i c by auto
      moreover have "?xs ! j \<noteq> ?y" using ix iy j' by auto
      ultimately show ?thesis using c f' ix True unfolding nth F by simp
    qed
  qed
  ultimately show ?thesis unfolding links_def by blast
qed

section \<open>The laws of the table\<close>

lemma ids_inj:
  assumes "ids_ok s" and "tr_nodes s i = Some a" and "tr_nodes s j = Some a"
  shows "i = j"
  using assms unfolding ids_ok_def by (metis option.inject)

lemma opens_at_upd:
  assumes "ids_ok s" and "tr_nodes s nid = Some a"
  shows "opens_at (upd a (\<lambda>N. N\<lparr>n_openFiles := g (n_openFiles N)\<rparr>) s) = (opens_at s)(nid := g (opens_at s nid))"
proof
  fix m
  obtain N where N: "tr_heap s a = Some N" using assms unfolding ids_ok_def by blast
  show "opens_at (upd a (\<lambda>N. N\<lparr>n_openFiles := g (n_openFiles N)\<rparr>) s) m = ((opens_at s)(nid := g (opens_at s nid))) m"
  proof (cases "m = nid")
    case True
    then show ?thesis using N assms(2) by (simp add: opens_at_def upd_def)
  next
    case False
    then have "tr_nodes s m \<noteq> Some a" using ids_inj [OF assms(1)] assms(2) by metis
    then show ?thesis using False by (cases "tr_nodes s m") (simp_all add: opens_at_def upd_def)
  qed
qed

lemma ids_ok_upd: "ids_ok s \<Longrightarrow> ids_ok (upd a (\<lambda>N. N\<lparr>n_openFiles := g N\<rparr>) s)"
  unfolding ids_ok_def by (fastforce simp: upd_def)

lemma table_frame [simp]:
  "opens_at (s\<lparr>rb_files := F\<rparr>) = opens_at s" "opens_at (s\<lparr>rb_freeFiles := H\<rparr>) = opens_at s"
  "ids_ok (s\<lparr>rb_files := F\<rparr>) = ids_ok s" "ids_ok (s\<lparr>rb_freeFiles := H\<rparr>) = ids_ok s"
  "rb_files (upd a g s) = rb_files s" "rb_freeFiles (upd a g s) = rb_freeFiles s"
  by (auto simp: opens_at_def ids_ok_def upd_def fun_eq_iff split: option.splits)

text \<open>The handle that \<^verbatim>\<open>registerFile\<close> chooses, and the tables with that handle taken out.\<close>

definition pick :: "'w rawBridge \<Rightarrow> u32 \<times> 'w rawBridge" where
  "pick s = (if rb_freeFiles s \<noteq> []
     then (last (rb_freeFiles s), s\<lparr>rb_freeFiles := butlast (rb_freeFiles s)\<rparr>)
     else (word_of_nat (length (rb_files s)), s\<lparr>rb_files := rb_files s @ [zero_fileEntry]\<rparr>))"

lemma pick_ok:
  assumes k: "handles_ok s k" and r: "rb_freeFiles s \<noteq> [] \<or> length (rb_files s) < 2 ^ 32" and p: "pick s = (h, s1)"
  shows "k h = None" and "unat h < length (rb_files s1)" and "handles_ok s1 (k(h \<mapsto> x))"
proof -
  have "k h = None \<and> unat h < length (rb_files s1) \<and> handles_ok s1 (k(h \<mapsto> x))"
  proof (cases "rb_freeFiles s = []")
    case False
    then obtain hs where e: "rb_freeFiles s = hs @ [h]" and s1: "s1 = s\<lparr>rb_freeFiles := hs\<rparr>"
      using p by (auto simp: pick_def intro: append_butlast_last_id [symmetric])
    have "h \<notin> dom k" using k e by (simp add: handles_ok_def)
    then have "k h = None" by blast
    then show ?thesis using k unfolding handles_ok_def s1 by (auto simp: e)
  next
    case True
    with r have lt: "length (rb_files s) < 2 ^ 32" by simp
    have h: "h = word_of_nat (length (rb_files s))" and s1: "s1 = s\<lparr>rb_files := rb_files s @ [zero_fileEntry]\<rparr>"
      using p True by (auto simp: pick_def)
    have u: "unat h = length (rb_files s)" using lt by (simp add: h unsigned_of_nat take_bit_nat_eq_self)
    have d: "dom k = {h. 0 < h \<and> unat h < length (rb_files s)}" and pos: "0 < length (rb_files s)"
      using k True by (auto simp: handles_ok_def)
    have "h \<notin> dom k" unfolding d using u by simp
    then have "k h = None" by blast
    moreover have h0: "0 < h" using u pos by (simp add: word_less_nat_alt)
    have "insert h (dom k) = {h. 0 < h \<and> unat h < Suc (length (rb_files s))}"
      unfolding d using u h0 by (auto simp: less_Suc_eq word_unat_eq_iff)
    ultimately show ?thesis using u lt pos True unfolding handles_ok_def s1 by simp
  qed
  then show "k h = None" and "unat h < length (rb_files s1)" and "handles_ok s1 (k(h \<mapsto> x))" by auto
qed

lemma registerFile_pick:
  assumes "tr_heap s a = Some N" and "pick s = (h, s1)" and "unat h < length (rb_files s1)"
  shows "registerFile a f flags s = Inr (h, upd a (\<lambda>N. N\<lparr>n_openFiles := n_openFiles N @ [h]\<rparr>)
     (set_file (unat h) (\<lambda>e. e\<lparr>fe_nodeIndex := length (n_openFiles N), fe_file := f\<rparr>) s1))"
  using assms unfolding registerFile_def pick_def by (auto simp: node_def Let_def split: if_splits)

lemma opens_alloc_law:
  assumes inv: "opens_inv (s, k)" and r: "opens_ready (s, k) (nid, f)"
  shows "\<exists>h s'. opens_alloc ops (s, k) (nid, f) = Inr (h, s', k(h \<mapsto> (nid, f))) \<and> opens_inv (s', k(h \<mapsto> (nid, f))) \<and> k h = None"
proof -
  from inv have i: "ids_ok s" and ho: "handles_ok s k" and l: "links (rb_files s) (opens_at s) k" by auto
  from r obtain a where a: "tr_nodes s nid = Some a" and room: "rb_freeFiles s \<noteq> [] \<or> length (rb_files s) < 2 ^ 32" by auto
  obtain N where N: "tr_heap s a = Some N" using i a unfolding ids_ok_def by blast
  obtain h s1 where p: "pick s = (h, s1)" by force
  note P = pick_ok [OF ho room p]
  have s1: "opens_at s1 = opens_at s" "ids_ok s1" "tr_nodes s1 = tr_nodes s" "links (rb_files s1) (opens_at s) k"
    using p i l links_append [OF l] by (auto simp: pick_def split: if_splits)
  let ?s2 = "set_file (unat h) (\<lambda>e. e\<lparr>fe_nodeIndex := length (n_openFiles N), fe_file := f\<rparr>) s1"
  let ?s' = "upd a (\<lambda>N. N\<lparr>n_openFiles := n_openFiles N @ [h]\<rparr>) ?s2"
  have ol: "n_openFiles N = opens_at s nid" using a N by (simp add: opens_at_def)
  have i2: "ids_ok ?s2" and o2: "opens_at ?s2 = opens_at s" and t2: "tr_nodes ?s2 nid = Some a"
    using s1 a by (simp_all add: set_file_def)
  have "opens_at ?s' = (opens_at s)(nid := opens_at s nid @ [h])"
    using opens_at_upd [OF i2 t2, of "\<lambda>xs. xs @ [h]"] by (simp add: o2)
  moreover have "ids_ok ?s'" using ids_ok_upd [OF i2] .
  moreover have "handles_ok ?s' (k(h \<mapsto> (nid, f)))" using P(3) by (simp add: handles_ok_def set_file_def)
  ultimately have "opens_inv (?s', k(h \<mapsto> (nid, f)))"
    using links_register [OF s1(4) P(1,2), where nid = nid and f = f] by (simp add: set_file_def ol)
  moreover have "inode nid 0 s = Inr ((a, 0), s)" using a ho by (simp add: inode_def handles_ok_def)
  ultimately show ?thesis using registerFile_pick [OF N p P(2)] P(1)
    unfolding opens_alloc.simps open_requests by (auto simp: fs_bind_def ucast_up_down)
qed

lemma opens_release_law:
  assumes inv: "opens_inv (s, k)" and kh: "k h = Some (nid, f)"
  shows "\<exists>s'. opens_release ops (s, k) h = Inr (s', k(h := None)) \<and> opens_inv (s', k(h := None))"
proof -
  from inv have i: "ids_ok s" and ho: "handles_ok s k" and l: "links (rb_files s) (opens_at s) k" by auto
  note H = linksD [OF l kh]
  from H(3) obtain a where a: "tr_nodes s nid = Some a" by (auto simp: opens_at_def split: option.splits)
  obtain N where N: "tr_heap s a = Some N" using i a unfolding ids_ok_def by blast
  have ol: "opens_at s nid = n_openFiles N" using a N by (simp add: opens_at_def)
  let ?i = "fe_nodeIndex (rb_files s ! unat h)" and ?xs = "n_openFiles N"
  have ne: "?xs \<noteq> []" using H(3) ol by auto
  have "length ?xs - 1 < length (opens_at s nid)" using ne by (simp add: ol)
  then obtain fl where "k (last ?xs) = Some (nid, fl)"
    by (rule links_back [OF l]) (use ne in \<open>simp add: ol last_conv_nth\<close>)
  then have last: "unat (last ?xs) < length (rb_files s)" using linksD(1) [OF l] by auto
  let ?s1 = "upd a (\<lambda>N. N\<lparr>n_openFiles := swap_remove ?i ?xs\<rparr>) (s\<lparr>rb_files := renumber ?i ?xs (rb_files s)\<rparr>)"
  let ?s' = "?s1\<lparr>rb_freeFiles := rb_freeFiles s @ [h]\<rparr>"
  have "h \<in> dom k" using kh by auto
  then have h0: "0 < h" and hf: "h \<notin> set (rb_freeFiles s)" using ho by (auto simp: handles_ok_def)
  have u: "unat (ucast h :: u64) = unat h" by transfer (simp add: min_def)
  have z: "(ucast h :: u64) \<noteq> 0" using h0 u by (auto simp: word_less_nat_alt)
  have rel: "releaseFileEntry nid (ucast h) s = Inr ((a, Some (unat h)), ?s1)"
    using a N H(1,3) ne last z unfolding releaseFileEntry_def ol
    by (auto simp: node_def Let_def u renumber_def set_file_def)
  have "opens_at ?s' = (opens_at s)(nid := swap_remove ?i ?xs)"
    using opens_at_upd [of "s\<lparr>rb_files := renumber ?i ?xs (rb_files s)\<rparr>" nid a "\<lambda>_. swap_remove ?i ?xs"] i a by simp
  moreover have "ids_ok ?s'" using ids_ok_upd [of "s\<lparr>rb_files := renumber ?i ?xs (rb_files s)\<rparr>" a "\<lambda>_. swap_remove ?i ?xs"] i by simp
  moreover have "handles_ok ?s' (k(h := None))"
    using ho h0 hf H(1) unfolding handles_ok_def by (auto simp: renumber_def)
  moreover have "links (renumber ?i ?xs (rb_files s)) ((opens_at s)(nid := swap_remove ?i ?xs)) (k(h := None))"
    using links_release [OF l kh refl] by (simp add: ol)
  ultimately have "opens_inv (?s', k(h := None))" by simp
  moreover have "opens_release ops (s, k) h = Inr (?s', k(h := None))"
    using kh unfolding opens_release.simps by (simp only: option.case prod.case release_requests [OF rel])
      (simp add: free_handle_def fs_step_def ucast_up_down)
  ultimately show ?thesis by blast
qed

interpretation opn: handle_table opens_inv opens_ready snd "opens_alloc ops" "opens_release ops" for ops
proof (unfold_locales, goal_cases)
  case (1 s a)
  then show ?case using opens_alloc_law [of "fst s" "snd s" "fst a" "snd a"] by (cases s; cases a) fastforce
next
  case (2 s h a)
  then show ?case using opens_release_law [of "fst s" "snd s" h "fst a" "snd a"] by (cases s; cases a) fastforce
qed

section \<open>Handles denote the files they were opened with\<close>

lemma opens_resolve:
  assumes "opens_inv (s, k)" and "k h = Some (nid, f)"
  shows "fs_bind (inode nid (ucast h)) (\<lambda>(n, i). file_of i) s = Inr (f, s)"
proof -
  from assms(1) have l: "links (rb_files s) (opens_at s) k" by simp
  note H = linksD [OF l assms(2)]
  from H(3) obtain a where "tr_nodes s nid = Some a" by (auto simp: opens_at_def split: option.splits)
  moreover have "unat (ucast h :: u64) = unat h" by transfer (simp add: min_def)
  ultimately show ?thesis using H(1,2) by (simp add: inode_def file_of_def fs_bind_def)
qed

text \<open>
  C19: The open files of the bridge implement the map from file handles to opened files that the
  kernel keeps. Take any sequence of OPEN and OPENDIR requests on registered nodes, each answered by
  the file system, while the free list is not empty or the table has fewer than \<^verbatim>\<open>2^32\<close> entries, and
  of RELEASE and RELEASEDIR requests on handles in use, each with the node it was opened on. No
  request of it faults, every handle given out was not in use, the table stays consistent with the
  lists of open files of the nodes, and the entry of an open handle holds the file it was opened with.
  (The file system keeps its own state meanwhile, and no other requests are interleaved.)
\<close>

theorem bridge_open_files_refine:
  assumes "opens_inv (s, k)" and "table_legal opens_ready snd (opens_alloc ops) (opens_release ops) es (s, k)"
  shows "\<exists>hs s' k'. table_run (opens_alloc ops) (opens_release ops) es (s, k) = Inr (hs, s', k') \<and> opens_inv (s', k')
     \<and> k' = table_replay es hs k \<and> table_fresh es hs k
     \<and> (\<forall>h nid f. k' h = Some (nid, f) \<longrightarrow> fs_bind (inode nid (ucast h)) (\<lambda>(n, i). file_of i) s' = Inr (f, s'))"
proof -
  obtain hs s' k' where "table_run (opens_alloc ops) (opens_release ops) es (s, k) = Inr (hs, s', k')" "opens_inv (s', k')"
    "k' = table_replay es hs k" "table_fresh es hs k"
    using opn.run_refines [OF assms] by auto
  then show ?thesis using opens_resolve by blast
qed

definition demo_bridge :: "unit rawBridge" where
  "demo_bridge = \<lparr>tr_heap = [1 \<mapsto> init_Inode \<lparr>na_Mode = S_IFDIR, na_Ino = 1, na_Gen = 0\<rparr> False], tr_nodes = [1 \<mapsto> 1],
     rb_w = (), rb_options = \<lparr>bo_EntryTimeout = None, bo_AttrTimeout = None, bo_NegativeTimeout = None,
     bo_FirstAutomaticIno = 2\<rparr>, rb_root = 1, rb_automaticIno = 2, rb_files = [zero_fileEntry], rb_freeFiles = []\<rparr>"

lemma demo_bridge_inv: "opens_inv (demo_bridge, Map.empty)"
proof -
  have "opens_at demo_bridge nid = []" for nid
    by (simp add: opens_at_def demo_bridge_def init_Inode_def)
  then show ?thesis
    by (simp add: links_def ids_ok_def handles_ok_def) (auto simp: demo_bridge_def init_Inode_def word_less_nat_alt)
qed

definition demo_opens :: "(u32, u64 \<times> handle option) tevent list" where
  "demo_opens = [TAlloc (1, Some 7), TAlloc (1, Some 8), TRelease 1, TAlloc (1, None)]"

theorem bridge_open_files_refine_witness:
  "\<forall>ops. table_legal opens_ready snd (opens_alloc ops) (opens_release ops) demo_opens (demo_bridge, Map.empty)
   \<and> (\<exists>hs s' k'. table_run (opens_alloc ops) (opens_release ops) demo_opens (demo_bridge, Map.empty) = Inr (hs, s', k')
        \<and> opens_inv (s', k') \<and> k' = table_replay demo_opens hs Map.empty)"
proof
  fix ops :: "unit node_ops"
  have l: "table_legal opens_ready snd (opens_alloc ops) (opens_release ops) demo_opens (demo_bridge, Map.empty)"
    by (simp add: demo_opens_def demo_bridge_def init_Inode_def fs_bind_def inode_def registerFile_def node_def
        set_file_def zero_fileEntry_def upd_def releaseFileEntry_def free_handle_def fs_step_def swap_remove_def
        rawBridge_Open_def rawBridge_OpenDir_def rawBridge_Release_def rawBridge_ReleaseDir_def answering_def open_in_def
        release_in_def fileOps_def dirOps_def zero_OpenOut_def file_of_def)
  then show "table_legal opens_ready snd (opens_alloc ops) (opens_release ops) demo_opens (demo_bridge, Map.empty)
   \<and> (\<exists>hs s' k'. table_run (opens_alloc ops) (opens_release ops) demo_opens (demo_bridge, Map.empty) = Inr (hs, s', k')
        \<and> opens_inv (s', k') \<and> k' = table_replay demo_opens hs Map.empty)"
    using bridge_open_files_refine [OF demo_bridge_inv l] by blast
qed

end
