(* ===== verification/NodeDefault.thy ===== *)
theory NodeDefault
  imports BridgeFiles
begin

text \<open>
  \<^verbatim>\<open>nodefs/default.go\<close>: the stubs that file systems embed, for nodes and for open files, and the
  permission check of \<^verbatim>\<open>internal/access.go\<close> that they use.
\<close>

section \<open>Permissions\<close>

function itoa :: "nat \<Rightarrow> string" where
  "itoa n = (if n < 10 then [char_of (48 + n)] else itoa (n div 10) @ [char_of (48 + n mod 10)])"
  by pat_completeness auto
termination by (relation "measure (\<lambda>n. n)") auto

declare itoa.simps [simp del]

text \<open>
  The user database is a parameter: the groups of a user as decimal strings, or nothing when the
  lookup of the user or of the groups fails.
\<close>

definition HasAccess :: "(string \<Rightarrow> string list option) \<Rightarrow> u32 \<Rightarrow> u32 \<Rightarrow> u32 \<Rightarrow> u32 \<Rightarrow> u32 \<Rightarrow> u32 \<Rightarrow> bool" where
  "HasAccess group_ids callerUid callerGid fileUid fileGid perm msk =
     (let m = msk AND 7 in
      if m = 0 then True
      else if callerUid = fileUid \<and> perm AND push_bit 6 m \<noteq> 0 then True
      else if callerGid = fileGid \<and> perm AND push_bit 3 m \<noteq> 0 then True
      else if perm AND m \<noteq> 0 then True
      else if perm AND push_bit 3 m = 0 then False
      else case group_ids (itoa (unat callerUid)) of
             None \<Rightarrow> False
           | Some gs \<Rightarrow> (let fileGidStr = itoa (unat fileGid) in list_ex (\<lambda>g. g = fileGidStr) gs))"

section \<open>File handles\<close>

record 'w file_handle =
  fh_Read :: "Caller \<Rightarrow> handle \<Rightarrow> u8 list \<Rightarrow> i64 \<Rightarrow> ('w, ReadResult option \<times> Errno) bop"
  fh_Write :: "Caller \<Rightarrow> handle \<Rightarrow> u8 list \<Rightarrow> i64 \<Rightarrow> ('w, u32 \<times> Errno) bop"
  fh_Getlk :: "Caller \<Rightarrow> handle \<Rightarrow> u64 \<Rightarrow> FileLock \<Rightarrow> u32 \<Rightarrow> FileLock \<Rightarrow> ('w, Errno \<times> FileLock) bop"
  fh_Setlk :: "Caller \<Rightarrow> handle \<Rightarrow> u64 \<Rightarrow> FileLock \<Rightarrow> u32 \<Rightarrow> ('w, Errno) bop"
  fh_Setlkw :: "Caller \<Rightarrow> handle \<Rightarrow> u64 \<Rightarrow> FileLock \<Rightarrow> u32 \<Rightarrow> ('w, Errno) bop"
  fh_Lseek :: "Caller \<Rightarrow> handle \<Rightarrow> u64 \<Rightarrow> u32 \<Rightarrow> ('w, u64 \<times> Errno) bop"
  fh_Flush :: "Caller \<Rightarrow> handle \<Rightarrow> ('w, Errno) bop"
  fh_Fsync :: "Caller \<Rightarrow> handle \<Rightarrow> u32 \<Rightarrow> ('w, Errno) bop"
  fh_Release :: "Caller \<Rightarrow> handle \<Rightarrow> ('w, Errno) bop"
  fh_Getattr :: "Caller \<Rightarrow> handle \<Rightarrow> AttrOut \<Rightarrow> ('w, Errno \<times> AttrOut) bop"
  fh_Setattr :: "Caller \<Rightarrow> handle \<Rightarrow> SetAttrIn \<Rightarrow> AttrOut \<Rightarrow> ('w, Errno \<times> AttrOut) bop"
  fh_Allocate :: "Caller \<Rightarrow> handle \<Rightarrow> u64 \<Rightarrow> u64 \<Rightarrow> u32 \<Rightarrow> ('w, Errno) bop"

definition FileHandleStubs :: "'w file_handle" where
  "FileHandleStubs =
     \<lparr>fh_Read = (\<lambda>ctx f dest off. fs_return (None, ENOTSUP)),
      fh_Write = (\<lambda>ctx f data off. fs_return (0, ENOTSUP)),
      fh_Getlk = (\<lambda>ctx f owner lk flags out. fs_return (ENOTSUP, out)),
      fh_Setlk = (\<lambda>ctx f owner lk flags. fs_return ENOTSUP),
      fh_Setlkw = (\<lambda>ctx f owner lk flags. fs_return ENOTSUP),
      fh_Lseek = (\<lambda>ctx f off whence. fs_return (0, ENOTSUP)),
      fh_Flush = (\<lambda>ctx f. fs_return ENOTSUP),
      fh_Fsync = (\<lambda>ctx f flags. fs_return ENOTSUP),
      fh_Release = (\<lambda>ctx f. fs_return ENOTSUP),
      fh_Getattr = (\<lambda>ctx f out. fs_return (ENOTSUP, out)),
      fh_Setattr = (\<lambda>ctx f input out. fs_return (ENOTSUP, out)),
      fh_Allocate = (\<lambda>ctx f off sz mode. fs_return ENOTSUP)\<rparr>"

section \<open>Stubs of the node operations\<close>

text \<open>
  A stub that calls \<^verbatim>\<open>n.inode().Operations()\<close> reaches the methods of the type that embeds it, the
  parameters \<^verbatim>\<open>getattr\<close> and \<^verbatim>\<open>setattr\<close> below. The requests of the bridge come with a \<^verbatim>\<open>fuse.Context\<close>, so
  \<^verbatim>\<open>FromContext\<close> finds the caller. The stubs of the extended attributes are called \<^verbatim>\<open>GetXAttr\<close> and so
  on, while the interface asks for \<^verbatim>\<open>Getxattr\<close>: they do not implement it.
\<close>

type_synonym 'w getattr = "Caller \<Rightarrow> addr \<Rightarrow> AttrOut \<Rightarrow> ('w, Errno \<times> AttrOut) bop"
type_synonym 'w setattr = "Caller \<Rightarrow> addr \<Rightarrow> SetAttrIn \<Rightarrow> AttrOut \<Rightarrow> ('w, Errno \<times> AttrOut) bop"

definition stub_Getattr :: "'w getattr" where
  "stub_Getattr ctx n out = fs_return (OK, zero_AttrOut)"

definition stub_Setattr :: "'w setattr" where
  "stub_Setattr ctx n input out = fs_return (EROFS, out)"

definition stub_Access :: "(string \<Rightarrow> string list option) \<Rightarrow> 'w getattr \<Rightarrow> Caller \<Rightarrow> addr \<Rightarrow> u32 \<Rightarrow> ('w, Errno) bop" where
  "stub_Access group_ids getattr caller n msk =
     fs_bind (getattr caller n zero_AttrOut) (\<lambda>(errno, out).
     let a = ao_Attr out in
     if errno \<noteq> 0 then fs_return errno
     else if \<not> HasAccess group_ids (Uid (c_Owner caller)) (Gid (c_Owner caller)) (Uid (a_Owner a)) (Gid (a_Owner a)) (a_Mode a) msk
     then fs_return EACCES else fs_return OK)"

definition stub_Fgetattr :: "'w file_handle \<Rightarrow> 'w getattr \<Rightarrow> Caller \<Rightarrow> addr \<Rightarrow> handle option \<Rightarrow> AttrOut \<Rightarrow> ('w, Errno \<times> AttrOut) bop" where
  "stub_Fgetattr fh getattr ctx n f out =
     fs_bind (case f of None \<Rightarrow> fs_return (0, out) | Some h \<Rightarrow> fh_Getattr fh ctx h out) (\<lambda>(_, out1). getattr ctx n out1)"

definition stub_Fsetattr ::
  "'w file_handle \<Rightarrow> 'w setattr \<Rightarrow> Caller \<Rightarrow> addr \<Rightarrow> handle option \<Rightarrow> SetAttrIn \<Rightarrow> AttrOut \<Rightarrow> ('w, Errno \<times> AttrOut) bop" where
  "stub_Fsetattr fh setattr ctx n f input out =
     (case f of Some h \<Rightarrow> fh_Setattr fh ctx h input out | None \<Rightarrow> setattr ctx n input out)"

definition stub_Lookup :: "'w getattr \<Rightarrow> Caller \<Rightarrow> addr \<Rightarrow> string \<Rightarrow> EntryOut \<Rightarrow> ('w, addr \<times> Errno \<times> EntryOut) bop" where
  "stub_Lookup getattr ctx n name out =
     fs_bind (\<lambda>s. bind_go (GetChild s n name) (\<lambda>c. Inr (c, s))) (\<lambda>co.
     case co of
       None \<Rightarrow> fs_return (0, ENOENT, out)
     | Some ch \<Rightarrow>
         fs_bind (getattr ctx ch zero_AttrOut) (\<lambda>(errno, a). fs_return (ch, errno, out\<lparr>eo_Attr := ao_Attr a\<rparr>)))"

text \<open>The entries of a listing, in the order in which the iteration visits the map of the children.\<close>

fun child_entries :: "(string \<times> addr) list \<Rightarrow> ('w, DirEntry list) bop" where
  "child_entries [] = fs_return []"
| "child_entries ((k, ch) # cs) =
     fs_bind (nodeAttr_of ch) (\<lambda>at.
     fs_bind (child_entries cs) (\<lambda>es. fs_return (\<lparr>de_Mode = na_Mode at, de_Name = k, de_Ino = na_Ino at\<rparr> # es)))"

definition stub_Readdir :: "Caller \<Rightarrow> addr \<Rightarrow> ('w, dirstream \<times> Errno) bop" where
  "stub_Readdir ctx n =
     fs_bind (\<lambda>s. bind_go (Children s n) (\<lambda>cs. Inr (cs, s))) (\<lambda>cs.
     fs_bind (child_entries cs) (\<lambda>r. fs_return (NewListDirStream r, 0)))"

definition SEEK_DATA :: u32 where "SEEK_DATA = 3"
definition SEEK_HOLE :: u32 where "SEEK_HOLE = 4"

definition stub_Lseek :: "'w file_handle \<Rightarrow> Caller \<Rightarrow> addr \<Rightarrow> handle option \<Rightarrow> u64 \<Rightarrow> u32 \<Rightarrow> ('w, u64 \<times> Errno) bop" where
  "stub_Lseek fh ctx n f off whence =
     (case f of
        Some h \<Rightarrow> fh_Lseek fh ctx h off whence
      | None \<Rightarrow> if whence = SEEK_DATA \<or> whence = SEEK_HOLE then fs_return (off, OK) else fs_return (0, ENOTSUP))"

definition OperationStubs ::
  "(string \<Rightarrow> string list option) \<Rightarrow> 'w file_handle \<Rightarrow> 'w getattr \<Rightarrow> 'w setattr \<Rightarrow> 'w node_ops" where
  "OperationStubs group_ids fh getattr setattr =
     \<lparr>o_isDir = (\<lambda>_. True), o_isMutableDir = (\<lambda>_. True), o_isFile = (\<lambda>_. True), o_isSymlink = (\<lambda>_. True),
      o_isXAttr = (\<lambda>_. False), o_isLock = (\<lambda>_. True),
      o_Statfs = (\<lambda>ctx n out. fs_return (OK, zero_StatfsOut)),
      o_Access = stub_Access group_ids getattr,
      o_Getattr = getattr,
      o_Setattr = setattr,
      o_OnAdd = (\<lambda>n. fs_return ()),
      o_Getxattr = (\<lambda>ctx n attr dest. fs_return (0, ENOATTR, dest)),
      o_Setxattr = (\<lambda>ctx n attr data flags. fs_return EROFS),
      o_Removexattr = (\<lambda>ctx n attr. fs_return ENOATTR),
      o_Listxattr = (\<lambda>ctx n dest. fs_return (0, OK, dest)),
      o_Readlink = (\<lambda>ctx n. fs_return ([], ENOTSUP)),
      o_Open = (\<lambda>ctx n flags. fs_return (None, 0, ENOTSUP)),
      o_Read = (\<lambda>ctx n f dest off. case f of Some h \<Rightarrow> fh_Read fh ctx h dest off | None \<Rightarrow> fs_return (None, ENOTSUP)),
      o_Write = (\<lambda>ctx n f data off. case f of Some h \<Rightarrow> fh_Write fh ctx h data off | None \<Rightarrow> fs_return (0, EROFS)),
      o_Fsync = (\<lambda>ctx n f flags. case f of Some h \<Rightarrow> fh_Fsync fh ctx h flags | None \<Rightarrow> fs_return ENOTSUP),
      o_Flush = (\<lambda>ctx n f. case f of Some h \<Rightarrow> fh_Flush fh ctx h | None \<Rightarrow> fs_return ENOTSUP),
      o_Release = (\<lambda>ctx n f. case f of Some h \<Rightarrow> fh_Release fh ctx h | None \<Rightarrow> fs_return OK),
      o_Allocate = (\<lambda>ctx n f off sz mode. case f of Some h \<Rightarrow> fh_Allocate fh ctx h off sz mode | None \<Rightarrow> fs_return ENOTSUP),
      o_Fgetattr = stub_Fgetattr fh getattr,
      o_Fsetattr = stub_Fsetattr fh setattr,
      o_CopyFileRange = (\<lambda>ctx n fhIn offIn out fhOut offOut len flags. fs_return (0, EROFS)),
      o_Lseek = stub_Lseek fh,
      o_Getlk = (\<lambda>ctx n f owner lk flags out.
        case f of Some h \<Rightarrow> fh_Getlk fh ctx h owner lk flags out | None \<Rightarrow> fs_return (ENOTSUP, out)),
      o_Setlk = (\<lambda>ctx n f owner lk flags. case f of Some h \<Rightarrow> fh_Setlk fh ctx h owner lk flags | None \<Rightarrow> fs_return ENOTSUP),
      o_Setlkw = (\<lambda>ctx n f owner lk flags. case f of Some h \<Rightarrow> fh_Setlkw fh ctx h owner lk flags | None \<Rightarrow> fs_return ENOTSUP),
      o_Lookup = stub_Lookup getattr,
      o_Opendir = (\<lambda>ctx n. fs_return OK),
      o_Readdir = stub_Readdir,
      o_Mkdir = (\<lambda>ctx n name mode out. fs_return (0, EROFS, out)),
      o_Mknod = (\<lambda>ctx n name mode dev out. fs_return (0, EROFS, out)),
      o_Link = (\<lambda>ctx n target name out. fs_return (0, EROFS, out)),
      o_Symlink = (\<lambda>ctx n target name out. fs_return (0, EROFS, out)),
      o_Create = (\<lambda>ctx n name flags mode. fs_return (0, None, 0, EROFS)),
      o_Unlink = (\<lambda>ctx n name. fs_return EROFS),
      o_Rmdir = (\<lambda>ctx n name. fs_return EROFS),
      o_Rename = (\<lambda>ctx n name newParent newName flags. fs_return EROFS),
      h_Getattr = fh_Getattr fh,
      s_HasNext = (\<lambda>d. fs_return False), s_Next = (\<lambda>d. fs_return (zero_DirEntry, 0)), s_Close = (\<lambda>d. fs_return ())\<rparr>"

section \<open>The permission check\<close>

lemma itoa_digit: "n < 10 \<Longrightarrow> itoa n = [char_of (48 + n)]"
  by (simp add: itoa.simps)

lemma itoa_step: "\<not> n < 10 \<Longrightarrow> itoa n = itoa (n div 10) @ [char_of (48 + n mod 10)]"
  by (subst itoa.simps) simp

lemma itoa_nonempty [simp]: "itoa n \<noteq> []" "[] \<noteq> itoa n"
  by (subst itoa.simps, simp)+

lemma digit_inj: "a < 10 \<Longrightarrow> b < 10 \<Longrightarrow> char_of (48 + a) = (char_of (48 + b) :: char) \<Longrightarrow> a = (b :: nat)"
  by (simp add: char_of_eq_iff take_bit_nat_eq_self)

lemma itoa_inj: "itoa m = itoa n \<Longrightarrow> m = n"
proof (induction m arbitrary: n rule: itoa.induct)
  case (1 m)
  show ?case
  proof (cases "m < 10"; cases "n < 10")
    assume "m < 10" "n < 10"
    then show ?thesis using 1(2) by (auto simp: itoa_digit intro: digit_inj)
  next
    assume "m < 10" "\<not> n < 10"
    then show ?thesis using 1(2) by (simp add: itoa_digit itoa_step)
  next
    assume "\<not> m < 10" "n < 10"
    then show ?thesis using 1(2) by (simp add: itoa_digit itoa_step)
  next
    assume mn: "\<not> m < 10" "\<not> n < 10"
    with 1(2) have "itoa (m div 10) = itoa (n div 10)" and "char_of (48 + m mod 10) = (char_of (48 + n mod 10) :: char)"
      by (simp_all add: itoa_step)
    then have "m div 10 = n div 10" and "m mod 10 = n mod 10"
      using 1(1) [OF mn(1)] digit_inj [of "m mod 10" "n mod 10"] by auto
    then show ?thesis by (metis div_mult_mod_eq)
  qed
qed

text \<open>The reference: the bits of the classes to which the caller belongs, without the shortcuts.\<close>

definition class_access :: "u32 \<Rightarrow> u32 \<Rightarrow> u32 list \<Rightarrow> u32 \<Rightarrow> u32 \<Rightarrow> u32 \<Rightarrow> u32 \<Rightarrow> bool" where
  "class_access uid gid groups fileUid fileGid perm m \<longleftrightarrow>
     m = 0 \<or> (uid = fileUid \<and> perm AND push_bit 6 m \<noteq> 0)
     \<or> (fileGid \<in> set (gid # groups) \<and> perm AND push_bit 3 m \<noteq> 0) \<or> perm AND m \<noteq> 0"

text \<open>
  Traditional Unix permissions: the first class the caller belongs to decides, and it has to hold
  every requested bit.
\<close>

definition unix_access :: "u32 \<Rightarrow> u32 \<Rightarrow> u32 list \<Rightarrow> u32 \<Rightarrow> u32 \<Rightarrow> u32 \<Rightarrow> u32 \<Rightarrow> bool" where
  "unix_access uid gid groups fileUid fileGid perm m \<longleftrightarrow>
     (if uid = fileUid then drop_bit 6 perm AND m = m
      else if fileGid \<in> set (gid # groups) then drop_bit 3 perm AND m = m
      else perm AND m = m)"

lemma shifted_bits:
  fixes perm m :: u32
  assumes "drop_bit k perm AND m = m" and "m \<noteq> 0" and "m AND 7 = m" and "k \<le> 6"
  shows "perm AND push_bit k m \<noteq> 0"
proof -
  obtain i where i: "bit m i" using assms(2) by (metis bit_0_eq bit_eqI bot_apply bot_bool_def)
  then have "bit (m AND 7) i" using assms(3) by simp
  then have "bit (7 :: u32) i" by (simp add: bit_and_iff)
  moreover have "(7 :: u32) = mask 3" by (simp add: mask_eq_exp_minus_1)
  ultimately have "i < 3" by (simp only: bit_mask_iff)
  have "bit (drop_bit k perm AND m) i" using i assms(1) by simp
  then have "bit perm (k + i)" by (simp add: bit_and_iff bit_drop_bit_eq)
  moreover have "bit (push_bit k m) (k + i)" using i \<open>i < 3\<close> assms(4) by (simp add: bit_push_bit_iff)
  ultimately have "bit (perm AND push_bit k m) (k + i)" by (simp add: bit_and_iff)
  then show ?thesis by auto
qed

lemma unix_access_class:
  assumes "unix_access uid gid groups fileUid fileGid perm (msk AND 7)"
  shows "class_access uid gid groups fileUid fileGid perm (msk AND 7)"
proof (cases "msk AND 7 = 0")
  case False
  have m: "(msk AND 7) AND 7 = msk AND 7" by (simp add: and.assoc)
  note S = shifted_bits [OF _ False m, of 6 perm] shifted_bits [OF _ False m, of 3 perm]
  show ?thesis using assms S False by (auto simp: unix_access_def class_access_def split: if_splits)
qed (simp add: class_access_def)

text \<open>
  C28: \<^verbatim>\<open>HasAccess\<close> is more permissive than Unix permissions. When the user database lists the groups of
  the caller, or has no answer for it, \<^verbatim>\<open>HasAccess\<close> with its early exits and its late lookup of the
  groups answers exactly whether some requested bit is set for some class the caller is in: owner,
  one of its groups, or others. So it never refuses what traditional Unix permissions grant, but it
  grants more: read and write to an owner who may only read, and read to an owner without any
  permission when others may read.
\<close>

theorem has_access_by_class:
  assumes "group_ids (itoa (unat uid)) = map_option (map (\<lambda>g. itoa (unat g))) gs"
    and "groups = (case gs of None \<Rightarrow> [] | Some l \<Rightarrow> l)"
  shows "HasAccess group_ids uid gid fileUid fileGid perm msk
      = class_access uid gid groups fileUid fileGid perm (msk AND 7)
    \<and> (unix_access uid gid groups fileUid fileGid perm (msk AND 7) \<longrightarrow> HasAccess group_ids uid gid fileUid fileGid perm msk)
    \<and> HasAccess group_ids uid gid uid fileGid (4 * 64) 6 \<and> \<not> unix_access uid gid groups uid fileGid (4 * 64) 6
    \<and> HasAccess group_ids uid gid uid fileGid 4 4 \<and> \<not> unix_access uid gid groups uid fileGid 4 4"
proof -
  have "itoa (unat a) = itoa (unat b) \<longleftrightarrow> a = b" for a b :: u32
    by (auto simp: word_unat_eq_iff dest: itoa_inj)
  then have l: "list_ex (\<lambda>g. g = itoa (unat fileGid)) (map (\<lambda>g. itoa (unat g)) l) \<longleftrightarrow> fileGid \<in> set l" for l :: "u32 list"
    by (auto simp: list_ex_iff)
  have c: "HasAccess group_ids uid gid fileUid fileGid perm msk = class_access uid gid groups fileUid fileGid perm (msk AND 7)"
    using assms l by (cases gs) (auto simp: HasAccess_def class_access_def Let_def)
  moreover have "HasAccess group_ids uid gid uid fileGid (4 * 64) 6" "HasAccess group_ids uid gid uid fileGid 4 4"
    by (simp_all add: HasAccess_def Let_def)
  moreover have "\<not> unix_access uid gid groups uid fileGid (4 * 64) 6" "\<not> unix_access uid gid groups uid fileGid 4 4"
    by (simp_all add: unix_access_def)
  ultimately show ?thesis using unix_access_class by blast
qed

theorem has_access_by_class_witness:
  "HasAccess (\<lambda>u. if u = ''1000'' then Some [''1000'', ''27''] else None) 1000 1000 0 27 (6 * 64 + 4 * 8) 4
   \<and> \<not> HasAccess (\<lambda>u. if u = ''1000'' then Some [''1000'', ''27''] else None) 1000 1000 0 27 (6 * 64 + 4 * 8) 2"
proof -
  let ?db = "\<lambda>u. if u = ''1000'' then Some [''1000'', ''27''] else None"
  have i: "itoa 1000 = ''1000''" "itoa 27 = ''27''" by code_simp+
  have "?db (itoa (unat (1000 :: u32))) = map_option (map (\<lambda>g. itoa (unat g))) (Some [1000, 27 :: u32])"
    by (simp add: i)
  note H = has_access_by_class [where group_ids = ?db and uid = 1000 and gs = "Some [1000, 27]", OF this refl, THEN conjunct1]
  have "class_access 1000 1000 [1000, 27] 0 27 (6 * 64 + 4 * 8) (4 AND 7)"
    and "\<not> class_access 1000 1000 [1000, 27] 0 27 (6 * 64 + 4 * 8) (2 AND 7)" by code_simp+
  then show ?thesis by (simp only: H option.case HOL.simp_thms)
qed

text \<open>A node file system made of the stubs alone, for examples.\<close>

definition demo_stubs :: "unit node_ops" where
  "demo_stubs = OperationStubs (\<lambda>_. None) FileHandleStubs stub_Getattr stub_Setattr"

end
