(* ===== verification/BridgeDir.thy ===== *)
theory BridgeDir
  imports NodeDefault
begin

text \<open>
  Listing a directory through the bridge. The contract of a directory stream of \<^verbatim>\<open>nodefs/api.go\<close> is a
  locale, which \<^verbatim>\<open>dirArray\<close> of \<^verbatim>\<open>nodefs/dirstream.go\<close> satisfies; over it, the pages that the kernel
  reads hold every entry of the stream exactly once and in order.
\<close>

section \<open>Reading in pages\<close>

text \<open>
  The kernel reads page after page into buffers of the given sizes. It continues at the offset
  that the last entry of the page before carries, and stops trusting the listing at an error.
\<close>

fun read_pages :: "'w node_ops \<Rightarrow> ReadIn \<Rightarrow> nat list \<Rightarrow> u64 \<Rightarrow> ('w, (Status \<times> u8 list) list) bop" where
  "read_pages ops input [] off = fs_return []"
| "read_pages ops input (sz # szs) off =
     fs_bind (rawBridge_ReadDir ops (input\<lparr>rdi_Offset := off\<rparr>) (NewDirEntryList (replicate sz 0) off)) (\<lambda>(st, out).
     fs_bind (read_pages ops input szs (dl_offset out)) (\<lambda>rs. fs_return ((st, dl_bytes out) # rs)))"

fun kernel_reads :: "(Status \<times> u8 list) list \<Rightarrow> dirent_read list option" where
  "kernel_reads [] = Some []"
| "kernel_reads ((st, bs) # ps) =
     (if st \<noteq> OK then None
      else case (parse_dirents 0 bs, kernel_reads ps) of
             (Some xs, Some ys) \<Rightarrow> Some (map snd xs @ ys)
           | _ \<Rightarrow> None)"

lemma dirents_of_append:
  "dirents_of off (xs @ ys) = dirents_of off xs @ dirents_of (off + word_of_nat (length xs)) ys"
  by (induction xs arbitrary: off) (simp_all add: ac_simps)

lemma NewDirEntryList_simps [simp]:
  "dl_data (NewDirEntryList d off) = d" "dl_offset (NewDirEntryList d off) = off" "dl_len (NewDirEntryList d off) = 0"
  by (simp_all add: NewDirEntryList_def)

lemma add_all_page:
  assumes "\<forall>e\<in>set es. dirent_size e \<le> sz \<and> length (de_Name e) < 2 ^ 32"
  obtains dn where "es = dn @ fst (add_all es (NewDirEntryList (replicate sz 0) off))"
    and "parse_dirents 0 (dl_bytes (snd (add_all es (NewDirEntryList (replicate sz 0) off)))) = Some (map (Pair []) (dirents_of off dn))"
    and "dl_offset (snd (add_all es (NewDirEntryList (replicate sz 0) off))) = off + word_of_nat (length dn)"
    and "es \<noteq> [] \<Longrightarrow> dn \<noteq> []"
proof -
  let ?l = "NewDirEntryList (replicate sz 0) off"
  let ?left = "fst (add_all es ?l)" and ?out = "snd (add_all es ?l)"
  obtain dn where dn: "es = dn @ ?left" "dl_bytes ?out = images_of off dn" "dl_offset ?out = off + word_of_nat (length dn)"
    "?left \<noteq> [] \<longrightarrow> length (dl_bytes ?out) + dirent_size (hd ?left) > sz"
    using add_all_spec [of ?l es] by auto
  have "dn \<noteq> []" if "es \<noteq> []"
  proof
    assume "dn = []"
    with dn that have "?left = es" and "dirent_size (hd es) > sz" by auto
    with assms that show False by (cases es) auto
  qed
  moreover have "\<forall>e\<in>set dn. length (de_Name e) < 2 ^ 32"
  proof
    fix e assume "e \<in> set dn"
    then have "e \<in> set es" by (subst dn(1)) simp
    with assms show "length (de_Name e) < 2 ^ 32" by blast
  qed
  ultimately show thesis using dn parse_images [of dn off] by (intro that [of dn]) simp_all
qed

section \<open>The contract of a stream\<close>

locale dir_stream =
  fixes ops :: "'w node_ops" and valid :: "dirstream \<Rightarrow> bool" and rest :: "dirstream \<Rightarrow> DirEntry list"
  assumes HasNext_law: "valid d \<Longrightarrow> stream_HasNext ops d s = Inr (rest d \<noteq> [], s)"
    and Next_law: "valid d \<Longrightarrow> rest d = e # es \<Longrightarrow>
      \<exists>d'. stream_Next ops d s = Inr ((e, 0, d'), s) \<and> valid d' \<and> rest d' = es"
    and Close_law: "valid d \<Longrightarrow> stream_Close ops d s = Inr ((), s)"
begin

text \<open>The entries that an open directory still has to deliver: the one kept back, then the stream.\<close>

definition pending :: "'w rawBridge \<Rightarrow> nat \<Rightarrow> DirEntry list" where
  "pending s i = (let f = rb_files s ! i in
     (if fe_hasOverflow f then [fe_overflow f] else []) @ (case fe_dirStream f of None \<Rightarrow> [] | Some d \<Rightarrow> rest d))"

definition streaming :: "'w rawBridge \<Rightarrow> nat \<Rightarrow> bool" where
  "streaming s i \<longleftrightarrow> i < length (rb_files s) \<and> (case fe_dirStream (rb_files s ! i) of None \<Rightarrow> False | Some d \<Rightarrow> valid d)"

lemma ReadDir_loop_spec:
  assumes "streaming s i" and "\<not> fe_hasOverflow (rb_files s ! i)" and "dl_ok out"
  shows "\<exists>s'. ReadDir_loop ops i out s = Inr ((OK, snd (add_all (pending s i) out)), s')
           \<and> pending s' i = fst (add_all (pending s i) out) \<and> streaming s' i
           \<and> tr_nodes s' = tr_nodes s"
  using assms
proof (induction "pending s i" arbitrary: s out)
  case Nil
  obtain d where d: "fe_dirStream (rb_files s ! i) = Some d" "valid d"
    using Nil.prems(1) by (auto simp: streaming_def split: option.splits)
  have "rest d = []" using Nil.hyps Nil.prems(2) d by (simp add: pending_def Let_def)
  then show ?case
    using Nil d HasNext_law [OF d(2)]
    by (subst ReadDir_loop.simps) (simp add: fs_bind_def stream_of_def fs_return_def flip: Nil.hyps)
next
  case (Cons e es)
  obtain d where d: "fe_dirStream (rb_files s ! i) = Some d" "valid d" and i: "i < length (rb_files s)"
    using Cons.prems(1) by (auto simp: streaming_def split: option.splits)
  have r: "rest d = e # es" using Cons.hyps(2) Cons.prems(2) d by (simp add: pending_def Let_def)
  obtain d' where n: "stream_Next ops d s = Inr ((e, 0, d'), s)" and d': "valid d'" "rest d' = es"
    using Next_law [OF d(2) r] by blast
  let ?s1 = "set_file i (\<lambda>e. e\<lparr>fe_dirStream := Some d'\<rparr>) s"
  have p1: "pending ?s1 i = es" and st1: "streaming ?s1 i" and ov1: "\<not> fe_hasOverflow (rb_files ?s1 ! i)"
    using i d' Cons.prems(2) by (simp_all add: pending_def streaming_def set_file_def)
  obtain ok out' where a: "AddDirEntry e out = (ok, out')" by force
  have step: "ReadDir_loop ops i out s =
     (if ok then ReadDir_loop ops i out' else fs_bind (set_overflow i (Some e)) (\<lambda>_. fs_return (OK, out'))) ?s1"
    using d n HasNext_law [OF d(2)] r a
    by (subst ReadDir_loop.simps)
       (simp add: fs_bind_def stream_of_def next_entry_def set_stream_def fs_step_def fs_return_def errnoToStatus_def Status_of_def OK_def)
  show ?case
  proof (cases ok)
    case True
    have "dl_ok out'" using AddDirEntry_spec(5) [OF Cons.prems(3), of e] a by simp
    from Cons.hyps(1) [OF p1 [symmetric] st1 ov1 this] show ?thesis
      using step True a p1 by (simp add: set_file_def flip: Cons.hyps(2))
  next
    case False
    let ?s2 = "set_file i (\<lambda>f. f\<lparr>fe_overflow := e, fe_hasOverflow := True\<rparr>) ?s1"
    have "pending ?s2 i = e # es" and "streaming ?s2 i"
      using i d' by (simp_all add: pending_def streaming_def set_file_def)
    then show ?thesis
      using step False a by (simp add: set_file_def set_overflow_def fs_step_def fs_bind_def fs_return_def flip: Cons.hyps(2))
  qed
qed

text \<open>One page, continued or from the start.\<close>

definition in_listing :: "'w rawBridge \<Rightarrow> ReadIn \<Rightarrow> addr \<Rightarrow> bool" where
  "in_listing s input n \<longleftrightarrow> tr_nodes s (ih_NodeId (rdi_InHeader input)) = Some n
     \<and> streaming s (unat (rdi_Fh input))"

lemma pending_split:
  assumes "streaming s i" and "fe_hasOverflow (rb_files s ! i)"
  shows "pending s i = fe_overflow (rb_files s ! i) # pending (set_file i (\<lambda>f. f\<lparr>fe_hasOverflow := False\<rparr>) s) i"
    and "streaming (set_file i (\<lambda>f. f\<lparr>fe_hasOverflow := False\<rparr>) s) i"
  using assms by (simp_all add: pending_def streaming_def set_file_def Let_def)

lemma page_after_stream:
  assumes l: "in_listing s input n" and g: "getStream ops input n (unat (rdi_Fh input)) s0 = Inr (0, s)"
    and r: "inode (ih_NodeId (rdi_InHeader input)) (rdi_Fh input) s0 = Inr ((n, unat (rdi_Fh input)), s0)"
    and fit: "\<forall>e\<in>set (pending s (unat (rdi_Fh input))). dirent_size e \<le> sz"
  shows "\<exists>s'. rawBridge_ReadDir ops input (NewDirEntryList (replicate sz 0) off) s0
       = Inr ((OK, snd (add_all (pending s (unat (rdi_Fh input))) (NewDirEntryList (replicate sz 0) off))), s')
     \<and> pending s' (unat (rdi_Fh input)) = fst (add_all (pending s (unat (rdi_Fh input))) (NewDirEntryList (replicate sz 0) off))
     \<and> in_listing s' input n"
proof -
  let ?i = "unat (rdi_Fh input)" and ?l = "NewDirEntryList (replicate sz 0) off :: DirEntryList"
  have st: "streaming s ?i" using l by (simp add: in_listing_def)
  show ?thesis
  proof (cases "fe_hasOverflow (rb_files s ! ?i)")
    case False
    from ReadDir_loop_spec [OF st False dl_ok_new] show ?thesis
      using g r l False by (fastforce simp: rawBridge_ReadDir_def fs_bind_def in_listing_def fs_get_def)
  next
    case True
    let ?e = "fe_overflow (rb_files s ! ?i)" and ?s1 = "set_file ?i (\<lambda>f. f\<lparr>fe_hasOverflow := False\<rparr>) s"
    note p = pending_split [OF st True]
    have i: "?i < length (rb_files s)" using st by (simp add: streaming_def)
    then have ov: "\<not> fe_hasOverflow (rb_files ?s1 ! ?i)" by (simp add: set_file_def)
    have ok: "fst (AddDirEntry ?e ?l)"
      using AddDirEntry_spec(1) [of ?l ?e] fit p(1) by (simp add: NewDirEntryList_def dl_bytes_def dl_ok_def)
    have dl: "dl_ok (snd (AddDirEntry ?e ?l))" using AddDirEntry_spec(5) [of ?l ?e] by simp
    have all: "add_all (pending s ?i) ?l = add_all (pending ?s1 ?i) (snd (AddDirEntry ?e ?l))"
      unfolding p(1) using ok by (simp add: case_prod_beta)
    have "rawBridge_ReadDir ops input ?l s0 = ReadDir_loop ops ?i (snd (AddDirEntry ?e ?l)) ?s1"
      using g r True by (simp add: rawBridge_ReadDir_def fs_bind_def fs_get_def set_overflow_def fs_step_def)
    moreover have "tr_nodes ?s1 = tr_nodes s" by (simp add: set_file_def)
    ultimately show ?thesis
      using ReadDir_loop_spec [OF p(2) ov dl] l unfolding all by (auto simp: in_listing_def)
  qed
qed

lemma read_pages_continue:
  assumes "in_listing s input n" and "0 < m" and "m + length (pending s (unat (rdi_Fh input))) < 2 ^ 64"
    and "\<forall>e\<in>set (pending s (unat (rdi_Fh input))). length (de_Name e) < 2 ^ 32 \<and> (\<forall>sz\<in>set szs. dirent_size e \<le> sz)"
  shows "\<exists>rs s' dn left. read_pages ops input szs (word_of_nat m) s = Inr (rs, s')
     \<and> pending s (unat (rdi_Fh input)) = dn @ left \<and> kernel_reads rs = Some (dirents_of (word_of_nat m) dn)
     \<and> length left \<le> length (pending s (unat (rdi_Fh input))) - length szs"
  using assms
proof (induction szs arbitrary: s m)
  case Nil
  then show ?case by (auto intro: exI [of _ "[]"])
next
  case (Cons sz szs)
  let ?i = "unat (rdi_Fh input)" and ?off = "word_of_nat m :: u64"
  let ?in = "input\<lparr>rdi_Offset := ?off\<rparr>" and ?l = "NewDirEntryList (replicate sz 0) ?off"
  have off: "?off \<noteq> 0" using Cons.prems(2,3) by (simp add: word_of_nat_eq_0_iff nat_dvd_not_less)
  have st: "streaming s ?i" and nid: "tr_nodes s (ih_NodeId (rdi_InHeader input)) = Some n"
    using Cons.prems(1) by (simp_all add: in_listing_def)
  have g: "getStream ops ?in n (unat (rdi_Fh ?in)) s = Inr (0, s)"
    using st off by (auto simp: getStream_def streaming_def split: option.splits)
  have r: "inode (ih_NodeId (rdi_InHeader ?in)) (rdi_Fh ?in) s = Inr ((n, unat (rdi_Fh ?in)), s)"
    using st nid by (simp add: inode_def streaming_def)
  obtain dn where dn: "pending s ?i = dn @ fst (add_all (pending s ?i) ?l)"
    "parse_dirents 0 (dl_bytes (snd (add_all (pending s ?i) ?l))) = Some (map (Pair []) (dirents_of ?off dn))"
    "dl_offset (snd (add_all (pending s ?i) ?l)) = ?off + word_of_nat (length dn)"
    "pending s ?i \<noteq> [] \<Longrightarrow> dn \<noteq> []"
    using add_all_page [of "pending s ?i" sz ?off] Cons.prems(4) by auto
  obtain s1 where s1: "rawBridge_ReadDir ops ?in ?l s = Inr ((OK, snd (add_all (pending s ?i) ?l)), s1)"
    "pending s1 ?i = fst (add_all (pending s ?i) ?l)" "in_listing s1 input n"
    using page_after_stream [OF _ g r, of sz ?off] Cons.prems(1,4) by (auto simp: in_listing_def)
  have len: "length (pending s ?i) = length dn + length (pending s1 ?i)"
    using arg_cong [OF dn(1), of length] by (simp add: s1(2))
  have sub: "set (pending s1 ?i) \<subseteq> set (pending s ?i)" using arg_cong [OF dn(1), of set] by (simp add: s1(2))
  have nx: "dl_offset (snd (add_all (pending s ?i) ?l)) = word_of_nat (m + length dn)" by (simp add: dn(3))
  have b: "0 < m + length dn" "m + length dn + length (pending s1 ?i) < 2 ^ 64" using Cons.prems(2,3) len by auto
  have f: "\<forall>e\<in>set (pending s1 ?i). length (de_Name e) < 2 ^ 32 \<and> (\<forall>sz\<in>set szs. dirent_size e \<le> sz)"
    using Cons.prems(4) sub by auto
  obtain rs s' dn' left where rest: "read_pages ops input szs (word_of_nat (m + length dn)) s1 = Inr (rs, s')"
    "pending s1 ?i = dn' @ left" "kernel_reads rs = Some (dirents_of (word_of_nat (m + length dn)) dn')"
    "length left \<le> length (pending s1 ?i) - length szs"
    using Cons.IH [OF s1(3) b f] by blast
  have "read_pages ops input (sz # szs) ?off s = Inr ((OK, dl_bytes (snd (add_all (pending s ?i) ?l))) # rs, s')"
    using s1(1) rest(1) nx by (simp add: fs_bind_def)
  moreover have "kernel_reads ((OK, dl_bytes (snd (add_all (pending s ?i) ?l))) # rs) = Some (dirents_of ?off (dn @ dn'))"
    using dn(2) rest(3) by (simp add: dirents_of_append comp_def)
  moreover have "pending s ?i = (dn @ dn') @ left" using dn(1) s1(2) rest(2) by simp
  moreover have "length left \<le> length (pending s ?i) - length (sz # szs)"
    using rest(4) len dn(4) by (cases "pending s ?i = []"; cases dn) auto
  ultimately show ?case by blast
qed

text \<open>The first page opens the stream anew, whatever a former use of the handle left there.\<close>

lemma getStream_first:
  assumes i: "i < length (rb_files s)" and old: "\<forall>d. fe_dirStream (rb_files s ! i) = Some d \<longrightarrow> valid d"
    and dir: "o_isDir ops n" and rd: "\<And>t. tr_heap t = tr_heap s \<Longrightarrow> tr_nodes t = tr_nodes s \<Longrightarrow>
      o_Readdir ops (ih_Caller (rdi_InHeader input)) n t = Inr ((d, 0), t)"
    and d: "valid d" and off: "rdi_Offset input = 0"
  shows "\<exists>s'. getStream ops input n i s = Inr (0, s') \<and> streaming s' i \<and> pending s' i = rest d \<and> tr_nodes s' = tr_nodes s"
proof -
  note D = getStream_def fs_bind_def fs_get_def set_stream_def set_overflow_def fs_step_def dirOps_def set_file_def
    streaming_def pending_def Let_def
  show ?thesis
  proof (cases "fe_dirStream (rb_files s ! i)")
    case None
    then show ?thesis using assms by (simp add: D)
  next
    case (Some d')
    with old have "valid d'" by simp
    from Close_law [OF this] show ?thesis using Some assms by (simp add: D)
  qed
qed

lemma read_pages_complete:
  assumes nid: "tr_nodes s (ih_NodeId (rdi_InHeader input)) = Some n"
    and i: "unat (rdi_Fh input) < length (rb_files s)"
    and old: "\<forall>d. fe_dirStream (rb_files s ! unat (rdi_Fh input)) = Some d \<longrightarrow> valid d"
    and dir: "o_isDir ops n" and rd: "\<And>t. tr_heap t = tr_heap s \<Longrightarrow> tr_nodes t = tr_nodes s \<Longrightarrow>
      o_Readdir ops (ih_Caller (rdi_InHeader input)) n t = Inr ((d, 0), t)"
    and d: "valid d" "rest d \<noteq> []" "length (rest d) < 2 ^ 64"
    and fit: "\<forall>e\<in>set (rest d). length (de_Name e) < 2 ^ 32 \<and> (\<forall>sz\<in>set szs. dirent_size e \<le> sz)"
  shows "\<exists>rs s' dn left. read_pages ops input szs 0 s = Inr (rs, s') \<and> rest d = dn @ left
     \<and> kernel_reads rs = Some (dirents_of 0 dn) \<and> length left \<le> length (rest d) - length szs"
proof (cases szs)
  case Nil
  then show ?thesis by (auto intro: exI [of _ "[]"])
next
  case (Cons sz szs')
  let ?i = "unat (rdi_Fh input)" and ?in = "input\<lparr>rdi_Offset := 0\<rparr>" and ?l = "NewDirEntryList (replicate sz 0) 0"
  obtain s0 where s0: "getStream ops ?in n ?i s = Inr (0, s0)" "streaming s0 ?i" "pending s0 ?i = rest d" "tr_nodes s0 = tr_nodes s"
    using getStream_first [OF i old dir _ d(1), of ?in] rd by auto
  have r: "inode (ih_NodeId (rdi_InHeader ?in)) (rdi_Fh ?in) s = Inr ((n, unat (rdi_Fh ?in)), s)"
    using nid i by (simp add: inode_def)
  have sz: "\<forall>e\<in>set (rest d). dirent_size e \<le> sz \<and> length (de_Name e) < 2 ^ 32" using fit Cons by simp
  then obtain dn where dn: "rest d = dn @ fst (add_all (rest d) ?l)"
    "parse_dirents 0 (dl_bytes (snd (add_all (rest d) ?l))) = Some (map (Pair []) (dirents_of 0 dn))"
    "dl_offset (snd (add_all (rest d) ?l)) = 0 + word_of_nat (length dn)" "rest d \<noteq> [] \<Longrightarrow> dn \<noteq> []"
    using add_all_page [of "rest d" sz 0] by blast
  obtain s1 where s1: "rawBridge_ReadDir ops ?in ?l s = Inr ((OK, snd (add_all (rest d) ?l)), s1)"
    "pending s1 ?i = fst (add_all (rest d) ?l)" "in_listing s1 input n"
    using page_after_stream [OF _ _ r, of s0 sz 0] s0 sz nid by (auto simp: in_listing_def)
  have len: "length (rest d) = length dn + length (pending s1 ?i)" and sub: "set (pending s1 ?i) \<subseteq> set (rest d)"
    using arg_cong [OF dn(1), of length] arg_cong [OF dn(1), of set] by (simp_all add: s1(2))
  have b: "0 < length dn" "length dn + length (pending s1 ?i) < 2 ^ 64" using dn(4) d len by auto
  have f: "\<forall>e\<in>set (pending s1 ?i). length (de_Name e) < 2 ^ 32 \<and> (\<forall>sz\<in>set szs'. dirent_size e \<le> sz)"
    using fit sub Cons by auto
  obtain rs s' dn' left where more: "read_pages ops input szs' (word_of_nat (length dn)) s1 = Inr (rs, s')"
    "pending s1 ?i = dn' @ left" "kernel_reads rs = Some (dirents_of (word_of_nat (length dn)) dn')"
    "length left \<le> length (pending s1 ?i) - length szs'"
    using read_pages_continue [OF s1(3) b f] by blast
  have "read_pages ops input szs 0 s = Inr ((OK, dl_bytes (snd (add_all (rest d) ?l))) # rs, s')"
    using s1(1) more(1) dn(3) unfolding Cons by (simp add: fs_bind_def)
  moreover have "kernel_reads ((OK, dl_bytes (snd (add_all (rest d) ?l))) # rs) = Some (dirents_of 0 (dn @ dn'))"
    using dn(2) more(3) by (simp add: dirents_of_append comp_def)
  moreover have "rest d = (dn @ dn') @ left" using dn(1) s1(2) more(2) by simp
  moreover have "length left \<le> length (rest d) - length szs" using more(4) len b(1) unfolding Cons by (cases dn) auto
  ultimately show ?thesis by blast
qed

end

section \<open>Lists as streams\<close>

fun is_array :: "dirstream \<Rightarrow> bool" where
  "is_array (DirArray es) = True"
| "is_array (UserStream n) = False"

fun array_entries :: "dirstream \<Rightarrow> DirEntry list" where
  "array_entries (DirArray es) = es"
| "array_entries (UserStream n) = []"

interpretation arr: dir_stream ops is_array array_entries for ops :: "'w node_ops"
proof (unfold_locales, goal_cases)
  case (1 d s)
  then show ?case by (cases d) (simp_all add: array_HasNext_def)
next
  case (2 d e es s)
  then show ?case by (cases d) (simp_all add: array_Next_def)
next
  case (3 d s)
  then show ?case by (cases d) simp_all
qed

text \<open>
  C20: Reading a directory in pages delivers it completely. When the directory answers with a list of
  entries and every page has room for any one of them, the pages that the kernel reads, each
  from the offset at which the one before ended, parse to a prefix of the list with consecutive
  offsets. No entry is lost, repeated or reordered, every page advances, and as many pages as there
  are entries are enough for all of them.
\<close>

theorem readdir_pages_complete:
  assumes "tr_nodes s (ih_NodeId (rdi_InHeader input)) = Some n"
    and "unat (rdi_Fh input) < length (rb_files s)"
    and "\<forall>d. fe_dirStream (rb_files s ! unat (rdi_Fh input)) = Some d \<longrightarrow> is_array d"
    and "o_isDir ops n"
    and "\<forall>t. tr_heap t = tr_heap s \<and> tr_nodes t = tr_nodes s \<longrightarrow>
      o_Readdir ops (ih_Caller (rdi_InHeader input)) n t = Inr ((NewListDirStream es, 0), t)"
    and "es \<noteq> []" and "length es < 2 ^ 64"
    and "\<forall>e\<in>set es. length (de_Name e) < 2 ^ 32 \<and> (\<forall>sz\<in>set szs. dirent_size e \<le> sz)"
  shows "\<exists>rs s' dn left. read_pages ops input szs 0 s = Inr (rs, s') \<and> es = dn @ left
     \<and> kernel_reads rs = Some (dirents_of 0 dn) \<and> length left \<le> length es - length szs"
  using arr.read_pages_complete [of s input n ops "NewListDirStream es" szs] assms
  by (simp add: NewListDirStream_def)

text \<open>The stubs list the children of the node.\<close>

definition child_entry :: "'w rawBridge \<Rightarrow> string \<times> addr \<Rightarrow> DirEntry" where
  "child_entry s c = (let at = n_nodeAttr (the (tr_heap s (snd c)))
     in \<lparr>de_Mode = na_Mode at, de_Name = fst c, de_Ino = na_Ino at\<rparr>)"

lemma child_entries_eq:
  "\<forall>c\<in>set cs. tr_heap s (snd c) \<noteq> None \<Longrightarrow> child_entries cs s = Inr (map (child_entry s) cs, s)"
  by (induction cs) (auto simp: fs_bind_def nodeAttr_of_def node_def child_entry_def Let_def)

lemma stub_Readdir_eq:
  assumes "tr_heap s n = Some N" and "\<forall>c\<in>set (gm_entries (n_children N)). tr_heap s (snd c) \<noteq> None"
  shows "stub_Readdir ctx n s = Inr ((NewListDirStream (map (child_entry s) (gm_entries (n_children N))), 0), s)"
  using child_entries_eq [OF assms(2)] assms(1) by (simp add: stub_Readdir_def fs_bind_def Children_def node_def)

definition demo_file :: "string \<Rightarrow> u64 \<Rightarrow> Inode" where
  "demo_file nm ino = (init_Inode \<lparr>na_Mode = S_IFREG, na_Ino = ino, na_Gen = 0\<rparr> True)\<lparr>n_children := None, n_parents := [(nm, 1)]\<rparr>"

definition demo_listing :: "unit rawBridge" where
  "demo_listing = demo_bridge\<lparr>
     tr_heap := [1 \<mapsto> (init_Inode \<lparr>na_Mode = S_IFDIR, na_Ino = 1, na_Gen = 0\<rparr> False)\<lparr>n_children := Some [(''a'', 2), (''b'', 3)]\<rparr>,
                2 \<mapsto> demo_file ''a'' 2, 3 \<mapsto> demo_file ''b'' 3],
     rb_files := [zero_fileEntry, zero_fileEntry]\<rparr>"

definition demo_read :: ReadIn where
  "demo_read = \<lparr>rdi_InHeader = zero_InHeader\<lparr>ih_NodeId := 1\<rparr>, rdi_Fh = 1, rdi_Offset = 0, rdi_Size = 32,
     rdi_ReadFlags = 0, rdi_LockOwner = 0, rdi_Flags = 0\<rparr>"

definition demo_entries :: "DirEntry list" where
  "demo_entries = [\<lparr>de_Mode = S_IFREG, de_Name = ''a'', de_Ino = 2\<rparr>, \<lparr>de_Mode = S_IFREG, de_Name = ''b'', de_Ino = 3\<rparr>]"

theorem readdir_pages_complete_witness:
  "\<exists>rs s' dn left. read_pages demo_stubs demo_read [32, 40] 0 demo_listing = Inr (rs, s')
     \<and> demo_entries = dn @ left \<and> kernel_reads rs = Some (dirents_of 0 dn) \<and> left = []"
proof -
  have rd: "\<forall>t. tr_heap t = tr_heap demo_listing \<and> tr_nodes t = tr_nodes demo_listing \<longrightarrow>
      o_Readdir demo_stubs (ih_Caller (rdi_InHeader demo_read)) 1 t = Inr ((NewListDirStream demo_entries, 0), t)"
  proof (intro allI impI)
    fix t :: "unit rawBridge"
    assume "tr_heap t = tr_heap demo_listing \<and> tr_nodes t = tr_nodes demo_listing"
    then have "tr_heap t 1 = Some ((init_Inode \<lparr>na_Mode = S_IFDIR, na_Ino = 1, na_Gen = 0\<rparr> False)\<lparr>n_children := Some [(''a'', 2), (''b'', 3)]\<rparr>)"
      and "tr_heap t 2 = Some (demo_file ''a'' 2)" and "tr_heap t 3 = Some (demo_file ''b'' 3)"
      by (simp_all add: demo_listing_def)
    moreover have "n_nodeAttr (demo_file nm ino) = \<lparr>na_Mode = S_IFREG, na_Ino = ino, na_Gen = 0\<rparr>" for nm ino
      by (simp add: demo_file_def init_Inode_def)
    ultimately show "o_Readdir demo_stubs (ih_Caller (rdi_InHeader demo_read)) 1 t = Inr ((NewListDirStream demo_entries, 0), t)"
      using stub_Readdir_eq [of t 1] by (simp add: demo_stubs_def OperationStubs_def child_entry_def Let_def demo_entries_def)
  qed
  have fit: "\<forall>e\<in>set demo_entries. length (de_Name e) < 2 ^ 32 \<and> (\<forall>sz\<in>set [32, 40]. dirent_size e \<le> sz)"
    by (simp add: demo_entries_def dirent_size_def direntSize_def name_padding_def)
  have "\<exists>rs s' dn left. read_pages demo_stubs demo_read [32, 40] 0 demo_listing = Inr (rs, s')
     \<and> demo_entries = dn @ left \<and> kernel_reads rs = Some (dirents_of 0 dn)
     \<and> length left \<le> length demo_entries - length [32 :: nat, 40]"
    by (rule readdir_pages_complete [OF _ _ _ _ rd _ _ fit])
       (simp_all add: demo_listing_def demo_bridge_def demo_read_def zero_fileEntry_def demo_stubs_def OperationStubs_def demo_entries_def)
  moreover have "length demo_entries = 2" by (simp add: demo_entries_def)
  ultimately show ?thesis by auto
qed

section \<open>The entry that does not fit\<close>

text \<open>
  C29: The entry that a page had no room for is kept for the next request. When nothing else is left
  in the stream, READDIR delivers it, into any reply with room for it. READDIRPLUS asks the
  exhausted stream before it looks at the entry, answers an empty page, and so the listing ends
  without its last entry.
\<close>

theorem readdirplus_drops_last_kept_entry:
  assumes "tr_nodes s (ih_NodeId (rdi_InHeader input)) = Some n" and "unat (rdi_Fh input) < length (rb_files s)"
    and "fe_dirStream (rb_files s ! unat (rdi_Fh input)) = Some (NewListDirStream [])"
    and "fe_hasOverflow (rb_files s ! unat (rdi_Fh input))" and "rdi_Offset input \<noteq> 0"
    and "e = fe_overflow (rb_files s ! unat (rdi_Fh input))" and "dirent_size e \<le> sz"
  shows "(\<exists>out s'. rawBridge_ReadDir ops input (NewDirEntryList (replicate sz 0) off) s = Inr ((OK, out), s')
         \<and> dl_bytes out = dirent_image (off + 1) e)
     \<and> rawBridge_ReadDirPlus ops input (NewDirEntryList (replicate sz 0) off) s
         = Inr ((OK, NewDirEntryList (replicate sz 0) off), s)"
proof -
  let ?i = "unat (rdi_Fh input)" and ?l = "NewDirEntryList (replicate sz 0) off :: DirEntryList"
  have r: "inode (ih_NodeId (rdi_InHeader input)) (rdi_Fh input) s = Inr ((n, ?i), s)" using assms(1,2) by (simp add: inode_def)
  have g: "getStream ops input n ?i s = Inr (0, s)" using assms(3,5) by (simp add: getStream_def)
  have "rawBridge_ReadDirPlus ops input ?l s = Inr ((OK, ?l), s)"
    using r g assms(3) by (simp add: rawBridge_ReadDirPlus_def fs_bind_def ReadDirPlus_loop.simps stream_of_def
        NewListDirStream_def array_HasNext_def)
  moreover have p: "arr.pending s ?i = [e]"
    using assms by (simp add: arr.pending_def NewListDirStream_def Let_def)
  have l: "arr.in_listing s input n" using assms by (simp add: arr.in_listing_def arr.streaming_def NewListDirStream_def)
  obtain s' where "rawBridge_ReadDir ops input ?l s = Inr ((OK, snd (add_all [e] ?l)), s')"
    using arr.page_after_stream [OF l g r, of sz off] assms(7) p by auto
  moreover have "fst (AddDirEntry e ?l)" using AddDirEntry_spec(1) [of ?l e] assms(7) by simp
  then have "dl_bytes (snd (add_all [e] ?l)) = dirent_image (off + 1) e"
    using AddDirEntry_spec(2) [of ?l e] by (simp add: case_prod_beta)
  ultimately show ?thesis by blast
qed

definition demo_kept :: "unit rawBridge" where
  "demo_kept = demo_listing\<lparr>rb_files := [zero_fileEntry, zero_fileEntry\<lparr>fe_dirStream := Some (NewListDirStream []),
     fe_hasOverflow := True, fe_overflow := \<lparr>de_Mode = S_IFREG, de_Name = ''b'', de_Ino = 3\<rparr>\<rparr>]\<rparr>"

theorem readdirplus_drops_last_kept_entry_witness:
  "\<exists>out s'. rawBridge_ReadDir demo_stubs (demo_read\<lparr>rdi_Offset := 1\<rparr>) (NewDirEntryList (replicate 32 0) 1) demo_kept
       = Inr ((OK, out), s') \<and> dl_bytes out \<noteq> []
     \<and> rawBridge_ReadDirPlus demo_stubs (demo_read\<lparr>rdi_Offset := 1\<rparr>) (NewDirEntryList (replicate 32 0) 1) demo_kept
       = Inr ((OK, NewDirEntryList (replicate 32 0) 1), demo_kept)"
proof -
  let ?e = "\<lparr>de_Mode = S_IFREG, de_Name = ''b'', de_Ino = 3\<rparr>"
  have "dirent_image 2 ?e \<noteq> []"
    using length_dirent_image [of 2 ?e] by (auto simp: dirent_size_def direntSize_def simp del: length_dirent_image)
  moreover have "(\<exists>out s'. rawBridge_ReadDir demo_stubs (demo_read\<lparr>rdi_Offset := 1\<rparr>) (NewDirEntryList (replicate 32 0) 1) demo_kept
         = Inr ((OK, out), s') \<and> dl_bytes out = dirent_image (1 + 1) ?e)
     \<and> rawBridge_ReadDirPlus demo_stubs (demo_read\<lparr>rdi_Offset := 1\<rparr>) (NewDirEntryList (replicate 32 0) 1) demo_kept
         = Inr ((OK, NewDirEntryList (replicate 32 0) 1), demo_kept)"
    by (rule readdirplus_drops_last_kept_entry)
       (simp_all add: demo_kept_def demo_listing_def demo_bridge_def demo_read_def dirent_size_def direntSize_def name_padding_def)
  ultimately show ?thesis by auto
qed

end
