(* ===== verification/BridgeIds.thy ===== *)
theory BridgeIds
  imports BridgeDir NodeTreeOps
begin

text \<open>
  The inode numbers of the bridge and the children that requests enter: \<^verbatim>\<open>newInode\<close> finds an unused
  number and keeps the table of the nodes exact, and a lookup links the child it found, counts the
  reference the kernel now holds, and answers with the identity of the child.
\<close>

section \<open>Automatic inode numbers\<close>

lemma auto_ino_first:
  assumes "\<And>i. i < j \<Longrightarrow> tr_nodes s (rb_automaticIno s + word_of_nat i) \<noteq> None"
    and "tr_nodes s (rb_automaticIno s + word_of_nat j) = None" and "j < k"
  shows "auto_ino k s = Inr (rb_automaticIno s + word_of_nat j, s\<lparr>rb_automaticIno := rb_automaticIno s + word_of_nat j + 1\<rparr>)"
  using assms
proof (induction k arbitrary: s j)
  case 0
  then show ?case by simp
next
  case (Suc k)
  show ?case
  proof (cases j)
    case 0
    then show ?thesis using Suc.prems(2) by (simp add: Let_def)
  next
    case (Suc j')
    let ?s = "s\<lparr>rb_automaticIno := rb_automaticIno s + 1\<rparr>"
    have taken: "tr_nodes s (rb_automaticIno s) \<noteq> None" using Suc.prems(1) [of 0] Suc by simp
    have "auto_ino k ?s = Inr (rb_automaticIno ?s + word_of_nat j', ?s\<lparr>rb_automaticIno := rb_automaticIno ?s + word_of_nat j' + 1\<rparr>)"
    proof (rule Suc.IH)
      show "tr_nodes ?s (rb_automaticIno ?s + word_of_nat i) \<noteq> None" if "i < j'" for i
        using Suc.prems(1) [of "Suc i"] that Suc by (simp add: ac_simps)
      show "tr_nodes ?s (rb_automaticIno ?s + word_of_nat j') = None" using Suc.prems(2) Suc by (simp add: ac_simps)
      show "j' < k" using Suc.prems(3) Suc by simp
    qed
    then show ?thesis using taken Suc by (auto simp: ac_simps Let_def)
  qed
qed

lemma free_number:
  fixes m :: "u64 \<rightharpoonup> 'a"
  assumes "card (dom m) < 2 ^ 64"
  obtains j where "j \<le> card (dom m)" and "m (a + word_of_nat j) = None" and "\<And>i. i < j \<Longrightarrow> m (a + word_of_nat i) \<noteq> None"
proof -
  let ?P = "\<lambda>j. m (a + word_of_nat j) = None" and ?n = "card (dom m)"
  have "\<exists>j \<le> ?n. ?P j"
  proof (rule ccontr)
    assume "\<not> ?thesis"
    then have sub: "(\<lambda>j. a + word_of_nat j) ` {..?n} \<subseteq> dom m" by auto
    have "inj_on (\<lambda>j. a + word_of_nat j) {..?n}"
      using assms by (auto intro!: inj_onI simp: word_of_nat_eq_iff take_bit_nat_eq_self)
    then have "card {..?n} \<le> card (dom m)" using card_inj_on_le [OF _ sub] by auto
    then show False by simp
  qed
  then obtain j0 where j0: "j0 \<le> ?n" "?P j0" by blast
  have "(LEAST j. ?P j) \<le> ?n" using Least_le [of ?P, OF j0(2)] j0(1) by simp
  moreover have "?P (LEAST j. ?P j)" using j0(2) by (rule LeastI)
  ultimately show thesis using not_less_Least [of _ ?P] by (intro that) auto
qed

text \<open>
  C21: Creating an inode gives it a number of its own. When the numbers in use do not exhaust the 64
  bits, a new node without a number gets the first unused one from the counter on, the counter goes
  on behind it, and the search ends within as many steps as there are nodes; the table then holds
  exactly the nodes it held and the new one, and every node carries the number it is registered
  under. A node whose number is registered already is replaced by the registered one, and nothing
  changes. (This is for an inode that is not initialised yet, whose number is not one of the two
  reserved ones, whose operations include the interface of its file type, a regular file when the
  mode has no type, and whose \<^verbatim>\<open>OnAdd\<close> hook changes no more than the state of the file system.)
\<close>

theorem new_inode_unique_number:
  assumes "ids_ok s" and "card (dom (tr_nodes s)) < k" and "card (dom (tr_nodes s)) < 2 ^ 64"
    and "tr_heap s a = None" and "a \<noteq> 0" and "\<not> Reserved sid"
    and "mode = (if na_Mode sid AND NOT perm_bits = 0 then S_IFREG else na_Mode sid AND NOT perm_bits)"
    and "\<And>t. check_type ops a mode t = Inr ((), t)" and "\<And>t. \<exists>w. o_OnAdd ops a t = Inr ((), t\<lparr>rb_w := w\<rparr>)"
  shows "(na_Ino sid = 0 \<longrightarrow>
           (\<exists>ino s'. newInode k ops a sid persistent s = Inr (a, s') \<and> tr_nodes s ino = None
              \<and> tr_nodes s' = (tr_nodes s)(ino \<mapsto> a) \<and> ids_ok s'
              \<and> rb_automaticIno s' = ino + 1
              \<and> (\<exists>j \<le> card (dom (tr_nodes s)). ino = rb_automaticIno s + word_of_nat j
                   \<and> (\<forall>i < j. tr_nodes s (rb_automaticIno s + word_of_nat i) \<noteq> None))))
       \<and> (\<forall>b. na_Ino sid \<noteq> 0 \<and> tr_nodes s (na_Ino sid) = Some b \<longrightarrow> newInode k ops a sid persistent s = Inr (b, s))"
proof -
  obtain j where j: "j \<le> card (dom (tr_nodes s))" and free: "tr_nodes s (rb_automaticIno s + word_of_nat j) = None"
    and taken: "\<And>i. i < j \<Longrightarrow> tr_nodes s (rb_automaticIno s + word_of_nat i) \<noteq> None"
    using free_number [OF assms(3), of "rb_automaticIno s"] by blast
  let ?ino = "rb_automaticIno s + word_of_nat j"
  have a: "auto_ino k s = Inr (?ino, s\<lparr>rb_automaticIno := ?ino + 1\<rparr>)"
    by (rule auto_ino_first [OF taken free]) (use j assms(2) in simp_all)
  let ?N = "init_Inode (sid\<lparr>na_Ino := ?ino, na_Mode := mode\<rparr>) persistent"
  let ?s1 = "s\<lparr>rb_automaticIno := ?ino + 1, tr_nodes := (tr_nodes s)(?ino \<mapsto> a), tr_heap := (tr_heap s)(a \<mapsto> ?N)\<rparr>"
  obtain w where w: "o_OnAdd ops a ?s1 = Inr ((), ?s1\<lparr>rb_w := w\<rparr>)" using assms(9) by blast
  let ?s' = "?s1\<lparr>rb_w := w\<rparr>"
  have other: "b \<noteq> a" if "tr_nodes s nid = Some b" for nid b
    using that assms(1,4) unfolding ids_ok_def by (metis option.distinct(1))
  have "\<exists>N. tr_heap ?s' b = Some N \<and> na_Ino (n_nodeAttr N) = nid" if "tr_nodes ?s' nid = Some b" for nid b
    using that other [of nid b] assms(1) unfolding ids_ok_def
    by (cases "nid = ?ino") (simp_all add: init_Inode_def)
  then have "ids_ok ?s'" unfolding ids_ok_def by blast
  moreover have "newInode k ops a sid persistent s = Inr (a, ?s')" if "na_Ino sid = 0"
    using that assms(4-6,8) a free w
    by (simp add: newInode_def fs_bind_def fs_step_def fs_get_def Let_def assms(7) [symmetric])
  moreover have "newInode k ops a sid persistent s = Inr (b, s)" if "na_Ino sid \<noteq> 0" "tr_nodes s (na_Ino sid) = Some b" for b
    using that assms(4-6) by (simp add: newInode_def fs_bind_def fs_get_def)
  moreover have "rb_automaticIno ?s' = ?ino + 1" "tr_nodes ?s' = (tr_nodes s)(?ino \<mapsto> a)" by simp_all
  ultimately show ?thesis using free j taken by blast
qed

lemma demo_stub_checks:
  "check_type demo_stubs a S_IFREG t = Inr ((), t)" "\<exists>w. o_OnAdd demo_stubs a t = Inr ((), t\<lparr>rb_w := w\<rparr>)"
  by (simp_all add: check_type_def demo_stubs_def OperationStubs_def fileOps_def S_IFREG_def S_IFDIR_def S_IFLNK_def fs_return_def)

theorem new_inode_unique_number_witness:
  "\<exists>ino s'. newInode 3 demo_stubs 7 \<lparr>na_Mode = 0, na_Ino = 0, na_Gen = 0\<rparr> False demo_bridge = Inr (7, s')
     \<and> tr_nodes demo_bridge ino = None \<and> tr_nodes s' = (tr_nodes demo_bridge)(ino \<mapsto> 7) \<and> ids_ok s'"
proof -
  have d: "ids_ok demo_bridge" "card (dom (tr_nodes demo_bridge)) < 3" "card (dom (tr_nodes demo_bridge)) < 2 ^ 64"
    "tr_heap demo_bridge 7 = None" "(7 :: addr) \<noteq> 0" "\<not> Reserved \<lparr>na_Mode = 0, na_Ino = 0, na_Gen = 0\<rparr>"
    using demo_bridge_inv by (simp_all add: Reserved_def demo_bridge_def)
  have "S_IFREG = (if na_Mode \<lparr>na_Mode = 0, na_Ino = 0, na_Gen = 0\<rparr> AND NOT perm_bits = 0 then S_IFREG
      else na_Mode \<lparr>na_Mode = 0, na_Ino = 0, na_Gen = 0\<rparr> AND NOT perm_bits)" by simp
  from new_inode_unique_number [OF d this demo_stub_checks, of False] show ?thesis by force
qed

section \<open>Entering a child\<close>

lemma setEntry_links:
  assumes inv: "tree_inv t" and d: "is_dir t p" and c: "tr_heap t c \<noteq> None"
  obtains t' where "setEntry p nm c t = Inr t'" and "tree_inv t' \<longleftrightarrow> edge t p nm = None \<or> edge t p nm = Some c" and "nodes_wf t'"
    and "tr_nodes t' = tr_nodes t"
    and "\<And>q m. edge t' q m = (if q = p \<and> m = nm then Some c else edge t q m)"
    and "\<And>x. refs t' x = refs t x" and "\<And>x. map_option n_nodeAttr (tr_heap t' x) = map_option n_nodeAttr (tr_heap t x)"
proof -
  let ?t1 = "addParent c (nm, p) t"
  have "is_dir ?t1 p" using d by (simp add: link_simps)
  then obtain t2 where t2: "setChild p nm c ?t1 = Inr t2" using setChild_returns by blast
  note S = setChild_Inr [OF t2]
  let ?t' = "bump p (bump c t2)"
  have r: "setEntry p nm c t = Inr ?t'" using c t2 by (auto simp: setEntry_def node_def split: option.splits)
  have E: "edge ?t' q m = (if q = p \<and> m = nm then Some c else edge t q m)" for q m
    by (simp add: link_simps S(1))
  have U: "up_links ?t' x = (if x = c then insert (nm, p) (up_links t x) else up_links t x)" for x
    using c by (simp add: link_simps S(2))
  have w: "nodes_wf ?t'" using S(5) tree_invD(1) [OF inv] by (simp add: link_simps)
  have "tree_inv ?t' \<longleftrightarrow> edge t p nm = None \<or> edge t p nm = Some c"
  proof
    assume "edge t p nm = None \<or> edge t p nm = Some c"
    then have "(if q = p \<and> m = nm then Some c else edge t q m) = Some x
        \<longleftrightarrow> (m, q) \<in> (if x = c then insert (nm, p) (up_links t x) else up_links t x)" for q m x
      using up_links_iff [OF inv, of m q x] by auto
    then show "tree_inv ?t'" using w unfolding tree_inv_def E U by blast
  next
    assume i: "tree_inv ?t'"
    show "edge t p nm = None \<or> edge t p nm = Some c"
    proof (rule ccontr)
      assume "\<not> ?thesis"
      then obtain x where x: "edge t p nm = Some x" "x \<noteq> c" by auto
      then have "(nm, p) \<in> up_links ?t' x" using up_links_iff [OF inv, of nm p x] unfolding U by simp
      then have "edge ?t' p nm = Some x" using up_links_iff [OF i, of nm p x] by simp
      then show False using x unfolding E by simp
    qed
  qed
  moreover have "tr_nodes ?t' = tr_nodes t" using S(4) by (simp add: bump_def addParent_def link_simps)
  moreover obtain mp where "t2 = upd p (\<lambda>N. N\<lparr>n_children := mp\<rparr>) ?t1"
    using t2 by (auto simp: setChild_def bind_go_eq_Inr)
  then have "refs ?t' x = refs t x" and "map_option n_nodeAttr (tr_heap ?t' x) = map_option n_nodeAttr (tr_heap t x)" for x
    by (auto simp: refs_def bump_def addParent_def tr_heap_upd option.map_comp comp_def)
  ultimately show thesis using r E w by (intro that)
qed

definition counted :: "addr \<Rightarrow> (u64 \<times> bool) option \<Rightarrow> addr \<Rightarrow> (u64 \<times> bool) option" where
  "counted c r x = (if x = c then map_option (\<lambda>(n, p). (n + 1, p)) r else r)"

lemma enter_child_links:
  assumes "tree_inv s" and "is_dir s p" and "tr_heap s c = Some C"
  obtains s' where "enter_child p nm c out s =
      Inr (setEntryOutTimeout (rb_options s') (out\<lparr>eo_NodeId := na_Ino (n_nodeAttr C), eo_Generation := na_Gen (n_nodeAttr C),
            eo_Attr := (eo_Attr out)\<lparr>a_Ino := na_Ino (n_nodeAttr C)\<rparr>\<rparr>), s')"
    and "tree_inv s' \<longleftrightarrow> edge s p nm = None \<or> edge s p nm = Some c" and "tr_nodes s' = tr_nodes s"
    and "\<And>q m. edge s' q m = (if q = p \<and> m = nm then Some c else edge s q m)"
    and "\<And>x. refs s' x = counted c (refs s x) x"
    and "map_option n_nodeAttr (tr_heap s' c) = Some (n_nodeAttr C)"
proof -
  have "tr_heap s c \<noteq> None" using assms(3) by simp
  then obtain t where t: "setEntry p nm c s = Inr t" "tree_inv t \<longleftrightarrow> edge s p nm = None \<or> edge s p nm = Some c" "tr_nodes t = tr_nodes s"
    "\<And>q m. edge t q m = (if q = p \<and> m = nm then Some c else edge s q m)" "\<And>x. refs t x = refs s x"
    "\<And>x. map_option n_nodeAttr (tr_heap t x) = map_option n_nodeAttr (tr_heap s x)" "nodes_wf t"
    using setEntry_links [OF assms(1,2)] by metis
  obtain D where D: "tr_heap t c = Some D" "n_nodeAttr D = n_nodeAttr C"
    using t(6) [of c] assms(3) by auto
  let ?s' = "upd c (\<lambda>N. N\<lparr>n_lookupCount := n_lookupCount N + 1\<rparr>) t"
  have E: "edge ?s' q m = edge t q m" and U: "up_links ?s' q = up_links t q" for q m
    by (simp_all add: edge_upd_frame up_links_upd_frame)
  have w: "nodes_wf ?s'" using t(7) by (auto simp: nodes_wf_def tr_heap_upd split: if_splits)
  have "enter_child p nm c out s =
      Inr (setEntryOutTimeout (rb_options ?s') (out\<lparr>eo_NodeId := na_Ino (n_nodeAttr C), eo_Generation := na_Gen (n_nodeAttr C),
            eo_Attr := (eo_Attr out)\<lparr>a_Ino := na_Ino (n_nodeAttr C)\<rparr>\<rparr>), ?s')"
    using t(1) D by (simp add: enter_child_def addNewChild_def fs_bind_def fs_step_def fs_get_def node_def tr_heap_upd)
  moreover have "tree_inv ?s' \<longleftrightarrow> edge s p nm = None \<or> edge s p nm = Some c"
    using t(7) w unfolding t(2) [symmetric] tree_inv_def E U by simp
  moreover have "tr_nodes ?s' = tr_nodes s" using t(3) by (simp add: tr_nodes_upd)
  moreover have "edge ?s' q m = (if q = p \<and> m = nm then Some c else edge s q m)" for q m by (simp only: E t(4))
  moreover have "refs ?s' x = counted c (refs s x) x" for x
    unfolding t(5) [symmetric] by (auto simp: refs_def counted_def tr_heap_upd option.map_comp comp_def)
  moreover have "map_option n_nodeAttr (tr_heap ?s' c) = Some (n_nodeAttr C)" using D by (simp add: tr_heap_upd)
  ultimately show thesis by (rule that)
qed

text \<open>
  C22: A lookup that the file system answers with a child enters it. The name leads to the child in
  the directory, every other link stays, the kernel's reference to the child is counted once and no
  other count changes, and the reply carries the number and the generation of the child, its file
  type and the permission bits the file system answered with. Parents and children still agree
  exactly when the name was free or led to this child before: a child that the name led to is not
  detached and keeps the directory among its parents.
\<close>

theorem lookup_enters_child:
  assumes "rb_files s \<noteq> []" and "tr_nodes s (ih_NodeId header) = Some parent" and "o_isDir ops parent"
    and "o_Lookup ops (ih_Caller header) parent name out s = Inr ((child, 0, out1), s1)"
    and "tree_inv s1" and "is_dir s1 parent" and "tr_heap s1 child = Some C"
  shows "\<exists>out' s'. rawBridge_Lookup ops header name out s = Inr ((OK, out'), s')
     \<and> (tree_inv s' \<longleftrightarrow> edge s1 parent name = None \<or> edge s1 parent name = Some child) \<and> tr_nodes s' = tr_nodes s1
     \<and> (\<forall>q m. edge s' q m = (if q = parent \<and> m = name then Some child else edge s1 q m))
     \<and> (\<forall>x. refs s' x = counted child (refs s1 x) x)
     \<and> eo_NodeId out' = na_Ino (n_nodeAttr C) \<and> eo_Generation out' = na_Gen (n_nodeAttr C)
     \<and> a_Ino (eo_Attr out') = na_Ino (n_nodeAttr C)
     \<and> a_Mode (eo_Attr out') = na_Mode (n_nodeAttr C) OR (a_Mode (eo_Attr out1) AND perm_bits)"
proof -
  obtain s' where e: "enter_child parent name child out1 s1 =
      Inr (setEntryOutTimeout (rb_options s') (out1\<lparr>eo_NodeId := na_Ino (n_nodeAttr C), eo_Generation := na_Gen (n_nodeAttr C),
            eo_Attr := (eo_Attr out1)\<lparr>a_Ino := na_Ino (n_nodeAttr C)\<rparr>\<rparr>), s')"
    and L: "tree_inv s' \<longleftrightarrow> edge s1 parent name = None \<or> edge s1 parent name = Some child" "tr_nodes s' = tr_nodes s1"
      "\<And>q m. edge s' q m = (if q = parent \<and> m = name then Some child else edge s1 q m)"
      "\<And>x. refs s' x = counted child (refs s1 x) x"
    and a: "map_option n_nodeAttr (tr_heap s' child) = Some (n_nodeAttr C)"
    using enter_child_links [OF assms(5-7), where nm = name and out = out1] by metis
  obtain C' where C': "tr_heap s' child = Some C'" "n_nodeAttr C' = n_nodeAttr C" using a by auto
  have T: "eo_NodeId (setEntryOutTimeout o' x) = eo_NodeId x" "eo_Generation (setEntryOutTimeout o' x) = eo_Generation x"
    "eo_Attr (setEntryOutTimeout o' x) = eo_Attr x" for o' x
    by (simp_all add: setEntryOutTimeout_def SetEntryTimeout_def SetAttrTimeout_def Let_def split: option.split prod.split)
  have "inode (ih_NodeId header) 0 s = Inr ((parent, 0), s)" using assms(1,2) by (simp add: inode_def)
  then have "\<exists>out'. rawBridge_Lookup ops header name out s = Inr ((OK, out'), s')
     \<and> eo_NodeId out' = na_Ino (n_nodeAttr C) \<and> eo_Generation out' = na_Gen (n_nodeAttr C)
     \<and> a_Ino (eo_Attr out') = na_Ino (n_nodeAttr C)
     \<and> a_Mode (eo_Attr out') = na_Mode (n_nodeAttr C) OR (a_Mode (eo_Attr out1) AND perm_bits)"
    using assms(3,4) e C' by (simp add: rawBridge_Lookup_def fs_bind_def fs_get_def dirOps_def nodeAttr_of_def node_def T)
  then show ?thesis using L by blast
qed

lemma demo_listing_edge:
  "edge demo_listing p nm = (if p = 1 then (if nm = ''a'' then Some 2 else if nm = ''b'' then Some 3 else None) else None)"
  by (simp add: edge_def demo_listing_def demo_file_def gm_get_def)

lemma demo_listing_inv: "tree_inv demo_listing"
proof -
  have "up_links demo_listing c = (if c = 2 then {(''a'', 1)} else if c = 3 then {(''b'', 1)} else {})" for c
    by (simp add: up_links_def demo_listing_def demo_file_def init_Inode_def)
  moreover have "nodes_wf demo_listing"
    by (auto simp: nodes_wf_def demo_listing_def demo_file_def init_Inode_def gm_ok_def split: if_splits)
  ultimately show ?thesis by (auto simp: tree_inv_def demo_listing_edge)
qed

theorem lookup_enters_child_witness:
  "\<exists>out' s'. rawBridge_Lookup demo_stubs (zero_InHeader\<lparr>ih_NodeId := 1\<rparr>) ''b'' zero_EntryOut demo_listing = Inr ((OK, out'), s')
     \<and> tree_inv s' \<and> refs s' 3 = Some (1, True) \<and> eo_NodeId out' = 3 \<and> a_Mode (eo_Attr out') = S_IFREG"
proof -
  have h: "tr_heap demo_listing 1 = Some ((init_Inode \<lparr>na_Mode = S_IFDIR, na_Ino = 1, na_Gen = 0\<rparr> False)\<lparr>n_children := Some [(''a'', 2), (''b'', 3)]\<rparr>)"
    and h3: "tr_heap demo_listing 3 = Some (demo_file ''b'' 3)" by (simp_all add: demo_listing_def)
  let ?h = "zero_InHeader\<lparr>ih_NodeId := 1\<rparr>"
  have l: "o_Lookup demo_stubs (ih_Caller ?h) 1 ''b'' zero_EntryOut demo_listing
      = Inr ((3, 0, zero_EntryOut\<lparr>eo_Attr := ao_Attr zero_AttrOut\<rparr>), demo_listing)"
    using h by (simp add: demo_stubs_def OperationStubs_def stub_Lookup_def fs_bind_def GetChild_def node_def child_at_def
        gm_get_def stub_Getattr_def OK_def)
  have d: "is_dir demo_listing 1" using h by (simp add: is_dir_def)
  have "rb_files demo_listing \<noteq> []" "tr_nodes demo_listing (ih_NodeId ?h) = Some 1" "o_isDir demo_stubs 1"
    by (simp_all add: demo_listing_def demo_bridge_def demo_stubs_def OperationStubs_def)
  note L = lookup_enters_child [OF this l demo_listing_inv d h3]
  have "a_Mode (ao_Attr zero_AttrOut) = 0" "refs demo_listing 3 = Some (0, True)"
    "n_nodeAttr (demo_file ''b'' 3) = \<lparr>na_Mode = S_IFREG, na_Ino = 3, na_Gen = 0\<rparr>"
    by (simp_all add: zero_AttrOut_def zero_Attr_def refs_def h3 demo_file_def init_Inode_def)
  then show ?thesis using L by (fastforce simp: demo_listing_edge counted_def)
qed

end
