(* ===== verification/PathFs.thy ===== *)
theory PathFs
  imports NodeApi
begin

text \<open>
  The path based file system interface of \<^verbatim>\<open>fuse/pathfs/api.go\<close>, the functions of the standard
  library's \<^verbatim>\<open>path\<close> and \<^verbatim>\<open>path/filepath\<close> that its clients use, and \<^verbatim>\<open>fuse/pathfs/copy.go\<close>.
\<close>

section \<open>Paths\<close>

definition stripSlash :: "string \<Rightarrow> string" where
  "stripSlash fn = rev (dropWhile (\<lambda>c. c = CHR ''/'') (rev fn))"

text \<open>\<^verbatim>\<open>path.Split\<close>: everything up to the last slash, and the rest.\<close>

definition path_base :: "string \<Rightarrow> string" where
  "path_base p = rev (takeWhile (\<lambda>c. c \<noteq> CHR ''/'') (rev p))"

definition path_dir :: "string \<Rightarrow> string" where
  "path_dir p = rev (dropWhile (\<lambda>c. c \<noteq> CHR ''/'') (rev p))"

text \<open>\<^verbatim>\<open>path.Base\<close>.\<close>

definition Base :: "string \<Rightarrow> string" where
  "Base p = (if p = [] then ''.'' else let b = path_base (stripSlash p) in if b = [] then ''/'' else b)"

fun split_slash :: "string \<Rightarrow> string list" where
  "split_slash [] = [[]]"
| "split_slash (c # cs) =
     (if c = CHR ''/'' then [] # split_slash cs
      else case split_slash cs of [] \<Rightarrow> [[c]] | s # ss \<Rightarrow> (c # s) # ss)"

fun clean_elems :: "bool \<Rightarrow> string list \<Rightarrow> string list \<Rightarrow> string list" where
  "clean_elems rooted acc [] = rev acc"
| "clean_elems rooted acc (e # es) =
     (if e = [] \<or> e = ''.'' then clean_elems rooted acc es
      else if e = ''..'' then
        (case acc of
           a # as \<Rightarrow> if a = ''..'' then clean_elems rooted (e # acc) es else clean_elems rooted as es
         | [] \<Rightarrow> if rooted then clean_elems rooted [] es else clean_elems rooted [e] es)
      else clean_elems rooted (e # acc) es)"

fun join_slash :: "string list \<Rightarrow> string" where
  "join_slash [] = []"
| "join_slash [e] = e"
| "join_slash (e # es) = e @ CHR ''/'' # join_slash es"

definition Clean :: "string \<Rightarrow> string" where
  "Clean p = (if p = [] then ''.''
     else let rooted = hd p = CHR ''/''; r = join_slash (clean_elems rooted [] (split_slash p))
          in if rooted then CHR ''/'' # r else if r = [] then ''.'' else r)"

text \<open>\<^verbatim>\<open>filepath.Join\<close> of two elements.\<close>

definition path_Join :: "string \<Rightarrow> string \<Rightarrow> string" where
  "path_Join a b = (if a \<noteq> [] then Clean (a @ CHR ''/'' # b) else if b \<noteq> [] then Clean b else [])"

section \<open>The interfaces\<close>

text \<open>
  A context is the caller of the request or nil. Open files are numbers; their methods belong to
  the implementation of the file. The method \<^verbatim>\<open>InnerFile\<close>, which looks into wrappers, is left out of the
  interfaces.
\<close>

type_synonym ctx = "Caller option"
type_synonym pfile = nat

record 'w file_ops =
  f_String :: "pfile \<Rightarrow> ('w, string) fsm"
  f_SetInode :: "pfile \<Rightarrow> addr \<Rightarrow> ('w, unit) fsm"
  f_Read :: "pfile \<Rightarrow> nat \<Rightarrow> i64 \<Rightarrow> ('w, ReadResult option \<times> Status) fsm"
  f_Bytes :: "ReadResult \<Rightarrow> nat \<Rightarrow> ('w, u8 list \<times> Status) fsm"
  f_Write :: "pfile \<Rightarrow> u8 list \<Rightarrow> i64 \<Rightarrow> ('w, u32 \<times> Status) fsm"
  f_GetLk :: "pfile \<Rightarrow> u64 \<Rightarrow> FileLock \<Rightarrow> u32 \<Rightarrow> FileLock \<Rightarrow> ('w, Status \<times> FileLock) fsm"
  f_SetLk :: "pfile \<Rightarrow> u64 \<Rightarrow> FileLock \<Rightarrow> u32 \<Rightarrow> ('w, Status) fsm"
  f_SetLkw :: "pfile \<Rightarrow> u64 \<Rightarrow> FileLock \<Rightarrow> u32 \<Rightarrow> ('w, Status) fsm"
  f_Flush :: "pfile \<Rightarrow> ('w, Status) fsm"
  f_Release :: "pfile \<Rightarrow> ('w, unit) fsm"
  f_Fsync :: "pfile \<Rightarrow> int \<Rightarrow> ('w, Status) fsm"
  f_Truncate :: "pfile \<Rightarrow> u64 \<Rightarrow> ('w, Status) fsm"
  f_GetAttr :: "pfile \<Rightarrow> Attr \<Rightarrow> ('w, Status \<times> Attr) fsm"
  f_Chown :: "pfile \<Rightarrow> u32 \<Rightarrow> u32 \<Rightarrow> ('w, Status) fsm"
  f_Chmod :: "pfile \<Rightarrow> u32 \<Rightarrow> ('w, Status) fsm"
  f_Utimens :: "pfile \<Rightarrow> Time option \<Rightarrow> Time option \<Rightarrow> ('w, Status) fsm"
  f_Allocate :: "pfile \<Rightarrow> u64 \<Rightarrow> u64 \<Rightarrow> u32 \<Rightarrow> ('w, Status) fsm"

record 'w FileSystem =
  p_String :: "('w, string) fsm"
  p_SetDebug :: "bool \<Rightarrow> ('w, unit) fsm"
  p_GetAttr :: "string \<Rightarrow> ctx \<Rightarrow> ('w, Attr option \<times> Status) fsm"
  p_Chmod :: "string \<Rightarrow> u32 \<Rightarrow> ctx \<Rightarrow> ('w, Status) fsm"
  p_Chown :: "string \<Rightarrow> u32 \<Rightarrow> u32 \<Rightarrow> ctx \<Rightarrow> ('w, Status) fsm"
  p_Utimens :: "string \<Rightarrow> Time option \<Rightarrow> Time option \<Rightarrow> ctx \<Rightarrow> ('w, Status) fsm"
  p_Truncate :: "string \<Rightarrow> u64 \<Rightarrow> ctx \<Rightarrow> ('w, Status) fsm"
  p_Access :: "string \<Rightarrow> u32 \<Rightarrow> ctx \<Rightarrow> ('w, Status) fsm"
  p_Link :: "string \<Rightarrow> string \<Rightarrow> ctx \<Rightarrow> ('w, Status) fsm"
  p_Mkdir :: "string \<Rightarrow> u32 \<Rightarrow> ctx \<Rightarrow> ('w, Status) fsm"
  p_Mknod :: "string \<Rightarrow> u32 \<Rightarrow> u32 \<Rightarrow> ctx \<Rightarrow> ('w, Status) fsm"
  p_Rename :: "string \<Rightarrow> string \<Rightarrow> ctx \<Rightarrow> ('w, Status) fsm"
  p_Rmdir :: "string \<Rightarrow> ctx \<Rightarrow> ('w, Status) fsm"
  p_Unlink :: "string \<Rightarrow> ctx \<Rightarrow> ('w, Status) fsm"
  p_GetXAttr :: "string \<Rightarrow> string \<Rightarrow> ctx \<Rightarrow> ('w, u8 list \<times> Status) fsm"
  p_ListXAttr :: "string \<Rightarrow> ctx \<Rightarrow> ('w, string list \<times> Status) fsm"
  p_RemoveXAttr :: "string \<Rightarrow> string \<Rightarrow> ctx \<Rightarrow> ('w, Status) fsm"
  p_SetXAttr :: "string \<Rightarrow> string \<Rightarrow> u8 list \<Rightarrow> int \<Rightarrow> ctx \<Rightarrow> ('w, Status) fsm"
  p_OnMount :: "('w, unit) fsm"
  p_OnUnmount :: "('w, unit) fsm"
  p_Open :: "string \<Rightarrow> u32 \<Rightarrow> ctx \<Rightarrow> ('w, pfile option \<times> Status) fsm"
  p_Create :: "string \<Rightarrow> u32 \<Rightarrow> u32 \<Rightarrow> ctx \<Rightarrow> ('w, pfile option \<times> Status) fsm"
  p_OpenDir :: "string \<Rightarrow> ctx \<Rightarrow> ('w, DirEntry list \<times> Status) fsm"
  p_Symlink :: "string \<Rightarrow> string \<Rightarrow> ctx \<Rightarrow> ('w, Status) fsm"
  p_Readlink :: "string \<Rightarrow> ctx \<Rightarrow> ('w, string \<times> Status) fsm"
  p_StatFs :: "string \<Rightarrow> ('w, StatfsOut option) fsm"

text \<open>
  The implementations that refuse everything: \<^verbatim>\<open>fuse/nodefs/defaultfile.go\<close> and
  \<^verbatim>\<open>fuse/pathfs/default.go\<close>. The bytes of a read result are the method \<^verbatim>\<open>Bytes\<close> of \<^verbatim>\<open>fuse/read.go\<close>; those of a
  range of an open file are read with a system call, a parameter of the world.
\<close>

definition defaultFile :: "(ReadResult \<Rightarrow> nat \<Rightarrow> ('w, u8 list \<times> Status) fsm) \<Rightarrow> 'w file_ops" where
  "defaultFile bytes =
    \<lparr>f_String = (\<lambda>f. fs_return ''defaultFile''),
     f_SetInode = (\<lambda>f n. fs_return ()),
     f_Read = (\<lambda>f n off. fs_return (None, ENOSYS)),
     f_Bytes = bytes,
     f_Write = (\<lambda>f data off. fs_return (0, ENOSYS)),
     f_GetLk = (\<lambda>f owner lk flags out. fs_return (ENOSYS, out)),
     f_SetLk = (\<lambda>f owner lk flags. fs_return ENOSYS),
     f_SetLkw = (\<lambda>f owner lk flags. fs_return ENOSYS),
     f_Flush = (\<lambda>f. fs_return OK),
     f_Release = (\<lambda>f. fs_return ()),
     f_Fsync = (\<lambda>f flags. fs_return ENOSYS),
     f_Truncate = (\<lambda>f sz. fs_return ENOSYS),
     f_GetAttr = (\<lambda>f out. fs_return (ENOSYS, out)),
     f_Chown = (\<lambda>f uid gid. fs_return ENOSYS),
     f_Chmod = (\<lambda>f perms. fs_return ENOSYS),
     f_Utimens = (\<lambda>f atime mtime. fs_return ENOSYS),
     f_Allocate = (\<lambda>f off sz mode. fs_return ENOSYS)\<rparr>"

definition defaultFileSystem :: "'w FileSystem" where
  "defaultFileSystem =
    \<lparr>p_String = fs_return ''defaultFileSystem'',
     p_SetDebug = (\<lambda>debug. fs_return ()),
     p_GetAttr = (\<lambda>name c. fs_return (None, ENOSYS)),
     p_Chmod = (\<lambda>name mode c. fs_return ENOSYS),
     p_Chown = (\<lambda>name uid gid c. fs_return ENOSYS),
     p_Utimens = (\<lambda>name atime mtime c. fs_return ENOSYS),
     p_Truncate = (\<lambda>name offset c. fs_return ENOSYS),
     p_Access = (\<lambda>name mode c. fs_return ENOSYS),
     p_Link = (\<lambda>oldName newName c. fs_return ENOSYS),
     p_Mkdir = (\<lambda>name mode c. fs_return ENOSYS),
     p_Mknod = (\<lambda>name mode dev c. fs_return ENOSYS),
     p_Rename = (\<lambda>oldName newName c. fs_return ENOSYS),
     p_Rmdir = (\<lambda>name c. fs_return ENOSYS),
     p_Unlink = (\<lambda>name c. fs_return ENOSYS),
     p_GetXAttr = (\<lambda>name attr c. fs_return ([], ENOATTR)),
     p_ListXAttr = (\<lambda>name c. fs_return ([], ENOSYS)),
     p_RemoveXAttr = (\<lambda>name attr c. fs_return ENOSYS),
     p_SetXAttr = (\<lambda>name attr data flags c. fs_return ENOSYS),
     p_OnMount = fs_return (),
     p_OnUnmount = fs_return (),
     p_Open = (\<lambda>name flags c. fs_return (None, ENOSYS)),
     p_Create = (\<lambda>name flags mode c. fs_return (None, ENOSYS)),
     p_OpenDir = (\<lambda>name c. fs_return ([], ENOSYS)),
     p_Symlink = (\<lambda>value linkName c. fs_return ENOSYS),
     p_Readlink = (\<lambda>name c. fs_return ([], ENOSYS)),
     p_StatFs = (\<lambda>name. fs_return None)\<rparr>"

definition deref :: "'a option \<Rightarrow> ('w, 'a) fsm" where
  "deref x = (case x of None \<Rightarrow> fs_fault NilDeref | Some y \<Rightarrow> fs_return y)"

text \<open>A body followed by what it deferred.\<close>

definition deferring :: "('w, 'b) fsm \<Rightarrow> ('w, 'a) fsm \<Rightarrow> ('w, 'a) fsm" where
  "deferring cleanup m = fs_bind m (\<lambda>x. fs_bind cleanup (\<lambda>_. fs_return x))"

definition flush_release :: "'w file_ops \<Rightarrow> pfile \<Rightarrow> ('w, unit) fsm" where
  "flush_release F f = fs_bind (f_Flush F f) (\<lambda>_. f_Release F f)"

section \<open>Copying a file\<close>

definition O_RDONLY :: u32 where "O_RDONLY = 0"
definition O_WRONLY :: u32 where "O_WRONLY = 1"
definition O_CREATE :: u32 where "O_CREATE = 64"
definition O_TRUNC :: u32 where "O_TRUNC = 512"

definition O_ANYWRITE :: u32 where "O_ANYWRITE = 1 OR 2 OR 1024 OR 64 OR 512"

definition copy_buf :: nat where "copy_buf = 128 * 1024"

text \<open>The loop runs until a read comes back short; the fuel bounds the number of reads.\<close>

fun copy_loop :: "nat \<Rightarrow> 'w file_ops \<Rightarrow> pfile \<Rightarrow> pfile \<Rightarrow> i64 \<Rightarrow> ('w, Status) fsm" where
  "copy_loop 0 F src dst off = fs_fault OutOfFuel"
| "copy_loop (Suc k) F src dst off =
     fs_bind (f_Read F src copy_buf off) (\<lambda>(ro, code).
     if code \<noteq> OK then fs_return code
     else fs_bind (deref ro) (\<lambda>res.
     fs_bind (f_Bytes F res copy_buf) (\<lambda>(data, code).
     if code \<noteq> OK then fs_return code
     else if length data = 0 then fs_return OK
     else fs_bind (f_Write F dst data off) (\<lambda>(n, code).
          if code \<noteq> OK then fs_return code
          else if unat n < length data then fs_return EIO
          else if length data < copy_buf then fs_return OK
          else copy_loop k F src dst (off + word_of_nat (length data))))))"

definition CopyFile :: "nat \<Rightarrow> 'w file_ops \<Rightarrow> 'w FileSystem \<Rightarrow> 'w FileSystem \<Rightarrow> string \<Rightarrow> string \<Rightarrow> ctx \<Rightarrow> ('w, Status) fsm" where
  "CopyFile k F srcFs destFs srcFile destFile context =
     fs_bind (p_Open srcFs srcFile O_RDONLY context) (\<lambda>(so, code).
     if code \<noteq> OK then fs_return code
     else fs_bind (deref so) (\<lambda>src. deferring (flush_release F src) (
       fs_bind (p_GetAttr srcFs srcFile context) (\<lambda>(ao, code).
       if code \<noteq> OK then fs_return code
       else fs_bind (deref ao) (\<lambda>attr.
            fs_bind (p_Create destFs destFile (O_WRONLY OR O_CREATE OR O_TRUNC) (a_Mode attr) context) (\<lambda>(dst', code).
            if code \<noteq> OK then fs_return code
            else fs_bind (deref dst') (\<lambda>dst. deferring (flush_release F dst) (copy_loop k F src dst 0))))))))"

end
