(* ===== verification/UnionCache.thy ===== *)
theory UnionCache
  imports PathFs
begin

text \<open>
  The caches of \<^verbatim>\<open>unionfs\<close>: \<^verbatim>\<open>timedcache.go\<close>, the directory cache of \<^verbatim>\<open>dircache.go\<close> and the caching file
  system of \<^verbatim>\<open>cachingfs.go\<close>. Instants are nanoseconds since the epoch; the clock is an operation of the world.
\<close>

section \<open>Timed caches\<close>

record 'v TimedCache =
  tc_ttl :: int
  tc_map :: "string \<rightharpoonup> 'v \<times> int"

definition NewTimedCache :: "int \<Rightarrow> 'v TimedCache" where
  "NewTimedCache ttl = \<lparr>tc_ttl = ttl, tc_map = Map.empty\<rparr>"

definition tc_lookup :: "int \<Rightarrow> string \<Rightarrow> 'v TimedCache \<Rightarrow> 'v option" where
  "tc_lookup now name c = (case tc_map c name of
     None \<Rightarrow> None | Some (v, expiry) \<Rightarrow> if tc_ttl c \<le> 0 \<or> now < expiry then Some v else None)"

definition tc_Set :: "int \<Rightarrow> string \<Rightarrow> 'v \<Rightarrow> 'v TimedCache \<Rightarrow> 'v TimedCache" where
  "tc_Set now name v c = c\<lparr>tc_map := (tc_map c)(name \<mapsto> (v, now + tc_ttl c))\<rparr>"

definition tc_DropEntry :: "string \<Rightarrow> 'v TimedCache \<Rightarrow> 'v TimedCache" where
  "tc_DropEntry name c = c\<lparr>tc_map := (tc_map c)(name := None)\<rparr>"

definition tc_Purge :: "int \<Rightarrow> 'v TimedCache \<Rightarrow> 'v TimedCache" where
  "tc_Purge now c = c\<lparr>tc_map := (\<lambda>k. case tc_map c k of
     None \<Rightarrow> None | Some (v, expiry) \<Rightarrow> if expiry < now then None else Some (v, expiry))\<rparr>"

definition tc_DropAll :: "string list option \<Rightarrow> 'v TimedCache \<Rightarrow> 'v TimedCache" where
  "tc_DropAll names c = (case names of
     None \<Rightarrow> c\<lparr>tc_map := Map.empty\<rparr>
   | Some ns \<Rightarrow> c\<lparr>tc_map := foldl (\<lambda>m nm. m(nm := None)) (tc_map c) ns\<rparr>)"

text \<open>
  A cache lives in the state of its owner, read by \<^verbatim>\<open>cache\<close> and changed by \<^verbatim>\<open>change\<close>. The fetch of a name
  is the action that computes the value and whether to keep it.
\<close>

definition tc_put ::
  "('s, int) fsm \<Rightarrow> (('v TimedCache \<Rightarrow> 'v TimedCache) \<Rightarrow> 's \<Rightarrow> 's) \<Rightarrow> string \<Rightarrow> 'v \<Rightarrow> ('s, unit) fsm" where
  "tc_put clock change name v = fs_bind clock (\<lambda>now. fs_step (\<lambda>s. Inr (change (tc_Set now name v) s)))"

definition tc_GetFresh ::
  "('s, int) fsm \<Rightarrow> (('v TimedCache \<Rightarrow> 'v TimedCache) \<Rightarrow> 's \<Rightarrow> 's) \<Rightarrow> string \<Rightarrow> ('s, 'v \<times> bool) fsm \<Rightarrow> ('s, 'v) fsm" where
  "tc_GetFresh clock change name fetch =
     fs_bind fetch (\<lambda>(data, ok).
     if ok then fs_bind (tc_put clock change name data) (\<lambda>_. fs_return data) else fs_return data)"

definition tc_Get ::
  "('s, int) fsm \<Rightarrow> ('s \<Rightarrow> 'v TimedCache) \<Rightarrow> (('v TimedCache \<Rightarrow> 'v TimedCache) \<Rightarrow> 's \<Rightarrow> 's) \<Rightarrow> string
     \<Rightarrow> ('s, 'v \<times> bool) fsm \<Rightarrow> ('s, 'v) fsm" where
  "tc_Get clock cache change name fetch =
     fs_bind (fs_get (\<lambda>s. (tc_map (cache s) name, tc_ttl (cache s)))) (\<lambda>(info, ttl).
     case info of
       None \<Rightarrow> tc_GetFresh clock change name fetch
     | Some (data, expiry) \<Rightarrow>
         if ttl \<le> 0 then fs_return data
         else fs_bind clock (\<lambda>now. if now < expiry then fs_return data else tc_GetFresh clock change name fetch))"

text \<open>A lookup answers from the map or fetches, before or after it has read the clock.\<close>

lemma tc_Get_cases:
  assumes "clock s = Inr (t, s1)"
  obtains (hit) v e s0 where "s0 \<in> {s, s1}" "tc_map (cache s) n = Some (v, e)" "tc_Get clock cache change n m s = Inr (v, s0)"
  | (miss) s0 where "s0 \<in> {s, s1}" "tc_Get clock cache change n m s = tc_GetFresh clock change n m s0"
proof (cases "tc_map (cache s) n")
  case None
  then show ?thesis using miss [of s] by (simp add: tc_Get_def fs_bind_def)
next
  case (Some ve)
  obtain v e where [simp]: "ve = (v, e)" by (cases ve)
  show ?thesis
    using Some assms hit [of s v e] hit [of s1 v e] miss [of s1]
    by (cases "tc_ttl (cache s) \<le> 0"; cases "t < e") (simp_all add: tc_Get_def fs_bind_def)
qed

section \<open>Directory caches\<close>

text \<open>
  The names of a directory, or nil. A goroutine that was started to refresh the cache is counted in
  \<^verbatim>\<open>dc_started\<close> until it runs \<^verbatim>\<open>maybeRefresh\<close>; the update it starts ends with \<^verbatim>\<open>setMap\<close>, which sets a
  timer. The timers that have not run yet are counted in \<^verbatim>\<open>dc_timers\<close>. The file system is an argument of
  the update.
\<close>

record dirCache =
  dc_dir :: string
  dc_ttl :: int
  dc_names :: "string list option"
  dc_updateRunning :: bool
  dc_started :: nat
  dc_timers :: nat

definition newDirCache :: "string \<Rightarrow> int \<Rightarrow> dirCache" where
  "newDirCache dir ttl = \<lparr>dc_dir = dir, dc_ttl = ttl, dc_names = None, dc_updateRunning = False, dc_started = 0, dc_timers = 0\<rparr>"

definition S_IFREG_set :: "DirEntry \<Rightarrow> bool" where
  "S_IFREG_set e \<longleftrightarrow> de_Mode e AND S_IFREG \<noteq> 0"

definition newDirnameMap :: "'w FileSystem \<Rightarrow> string \<Rightarrow> ('w, string list option) fsm" where
  "newDirnameMap fs dir =
     fs_bind (p_OpenDir fs dir None) (\<lambda>(stream, code).
     if code = ENOENT then fs_return (Some [])
     else if code \<noteq> OK then fs_return None
     else fs_return (Some (map de_Name (filter S_IFREG_set stream))))"

definition dc_setMap :: "string list option \<Rightarrow> dirCache \<Rightarrow> dirCache" where
  "dc_setMap newMap c = c\<lparr>dc_names := newMap, dc_updateRunning := False, dc_timers := dc_timers c + 1\<rparr>"

definition dc_DropCache :: "dirCache \<Rightarrow> dirCache" where
  "dc_DropCache c = c\<lparr>dc_names := None\<rparr>"

definition dc_expire :: "dirCache \<Rightarrow> dirCache" where
  "dc_expire c = dc_DropCache (c\<lparr>dc_timers := dc_timers c - 1\<rparr>)"

text \<open>The goroutine: whether an update is to be run, and the cache with the update marked.\<close>

definition dc_maybeRefresh :: "dirCache \<Rightarrow> bool \<times> dirCache" where
  "dc_maybeRefresh c =
     (let c' = c\<lparr>dc_started := dc_started c - 1\<rparr>
      in if dc_updateRunning c then (False, c') else (True, c'\<lparr>dc_updateRunning := True\<rparr>))"

text \<open>The update: the directory is read, then the map is set.\<close>

definition dc_update :: "'w FileSystem \<Rightarrow> dirCache \<Rightarrow> ('w, dirCache) fsm" where
  "dc_update fs c = fs_bind (newDirnameMap fs (dc_dir c)) (\<lambda>newmap. fs_return (dc_setMap newmap c))"

definition dc_start :: "dirCache \<Rightarrow> dirCache" where
  "dc_start c = c\<lparr>dc_started := dc_started c + 1\<rparr>"

definition dc_RemoveEntry :: "string \<Rightarrow> dirCache \<Rightarrow> dirCache" where
  "dc_RemoveEntry name c = (case dc_names c of
     None \<Rightarrow> dc_start c | Some ns \<Rightarrow> c\<lparr>dc_names := Some (removeAll name ns)\<rparr>)"

definition dc_AddEntry :: "string \<Rightarrow> dirCache \<Rightarrow> dirCache" where
  "dc_AddEntry name c = (case dc_names c of
     None \<Rightarrow> dc_start c | Some ns \<Rightarrow> c\<lparr>dc_names := Some (List.insert name ns)\<rparr>)"

definition dc_HasEntry :: "string \<Rightarrow> dirCache \<Rightarrow> (bool \<times> bool) \<times> dirCache" where
  "dc_HasEntry name c = (case dc_names c of
     None \<Rightarrow> ((False, False), dc_start c) | Some ns \<Rightarrow> ((True, name \<in> set ns), c))"

section \<open>The caching file system\<close>

definition DROP_CACHE :: string where "DROP_CACHE = ''.drop_cache''"
definition XATTRSEP :: string where "XATTRSEP = ''@XATTR@''"

record 'w cachingFileSystem =
  cf_w :: 'w
  cf_attributes :: "(Attr option \<times> Status) TimedCache"
  cf_dirs :: "(DirEntry list \<times> Status) TimedCache"
  cf_links :: "(string \<times> Status) TimedCache"
  cf_xattr :: "(u8 list \<times> Status) TimedCache"

definition NewCachingFileSystem :: "int \<Rightarrow> 'w \<Rightarrow> 'w cachingFileSystem" where
  "NewCachingFileSystem ttl w =
     \<lparr>cf_w = w, cf_attributes = NewTimedCache ttl, cf_dirs = NewTimedCache ttl, cf_links = NewTimedCache ttl,
      cf_xattr = NewTimedCache ttl\<rparr>"

definition cf_lift :: "('w, 'a) fsm \<Rightarrow> ('w cachingFileSystem, 'a) fsm" where
  "cf_lift m s = bind_go (m (cf_w s)) (\<lambda>(x, w'). Inr (x, s\<lparr>cf_w := w'\<rparr>))"

text \<open>\<^verbatim>\<open>strings.SplitN(s, sep, 2)\<close>.\<close>

fun split_first :: "string \<Rightarrow> string \<Rightarrow> string list" where
  "split_first sep [] = [[]]"
| "split_first sep (c # cs) =
     (if take (length sep) (c # cs) = sep then [[], drop (length sep) (c # cs)]
      else case split_first sep cs of [] \<Rightarrow> [[c]] | x # xs \<Rightarrow> (c # x) # xs)"

definition fetch_ok :: "('w, 'a \<times> Status) fsm \<Rightarrow> ('w cachingFileSystem, ('a \<times> Status) \<times> bool) fsm" where
  "fetch_ok m = fs_bind (cf_lift m) (\<lambda>(a, code). fs_return ((a, code), code = OK))"

text \<open>\<^verbatim>\<open>readDir\<close> drops the entries of a failed listing.\<close>

definition readDir :: "'w FileSystem \<Rightarrow> string \<Rightarrow> ('w, DirEntry list \<times> Status) fsm" where
  "readDir fs name = fs_bind (p_OpenDir fs name None) (\<lambda>(es, code).
     if code \<noteq> OK then fs_return ([], code) else fs_return (es, code))"

definition getXAttr :: "'w FileSystem \<Rightarrow> string \<Rightarrow> ('w, u8 list \<times> Status) fsm" where
  "getXAttr fs nameAttr = (case split_first XATTRSEP nameAttr of
     [n, a] \<Rightarrow> p_GetXAttr fs n a None | _ \<Rightarrow> fs_fault IndexRange)"

definition cf_GetAttr :: "('w, int) fsm \<Rightarrow> 'w FileSystem \<Rightarrow> string \<Rightarrow> ctx \<Rightarrow> ('w cachingFileSystem, Attr option \<times> Status) fsm" where
  "cf_GetAttr clock fs name context =
     (if name = DROP_CACHE then fs_return (Some (zero_Attr\<lparr>a_Mode := S_IFREG OR 511\<rparr>), OK)
      else tc_Get (cf_lift clock) cf_attributes cf_attributes_update name (fetch_ok (p_GetAttr fs name None)))"

definition cf_GetXAttr :: "('w, int) fsm \<Rightarrow> 'w FileSystem \<Rightarrow> string \<Rightarrow> string \<Rightarrow> ctx \<Rightarrow> ('w cachingFileSystem, u8 list \<times> Status) fsm" where
  "cf_GetXAttr clock fs name attr context =
     (let key = name @ XATTRSEP @ attr
      in tc_Get (cf_lift clock) cf_xattr cf_xattr_update key (fetch_ok (getXAttr fs key)))"

definition cf_Readlink :: "('w, int) fsm \<Rightarrow> 'w FileSystem \<Rightarrow> string \<Rightarrow> ctx \<Rightarrow> ('w cachingFileSystem, string \<times> Status) fsm" where
  "cf_Readlink clock fs name context =
     tc_Get (cf_lift clock) cf_links cf_links_update name (fetch_ok (p_Readlink fs name None))"

definition cf_OpenDir :: "('w, int) fsm \<Rightarrow> 'w FileSystem \<Rightarrow> string \<Rightarrow> ctx \<Rightarrow> ('w cachingFileSystem, DirEntry list \<times> Status) fsm" where
  "cf_OpenDir clock fs name context =
     tc_Get (cf_lift clock) cf_dirs cf_dirs_update name (fetch_ok (readDir fs name))"

definition cf_DropCache :: "'w cachingFileSystem \<Rightarrow> 'w cachingFileSystem" where
  "cf_DropCache s = s\<lparr>cf_attributes := tc_DropAll None (cf_attributes s), cf_dirs := tc_DropAll None (cf_dirs s),
     cf_links := tc_DropAll None (cf_links s), cf_xattr := tc_DropAll None (cf_xattr s)\<rparr>"

definition cf_Open :: "'w FileSystem \<Rightarrow> string \<Rightarrow> u32 \<Rightarrow> ctx \<Rightarrow> ('w cachingFileSystem, pfile option \<times> Status) fsm" where
  "cf_Open fs name flags context =
     fs_bind (if flags AND O_ANYWRITE \<noteq> 0 \<and> name = DROP_CACHE then fs_step (\<lambda>s. Inr (cf_DropCache s)) else fs_return ()) (\<lambda>_.
     cf_lift (p_Open fs name flags context))"

end
