(* ===== verification/UnionFs.thy ===== *)
theory UnionFs
  imports UnionCache Md5
begin

text \<open>
  \<^verbatim>\<open>unionfs/unionfs.go\<close>: a writable file system, branch 0, over read-only ones. A file that is deleted
  from a read-only branch leaves a marker in a directory of the writable branch. The branches, the
  clock and the functions of \<^verbatim>\<open>PathNodeFs\<close> that are called are parameters; attributes are values, so a
  result that was read from the cache does not change when the cache does. The goroutines of a
  listing run one after the other.
\<close>

section \<open>State\<close>

record branchResult =
  br_attr :: "Attr option"
  br_code :: Status
  br_branch :: int

record unionFsFile =
  uf_File :: "pfile option"
  uf_layer :: int
  uf_node :: nat

record UnionFsOptions =
  uo_BranchCacheTTL :: int
  uo_DeletionCacheTTL :: int
  uo_DeletionDirName :: string
  uo_HiddenFiles :: "string list"

record 'w unionFS =
  un_w :: 'w
  un_deletionCache :: dirCache
  un_branchCache :: "branchResult TimedCache"
  un_files :: "unionFsFile list"

text \<open>
  The environment: the branches, their files, the clock, the options, and of \<^verbatim>\<open>PathNodeFs\<close> the open
  files under a path (the \<^verbatim>\<open>unionFsFile\<close> inside each, if there is one, and its flags), the refresh of a
  client inode, the path of a node and the reset of the client inodes.
\<close>

record 'w union_env =
  ue_fileSystems :: "'w FileSystem list"
  ue_files :: "'w file_ops"
  ue_clock :: "('w, int) fsm"
  ue_options :: UnionFsOptions
  ue_AllFiles :: "string \<Rightarrow> ('w, (nat option \<times> u32) list) fsm"
  ue_Refresh :: "string \<Rightarrow> ('w, unit) fsm"
  ue_Path :: "nat \<Rightarrow> ('w, string) fsm"
  ue_ForgetClientInodes :: "('w, unit) fsm"
  ue_euid :: nat

type_synonym ('w, 'a) uop = "('w unionFS, 'a) fsm"

definition un_lift :: "('w, 'a) fsm \<Rightarrow> ('w, 'a) uop" where
  "un_lift m s = bind_go (m (un_w s)) (\<lambda>(x, w'). Inr (x, s\<lparr>un_w := w'\<rparr>))"

text \<open>Indexing \<^verbatim>\<open>fs.fileSystems\<close>.\<close>

definition branch_at :: "'w union_env \<Rightarrow> int \<Rightarrow> ('w, 'w FileSystem) uop" where
  "branch_at E i s = (if 0 \<le> i \<and> nat i < length (ue_fileSystems E) then Inr (ue_fileSystems E ! nat i, s) else Inl IndexRange)"

definition on_branch :: "'w union_env \<Rightarrow> int \<Rightarrow> ('w FileSystem \<Rightarrow> ('w, 'a) fsm) \<Rightarrow> ('w, 'a) uop" where
  "on_branch E i f = fs_bind (branch_at E i) (\<lambda>fs. un_lift (f fs))"

definition now_Time :: "'w union_env \<Rightarrow> ('w, Time) uop" where
  "now_Time E = fs_bind (un_lift (ue_clock E)) (\<lambda>ns.
     fs_return \<lparr>t_Unix = word_of_int (ns div 1000000000), t_Nanosecond = word_of_int (ns mod 1000000000)\<rparr>)"

definition filePathHash :: "string \<Rightarrow> string" where
  "filePathHash path = hex_string (take 8 (md5_Sum (str_bytes (path_dir path)))) @ ''-'' @ path_base path"

definition deletionPath :: "'w union_env \<Rightarrow> string \<Rightarrow> string" where
  "deletionPath E name = path_Join (uo_DeletionDirName (ue_options E)) (filePathHash name)"

section \<open>The caches\<close>

definition on_deletions :: "(dirCache \<Rightarrow> dirCache) \<Rightarrow> ('w, unit) uop" where
  "on_deletions f = fs_step (\<lambda>s. Inr (s\<lparr>un_deletionCache := f (un_deletionCache s)\<rparr>))"

definition isDeleted :: "'w union_env \<Rightarrow> string \<Rightarrow> ('w, bool \<times> Status) uop" where
  "isDeleted E name =
     (let marker = deletionPath E name in
      fs_bind (fs_get (\<lambda>s. fst (dc_HasEntry (Base marker) (un_deletionCache s)))) (\<lambda>(haveCache, found).
      fs_bind (on_deletions (\<lambda>c. snd (dc_HasEntry (Base marker) c))) (\<lambda>_.
      if haveCache then fs_return (found, OK)
      else fs_bind (on_branch E 0 (\<lambda>fs. p_GetAttr fs marker None)) (\<lambda>(_, code).
           if code = OK then fs_return (True, code)
           else if code = ENOENT then fs_return (False, OK)
           else fs_return (False, EROFS)))))"

definition createDeletionStore :: "'w union_env \<Rightarrow> ('w, Status) uop" where
  "createDeletionStore E =
     (let dir = uo_DeletionDirName (ue_options E) in
      fs_bind (on_branch E 0 (\<lambda>fs. p_GetAttr fs dir None)) (\<lambda>(fi, code).
      fs_bind (if code = ENOENT
               then fs_bind (on_branch E 0 (\<lambda>fs. p_Mkdir fs dir 493 None)) (\<lambda>code.
                    if code = OK then on_branch E 0 (\<lambda>fs. p_GetAttr fs dir None) else fs_return (fi, code))
               else fs_return (fi, code)) (\<lambda>(fi, code).
      if code \<noteq> OK then fs_return EROFS
      else fs_bind (deref fi) (\<lambda>a. fs_return (if IsDir a then code else EROFS)))))"

definition br_valid :: "branchResult \<Rightarrow> bool" where
  "br_valid r \<longleftrightarrow> (br_branch r \<ge> 0 \<and> br_attr r \<noteq> None \<and> br_code r = OK)
     \<or> (br_branch r < 0 \<and> br_attr r = None \<and> br_code r \<noteq> OK)"

definition no_branch :: branchResult where
  "no_branch = \<lparr>br_attr = None, br_code = ENOENT, br_branch = -1\<rparr>"

text \<open>The loop of \<^verbatim>\<open>getBranchAttrNoCache\<close> over the branches from number \<^verbatim>\<open>i\<close> on.\<close>

fun first_branch :: "string \<Rightarrow> int \<Rightarrow> nat \<Rightarrow> 'w FileSystem list \<Rightarrow> ('w, branchResult) uop" where
  "first_branch name parentBranch i [] = fs_return no_branch"
| "first_branch name parentBranch i (fs # rest) =
     (if int i < parentBranch then first_branch name parentBranch (Suc i) rest
      else fs_bind (un_lift (p_GetAttr fs name None)) (\<lambda>(ao, s).
           if s = OK
           then (if i > 0 then fs_bind (deref ao) (\<lambda>a.
                   fs_return \<lparr>br_attr = Some (a\<lparr>a_Ino := 0\<rparr>), br_code = s, br_branch = int i\<rparr>)
                 else fs_return \<lparr>br_attr = ao, br_code = s, br_branch = int i\<rparr>)
           else first_branch name parentBranch (Suc i) rest))"

text \<open>
  \<^verbatim>\<open>getBranch\<close> and \<^verbatim>\<open>getBranchAttrNoCache\<close>, its fetch, call each other for the parent, so they are one
  recursion on the path.
\<close>

abbreviation "union_clock E \<equiv> un_lift (ue_clock E)"

lemma stripSlash_length: "length (stripSlash p) \<le> length p"
  by (metis length_dropWhile_le length_rev stripSlash_def)

lemma stripSlash_idem [simp]: "stripSlash (stripSlash p) = stripSlash p"
proof -
  have "dropWhile P (dropWhile P xs) = dropWhile P xs" for P and xs :: string by (induction xs) simp_all
  then show ?thesis by (simp add: stripSlash_def)
qed

lemma path_split: "path_dir p @ path_base p = p"
  unfolding path_dir_def path_base_def by (metis rev_append rev_rev_ident takeWhile_dropWhile_id)

lemma parent_shorter: "path_base (stripSlash p) \<noteq> [] \<Longrightarrow> length (stripSlash (path_dir (stripSlash p))) < length p"
  using stripSlash_length [of p] stripSlash_length [of "path_dir (stripSlash p)"]
    arg_cong [OF path_split [of "stripSlash p"], of length]
  by (cases "path_base (stripSlash p)") auto

function getBranch :: "'w union_env \<Rightarrow> string \<Rightarrow> ('w, branchResult) uop" where
  "getBranch E name0 =
     (let name = stripSlash name0; base = path_base name in
      tc_Get (union_clock E) un_branchCache un_branchCache_update name
        (fs_bind (if base \<noteq> []
                  then fs_bind (getBranch E (stripSlash (path_dir name))) (\<lambda>r. fs_return (br_branch r))
                  else fs_return 0) (\<lambda>parentBranch.
         fs_bind (first_branch name parentBranch 0 (ue_fileSystems E)) (\<lambda>r. fs_return (r, True)))))"
  by pat_completeness auto
termination
  by (relation "measure (\<lambda>(_, name). length name)") (auto intro: parent_shorter)

declare getBranch.simps [simp del]

text \<open>
  Attributes are values here. The source clears the inode number in the very object that the
  read-only branch returned.
\<close>

definition getBranchAttrNoCache :: "'w union_env \<Rightarrow> string \<Rightarrow> ('w, branchResult) uop" where
  "getBranchAttrNoCache E name0 =
     (let name = stripSlash name0; base = path_base name in
      fs_bind (if base \<noteq> []
               then fs_bind (getBranch E (stripSlash (path_dir name))) (\<lambda>r. fs_return (br_branch r))
               else fs_return 0) (\<lambda>parentBranch.
      first_branch name parentBranch 0 (ue_fileSystems E)))"

text \<open>\<^verbatim>\<open>fs.branchCache.GetFresh\<close> and the other operations on the branch cache.\<close>

definition branch_GetFresh :: "'w union_env \<Rightarrow> string \<Rightarrow> ('w, branchResult) uop" where
  "branch_GetFresh E name = tc_GetFresh (union_clock E) un_branchCache_update name
     (fs_bind (getBranchAttrNoCache E name) (\<lambda>r. fs_return (r, True)))"

definition setBranch :: "'w union_env \<Rightarrow> string \<Rightarrow> branchResult \<Rightarrow> ('w, unit) uop" where
  "setBranch E name r = (if \<not> br_valid r then fs_fault (Panic ''setting illegal branchResult'')
     else tc_put (union_clock E) un_branchCache_update name r)"

section \<open>Deletion markers\<close>

definition removeDeletion :: "'w union_env \<Rightarrow> string \<Rightarrow> ('w, unit) uop" where
  "removeDeletion E name =
     (let marker = deletionPath E name in
      fs_bind (on_branch E 0 (\<lambda>fs. p_Unlink fs marker None)) (\<lambda>_.
      on_deletions (dc_RemoveEntry (Base marker))))"

definition write_marker :: "'w union_env \<Rightarrow> string \<Rightarrow> pfile \<Rightarrow> ('w, Status) uop" where
  "write_marker E name f =
     deferring (un_lift (flush_release (ue_files E) f)) (
       fs_bind (un_lift (f_Write (ue_files E) f (str_bytes name) 0)) (\<lambda>(n, code).
       if unat n \<noteq> length name \<or> code \<noteq> OK then fs_fault (Panic ''Error for writing'')
       else fs_bind (on_deletions (dc_AddEntry (Base (deletionPath E name)))) (\<lambda>_. fs_return OK)))"

definition putDeletion :: "'w union_env \<Rightarrow> string \<Rightarrow> ('w, Status) uop" where
  "putDeletion E name =
     fs_bind (createDeletionStore E) (\<lambda>code.
     if code \<noteq> OK then fs_return code
     else let marker = deletionPath E name in
          fs_bind (on_branch E 0 (\<lambda>fs. p_GetAttr fs marker None)) (\<lambda>(fi, code).
          fs_bind (if code = OK then fs_bind (deref fi) (\<lambda>a. fs_return (a_Size a = word_of_nat (length name)))
                   else fs_return False) (\<lambda>present.
          if present then fs_return OK
          else fs_bind (if code = ENOENT
                        then on_branch E 0 (\<lambda>fs. p_Create fs marker (O_TRUNC OR O_WRONLY) 420 None)
                        else fs_bind (on_branch E 0 (\<lambda>fs. p_Chmod fs marker 420 None)) (\<lambda>_.
                             on_branch E 0 (\<lambda>fs. p_Open fs marker (O_TRUNC OR O_WRONLY) None))) (\<lambda>(fo, code).
               if code \<noteq> OK then fs_return EPERM
               else fs_bind (deref fo) (write_marker E name)))))"

section \<open>Promotion\<close>

definition with_branch0 :: "branchResult \<Rightarrow> branchResult" where
  "with_branch0 r = r\<lparr>br_branch := 0\<rparr>"

text \<open>The directories above a path that are not yet in the writable branch, the deepest first.\<close>

lemma dir_shorter: "stripSlash p = p \<Longrightarrow> p \<noteq> [] \<Longrightarrow> length (stripSlash (path_dir p)) < length p"
proof -
  assume s: "stripSlash p = p" and p: "p \<noteq> []"
  obtain c cs where r: "rev p = c # cs" using p by (cases "rev p") auto
  have len: "length p = Suc (length cs)" using arg_cong [OF r, of length] by simp
  have "c \<noteq> CHR ''/''"
  proof
    assume "c = CHR ''/''"
    then have "stripSlash p = rev (dropWhile (\<lambda>c. c = CHR ''/'') cs)" by (simp add: stripSlash_def r)
    then have "length (stripSlash p) \<le> length cs" using length_dropWhile_le [of "\<lambda>c. c = CHR ''/''" cs] by simp
    then show False unfolding s len by simp
  qed
  then have "path_base p \<noteq> []" by (simp add: path_base_def r)
  with parent_shorter [of p] s show ?thesis by simp
qed

function promote_todo :: "'w union_env \<Rightarrow> string \<Rightarrow> ('w, (string \<times> branchResult) list option) uop" where
  "promote_todo E dirName0 =
     (let dirName = stripSlash dirName0 in
      if dirName = [] then fs_return (Some [])
      else fs_bind (getBranch E dirName) (\<lambda>r.
           fs_bind (deref (br_attr r)) (\<lambda>a.
           if \<not> IsDir a then fs_return None
           else if br_branch r = 0 then fs_return (Some [])
           else fs_bind (promote_todo E (path_dir dirName)) (\<lambda>todo.
                fs_return (map_option ((#) (dirName, r)) todo)))))"
  by pat_completeness auto
termination
proof (relation "measure (\<lambda>(_, d). length (stripSlash d))")
  show "((E, path_dir d), E, d0) \<in> measure (\<lambda>(_, d). length (stripSlash d))"
    if "d = stripSlash d0" and "d \<noteq> []" for E :: "'w union_env" and d d0
    using dir_shorter [of d] that by simp
qed simp

declare promote_todo.simps [simp del]

fun promote_make :: "'w union_env \<Rightarrow> (string \<times> branchResult) list \<Rightarrow> ('w, Status) uop" where
  "promote_make E [] = fs_return OK"
| "promote_make E ((d, r) # rest) =
     fs_bind (deref (br_attr r)) (\<lambda>a.
     fs_bind (on_branch E 0 (\<lambda>fs. p_Mkdir fs d ((a_Mode a AND 4095) OR 128) None)) (\<lambda>code.
     if code \<noteq> OK then fs_return EPERM
     else fs_bind (on_branch E 0 (\<lambda>fs. p_Utimens fs d (Some (AccessTime a)) (Some (ModTime a)) None)) (\<lambda>_.
          fs_bind (setBranch E d (with_branch0 r)) (\<lambda>_. promote_make E rest))))"

definition promoteDirsTo :: "'w union_env \<Rightarrow> string \<Rightarrow> ('w, Status) uop" where
  "promoteDirsTo E filename =
     fs_bind (promote_todo E (path_dir filename)) (\<lambda>todo.
     case todo of None \<Rightarrow> fs_return EPERM | Some t \<Rightarrow> promote_make E (rev t))"

text \<open>The open files of a promoted path move to the copy in the writable branch.\<close>

definition reopen :: "'w union_env \<Rightarrow> string \<Rightarrow> ctx \<Rightarrow> nat \<Rightarrow> u32 \<Rightarrow> ('w, Status) uop" where
  "reopen E name context i flags =
     fs_bind (\<lambda>s. bind_go (slice_get (un_files s) i) (\<lambda>uf. Inr (uf, s))) (\<lambda>uf.
     if uf_layer uf > 0
     then fs_bind (on_branch E 0 (\<lambda>fs. p_Open fs name flags context)) (\<lambda>(fo, code).
          fs_bind (fs_step (\<lambda>s. Inr (s\<lparr>un_files := (un_files s)[i := uf\<lparr>uf_layer := 0, uf_File := fo\<rparr>]\<rparr>))) (\<lambda>_.
          fs_bind (deref (uf_File uf)) (\<lambda>f.
          fs_bind (un_lift (flush_release (ue_files E) f)) (\<lambda>_. fs_return code))))
     else fs_return OK)"

fun reopen_all :: "'w union_env \<Rightarrow> string \<Rightarrow> ctx \<Rightarrow> (nat option \<times> u32) list \<Rightarrow> Status \<Rightarrow> ('w, Status) uop" where
  "reopen_all E name context [] code = fs_return code"
| "reopen_all E name context ((io, flags) # rest) code =
     (if code \<noteq> OK then fs_return code
      else case io of
             None \<Rightarrow> fs_fault (Panic ''no unionFsFile found inside'')
           | Some i \<Rightarrow> fs_bind (reopen E name context i flags) (reopen_all E name context rest))"

definition promote_regular :: "nat \<Rightarrow> 'w union_env \<Rightarrow> string \<Rightarrow> Attr \<Rightarrow> 'w FileSystem \<Rightarrow> ctx \<Rightarrow> ('w, Status) uop" where
  "promote_regular k E name a sourceFs context =
     fs_bind (on_branch E 0 (\<lambda>writable. CopyFile k (ue_files E) sourceFs writable name name context)) (\<lambda>code.
     fs_bind (if code = OK then on_branch E 0 (\<lambda>fs. p_Chmod fs name ((a_Mode a AND 4095) OR 128) context)
              else fs_return code) (\<lambda>code.
     fs_bind (if code = OK then on_branch E 0 (\<lambda>fs. p_Utimens fs name (Some (AccessTime a)) (Some (ModTime a)) context)
              else fs_return code) (\<lambda>code.
     fs_bind (un_lift (ue_AllFiles E name)) (\<lambda>files. reopen_all E name context files code))))"

definition Promote :: "nat \<Rightarrow> 'w union_env \<Rightarrow> string \<Rightarrow> branchResult \<Rightarrow> ctx \<Rightarrow> ('w, Status) uop" where
  "Promote k E name srcResult context =
     fs_bind (branch_at E 0) (\<lambda>_.
     fs_bind (branch_at E (br_branch srcResult)) (\<lambda>sourceFs.
     fs_bind (promoteDirsTo E name) (\<lambda>_.
     fs_bind (deref (br_attr srcResult)) (\<lambda>a.
     let finish = (\<lambda>code.
           if code \<noteq> OK then fs_bind (branch_GetFresh E name) (\<lambda>_. fs_return code)
           else fs_bind (getBranch E name) (\<lambda>r. fs_bind (setBranch E name (with_branch0 r)) (\<lambda>_. fs_return OK)))
     in if IsRegular a then fs_bind (promote_regular k E name a sourceFs context) finish
        else if IsSymlink a
        then fs_bind (fs_bind (un_lift (p_Readlink sourceFs name context)) (\<lambda>(link, code).
               if code \<noteq> OK then fs_return code else on_branch E 0 (\<lambda>fs. p_Symlink fs link name context))) finish
        else if IsDir a
        then fs_bind (on_branch E 0 (\<lambda>fs. p_Mkdir fs name ((a_Mode a AND 4095) OR 128) context)) finish
        else fs_return ENOSYS))))"

section \<open>Listing\<close>

definition put_name :: "(string \<times> u32) list \<Rightarrow> DirEntry \<Rightarrow> (string \<times> u32) list" where
  "put_name m v = (if map_of m (de_Name v) = None then m @ [(de_Name v, de_Mode v)]
     else map (\<lambda>(k, x). (k, if k = de_Name v then de_Mode v else x)) m)"

definition names_of :: "DirEntry list \<Rightarrow> (string \<times> u32) list" where
  "names_of es = foldl put_name [] es"

text \<open>The listings of the branches from number \<^verbatim>\<open>i\<close> on; a branch below that of the directory is not read.\<close>

fun read_branches :: "int \<Rightarrow> string \<Rightarrow> ctx \<Rightarrow> nat \<Rightarrow> 'w FileSystem list \<Rightarrow> ('w, ((string \<times> u32) list \<times> Status) list) uop" where
  "read_branches dirBranch directory context i [] = fs_return []"
| "read_branches dirBranch directory context i (fs # rest) =
     fs_bind (if int i \<ge> dirBranch
              then fs_bind (un_lift (p_OpenDir fs directory context)) (\<lambda>(ch, s). fs_return (names_of ch, s))
              else fs_return ([], OK)) (\<lambda>e.
     fs_bind (read_branches dirBranch directory context (Suc i) rest) (\<lambda>es. fs_return (e # es)))"

definition merge_branch :: "string list \<Rightarrow> string \<Rightarrow> (string \<times> u32) list \<Rightarrow> (string \<times> u32) list \<times> Status \<Rightarrow> (string \<times> u32) list" where
  "merge_branch deletions directory results e =
     (if snd e \<noteq> OK then results
      else foldl (\<lambda>rs (k, v). if map_of rs k \<noteq> None then rs
                    else if filePathHash (path_Join directory k) \<in> set deletions then rs
                    else rs @ [(k, v)]) results (fst e))"

definition merge_entries :: "UnionFsOptions \<Rightarrow> string list \<Rightarrow> string \<Rightarrow> ((string \<times> u32) list \<times> Status) list \<Rightarrow> (string \<times> u32) list" where
  "merge_entries opts deletions directory entries =
     (let results = foldl (merge_branch deletions directory) (fst (hd entries)) (tl entries)
      in if directory = [] then filter (\<lambda>(k, _). k \<noteq> uo_DeletionDirName opts \<and> k \<notin> set (uo_HiddenFiles opts)) results
         else results)"

definition union_OpenDir :: "'w union_env \<Rightarrow> string \<Rightarrow> ctx \<Rightarrow> ('w, DirEntry list \<times> Status) uop" where
  "union_OpenDir E directory context =
     fs_bind (getBranch E directory) (\<lambda>dirBranch.
     if br_branch dirBranch < 0 then fs_return ([], ENOENT)
     else fs_bind (on_branch E 0 (\<lambda>fs. newDirnameMap fs (uo_DeletionDirName (ue_options E)))) (\<lambda>dels.
          fs_bind (read_branches (br_branch dirBranch) directory context 0 (ue_fileSystems E)) (\<lambda>entries.
          fs_bind (case dels of
                     Some ds \<Rightarrow> fs_return (Some ds)
                   | None \<Rightarrow> fs_bind (on_branch E 0 (\<lambda>fs. p_GetAttr fs (uo_DeletionDirName (ue_options E)) context)) (\<lambda>(_, code).
                             fs_return (if code = ENOENT then Some [] else None))) (\<lambda>dels.
          case dels of
            None \<Rightarrow> fs_return ([], EROFS)
          | Some ds \<Rightarrow> fs_return (map (\<lambda>(k, v). \<lparr>de_Mode = v, de_Name = k, de_Ino = 0\<rparr>)
                         (merge_entries (ue_options E) ds directory entries), OK)))))"

section \<open>The file system\<close>

definition NewUnionFs :: "'w union_env \<Rightarrow> 'w \<Rightarrow> ('w unionFS option \<times> 'w) go" where
  "NewUnionFs E w =
     (let s = \<lparr>un_w = w, un_deletionCache = newDirCache (uo_DeletionDirName (ue_options E)) (uo_DeletionCacheTTL (ue_options E)),
               un_branchCache = NewTimedCache (uo_BranchCacheTTL (ue_options E)), un_files = []\<rparr>
      in bind_go (createDeletionStore E s) (\<lambda>(code, s'). Inr (if code \<noteq> OK then None else Some s', un_w s')))"

definition ok_then :: "Status \<Rightarrow> ('w, Status) uop \<Rightarrow> ('w, Status) uop" where
  "ok_then code m = (if code = OK then m else fs_return code)"

definition union_Link :: "nat \<Rightarrow> 'w union_env \<Rightarrow> string \<Rightarrow> string \<Rightarrow> ctx \<Rightarrow> ('w, Status) uop" where
  "union_Link k E orig newName context =
     fs_bind (getBranch E orig) (\<lambda>r.
     fs_bind (if br_code r = OK \<and> br_branch r > 0 then Promote k E orig r context else fs_return (br_code r)) (\<lambda>code.
     fs_bind (if code = OK \<and> br_branch r > 0
              then fs_bind (branch_GetFresh E orig) (\<lambda>_. un_lift (ue_Refresh E orig)) else fs_return ()) (\<lambda>_.
     fs_bind (ok_then code (promoteDirsTo E newName)) (\<lambda>code.
     fs_bind (ok_then code (on_branch E 0 (\<lambda>fs. p_Link fs orig newName context))) (\<lambda>code.
     ok_then code (fs_bind (removeDeletion E newName) (\<lambda>_. fs_bind (branch_GetFresh E newName) (\<lambda>_. fs_return code))))))))"

definition ENOTEMPTY :: Status where "ENOTEMPTY = 39"

definition union_Rmdir :: "'w union_env \<Rightarrow> string \<Rightarrow> ctx \<Rightarrow> ('w, Status) uop" where
  "union_Rmdir E path context =
     fs_bind (getBranch E path) (\<lambda>r.
     if br_code r \<noteq> OK then fs_return (br_code r)
     else fs_bind (deref (br_attr r)) (\<lambda>a.
     if \<not> IsDir a then fs_return ENOTDIR
     else fs_bind (union_OpenDir E path context) (\<lambda>(stream, _).
     if stream \<noteq> [] then fs_return ENOTEMPTY
     else if br_branch r > 0 then putDeletion E path
     else fs_bind (on_branch E 0 (\<lambda>fs. p_Rmdir fs path context)) (\<lambda>code.
          if code \<noteq> OK then fs_return code
          else fs_bind (branch_GetFresh E path) (\<lambda>r.
               if br_branch r > 0 then putDeletion E path else fs_return code)))))"

fun put_deletions :: "'w union_env \<Rightarrow> string \<Rightarrow> DirEntry list \<Rightarrow> ('w, unit) uop" where
  "put_deletions E path [] = fs_return ()"
| "put_deletions E path (e # es) = fs_bind (putDeletion E (path_Join path (de_Name e))) (\<lambda>_. put_deletions E path es)"

definition union_Mkdir :: "'w union_env \<Rightarrow> string \<Rightarrow> u32 \<Rightarrow> ctx \<Rightarrow> ('w, Status) uop" where
  "union_Mkdir E path mode context =
     fs_bind (isDeleted E path) (\<lambda>(deleted, code).
     if code \<noteq> OK then fs_return code
     else fs_bind (if deleted then fs_return False
                   else fs_bind (getBranch E path) (\<lambda>r. fs_return (br_code r \<noteq> ENOENT))) (\<lambda>exists.
     if exists then fs_return EEXIST
     else fs_bind (promoteDirsTo E path) (\<lambda>code.
          fs_bind (ok_then code (on_branch E 0 (\<lambda>fs. p_Mkdir fs path mode context))) (\<lambda>code.
          fs_bind (if code = OK
                   then fs_bind (removeDeletion E path) (\<lambda>_.
                        setBranch E path \<lparr>br_attr = Some (zero_Attr\<lparr>a_Mode := S_IFDIR OR mode\<rparr>), br_code = OK, br_branch = 0\<rparr>)
                   else fs_return ()) (\<lambda>_.
          fs_bind (union_OpenDir E path context) (\<lambda>(stream, code).
          fs_bind (if code = OK then put_deletions E path stream else fs_return ()) (\<lambda>_. fs_return code)))))))"

definition union_Symlink :: "'w union_env \<Rightarrow> string \<Rightarrow> string \<Rightarrow> ctx \<Rightarrow> ('w, Status) uop" where
  "union_Symlink E pointedTo linkName context =
     fs_bind (promoteDirsTo E linkName) (\<lambda>code.
     fs_bind (ok_then code (on_branch E 0 (\<lambda>fs. p_Symlink fs pointedTo linkName context))) (\<lambda>code.
     ok_then code (fs_bind (removeDeletion E linkName) (\<lambda>_. fs_bind (branch_GetFresh E linkName) (\<lambda>_. fs_return code)))))"

definition union_Truncate :: "nat \<Rightarrow> 'w union_env \<Rightarrow> string \<Rightarrow> u64 \<Rightarrow> ctx \<Rightarrow> ('w, Status) uop" where
  "union_Truncate k E path sz context =
     (if path = DROP_CACHE then fs_return OK
      else fs_bind (getBranch E path) (\<lambda>r0.
           fs_bind (if br_branch r0 > 0 then fs_bind (Promote k E path r0 context) (\<lambda>code. fs_return (code, with_branch0 r0))
                    else fs_return (OK, r0)) (\<lambda>(code, r).
           fs_bind (ok_then code (on_branch E 0 (\<lambda>fs. p_Truncate fs path sz context))) (\<lambda>code.
           ok_then code (fs_bind (deref (br_attr r)) (\<lambda>a. fs_bind (now_Time E) (\<lambda>now.
             fs_bind (setBranch E path (r\<lparr>br_attr := Some (SetTimes None (Some now) (Some now) (a\<lparr>a_Size := sz\<rparr>))\<rparr>)) (\<lambda>_.
             fs_return code))))))))"

definition union_Utimens :: "nat \<Rightarrow> 'w union_env \<Rightarrow> string \<Rightarrow> Time option \<Rightarrow> Time option \<Rightarrow> ctx \<Rightarrow> ('w, Status) uop" where
  "union_Utimens k E name0 atime mtime context =
     (let name = stripSlash name0 in
      fs_bind (getBranch E name) (\<lambda>r0.
      fs_bind (if br_code r0 = OK \<and> br_branch r0 > 0
               then fs_bind (Promote k E name r0 context) (\<lambda>code. fs_return (code, with_branch0 r0))
               else fs_return (br_code r0, r0)) (\<lambda>(code, r).
      fs_bind (ok_then code (on_branch E 0 (\<lambda>fs. p_Utimens fs name atime mtime context))) (\<lambda>code.
      ok_then code (fs_bind (now_Time E) (\<lambda>now. fs_bind (deref (br_attr r)) (\<lambda>a.
        fs_bind (setBranch E name (r\<lparr>br_attr := Some (SetTimes atime mtime (Some now) a)\<rparr>)) (\<lambda>_. fs_return code))))))))"

text \<open>
  The common end of \<^verbatim>\<open>Chown\<close> and \<^verbatim>\<open>Chmod\<close>: when the attribute changes, the file is promoted and the
  change is made in the writable branch; the cached attributes get the new value.
\<close>

definition change_attr ::
  "nat \<Rightarrow> 'w union_env \<Rightarrow> string \<Rightarrow> branchResult \<Rightarrow> bool \<Rightarrow> ('w FileSystem \<Rightarrow> ('w, Status) fsm) \<Rightarrow> Attr \<Rightarrow> ctx \<Rightarrow> ('w, Status) uop" where
  "change_attr k E name r0 differs change newAttr context =
     fs_bind (if differs
              then fs_bind (if br_branch r0 > 0 then Promote k E name r0 context else fs_return OK) (\<lambda>code.
                   if code \<noteq> OK then fs_return (Some code)
                   else fs_bind (on_branch E 0 change) (\<lambda>_. fs_return None))
              else fs_return None) (\<lambda>failed.
     case failed of
       Some code \<Rightarrow> fs_return code
     | None \<Rightarrow> fs_bind (now_Time E) (\<lambda>now.
         fs_bind (setBranch E name ((if differs \<and> br_branch r0 > 0 then with_branch0 r0 else r0)
                    \<lparr>br_attr := Some (SetTimes None None (Some now) newAttr)\<rparr>)) (\<lambda>_. fs_return OK)))"

definition union_Chown :: "nat \<Rightarrow> 'w union_env \<Rightarrow> string \<Rightarrow> u32 \<Rightarrow> u32 \<Rightarrow> ctx \<Rightarrow> ('w, Status) uop" where
  "union_Chown k E name0 uid gid context =
     (let name = stripSlash name0 in
      fs_bind (getBranch E name) (\<lambda>r.
      case br_attr r of
        None \<Rightarrow> fs_return (br_code r)
      | Some a \<Rightarrow>
          if br_code r \<noteq> OK then fs_return (br_code r)
          else if ue_euid E \<noteq> 0 then fs_return EPERM
          else change_attr k E name r (Uid (a_Owner a) \<noteq> uid \<or> Gid (a_Owner a) \<noteq> gid)
                 (\<lambda>fs. p_Chown fs name uid gid context) (a\<lparr>a_Owner := \<lparr>Uid = uid, Gid = gid\<rparr>\<rparr>) context))"

definition union_Chmod :: "nat \<Rightarrow> 'w union_env \<Rightarrow> string \<Rightarrow> u32 \<Rightarrow> ctx \<Rightarrow> ('w, Status) uop" where
  "union_Chmod k E name0 mode context =
     (let name = stripSlash name0 in
      fs_bind (getBranch E name) (\<lambda>r.
      case br_attr r of
        None \<Rightarrow> fs_return (br_code r)
      | Some a \<Rightarrow>
          if br_code r \<noteq> OK then fs_return (br_code r)
          else change_attr k E name r (a_Mode a AND 4095 \<noteq> mode) (\<lambda>fs. p_Chmod fs name mode context)
                 (a\<lparr>a_Mode := (a_Mode a AND NOT 4095) OR mode\<rparr>) context))"

definition union_Access :: "'w union_env \<Rightarrow> string \<Rightarrow> u32 \<Rightarrow> ctx \<Rightarrow> ('w, Status) uop" where
  "union_Access E name mode context =
     (if name = [] \<or> name = DROP_CACHE then fs_return OK
      else fs_bind (getBranch E name) (\<lambda>r.
           if br_branch r \<ge> 0 then on_branch E (br_branch r) (\<lambda>fs. p_Access fs name (mode AND NOT 2) context)
           else fs_return ENOENT))"

definition union_Unlink :: "'w union_env \<Rightarrow> string \<Rightarrow> ctx \<Rightarrow> ('w, Status) uop" where
  "union_Unlink E name context =
     fs_bind (getBranch E name) (\<lambda>r0.
     fs_bind (if br_branch r0 = 0
              then fs_bind (on_branch E 0 (\<lambda>fs. p_Unlink fs name context)) (\<lambda>code.
                   if code \<noteq> OK then fs_return (code, None)
                   else fs_bind (branch_GetFresh E name) (\<lambda>r. fs_return (code, Some r)))
              else fs_return (OK, Some r0)) (\<lambda>(code, ro).
     case ro of
       None \<Rightarrow> fs_return code
     | Some r \<Rightarrow> if br_branch r > 0 then putDeletion E name else fs_return code))"

definition union_Readlink :: "'w union_env \<Rightarrow> string \<Rightarrow> ctx \<Rightarrow> ('w, string \<times> Status) uop" where
  "union_Readlink E name context =
     fs_bind (getBranch E name) (\<lambda>r.
     if br_branch r \<ge> 0 then on_branch E (br_branch r) (\<lambda>fs. p_Readlink fs name context)
     else fs_return ([], ENOENT))"

text \<open>What an open returns: a file of a branch, a \<^verbatim>\<open>unionFsFile\<close>, or the null file.\<close>

datatype ufile = BranchFile pfile | UnionFile nat | DevNull

definition newUnionFsFile :: "pfile option \<Rightarrow> int \<Rightarrow> ('w, nat) uop" where
  "newUnionFsFile f branch s = Inr (length (un_files s), s\<lparr>un_files := un_files s @ [\<lparr>uf_File = f, uf_layer = branch, uf_node = 0\<rparr>]\<rparr>)"

definition union_Create :: "'w union_env \<Rightarrow> string \<Rightarrow> u32 \<Rightarrow> u32 \<Rightarrow> ctx \<Rightarrow> ('w, ufile option \<times> Status) uop" where
  "union_Create E name flags mode context =
     fs_bind (branch_at E 0) (\<lambda>_.
     fs_bind (promoteDirsTo E name) (\<lambda>code.
     if code \<noteq> OK then fs_return (None, code)
     else fs_bind (on_branch E 0 (\<lambda>fs. p_Create fs name flags mode context)) (\<lambda>(f, code).
          if code \<noteq> OK then fs_return (map_option BranchFile f, code)
          else fs_bind (newUnionFsFile f 0) (\<lambda>u.
               fs_bind (removeDeletion E name) (\<lambda>_.
               fs_bind (now_Time E) (\<lambda>now.
               fs_bind (setBranch E name \<lparr>br_attr = Some (SetTimes None (Some now) (Some now) (zero_Attr\<lparr>a_Mode := S_IFREG OR mode\<rparr>)),
                          br_code = OK, br_branch = 0\<rparr>) (\<lambda>_.
               fs_return (Some (UnionFile u), code))))))))"

definition union_GetAttr :: "'w union_env \<Rightarrow> string \<Rightarrow> ctx \<Rightarrow> ('w, Attr option \<times> Status) uop" where
  "union_GetAttr E name context =
     (if name \<in> set (uo_HiddenFiles (ue_options E)) then fs_return (None, ENOENT)
      else if name = DROP_CACHE then fs_return (Some (zero_Attr\<lparr>a_Mode := S_IFREG OR 511\<rparr>), OK)
      else if name = uo_DeletionDirName (ue_options E) then fs_return (None, ENOENT)
      else fs_bind (isDeleted E name) (\<lambda>(isDel, s).
           if s \<noteq> OK then fs_return (None, s)
           else if isDel then fs_return (None, ENOENT)
           else fs_bind (getBranch E name) (\<lambda>r.
                if br_branch r < 0 then fs_return (None, ENOENT)
                else fs_bind (deref (br_attr r)) (\<lambda>a. fs_return (Some (a\<lparr>a_Mode := a_Mode a OR 128\<rparr>), br_code r)))))"

definition union_GetXAttr :: "'w union_env \<Rightarrow> string \<Rightarrow> string \<Rightarrow> ctx \<Rightarrow> ('w, u8 list \<times> Status) uop" where
  "union_GetXAttr E name attr context =
     (if name = DROP_CACHE then fs_return ([], ENOATTR)
      else fs_bind (getBranch E name) (\<lambda>r.
           if br_branch r \<ge> 0 then on_branch E (br_branch r) (\<lambda>fs. p_GetXAttr fs name attr context)
           else fs_return ([], ENOENT)))"

section \<open>Renaming\<close>

text \<open>
  \<^verbatim>\<open>recursivePromote\<close> goes as deep as the directories do, which the fuel bounds. The names are the
  promoted paths, nothing after an error.
\<close>

fun recursivePromote :: "nat \<Rightarrow> nat \<Rightarrow> 'w union_env \<Rightarrow> string \<Rightarrow> branchResult \<Rightarrow> ctx \<Rightarrow> ('w, string list \<times> Status) uop"
and promote_entries :: "nat \<Rightarrow> nat \<Rightarrow> 'w union_env \<Rightarrow> string \<Rightarrow> DirEntry list \<Rightarrow> ctx \<Rightarrow> Status \<Rightarrow> ('w, string list \<times> Status) uop"
where
  "recursivePromote 0 k E path r context = fs_fault OutOfFuel"
| "recursivePromote (Suc d) k E path r context =
     fs_bind (if br_branch r > 0 then Promote k E path r context else fs_return OK) (\<lambda>code.
     fs_bind (if code = OK \<and> (case br_attr r of None \<Rightarrow> False | Some a \<Rightarrow> IsDir a)
              then fs_bind (union_OpenDir E path context) (\<lambda>(stream, code). promote_entries d k E path stream context code)
              else fs_return ([], code)) (\<lambda>(subnames, code').
     fs_return (if code' \<noteq> OK then ([], code') else (path # subnames, code'))))"
| "promote_entries d k E path [] context code = fs_return ([], code)"
| "promote_entries d k E path (e # es) context code =
     (if code \<noteq> OK then fs_return ([], code)
      else let p = path_Join path (de_Name e) in
           fs_bind (getBranch E p) (\<lambda>r.
           fs_bind (recursivePromote d k E p r context) (\<lambda>(subnames, code).
           fs_bind (promote_entries d k E path es context code) (\<lambda>(names, code).
           fs_return (subnames @ names, code)))))"

text \<open>The part of the path below the renamed directory; \<^verbatim>\<open>srcName[len(srcDir):]\<close> needs a path that long.\<close>

definition relative_to :: "string \<Rightarrow> string \<Rightarrow> ('w, string) uop" where
  "relative_to srcDir srcName s = (if length srcName < length srcDir then Inl IndexRange
     else Inr (dropWhile (\<lambda>c. c = CHR ''/'') (drop (length srcDir) srcName), s))"

fun rename_names :: "'w union_env \<Rightarrow> string \<Rightarrow> string \<Rightarrow> string list \<Rightarrow> Status \<Rightarrow> ('w, Status) uop" where
  "rename_names E srcDir dstDir [] code = fs_return code"
| "rename_names E srcDir dstDir (srcName # rest) code =
     fs_bind (relative_to srcDir srcName) (\<lambda>relative.
     let dst = path_Join dstDir relative in
     fs_bind (removeDeletion E dst) (\<lambda>_.
     fs_bind (getBranch E srcName) (\<lambda>r.
     fs_bind (setBranch E dst (with_branch0 r)) (\<lambda>_.
     fs_bind (branch_GetFresh E srcName) (\<lambda>r'.
     fs_bind (if br_branch r' > 0 then putDeletion E srcName else fs_return code) (\<lambda>code'.
     rename_names E srcDir dstDir rest code'))))))"

definition renameDirectory :: "nat \<Rightarrow> nat \<Rightarrow> 'w union_env \<Rightarrow> branchResult \<Rightarrow> string \<Rightarrow> string \<Rightarrow> ctx \<Rightarrow> ('w, Status) uop" where
  "renameDirectory d k E srcResult srcDir dstDir context =
     fs_bind (recursivePromote d k E srcDir srcResult context) (\<lambda>(names, code).
     fs_bind (ok_then code (promoteDirsTo E dstDir)) (\<lambda>code.
     fs_bind (ok_then code (on_branch E 0 (\<lambda>fs. p_Rename fs srcDir dstDir context))) (\<lambda>code.
     ok_then code (rename_names E srcDir dstDir names code))))"

definition branch_DropEntry :: "string \<Rightarrow> ('w, unit) uop" where
  "branch_DropEntry name = fs_step (\<lambda>s. Inr (s\<lparr>un_branchCache := tc_DropEntry name (un_branchCache s)\<rparr>))"

definition union_Rename :: "nat \<Rightarrow> nat \<Rightarrow> 'w union_env \<Rightarrow> string \<Rightarrow> string \<Rightarrow> ctx \<Rightarrow> ('w, Status) uop" where
  "union_Rename d k E src dst context =
     fs_bind (getBranch E src) (\<lambda>r.
     if br_code r \<noteq> OK then fs_return (br_code r)
     else fs_bind (deref (br_attr r)) (\<lambda>a.
     if IsDir a then renameDirectory d k E r src dst context
     else fs_bind (if br_branch r > 0 then Promote k E src r context else fs_return OK) (\<lambda>code.
          fs_bind (ok_then code (promoteDirsTo E dst)) (\<lambda>code.
          fs_bind (ok_then code (on_branch E 0 (\<lambda>fs. p_Rename fs src dst context))) (\<lambda>code.
          ok_then code (
            fs_bind (removeDeletion E dst) (\<lambda>_.
            fs_bind (branch_DropEntry dst) (\<lambda>_.
            fs_bind (branch_GetFresh E src) (\<lambda>r'.
            if br_branch r' > 0 then putDeletion E src else fs_return OK)))))))))"

section \<open>Opening files\<close>

definition DropBranchCache :: "string list option \<Rightarrow> ('w, unit) uop" where
  "DropBranchCache names = fs_step (\<lambda>s. Inr (s\<lparr>un_branchCache := tc_DropAll names (un_branchCache s)\<rparr>))"

definition DropDeletionCache :: "('w, unit) uop" where
  "DropDeletionCache = on_deletions dc_DropCache"

fun DropSubFsCaches :: "'w file_ops \<Rightarrow> 'w FileSystem list \<Rightarrow> ('w, unit) uop" where
  "DropSubFsCaches F [] = fs_return ()"
| "DropSubFsCaches F (fs # rest) =
     fs_bind (un_lift (p_GetAttr fs DROP_CACHE None)) (\<lambda>(ao, code).
     fs_bind (if code = OK then fs_bind (deref ao) (\<lambda>a. fs_return (IsRegular a)) else fs_return False) (\<lambda>present.
     fs_bind (if present
              then fs_bind (un_lift (p_Open fs DROP_CACHE O_WRONLY None)) (\<lambda>(fo, _).
                   case fo of None \<Rightarrow> fs_return () | Some f \<Rightarrow> un_lift (flush_release F f))
              else fs_return ()) (\<lambda>_. DropSubFsCaches F rest)))"

definition union_Open :: "nat \<Rightarrow> 'w union_env \<Rightarrow> string \<Rightarrow> u32 \<Rightarrow> ctx \<Rightarrow> ('w, ufile option \<times> Status) uop" where
  "union_Open k E name flags context =
     (if name = DROP_CACHE
      then fs_bind (if flags AND O_ANYWRITE \<noteq> 0
                    then fs_bind (DropBranchCache None) (\<lambda>_. fs_bind DropDeletionCache (\<lambda>_.
                         fs_bind (DropSubFsCaches (ue_files E) (ue_fileSystems E)) (\<lambda>_. un_lift (ue_ForgetClientInodes E))))
                    else fs_return ()) (\<lambda>_. fs_return (Some DevNull, OK))
      else fs_bind (getBranch E name) (\<lambda>r0.
           if br_branch r0 < 0 then fs_return (None, ENOENT)
           else fs_bind (if flags AND O_ANYWRITE \<noteq> 0 \<and> br_branch r0 > 0
                         then fs_bind (Promote k E name r0 context) (\<lambda>code.
                              if code \<noteq> OK then fs_return (Inl code)
                              else fs_bind (now_Time E) (\<lambda>now. fs_bind (deref (br_attr r0)) (\<lambda>a.
                                   let r = r0\<lparr>br_branch := 0, br_attr := Some (SetTimes None (Some now) None a)\<rparr> in
                                   fs_bind (setBranch E name r) (\<lambda>_. fs_return (Inr r)))))
                         else fs_return (Inr r0)) (\<lambda>x.
           case x of
             Inl code \<Rightarrow> fs_return (None, code)
           | Inr r \<Rightarrow>
               fs_bind (on_branch E (br_branch r) (\<lambda>fs. p_Open fs name flags context)) (\<lambda>(fo, status).
               case fo of
                 None \<Rightarrow> fs_return (None, status)
               | Some f \<Rightarrow> fs_bind (newUnionFsFile (Some f) (br_branch r)) (\<lambda>u. fs_return (Some (UnionFile u), status))))))"

definition union_StatFs :: "'w union_env \<Rightarrow> string \<Rightarrow> ('w, StatfsOut option) uop" where
  "union_StatFs E name = on_branch E 0 (\<lambda>fs. p_StatFs fs [])"

definition the_file :: "nat \<Rightarrow> ('w, unionFsFile \<times> pfile) uop" where
  "the_file u = fs_bind (\<lambda>s. bind_go (slice_get (un_files s) u) (\<lambda>uf. Inr (uf, s))) (\<lambda>uf.
     fs_bind (deref (uf_File uf)) (\<lambda>f. fs_return (uf, f)))"

definition file_Flush :: "'w union_env \<Rightarrow> nat \<Rightarrow> ('w, Status) uop" where
  "file_Flush E u =
     fs_bind (the_file u) (\<lambda>(uf, f).
     fs_bind (un_lift (f_Flush (ue_files E) f)) (\<lambda>code.
     fs_bind (un_lift (ue_Path E (uf_node uf))) (\<lambda>path.
     fs_bind (branch_GetFresh E path) (\<lambda>_. fs_return code))))"

definition file_SetInode :: "nat \<Rightarrow> nat \<Rightarrow> ('w, unit) uop" where
  "file_SetInode u n = fs_step (\<lambda>s. Inr (s\<lparr>un_files := (un_files s)[u := (un_files s ! u)\<lparr>uf_node := n\<rparr>]\<rparr>))"

definition file_GetAttr :: "'w union_env \<Rightarrow> nat \<Rightarrow> Attr \<Rightarrow> ('w, Status \<times> Attr) uop" where
  "file_GetAttr E u out =
     fs_bind (the_file u) (\<lambda>(_, f).
     fs_bind (un_lift (f_GetAttr (ue_files E) f out)) (\<lambda>(code, out1).
     fs_return (code, if code = OK then out1\<lparr>a_Mode := a_Mode out1 OR 128\<rparr> else out1)))"

end
