(* ===== verification/UnionProps.thy ===== *)
theory UnionProps
  imports UnionFs
begin

text \<open>
  Correctness of the union file system over branches whose contents do not change: the cached search
  for the branch of a path agrees with the search through all branches, a listing shows the entries of
  the topmost branches that no marker deletes, and a deletion hides the file.
\<close>

section \<open>Branches at rest\<close>

text \<open>
  \<^verbatim>\<open>A i name\<close> is what branch \<^verbatim>\<open>i\<close> answers to \<^verbatim>\<open>GetAttr\<close>, in every state of the world; the clock may do anything
  but fail.
\<close>

definition still_attrs :: "'w union_env \<Rightarrow> (nat \<Rightarrow> string \<Rightarrow> Attr option \<times> Status) \<Rightarrow> bool" where
  "still_attrs E A \<longleftrightarrow>
     (\<forall>i n w. i < length (ue_fileSystems E) \<longrightarrow> p_GetAttr (ue_fileSystems E ! i) n None w = Inr (A i n, w))
   \<and> (\<forall>i n. snd (A i n) = OK \<longrightarrow> fst (A i n) \<noteq> None)
   \<and> (\<forall>w. \<exists>t w'. ue_clock E w = Inr (t, w'))"

definition branch_result :: "(nat \<Rightarrow> string \<Rightarrow> Attr option \<times> Status) \<Rightarrow> string \<Rightarrow> nat option \<Rightarrow> branchResult" where
  "branch_result A name io = (case io of
     None \<Rightarrow> no_branch
   | Some i \<Rightarrow> \<lparr>br_attr = (if i > 0 then map_option (\<lambda>a. a\<lparr>a_Ino := 0\<rparr>) (fst (A i name)) else fst (A i name)),
                br_code = OK, br_branch = int i\<rparr>)"

text \<open>The reference: the first branch that has the path, from that of the parent directory on.\<close>

function resolve :: "nat \<Rightarrow> (nat \<Rightarrow> string \<Rightarrow> Attr option \<times> Status) \<Rightarrow> string \<Rightarrow> branchResult" where
  "resolve N A name =
     (let lo = (if path_base (stripSlash name) \<noteq> [] then br_branch (resolve N A (stripSlash (path_dir (stripSlash name)))) else 0)
      in branch_result A (stripSlash name) (find (\<lambda>i. lo \<le> int i \<and> snd (A i (stripSlash name)) = OK) [0..<N]))"
  by pat_completeness auto
termination
  by (relation "measure (\<lambda>(_, _, name). length name)") (auto intro: parent_shorter)

declare resolve.simps [simp del]

lemma resolve_stripSlash: "resolve N A (stripSlash name) = resolve N A name"
  by (subst (1 2) resolve.simps) simp

section \<open>The search for a branch\<close>

lemma first_branch_find:
  assumes st: "still_attrs E A" and i: "i \<le> length (ue_fileSystems E)"
  shows "first_branch name pb i (drop i (ue_fileSystems E)) s =
    Inr (branch_result A name (find (\<lambda>j. pb \<le> int j \<and> snd (A j name) = OK) [i..<length (ue_fileSystems E)]), s)"
  using i
proof (induction "length (ue_fileSystems E) - i" arbitrary: i)
  case 0
  then show ?case by (simp add: branch_result_def)
next
  case (Suc n)
  then have lt: "i < length (ue_fileSystems E)" by simp
  have IH: "first_branch name pb (Suc i) (drop (Suc i) (ue_fileSystems E)) s =
    Inr (branch_result A name (find (\<lambda>j. pb \<le> int j \<and> snd (A j name) = OK) [Suc i..<length (ue_fileSystems E)]), s)"
    using Suc.hyps(1) [of "Suc i"] Suc.hyps(2) lt by simp
  have g: "un_lift (p_GetAttr (ue_fileSystems E ! i) name None) s = Inr (A i name, s)"
    using st lt by (simp add: still_attrs_def un_lift_def)
  have d: "drop i (ue_fileSystems E) = ue_fileSystems E ! i # drop (Suc i) (ue_fileSystems E)"
    using lt by (simp add: Cons_nth_drop_Suc)
  have u: "[i..<length (ue_fileSystems E)] = i # [Suc i..<length (ue_fileSystems E)]" using lt by (simp add: upt_conv_Cons)
  obtain ao c where a: "A i name = (ao, c)" by force
  have "c = OK \<Longrightarrow> \<exists>x. ao = Some x" using st a unfolding still_attrs_def by (metis fst_conv snd_conv not_Some_eq)
  then show ?case
    unfolding d u using IH g a by (auto simp: fs_bind_def branch_result_def deref_def)
qed

definition cache_exact :: "nat \<Rightarrow> (nat \<Rightarrow> string \<Rightarrow> Attr option \<times> Status) \<Rightarrow> 'w unionFS \<Rightarrow> bool" where
  "cache_exact N A s \<longleftrightarrow> (\<forall>n v e. tc_map (un_branchCache s) n = Some (v, e) \<longrightarrow> v = resolve N A n)"

definition only_cached :: "'w unionFS \<Rightarrow> 'w unionFS \<Rightarrow> bool" where
  "only_cached s s' \<longleftrightarrow> un_deletionCache s' = un_deletionCache s \<and> un_files s' = un_files s"

lemma union_clock_runs:
  assumes "still_attrs E A"
  obtains t w' where "union_clock E s = Inr (t, s\<lparr>un_w := w'\<rparr>)"
proof -
  obtain t w' where "ue_clock E (un_w s) = Inr (t, w')" using assms unfolding still_attrs_def by blast
  then show thesis by (intro that [of t w']) (simp add: un_lift_def)
qed

lemma getBranch_resolves:
  assumes st: "still_attrs E A" and "cache_exact (length (ue_fileSystems E)) A s"
  shows "\<exists>s'. getBranch E name s = Inr (resolve (length (ue_fileSystems E)) A name, s')
    \<and> cache_exact (length (ue_fileSystems E)) A s' \<and> only_cached s s'"
  using assms(2)
proof (induction "length name" arbitrary: name s rule: less_induct)
  case less
  let ?N = "length (ue_fileSystems E)" and ?n = "stripSlash name"
  let ?parent = "stripSlash (path_dir ?n)"
  define lo where "lo = (if path_base ?n \<noteq> [] then br_branch (resolve ?N A ?parent) else 0)"
  have res: "resolve ?N A name = branch_result A ?n (find (\<lambda>i. lo \<le> int i \<and> snd (A i ?n) = OK) [0..<?N])"
    by (subst resolve.simps) (simp add: lo_def)
  obtain t w1 where c1: "union_clock E s = Inr (t, s\<lparr>un_w := w1\<rparr>)" by (rule union_clock_runs [OF st])
  let ?par = "if path_base ?n \<noteq> [] then fs_bind (getBranch E ?parent) (\<lambda>r. fs_return (br_branch r)) else fs_return 0"
  let ?fetch = "fs_bind ?par (\<lambda>parentBranch. fs_bind (first_branch ?n parentBranch 0 (ue_fileSystems E)) (\<lambda>r. fs_return (r, True)))"
  have get: "getBranch E name s = tc_Get (union_clock E) un_branchCache un_branchCache_update ?n ?fetch s"
    by (subst getBranch.simps) (simp add: Let_def)
  from c1 show ?case
  proof (cases rule: tc_Get_cases [where cache = un_branchCache and n = ?n and change = un_branchCache_update and m = ?fetch])
    case (hit v e s0)
    then have "v = resolve ?N A ?n" using less.prems unfolding cache_exact_def by blast
    then have "v = resolve ?N A name" by (simp add: resolve_stripSlash)
    then show ?thesis using hit less.prems unfolding get by (auto simp: cache_exact_def only_cached_def)
  next
    case (miss s0)
    have "\<exists>s2. ?par s0 = Inr (lo, s2) \<and> cache_exact ?N A s2 \<and> only_cached s s2"
    proof (cases "path_base ?n = []")
      case True
      then show ?thesis using less.prems miss(1) by (auto simp: lo_def cache_exact_def only_cached_def)
    next
      case False
      have "cache_exact ?N A s0" using less.prems miss(1) by (auto simp: cache_exact_def)
      from less.hyps [OF parent_shorter [OF False] this] show ?thesis
        using False miss(1) by (auto simp: lo_def fs_bind_def only_cached_def)
    qed
    then obtain s2 where p: "?par s0 = Inr (lo, s2)" "cache_exact ?N A s2" "only_cached s s2" by blast
    have f: "first_branch ?n lo 0 (ue_fileSystems E) s2 = Inr (resolve ?N A name, s2)"
      using first_branch_find [OF st, of 0 ?n lo s2] res by simp
    obtain t3 w3 where c3: "union_clock E s2 = Inr (t3, s2\<lparr>un_w := w3\<rparr>)" by (rule union_clock_runs [OF st])
    let ?s' = "s2\<lparr>un_w := w3, un_branchCache := tc_Set t3 ?n (resolve ?N A name) (un_branchCache s2)\<rparr>"
    have "getBranch E name s = Inr (resolve ?N A name, ?s')"
      unfolding get miss(2) using p(1) f c3 by (simp add: tc_GetFresh_def tc_put_def fs_bind_def fs_step_def)
    moreover have "cache_exact ?N A ?s'"
      using p(2) by (auto simp: cache_exact_def tc_Set_def resolve_stripSlash)
    moreover have "only_cached s ?s'" using p(3) by (simp add: only_cached_def)
    ultimately show ?thesis by blast
  qed
qed

text \<open>
  C30: The cached search for the branch of a path is equivalent to the search through all branches. As
  long as the branches answer the same, whatever the expiry times and the clock do, looking up any
  path always returns the first branch that has it, counted from the branch of its parent directory,
  with the inode number cleared for a read-only branch; the entries in the cache stay exact.
\<close>

theorem branch_search_cached:
  assumes "still_attrs E A" and "cache_exact (length (ue_fileSystems E)) A s"
  shows "\<exists>s' s''. getBranch E name s = Inr (resolve (length (ue_fileSystems E)) A name, s')
    \<and> cache_exact (length (ue_fileSystems E)) A s'
    \<and> getBranchAttrNoCache E name s' = Inr (resolve (length (ue_fileSystems E)) A name, s'')
    \<and> cache_exact (length (ue_fileSystems E)) A s''"
proof -
  let ?N = "length (ue_fileSystems E)" and ?n = "stripSlash name"
  let ?parent = "stripSlash (path_dir ?n)"
  obtain s' where g: "getBranch E name s = Inr (resolve ?N A name, s')" "cache_exact ?N A s'"
    using getBranch_resolves [OF assms, of name] by blast
  obtain s'' where p: "getBranch E ?parent s' = Inr (resolve ?N A ?parent, s'')" "cache_exact ?N A s''"
    using getBranch_resolves [OF assms(1) g(2), of ?parent] by blast
  have f: "first_branch ?n lo 0 (ue_fileSystems E) t =
      Inr (branch_result A ?n (find (\<lambda>i. lo \<le> int i \<and> snd (A i ?n) = OK) [0..<?N]), t)" for lo t
    using first_branch_find [OF assms(1), of 0 ?n lo t] by simp
  have "\<exists>t. getBranchAttrNoCache E name s' = Inr (resolve ?N A name, t) \<and> cache_exact ?N A t"
  proof (cases "path_base ?n = []")
    case True
    then show ?thesis using g(2) by (subst resolve.simps) (simp add: getBranchAttrNoCache_def fs_bind_def f Let_def)
  next
    case False
    then show ?thesis using p by (subst resolve.simps) (simp add: getBranchAttrNoCache_def fs_bind_def f Let_def)
  qed
  then show ?thesis using g by blast
qed

section \<open>Listings\<close>

definition mode_in :: "DirEntry list \<Rightarrow> string \<Rightarrow> u32 option" where
  "mode_in es k = map_of (rev (map (\<lambda>e. (de_Name e, de_Mode e)) es)) k"

lemma put_name_props:
  assumes "distinct (map fst m)"
  shows "map_of (put_name m v) = (map_of m)(de_Name v \<mapsto> de_Mode v)" and "distinct (map fst (put_name m v))"
proof -
  have u: "map_of (map (\<lambda>(k, x). (k, if k = n then y else x)) l) k = (if k = n \<and> map_of l k \<noteq> None then Some y else map_of l k)"
    for n y k and l :: "(string \<times> u32) list" by (induction l) auto
  have f: "map fst (map (\<lambda>(k, x). (k, if k = n then y else x)) l) = map fst l" for n y and l :: "(string \<times> u32) list"
    by (induction l) auto
  show "map_of (put_name m v) = (map_of m)(de_Name v \<mapsto> de_Mode v)"
    by (rule ext) (auto simp: put_name_def u map_add_def split: option.split)
  show "distinct (map fst (put_name m v))"
    unfolding put_name_def using assms f [of "de_Name v" "de_Mode v" m] by (auto simp: map_of_eq_None_iff simp del: map_map)
qed

lemma names_of_props: "map_of (names_of es) = mode_in es" "distinct (map fst (names_of es))"
proof -
  have "map_of (foldl put_name m es) = map_of m ++ mode_in es \<and> distinct (map fst (foldl put_name m es))"
    if "distinct (map fst m)" for m
    using that
  proof (induction es arbitrary: m)
    case Nil
    then show ?case by (simp add: mode_in_def map_add_def)
  next
    case (Cons e es)
    note P = put_name_props [OF Cons.prems, of e]
    have "map_of m ++ mode_in (e # es) = (map_of m)(de_Name e \<mapsto> de_Mode e) ++ mode_in es"
      by (rule ext) (auto simp: mode_in_def map_add_def split: option.split)
    then show ?case using Cons.IH [OF P(2)] unfolding P(1) by (simp only: foldl.simps)
  qed
  from this [of "[]"] show "map_of (names_of es) = mode_in es" "distinct (map fst (names_of es))"
    by (simp_all add: names_of_def)
qed

definition del_hit :: "string list \<Rightarrow> string \<Rightarrow> string \<Rightarrow> bool" where
  "del_hit dels dir k \<longleftrightarrow> filePathHash (path_Join dir k) \<in> set dels"

definition under :: "'a option \<Rightarrow> 'a option \<Rightarrow> 'a option" where
  "under x y = (case x of Some v \<Rightarrow> Some v | None \<Rightarrow> y)"

lemma merge_branch_props:
  assumes d: "distinct (map fst rs)" and e: "distinct (map fst (fst e))"
  shows "map_of (merge_branch dels dir rs e) k =
      under (map_of rs k) (if snd e \<noteq> OK \<or> del_hit dels dir k then None else map_of (fst e) k)" (is "?A rs e")
    and "distinct (map fst (merge_branch dels dir rs e))"
proof -
  let ?step = "\<lambda>rs (k, v). if map_of rs k \<noteq> None then rs
     else if filePathHash (path_Join dir k) \<in> set dels then rs else rs @ [(k, v)]"
  have "map_of (foldl ?step rs l) k = under (map_of rs k) (if del_hit dels dir k then None else map_of l k)
      \<and> distinct (map fst (foldl ?step rs l))" if "distinct (map fst rs)" and "distinct (map fst l)"
    for rs and l :: "(string \<times> u32) list"
    using that
  proof (induction l arbitrary: rs)
    case Nil
    then show ?case by (simp add: under_def split: option.split)
  next
    case (Cons x l)
    obtain n v where x: "x = (n, v)" by force
    let ?rs = "?step rs x"
    have dr: "distinct (map fst ?rs)" using Cons.prems(1) by (auto simp: x map_of_eq_None_iff)
    have "map_of l n = None" using Cons.prems(2) by (auto simp: x map_of_eq_None_iff)
    then have "under (map_of ?rs k) (if del_hit dels dir k then None else map_of l k)
        = under (map_of rs k) (if del_hit dels dir k then None else map_of (x # l) k)"
      by (auto simp: x under_def del_hit_def map_add_def split: option.split)
    then show ?case using Cons.IH [OF dr] Cons.prems(2) by simp
  qed
  from this [OF d e] d show "?A rs e" and "distinct (map fst (merge_branch dels dir rs e))"
    by (auto simp: merge_branch_def under_def split: option.split)
qed

fun topmost :: "((string \<times> u32) list \<times> Status) list \<Rightarrow> string \<Rightarrow> u32 option" where
  "topmost [] k = None"
| "topmost (e # es) k = under (if snd e = OK then map_of (fst e) k else None) (topmost es k)"

lemma merge_fold:
  assumes "distinct (map fst rs)" and "\<forall>e\<in>set es. distinct (map fst (fst e))"
  shows "map_of (foldl (merge_branch dels dir) rs es) k = under (map_of rs k) (if del_hit dels dir k then None else topmost es k)
    \<and> distinct (map fst (foldl (merge_branch dels dir) rs es))"
  using assms
proof (induction es arbitrary: rs)
  case Nil
  then show ?case by (simp add: under_def split: option.split)
next
  case (Cons e es)
  have e: "distinct (map fst (fst e))" and es: "\<forall>e\<in>set es. distinct (map fst (fst e))" using Cons.prems(2) by auto
  note P = merge_branch_props [OF Cons.prems(1) e, of dels dir]
  show ?case using Cons.IH [OF P(2) es] P(1) [of k] by (auto simp: under_def split: option.split)
qed

definition still_dirs :: "'w union_env \<Rightarrow> (nat \<Rightarrow> string \<Rightarrow> DirEntry list \<times> Status) \<Rightarrow> bool" where
  "still_dirs E D \<longleftrightarrow> (\<forall>i d c w. i < length (ue_fileSystems E) \<longrightarrow> p_OpenDir (ue_fileSystems E ! i) d c w = Inr (D i d, w))"

definition branch_names :: "(nat \<Rightarrow> string \<Rightarrow> DirEntry list \<times> Status) \<Rightarrow> int \<Rightarrow> string \<Rightarrow> nat \<Rightarrow> (string \<times> u32) list \<times> Status" where
  "branch_names D b dir i = (if b \<le> int i then (names_of (fst (D i dir)), snd (D i dir)) else ([], OK))"

lemma read_branches_still:
  assumes st: "still_dirs E D" and i: "i \<le> length (ue_fileSystems E)"
  shows "read_branches b dir c i (drop i (ue_fileSystems E)) s = Inr (map (branch_names D b dir) [i..<length (ue_fileSystems E)], s)"
  using i
proof (induction "length (ue_fileSystems E) - i" arbitrary: i)
  case 0
  then show ?case by simp
next
  case (Suc n)
  then have lt: "i < length (ue_fileSystems E)" by simp
  have IH: "read_branches b dir c (Suc i) (drop (Suc i) (ue_fileSystems E)) s
      = Inr (map (branch_names D b dir) [Suc i..<length (ue_fileSystems E)], s)"
    using Suc.hyps(1) [of "Suc i"] Suc.hyps(2) lt by simp
  have d: "drop i (ue_fileSystems E) = ue_fileSystems E ! i # drop (Suc i) (ue_fileSystems E)"
    using lt by (simp add: Cons_nth_drop_Suc)
  have u: "[i..<length (ue_fileSystems E)] = i # [Suc i..<length (ue_fileSystems E)]" using lt by (simp add: upt_conv_Cons)
  have "un_lift (p_OpenDir (ue_fileSystems E ! i) dir c) s = Inr (D i dir, s)"
    using st lt by (simp add: still_dirs_def un_lift_def)
  then show ?case unfolding d u using IH by (cases "D i dir") (simp add: fs_bind_def branch_names_def)
qed

text \<open>The reference: the mode that a name has in a directory of the union.\<close>

fun lower_mode :: "(nat \<Rightarrow> string \<Rightarrow> DirEntry list \<times> Status) \<Rightarrow> int \<Rightarrow> string \<Rightarrow> string \<Rightarrow> nat list \<Rightarrow> u32 option" where
  "lower_mode D b dir k [] = None"
| "lower_mode D b dir k (i # is) =
     under (if b \<le> int i \<and> snd (D i dir) = OK then mode_in (fst (D i dir)) k else None) (lower_mode D b dir k is)"

definition union_mode ::
  "UnionFsOptions \<Rightarrow> string list \<Rightarrow> (nat \<Rightarrow> string \<Rightarrow> DirEntry list \<times> Status) \<Rightarrow> nat \<Rightarrow> int \<Rightarrow> string \<Rightarrow> string \<Rightarrow> u32 option" where
  "union_mode opts dels D N b dir k =
     (if dir = [] \<and> (k = uo_DeletionDirName opts \<or> k \<in> set (uo_HiddenFiles opts)) then None
      else under (if b \<le> 0 then mode_in (fst (D 0 dir)) k else None)
             (if del_hit dels dir k then None else lower_mode D b dir k [1..<N]))"

lemma topmost_lower: "topmost (map (branch_names D b dir) is) k = lower_mode D b dir k is"
  by (induction "is") (auto simp: branch_names_def names_of_props under_def split: option.split)

lemma merge_entries_mode:
  assumes "0 < N"
  shows "map_of (merge_entries opts dels dir (map (branch_names D b dir) [0..<N])) k = union_mode opts dels D N b dir k"
    and "distinct (map fst (merge_entries opts dels dir (map (branch_names D b dir) [0..<N])))"
proof -
  let ?es = "map (branch_names D b dir) [1..<N]" and ?r = "fst (branch_names D b dir 0)"
  let ?m = "foldl (merge_branch dels dir) ?r ?es"
  let ?keep = "\<lambda>k. k \<noteq> uo_DeletionDirName opts \<and> k \<notin> set (uo_HiddenFiles opts)"
  have u: "[0..<N] = 0 # [1..<N]" using assms by (simp add: upt_conv_Cons)
  have d: "distinct (map fst ?r)" "\<forall>e\<in>set ?es. distinct (map fst (fst e))"
    by (auto simp: branch_names_def names_of_props)
  have m: "map_of ?m k = under (if b \<le> 0 then mode_in (fst (D 0 dir)) k else None)
             (if del_hit dels dir k then None else lower_mode D b dir k [1..<N])" for k
    using merge_fold [OF d, of dels dir k] unfolding topmost_lower by (simp add: branch_names_def names_of_props)
  have dm: "distinct (map fst ?m)" using merge_fold [OF d] by blast
  have fl: "map_of (filter (\<lambda>(k, _). ?keep k) l) k = (if ?keep k then map_of l k else None)" for l :: "(string \<times> u32) list" and k
    by (induction l) auto
  have dl: "distinct (map fst l) \<Longrightarrow> distinct (map fst (filter (\<lambda>(k, _). ?keep k) l))" for l :: "(string \<times> u32) list"
    by (rule distinct_map_filter)
  have e: "merge_entries opts dels dir (map (branch_names D b dir) [0..<N])
      = (if dir = [] then filter (\<lambda>(k, _). ?keep k) ?m else ?m)"
    unfolding u by (simp add: merge_entries_def)
  show "map_of (merge_entries opts dels dir (map (branch_names D b dir) [0..<N])) k = union_mode opts dels D N b dir k"
    unfolding e union_mode_def using m [of k] by (auto simp: fl)
  show "distinct (map fst (merge_entries opts dels dir (map (branch_names D b dir) [0..<N])))"
    unfolding e using dl [OF dm] dm by (cases "dir = []") auto
qed

text \<open>
  The names of the markers: none when their directory does not exist, and no answer when it exists
  but cannot be listed.
\<close>

definition marker_names ::
  "UnionFsOptions \<Rightarrow> (nat \<Rightarrow> string \<Rightarrow> Attr option \<times> Status) \<Rightarrow> (nat \<Rightarrow> string \<Rightarrow> DirEntry list \<times> Status) \<Rightarrow> string list option" where
  "marker_names opts A D =
     (case D 0 (uo_DeletionDirName opts) of (ms, st) \<Rightarrow>
        if st = OK then Some (map de_Name (filter S_IFREG_set ms))
        else if st = ENOENT \<or> snd (A 0 (uo_DeletionDirName opts)) = ENOENT then Some []
        else None)"

text \<open>
  C31: A listing of the union shows exactly the visible names, each once. Over branches at rest, a
  directory that exists lists a name with a mode if and only if the writable branch has it, or the
  topmost read-only branch that has it from the branch of the directory on, when no deletion marker
  hides it; the root lists neither the directory of the markers nor the hidden files. A directory
  in no branch answers \<^verbatim>\<open>ENOENT\<close>. When the directory of the markers exists but cannot be listed, the
  answer is \<^verbatim>\<open>EROFS\<close>; when it does not exist, nothing is hidden by a marker.
\<close>

theorem union_listing_exact:
  assumes "still_attrs E A" and "still_dirs E D" and "cache_exact (length (ue_fileSystems E)) A s"
    and "ue_fileSystems E \<noteq> []"
    and "b = br_branch (resolve (length (ue_fileSystems E)) A dir)"
    and "\<forall>w. p_GetAttr (ue_fileSystems E ! 0) (uo_DeletionDirName (ue_options E)) cx w = Inr (A 0 (uo_DeletionDirName (ue_options E)), w)"
  shows "\<exists>es st s'. union_OpenDir E dir cx s = Inr ((es, st), s')
     \<and> (b < 0 \<longrightarrow> es = [] \<and> st = ENOENT)
     \<and> (0 \<le> b \<and> marker_names (ue_options E) A D = None \<longrightarrow> es = [] \<and> st = EROFS)
     \<and> (\<forall>dels. 0 \<le> b \<and> marker_names (ue_options E) A D = Some dels \<longrightarrow> st = OK \<and> distinct (map de_Name es)
          \<and> (\<forall>k v. (\<exists>e\<in>set es. de_Name e = k \<and> de_Mode e = v)
               \<longleftrightarrow> union_mode (ue_options E) dels D (length (ue_fileSystems E)) b dir k = Some v))"
proof -
  let ?N = "length (ue_fileSystems E)" and ?opts = "ue_options E"
  let ?del = "uo_DeletionDirName ?opts"
  obtain s1 where g: "getBranch E dir s = Inr (resolve ?N A dir, s1)" using getBranch_resolves [OF assms(1,3)] by blast
  show ?thesis
  proof (cases "b < 0")
    case True
    then show ?thesis using g assms(5) by (simp add: union_OpenDir_def fs_bind_def)
  next
    case False
    have N: "0 < ?N" using assms(4) by simp
    obtain ms mst where ms: "D 0 ?del = (ms, mst)" by force
    have "p_OpenDir (ue_fileSystems E ! 0) ?del None w = Inr ((ms, mst), w)" for w
      using assms(2) N ms unfolding still_dirs_def by auto
    then have dn: "on_branch E 0 (\<lambda>fs. newDirnameMap fs ?del) s1
        = Inr (if mst = ENOENT then Some [] else if mst \<noteq> OK then None else Some (map de_Name (filter S_IFREG_set ms)), s1)"
      using N by (simp add: on_branch_def branch_at_def newDirnameMap_def fs_bind_def un_lift_def OK_def ENOENT_def)
    have ga: "on_branch E 0 (\<lambda>fs. p_GetAttr fs ?del cx) s1 = Inr (A 0 ?del, s1)"
      using assms(6) N by (simp add: on_branch_def branch_at_def fs_bind_def un_lift_def)
    have rb: "read_branches b dir cx 0 (ue_fileSystems E) s1 = Inr (map (branch_names D b dir) [0..<?N], s1)"
      using read_branches_still [OF assms(2), of 0 b dir cx s1] by simp
    let ?m = "\<lambda>dels. merge_entries ?opts dels dir (map (branch_names D b dir) [0..<?N])"
    let ?es = "\<lambda>dels. map (\<lambda>(k, v). \<lparr>de_Mode = v, de_Name = k, de_Ino = 0\<rparr>) (?m dels)"
    have run: "union_OpenDir E dir cx s = Inr (case marker_names ?opts A D of None \<Rightarrow> ([], EROFS) | Some dels \<Rightarrow> (?es dels, OK), s1)"
      using g False dn ga rb ms unfolding assms(5)
      by (cases "A 0 ?del") (auto simp: union_OpenDir_def fs_bind_def marker_names_def OK_def ENOENT_def)
    have exact: "distinct (map de_Name (?es dels))
        \<and> (\<forall>k v. (\<exists>e\<in>set (?es dels). de_Name e = k \<and> de_Mode e = v) \<longleftrightarrow> union_mode ?opts dels D ?N b dir k = Some v)" for dels
    proof -
      have "map de_Name (?es dels) = map fst (?m dels)" by (simp add: case_prod_beta comp_def)
      then have "distinct (map de_Name (?es dels))" using merge_entries_mode(2) [OF N, of ?opts dels dir D b] by (simp only:)
      moreover have "(\<exists>e\<in>set (?es dels). de_Name e = k \<and> de_Mode e = v) \<longleftrightarrow> map_of (?m dels) k = Some v" for k v
        using map_of_eq_Some_iff [OF merge_entries_mode(2) [OF N, of ?opts dels dir D b]] by force
      ultimately show ?thesis unfolding merge_entries_mode(1) [OF N] by blast
    qed
    show ?thesis
    proof (cases "marker_names ?opts A D")
      case None
      then show ?thesis using run False by auto
    next
      case (Some dels)
      then show ?thesis using run False exact [of dels] by auto
    qed
  qed
qed

section \<open>Markers\<close>

lemma hex_no_slash: "CHR ''/'' \<notin> set (hex_string bs)"
proof -
  have "(of_char (hex_digit n) :: nat) = (if n < 10 then 48 + n else 87 + n)" if "n < 16" for n
    using that by (simp add: hex_digit_def take_bit_nat_eq_self)
  then have "(of_char (hex_digit n) :: nat) \<noteq> of_char (CHR ''/'')" if "n < 16" for n using that by simp
  then have d: "hex_digit n \<noteq> CHR ''/''" "CHR ''/'' \<noteq> hex_digit n" if "n < 16" for n using that by metis+
  have "unat b < 2 ^ LENGTH(8)" for b :: u8 by (rule unsigned_less)
  then have "unat b div 16 < 16" for b :: u8 by (simp add: less_mult_imp_div_less)
  then show ?thesis by (auto simp: hex_string_def d)
qed

lemma base_no_slash: "CHR ''/'' \<notin> set (path_base p)"
  unfolding path_base_def by (auto dest: set_takeWhileD)

lemma filePathHash_shape: "CHR ''/'' \<notin> set (filePathHash p)" "16 < length (filePathHash p)"
  by (simp_all add: filePathHash_def hex_no_slash base_no_slash)

lemma filePathHash_inj: "path_dir p = path_dir q \<Longrightarrow> filePathHash p = filePathHash q \<Longrightarrow> p = q"
proof -
  assume d: "path_dir p = path_dir q" and "filePathHash p = filePathHash q"
  then have "path_base p = path_base q" by (simp add: filePathHash_def)
  then show "p = q" using path_split d by metis
qed

lemma split_slash_none: "CHR ''/'' \<notin> set x \<Longrightarrow> split_slash x = [x]"
  by (induction x) auto

lemma split_slash_one: "CHR ''/'' \<notin> set d \<Longrightarrow> split_slash (d @ CHR ''/'' # x) = d # split_slash x"
  by (induction d) auto

text \<open>In a directory with a plain name, the marker is the hash under that name.\<close>

lemma deletionPath_plain:
  assumes "d = uo_DeletionDirName (ue_options E)" and "CHR ''/'' \<notin> set d" and "d \<notin> {[], ''.'', ''..''}"
  shows "deletionPath E name = d @ CHR ''/'' # filePathHash name"
proof -
  let ?h = "filePathHash name"
  have h: "?h \<notin> {[], ''.'', ''..''}" using filePathHash_shape(2) [of name] by auto
  have "split_slash (d @ CHR ''/'' # ?h) = [d, ?h]"
    by (simp add: split_slash_one [OF assms(2)] split_slash_none filePathHash_shape)
  moreover have "hd (d @ CHR ''/'' # ?h) \<noteq> CHR ''/''" using assms(2,3) by (cases d) auto
  ultimately show ?thesis using assms(3) h by (simp add: deletionPath_def path_Join_def Clean_def Let_def flip: assms(1))
qed

section \<open>Deletion\<close>

text \<open>
  C32: Deleting a file that only a read-only branch has hides it. When the writable branch has the
  directory of the markers, has no marker for the file yet and stores a new one, the unlink succeeds
  without touching any other branch, and a loaded cache of the deletions then holds the marker. The
  attributes of the file are \<^verbatim>\<open>ENOENT\<close> whenever the cache of the deletions holds the marker and also
  whenever no cache is loaded, as after it expired, and the writable branch shows the marker it
  stored. (The name \<^verbatim>\<open>.drop_cache\<close>, which is a command and no file, is excluded.)
\<close>

theorem union_unlink_hides:
  assumes "ue_fileSystems E = writable # lower" and "un_deletionCache s1 = un_deletionCache s"
    and "getBranch E name s = Inr (r, s1)" and "br_branch r > 0" and "name \<noteq> DROP_CACHE"
    and "p_GetAttr writable (uo_DeletionDirName (ue_options E)) None (un_w s1) = Inr ((Some a, OK), un_w s1)" and "IsDir a"
    and "p_GetAttr writable (deletionPath E name) None (un_w s1) = Inr ((None, ENOENT), un_w s1)"
    and "p_Create writable (deletionPath E name) (O_TRUNC OR O_WRONLY) 420 None (un_w s1) = Inr ((Some f, OK), w1)"
    and "f_Write (ue_files E) f (str_bytes name) 0 w1 = Inr ((word_of_nat (length name), OK), w2)" and "length name < 2 ^ 32"
    and "flush_release (ue_files E) f w2 = Inr ((), w3)"
    and marker: "marker = Base (deletionPath E name)"
  shows "\<exists>s'. union_Unlink E name cx s = Inr (OK, s') \<and> un_w s' = w3
     \<and> un_branchCache s' = un_branchCache s1
     \<and> (\<forall>ns. dc_names (un_deletionCache s) = Some ns \<longrightarrow> (\<exists>ns'. dc_names (un_deletionCache s') = Some ns' \<and> set ns' = insert marker (set ns)))
     \<and> (\<forall>cx' t. (case dc_names (un_deletionCache t) of
                   Some ns \<Rightarrow> marker \<in> set ns
                 | None \<Rightarrow> \<exists>m. p_GetAttr writable (deletionPath E name) None (un_w t) = Inr ((m, OK), un_w t))
          \<longrightarrow> (\<exists>t'. union_GetAttr E name cx' t = Inr ((None, ENOENT), t') \<and> un_w t' = un_w t))"
proof -
  let ?m = "deletionPath E name"
  let ?c = "dc_AddEntry (Base ?m) (un_deletionCache s)"
  let ?s' = "s1\<lparr>un_w := w3, un_deletionCache := ?c\<rparr>"
  have store: "createDeletionStore E s1 = Inr (OK, s1)"
    using assms(6,7) unfolding createDeletionStore_def Let_def
    by (simp add: on_branch_def branch_at_def assms(1) fs_bind_def un_lift_def OK_def ENOENT_def deref_def)
  have len: "unat (word_of_nat (length name) :: u32) = length name"
    using assms(11) by (simp add: unsigned_of_nat take_bit_nat_eq_self)
  have wr: "write_marker E name f (s1\<lparr>un_w := w1\<rparr>) = Inr (OK, ?s')"
    using assms(2,10,12) len
    by (simp add: write_marker_def deferring_def fs_bind_def un_lift_def on_deletions_def fs_step_def)
  have put: "putDeletion E name s1 = Inr (OK, ?s')"
    using store assms(8,9) wr unfolding putDeletion_def Let_def
    by (simp add: fs_bind_def on_branch_def branch_at_def assms(1) un_lift_def OK_def ENOENT_def deref_def)
  have unl: "union_Unlink E name cx s = Inr (OK, ?s')"
    using assms(3,4) put by (simp add: union_Unlink_def fs_bind_def)
  have loaded: "\<exists>ns'. dc_names ?c = Some ns' \<and> set ns' = insert marker (set ns)" if "dc_names (un_deletionCache s) = Some ns" for ns
    using that marker by (simp add: dc_AddEntry_def)
  have hidden: "\<exists>t'. union_GetAttr E name cx' t = Inr ((None, ENOENT), t') \<and> un_w t' = un_w t"
    if "case dc_names (un_deletionCache t) of Some ns \<Rightarrow> marker \<in> set ns
          | None \<Rightarrow> \<exists>m. p_GetAttr writable ?m None (un_w t) = Inr ((m, OK), un_w t)" for cx' t
  proof -
    have "\<exists>t'. isDeleted E name t = Inr ((True, OK), t') \<and> un_w t' = un_w t"
    proof (cases "dc_names (un_deletionCache t)")
      case None
      with that obtain m where "p_GetAttr writable ?m None (un_w t) = Inr ((m, OK), un_w t)" by auto
      then show ?thesis using None
        by (simp add: isDeleted_def Let_def fs_bind_def fs_get_def on_deletions_def fs_step_def dc_HasEntry_def
            on_branch_def branch_at_def assms(1) un_lift_def)
    next
      case (Some ns)
      then show ?thesis using that marker
        by (simp add: isDeleted_def Let_def fs_bind_def fs_get_def on_deletions_def fs_step_def dc_HasEntry_def)
    qed
    then show ?thesis using assms(5) by (auto simp: union_GetAttr_def fs_bind_def)
  qed
  show ?thesis using unl loaded hidden by (intro exI [of _ ?s']) simp
qed

section \<open>Two branches\<close>

text \<open>A branch with given attributes and listings, which accepts new files and refuses all else.\<close>

definition rest_branch :: "(string \<Rightarrow> Attr option \<times> Status) \<Rightarrow> (string \<Rightarrow> DirEntry list \<times> Status) \<Rightarrow> 'w FileSystem" where
  "rest_branch attrs dirs =
     defaultFileSystem\<lparr>p_GetAttr := \<lambda>n c. fs_return (attrs n), p_Create := \<lambda>n f m c. fs_return (Some 0, OK),
       p_OpenDir := \<lambda>n c. fs_return (dirs n)\<rparr>"

definition dir_attr :: Attr where "dir_attr = zero_Attr\<lparr>a_Mode := S_IFDIR OR 493\<rparr>"
definition file_attr :: Attr where "file_attr = zero_Attr\<lparr>a_Mode := S_IFREG OR 420, a_Ino := 9\<rparr>"

definition two_attrs :: "nat \<Rightarrow> string \<Rightarrow> Attr option \<times> Status" where
  "two_attrs i n = (if n = [] \<or> (i = 0 \<and> n = ''D'') then (Some dir_attr, OK)
     else if i = 1 \<and> n = ''f'' then (Some file_attr, OK) else (None, ENOENT))"

definition two_dirs :: "nat \<Rightarrow> string \<Rightarrow> DirEntry list \<times> Status" where
  "two_dirs i n = (if n = [] then ([\<lparr>de_Mode = S_IFREG, de_Name = (if i = 0 then ''D'' else ''f''), de_Ino = 0\<rparr>], OK)
     else if i = 0 \<and> n = ''D'' then ([], OK) else ([], ENOENT))"

definition two_env :: "int union_env" where
  "two_env = \<lparr>ue_fileSystems = [rest_branch (two_attrs 0) (two_dirs 0), rest_branch (two_attrs 1) (two_dirs 1)],
     ue_files = (defaultFile (\<lambda>r n. fs_return ([], OK)))\<lparr>f_Write := \<lambda>f d off. fs_return (word_of_nat (length d), OK)\<rparr>,
     ue_clock = (\<lambda>t. Inr (t, t + 1)),
     ue_options = \<lparr>uo_BranchCacheTTL = 5, uo_DeletionCacheTTL = 5, uo_DeletionDirName = ''D'', uo_HiddenFiles = []\<rparr>,
     ue_AllFiles = (\<lambda>n. fs_return []), ue_Refresh = (\<lambda>n. fs_return ()), ue_Path = (\<lambda>n. fs_return []),
     ue_ForgetClientInodes = fs_return (), ue_euid = 0\<rparr>"

definition two_state :: "int unionFS" where
  "two_state = \<lparr>un_w = 0, un_deletionCache = (newDirCache ''DELETIONS'' 5)\<lparr>dc_names := Some []\<rparr>, un_branchCache = NewTimedCache 5, un_files = []\<rparr>"

lemma two_still: "still_attrs two_env two_attrs" "still_dirs two_env two_dirs" "cache_exact (length (ue_fileSystems two_env)) two_attrs two_state"
  by (auto simp: still_attrs_def still_dirs_def cache_exact_def two_env_def two_state_def rest_branch_def defaultFileSystem_def fs_return_def
      two_attrs_def NewTimedCache_def less_Suc_eq nth_Cons' OK_def ENOENT_def)

lemma upt_two: "[0..<2] = [0, 1 :: nat]"
  by (simp add: upt_rec numeral_2_eq_2)

lemma two_resolve_root: "resolve 2 two_attrs [] = \<lparr>br_attr = Some dir_attr, br_code = OK, br_branch = 0\<rparr>"
  by (subst resolve.simps)
     (simp add: stripSlash_def path_base_def branch_result_def two_attrs_def OK_def upt_two)

lemma two_resolve_f: "resolve 2 two_attrs ''f'' = \<lparr>br_attr = Some (file_attr\<lparr>a_Ino := 0\<rparr>), br_code = OK, br_branch = 1\<rparr>"
  by (subst resolve.simps)
     (simp add: stripSlash_def path_base_def path_dir_def two_resolve_root branch_result_def two_attrs_def OK_def ENOENT_def
       upt_two Let_def)

theorem branch_search_cached_witness:
  "\<exists>s'. getBranch two_env ''f'' two_state = Inr (\<lparr>br_attr = Some (file_attr\<lparr>a_Ino := 0\<rparr>), br_code = OK, br_branch = 1\<rparr>, s')"
proof -
  have "length (ue_fileSystems two_env) = 2" by (simp add: two_env_def)
  then show ?thesis using branch_search_cached [OF two_still(1,3), of "''f''"] by (auto simp: two_resolve_f)
qed

theorem union_listing_exact_witness:
  "\<exists>es s'. union_OpenDir two_env [] None two_state = Inr ((es, OK), s') \<and> distinct (map de_Name es)
     \<and> (\<exists>e\<in>set es. de_Name e = ''f'' \<and> de_Mode e = S_IFREG) \<and> \<not> (\<exists>e\<in>set es. de_Name e = ''D'' \<and> de_Mode e = S_IFREG)"
proof -
  have n: "length (ue_fileSystems two_env) = 2" and ne: "ue_fileSystems two_env \<noteq> []"
    and o: "uo_DeletionDirName (ue_options two_env) = ''D''" "uo_HiddenFiles (ue_options two_env) = []" by (simp_all add: two_env_def)
  have d: "marker_names (ue_options two_env) two_attrs two_dirs = Some []" by (simp add: o two_dirs_def marker_names_def)
  have r: "0 = br_branch (resolve (length (ue_fileSystems two_env)) two_attrs [])" by (simp add: n two_resolve_root)
  have m: "union_mode (ue_options two_env) [] two_dirs 2 0 [] ''f'' = Some S_IFREG"
    "union_mode (ue_options two_env) [] two_dirs 2 0 [] ''D'' = None"
    by (simp_all add: union_mode_def o two_dirs_def mode_in_def under_def del_hit_def upt_rec)
  obtain es s' where l: "union_OpenDir two_env [] None two_state = Inr ((es, OK), s')" "distinct (map de_Name es)"
    "\<And>k v. (\<exists>e\<in>set es. de_Name e = k \<and> de_Mode e = v)
       \<longleftrightarrow> union_mode (ue_options two_env) [] two_dirs 2 0 [] k = Some v"
    using union_listing_exact [OF two_still(1,2,3) ne r, of None] d
    unfolding n by (auto simp: two_env_def rest_branch_def fs_return_def)
  show ?thesis using l(1,2) l(3) [of "''f''" S_IFREG] l(3) [of "''D''" S_IFREG] unfolding m by auto
qed

theorem union_unlink_hides_witness:
  "\<exists>s' t. union_Unlink two_env ''f'' None two_state = Inr (OK, s') \<and> union_GetAttr two_env ''f'' None s' = Inr ((None, ENOENT), t)"
proof -
  let ?w = "rest_branch (two_attrs 0) (two_dirs 0) :: int FileSystem"
  have n: "length (ue_fileSystems two_env) = 2" and e: "ue_fileSystems two_env = ?w # [rest_branch (two_attrs 1) (two_dirs 1)]"
    and o: "uo_DeletionDirName (ue_options two_env) = ''D''" by (simp_all add: two_env_def)
  obtain s1 where g: "getBranch two_env ''f'' two_state = Inr (\<lparr>br_attr = Some (file_attr\<lparr>a_Ino := 0\<rparr>), br_code = OK, br_branch = 1\<rparr>, s1)"
    and c: "un_deletionCache s1 = un_deletionCache two_state"
    using getBranch_resolves [OF two_still(1,3), of "''f''"] unfolding n two_resolve_f only_cached_def by blast
  have m: "deletionPath two_env ''f'' \<notin> {[], ''D''}"
    using deletionPath_plain [of "''D''" two_env "''f''"] filePathHash_shape(2) [of "''f''"] by (auto simp: o)
  have h: "dc_names (un_deletionCache two_state) = Some []" "(0 :: int) < br_branch \<lparr>br_attr = Some (file_attr\<lparr>a_Ino := 0\<rparr>), br_code = OK, br_branch = 1\<rparr>"
    "''f'' \<noteq> DROP_CACHE" by (simp_all add: two_state_def DROP_CACHE_def)
  have "IsDir dir_attr" by (simp add: IsDir_def dir_attr_def S_IFMT_def S_IFDIR_def)
  moreover have "p_GetAttr ?w (uo_DeletionDirName (ue_options two_env)) None (un_w s1) = Inr ((Some dir_attr, OK), un_w s1)"
    "p_GetAttr ?w (deletionPath two_env ''f'') None (un_w s1) = Inr ((None, ENOENT), un_w s1)"
    "p_Create ?w (deletionPath two_env ''f'') (O_TRUNC OR O_WRONLY) 420 None (un_w s1) = Inr ((Some 0, OK), un_w s1)"
    using m by (simp_all add: rest_branch_def defaultFileSystem_def two_attrs_def fs_return_def o)
  moreover have "f_Write (ue_files two_env) 0 (str_bytes ''f'') 0 (un_w s1) = Inr ((word_of_nat (length ''f''), OK), un_w s1)"
    "flush_release (ue_files two_env) 0 (un_w s1) = Inr ((), un_w s1)"
    by (simp_all add: two_env_def defaultFile_def fs_return_def str_bytes_def flush_release_def fs_bind_def)
  ultimately obtain s' ns' where u: "union_Unlink two_env ''f'' None two_state = Inr (OK, s')"
      "dc_names (un_deletionCache s') = Some ns'" "Base (deletionPath two_env ''f'') \<in> set ns'"
    and hidden: "\<And>cx t. (case dc_names (un_deletionCache t) of Some ns \<Rightarrow> Base (deletionPath two_env ''f'') \<in> set ns
         | None \<Rightarrow> \<exists>m. p_GetAttr ?w (deletionPath two_env ''f'') None (un_w t) = Inr ((m, OK), un_w t))
       \<Longrightarrow> \<exists>t'. union_GetAttr two_env ''f'' cx t = Inr ((None, ENOENT), t') \<and> un_w t' = un_w t"
    using union_unlink_hides [OF e c g h(2,3), where a = dir_attr and f = 0 and cx = None and ?w1.0 = "un_w s1" and ?w2.0 = "un_w s1"
        and ?w3.0 = "un_w s1" and marker = "Base (deletionPath two_env ''f'')"] h(1)
    by auto
  have "\<exists>t'. union_GetAttr two_env ''f'' None s' = Inr ((None, ENOENT), t') \<and> un_w t' = un_w s'"
    by (rule hidden) (simp add: u(2,3))
  then show ?thesis using u(1) by blast
qed

end
