(* ===== verification/PathWrap.thy ===== *)
theory PathWrap
  imports PathFs
begin

text \<open>
  The file systems of \<^verbatim>\<open>fuse/pathfs\<close> that wrap another one, \<^verbatim>\<open>prefixfs.go\<close>, \<^verbatim>\<open>readonlyfs.go\<close> and
  \<^verbatim>\<open>locking.go\<close>, and the files they wrap, \<^verbatim>\<open>readOnlyFile\<close> of \<^verbatim>\<open>fuse/nodefs/files.go\<close> and
  \<^verbatim>\<open>fuse/nodefs/lockingfile.go\<close>. A wrapper of a file is a number of its own that stands for the file inside,
  which may be nil. The mutex of a locking file system is part of the world; a goroutine that locks it
  again while it holds it never goes on.
\<close>

section \<open>Wrapped files\<close>

record wrapped =
  wr_files :: "pfile option list"

definition new_wrapper :: "pfile option \<Rightarrow> ('z wrapped_scheme, pfile) fsm" where
  "new_wrapper file s = Inr (length (wr_files s), s\<lparr>wr_files := wr_files s @ [file]\<rparr>)"

definition on_inner :: "pfile \<Rightarrow> (pfile \<Rightarrow> ('z wrapped_scheme, 'a) fsm) \<Rightarrow> ('z wrapped_scheme, 'a) fsm" where
  "on_inner f m s = bind_go (slice_get (wr_files s) f) (\<lambda>file. case file of None \<Rightarrow> Inl NilDeref | Some g \<Rightarrow> m g s)"

section \<open>Prefixes\<close>

definition prefixed :: "string \<Rightarrow> string \<Rightarrow> string" where
  "prefixed prefix n = path_Join prefix n"

definition NewPrefixFileSystem :: "'w FileSystem \<Rightarrow> string \<Rightarrow> 'w FileSystem" where
  "NewPrefixFileSystem fs prefix =
    \<lparr>p_String = fs_bind (p_String fs) (\<lambda>s. fs_return (''prefixFileSystem('' @ s @ '','' @ prefix @ '')'')),
     p_SetDebug = (\<lambda>debug. p_SetDebug fs debug),
     p_GetAttr = (\<lambda>name c. p_GetAttr fs (prefixed prefix name) c),
     p_Chmod = (\<lambda>name mode c. p_Chmod fs (prefixed prefix name) mode c),
     p_Chown = (\<lambda>name uid gid c. p_Chown fs (prefixed prefix name) uid gid c),
     p_Utimens = (\<lambda>name atime mtime c. p_Utimens fs (prefixed prefix name) atime mtime c),
     p_Truncate = (\<lambda>name offset c. p_Truncate fs (prefixed prefix name) offset c),
     p_Access = (\<lambda>name mode c. p_Access fs (prefixed prefix name) mode c),
     p_Link = (\<lambda>oldName newName c. p_Link fs (prefixed prefix oldName) (prefixed prefix newName) c),
     p_Mkdir = (\<lambda>name mode c. p_Mkdir fs (prefixed prefix name) mode c),
     p_Mknod = (\<lambda>name mode dev c. p_Mknod fs (prefixed prefix name) mode dev c),
     p_Rename = (\<lambda>oldName newName c. p_Rename fs (prefixed prefix oldName) (prefixed prefix newName) c),
     p_Rmdir = (\<lambda>name c. p_Rmdir fs (prefixed prefix name) c),
     p_Unlink = (\<lambda>name c. p_Unlink fs (prefixed prefix name) c),
     p_GetXAttr = (\<lambda>name attr c. p_GetXAttr fs (prefixed prefix name) attr c),
     p_ListXAttr = (\<lambda>name c. p_ListXAttr fs (prefixed prefix name) c),
     p_RemoveXAttr = (\<lambda>name attr c. p_RemoveXAttr fs (prefixed prefix name) attr c),
     p_SetXAttr = (\<lambda>name attr data flags c. p_SetXAttr fs (prefixed prefix name) attr data flags c),
     p_OnMount = p_OnMount fs,
     p_OnUnmount = p_OnUnmount fs,
     p_Open = (\<lambda>name flags c. p_Open fs (prefixed prefix name) flags c),
     p_Create = (\<lambda>name flags mode c. p_Create fs (prefixed prefix name) flags mode c),
     p_OpenDir = (\<lambda>name c. p_OpenDir fs (prefixed prefix name) c),
     p_Symlink = (\<lambda>value linkName c. p_Symlink fs value (prefixed prefix linkName) c),
     p_Readlink = (\<lambda>name c. p_Readlink fs (prefixed prefix name) c),
     p_StatFs = (\<lambda>name. p_StatFs fs (prefixed prefix name))\<rparr>"

section \<open>Read-only file systems\<close>

definition readOnlyFile :: "('z wrapped_scheme) file_ops \<Rightarrow> ('z wrapped_scheme) file_ops" where
  "readOnlyFile F =
    \<lparr>f_String = (\<lambda>f. on_inner f (\<lambda>g. fs_bind (f_String F g) (\<lambda>s. fs_return (''readOnlyFile('' @ s @ '')'')))),
     f_SetInode = (\<lambda>f n. on_inner f (\<lambda>g. f_SetInode F g n)),
     f_Read = (\<lambda>f n off. on_inner f (\<lambda>g. f_Read F g n off)),
     f_Bytes = f_Bytes F,
     f_Write = (\<lambda>f data off. fs_return (0, EPERM)),
     f_GetLk = (\<lambda>f owner lk flags out. on_inner f (\<lambda>g. f_GetLk F g owner lk flags out)),
     f_SetLk = (\<lambda>f owner lk flags. on_inner f (\<lambda>g. f_SetLk F g owner lk flags)),
     f_SetLkw = (\<lambda>f owner lk flags. on_inner f (\<lambda>g. f_SetLkw F g owner lk flags)),
     f_Flush = (\<lambda>f. on_inner f (\<lambda>g. f_Flush F g)),
     f_Release = (\<lambda>f. on_inner f (\<lambda>g. f_Release F g)),
     f_Fsync = (\<lambda>f flags. fs_return OK),
     f_Truncate = (\<lambda>f sz. fs_return EPERM),
     f_GetAttr = (\<lambda>f out. on_inner f (\<lambda>g. f_GetAttr F g out)),
     f_Chown = (\<lambda>f uid gid. fs_return EPERM),
     f_Chmod = (\<lambda>f perms. fs_return EPERM),
     f_Utimens = (\<lambda>f atime mtime. on_inner f (\<lambda>g. f_Utimens F g atime mtime)),
     f_Allocate = (\<lambda>f off sz mode. fs_return EPERM)\<rparr>"

definition NewReadonlyFileSystem :: "('z wrapped_scheme) FileSystem \<Rightarrow> ('z wrapped_scheme) FileSystem" where
  "NewReadonlyFileSystem fs =
    \<lparr>p_String = fs_bind (p_String fs) (\<lambda>s. fs_return (''readonlyFileSystem('' @ s @ '')'')),
     p_SetDebug = p_SetDebug fs,
     p_GetAttr = (\<lambda>name c. p_GetAttr fs name c),
     p_Chmod = (\<lambda>name mode c. fs_return EPERM),
     p_Chown = (\<lambda>name uid gid c. fs_return EPERM),
     p_Utimens = (\<lambda>name atime mtime c. fs_return EPERM),
     p_Truncate = (\<lambda>name offset c. fs_return EPERM),
     p_Access = (\<lambda>name mode c. p_Access fs name mode c),
     p_Link = (\<lambda>oldName newName c. fs_return EPERM),
     p_Mkdir = (\<lambda>name mode c. fs_return EPERM),
     p_Mknod = (\<lambda>name mode dev c. fs_return EPERM),
     p_Rename = (\<lambda>oldName newName c. fs_return EPERM),
     p_Rmdir = (\<lambda>name c. fs_return EPERM),
     p_Unlink = (\<lambda>name c. fs_return EPERM),
     p_GetXAttr = (\<lambda>name attr c. p_GetXAttr fs name attr c),
     p_ListXAttr = (\<lambda>name c. p_ListXAttr fs name c),
     p_RemoveXAttr = (\<lambda>name attr c. fs_return EPERM),
     p_SetXAttr = (\<lambda>name attr data flags c. fs_return EPERM),
     p_OnMount = p_OnMount fs,
     p_OnUnmount = p_OnUnmount fs,
     p_Open = (\<lambda>name flags c. 
       if flags AND O_ANYWRITE \<noteq> 0 then fs_return (None, EPERM)
       else fs_bind (p_Open fs name flags c) (\<lambda>(file, code). fs_bind (new_wrapper file) (\<lambda>w. fs_return (Some w, code)))),
     p_Create = (\<lambda>name flags mode c. fs_return (None, EPERM)),
     p_OpenDir = (\<lambda>name c. p_OpenDir fs name c),
     p_Symlink = (\<lambda>value linkName c. fs_return EPERM),
     p_Readlink = (\<lambda>name c. p_Readlink fs name c),
     p_StatFs = (\<lambda>name. p_StatFs fs name)\<rparr>"

section \<open>Locking file systems\<close>

record locking = wrapped +
  lk_held :: bool

definition locked :: "('z locking_scheme, 'a) fsm \<Rightarrow> ('z locking_scheme, 'a) fsm" where
  "locked m s =
     (if lk_held s then Inl SelfDeadlock
      else bind_go (m (s\<lparr>lk_held := True\<rparr>)) (\<lambda>(x, s'). Inr (x, s'\<lparr>lk_held := False\<rparr>)))"

definition lockingFile :: "('z locking_scheme) file_ops \<Rightarrow> ('z locking_scheme) file_ops" where
  "lockingFile F =
    \<lparr>f_String = (\<lambda>f. on_inner f (\<lambda>g. fs_bind (f_String F g) (\<lambda>s. fs_return (''lockingFile('' @ s @ '')'')))),
     f_SetInode = (\<lambda>f n. fs_return ()),
     f_Read = (\<lambda>f n off. locked (on_inner f (\<lambda>g. f_Read F g n off))),
     f_Bytes = f_Bytes F,
     f_Write = (\<lambda>f data off. locked (on_inner f (\<lambda>g. f_Write F g data off))),
     f_GetLk = (\<lambda>f owner lk flags out. locked (on_inner f (\<lambda>g. f_GetLk F g owner lk flags out))),
     f_SetLk = (\<lambda>f owner lk flags. locked (on_inner f (\<lambda>g. f_SetLk F g owner lk flags))),
     f_SetLkw = (\<lambda>f owner lk flags. locked (on_inner f (\<lambda>g. f_SetLkw F g owner lk flags))),
     f_Flush = (\<lambda>f. locked (on_inner f (\<lambda>g. f_Flush F g))),
     f_Release = (\<lambda>f. locked (on_inner f (\<lambda>g. f_Release F g))),
     f_Fsync = (\<lambda>f flags. locked (on_inner f (\<lambda>g. f_Fsync F g flags))),
     f_Truncate = (\<lambda>f sz. locked (on_inner f (\<lambda>g. f_Truncate F g sz))),
     f_GetAttr = (\<lambda>f out. locked (on_inner f (\<lambda>g. f_GetAttr F g out))),
     f_Chown = (\<lambda>f uid gid. locked (on_inner f (\<lambda>g. f_Chown F g uid gid))),
     f_Chmod = (\<lambda>f perms. locked (on_inner f (\<lambda>g. f_Chmod F g perms))),
     f_Utimens = (\<lambda>f atime mtime. locked (on_inner f (\<lambda>g. f_Utimens F g atime mtime))),
     f_Allocate = (\<lambda>f off sz mode. locked (on_inner f (\<lambda>g. f_Allocate F g off sz mode)))\<rparr>"

definition NewLockingFileSystem :: "('z locking_scheme) FileSystem \<Rightarrow> ('z locking_scheme) FileSystem" where
  "NewLockingFileSystem fs =
    \<lparr>p_String = locked (p_String fs),
     p_SetDebug = (\<lambda>debug. locked (p_SetDebug fs debug)),
     p_GetAttr = (\<lambda>name c. locked (p_GetAttr fs name c)),
     p_Chmod = (\<lambda>name mode c. locked (p_Chmod fs name mode c)),
     p_Chown = (\<lambda>name uid gid c. locked (p_Chown fs name uid gid c)),
     p_Utimens = (\<lambda>name atime mtime c. locked (p_Utimens fs name atime mtime c)),
     p_Truncate = (\<lambda>name offset c. locked (p_Truncate fs name offset c)),
     p_Access = (\<lambda>name mode c. locked (p_Access fs name mode c)),
     p_Link = (\<lambda>oldName newName c. locked (p_Link fs oldName newName c)),
     p_Mkdir = (\<lambda>name mode c. locked (p_Mkdir fs name mode c)),
     p_Mknod = (\<lambda>name mode dev c. locked (p_Mknod fs name mode dev c)),
     p_Rename = (\<lambda>oldName newName c. locked (p_Rename fs oldName newName c)),
     p_Rmdir = (\<lambda>name c. locked (p_Rmdir fs name c)),
     p_Unlink = (\<lambda>name c. locked (p_Unlink fs name c)),
     p_GetXAttr = (\<lambda>name attr c. locked (p_GetXAttr fs name attr c)),
     p_ListXAttr = (\<lambda>name c. locked (p_ListXAttr fs name c)),
     p_RemoveXAttr = (\<lambda>name attr c. locked (p_RemoveXAttr fs name attr c)),
     p_SetXAttr = (\<lambda>name attr data flags c. locked (p_SetXAttr fs name attr data flags c)),
     p_OnMount = locked (p_OnMount fs),
     p_OnUnmount = locked (p_OnUnmount fs),
     p_Open = (\<lambda>name flags c. 
       fs_bind (p_Open fs name flags c) (\<lambda>(file, code). fs_bind (new_wrapper file) (\<lambda>w. fs_return (Some w, code)))),
     p_Create = (\<lambda>name flags mode c. locked (
       fs_bind (p_Create fs name flags mode c) (\<lambda>(file, code). fs_bind (new_wrapper file) (\<lambda>w. fs_return (Some w, code))))),
     p_OpenDir = (\<lambda>name c. locked (p_OpenDir fs name c)),
     p_Symlink = (\<lambda>value linkName c. locked (p_Symlink fs value linkName c)),
     p_Readlink = (\<lambda>name c. locked (p_Readlink fs name c)),
     p_StatFs = (\<lambda>name. locked (p_StatFs fs name))\<rparr>"

section \<open>Serialisation\<close>

text \<open>A file system, and files, that cannot be entered without holding the lock.\<close>

definition guarded :: "('z locking_scheme, 'a) fsm \<Rightarrow> ('z locking_scheme, 'a) fsm" where
  "guarded m s = (if lk_held s then m s else Inl (Panic ''entered without the lock''))"

definition guarded_fs :: "('z locking_scheme) FileSystem \<Rightarrow> ('z locking_scheme) FileSystem" where
  "guarded_fs fs =
    \<lparr>p_String = guarded (p_String fs),
     p_SetDebug = (\<lambda>debug. guarded (p_SetDebug fs debug)),
     p_GetAttr = (\<lambda>name c. guarded (p_GetAttr fs name c)),
     p_Chmod = (\<lambda>name mode c. guarded (p_Chmod fs name mode c)),
     p_Chown = (\<lambda>name uid gid c. guarded (p_Chown fs name uid gid c)),
     p_Utimens = (\<lambda>name atime mtime c. guarded (p_Utimens fs name atime mtime c)),
     p_Truncate = (\<lambda>name offset c. guarded (p_Truncate fs name offset c)),
     p_Access = (\<lambda>name mode c. guarded (p_Access fs name mode c)),
     p_Link = (\<lambda>oldName newName c. guarded (p_Link fs oldName newName c)),
     p_Mkdir = (\<lambda>name mode c. guarded (p_Mkdir fs name mode c)),
     p_Mknod = (\<lambda>name mode dev c. guarded (p_Mknod fs name mode dev c)),
     p_Rename = (\<lambda>oldName newName c. guarded (p_Rename fs oldName newName c)),
     p_Rmdir = (\<lambda>name c. guarded (p_Rmdir fs name c)),
     p_Unlink = (\<lambda>name c. guarded (p_Unlink fs name c)),
     p_GetXAttr = (\<lambda>name attr c. guarded (p_GetXAttr fs name attr c)),
     p_ListXAttr = (\<lambda>name c. guarded (p_ListXAttr fs name c)),
     p_RemoveXAttr = (\<lambda>name attr c. guarded (p_RemoveXAttr fs name attr c)),
     p_SetXAttr = (\<lambda>name attr data flags c. guarded (p_SetXAttr fs name attr data flags c)),
     p_OnMount = guarded (p_OnMount fs),
     p_OnUnmount = guarded (p_OnUnmount fs),
     p_Open = (\<lambda>name flags c. guarded (p_Open fs name flags c)),
     p_Create = (\<lambda>name flags mode c. guarded (p_Create fs name flags mode c)),
     p_OpenDir = (\<lambda>name c. guarded (p_OpenDir fs name c)),
     p_Symlink = (\<lambda>value linkName c. guarded (p_Symlink fs value linkName c)),
     p_Readlink = (\<lambda>name c. guarded (p_Readlink fs name c)),
     p_StatFs = (\<lambda>name. guarded (p_StatFs fs name))\<rparr>"

definition guarded_files :: "('z locking_scheme) file_ops \<Rightarrow> ('z locking_scheme) file_ops" where
  "guarded_files F =
    \<lparr>f_String = (\<lambda>f. guarded (f_String F f)),
     f_SetInode = (\<lambda>f n. guarded (f_SetInode F f n)),
     f_Read = (\<lambda>f n off. guarded (f_Read F f n off)),
     f_Bytes = f_Bytes F,
     f_Write = (\<lambda>f data off. guarded (f_Write F f data off)),
     f_GetLk = (\<lambda>f owner lk flags out. guarded (f_GetLk F f owner lk flags out)),
     f_SetLk = (\<lambda>f owner lk flags. guarded (f_SetLk F f owner lk flags)),
     f_SetLkw = (\<lambda>f owner lk flags. guarded (f_SetLkw F f owner lk flags)),
     f_Flush = (\<lambda>f. guarded (f_Flush F f)),
     f_Release = (\<lambda>f. guarded (f_Release F f)),
     f_Fsync = (\<lambda>f flags. guarded (f_Fsync F f flags)),
     f_Truncate = (\<lambda>f sz. guarded (f_Truncate F f sz)),
     f_GetAttr = (\<lambda>f out. guarded (f_GetAttr F f out)),
     f_Chown = (\<lambda>f uid gid. guarded (f_Chown F f uid gid)),
     f_Chmod = (\<lambda>f perms. guarded (f_Chmod F f perms)),
     f_Utimens = (\<lambda>f atime mtime. guarded (f_Utimens F f atime mtime)),
     f_Allocate = (\<lambda>f off sz mode. guarded (f_Allocate F f off sz mode))\<rparr>"

end
