(* ===== verification/PathWrapProps.thy ===== *)
theory PathWrapProps
  imports PathWrap
begin

text \<open>
  Correctness of the wrapping file systems: cleaning of paths, which prefixes rely on, the
  composition of prefixes, what a read-only file system refuses, and which calls of a locking file
  system are serialised.
\<close>

section \<open>Cleaning of paths\<close>

text \<open>One element of a path changes the stack of elements that are kept.\<close>

definition clean_step :: "bool \<Rightarrow> string list \<Rightarrow> string \<Rightarrow> string list" where
  "clean_step rooted acc e =
     (if e = [] \<or> e = ''.'' then acc
      else if e = ''..''
      then (case acc of a # as \<Rightarrow> if a = ''..'' then e # acc else as | [] \<Rightarrow> if rooted then [] else [e])
      else e # acc)"

abbreviation clean_stack :: "bool \<Rightarrow> string list \<Rightarrow> string list \<Rightarrow> string list" where
  "clean_stack rooted \<equiv> foldl (clean_step rooted)"

lemma clean_stack_elems: "set (clean_stack rooted acc es) \<subseteq> set acc \<union> (set es - {[], ''.''})"
proof (induction es arbitrary: acc)
  case (Cons e es)
  have "set (clean_step rooted acc e) \<subseteq> set acc \<union> ({e} - {[], ''.''})"
    by (auto simp: clean_step_def split: list.splits if_splits)
  then show ?case using Cons [of "clean_step rooted acc e"] by auto
qed simp

lemma clean_step_simps [simp]:
  "clean_step rooted acc [] = acc"
  "clean_step rooted acc ''.'' = acc"
  "clean_step rooted [] ''..'' = (if rooted then [] else [''..''])"
  "clean_step rooted (a # as) ''..'' = (if a = ''..'' then ''..'' # a # as else as)"
  by (simp_all add: clean_step_def)

lemma clean_step_plain: "e \<notin> {[], ''.'', ''..''} \<Longrightarrow> clean_step rooted acc e = e # acc"
  by (simp add: clean_step_def)

lemma clean_elems_stack: "clean_elems rooted acc es = rev (clean_stack rooted acc es)"
proof (induction rooted acc es rule: clean_elems.induct)
  case (2 rooted acc e es)
  then show ?case by (cases acc) (auto simp: clean_step_plain)
qed simp

text \<open>Cleaning the rest of a path first changes nothing, and neither does cleaning twice.\<close>

lemma clean_stack_rest: "clean_stack rooted acc (rev (clean_stack False [] ys)) = clean_stack rooted acc ys"
proof (induction ys rule: rev_induct)
  case (snoc e ys)
  let ?s = "clean_stack False [] ys"
  consider (skip) "e = [] \<or> e = ''.''" | (plain) "e \<notin> {[], ''.'', ''..''}" | (up) "e = ''..''" by auto
  then show ?case
  proof cases
    case up
    show ?thesis
    proof (cases "?s = [] \<or> hd ?s = ''..''")
      case True
      then have "clean_step False ?s e = e # ?s" using up by (cases ?s) auto
      then show ?thesis using snoc by simp
    next
      case False
      then obtain x s' where s: "?s = x # s'" "x \<noteq> ''..''" by (cases ?s) auto
      have "x \<notin> {[], ''.'', ''..''}" using clean_stack_elems [of False "[]" ys] s by auto
      then have "clean_stack rooted acc ys = x # clean_stack rooted acc (rev s')"
        using snoc s by (simp add: clean_step_plain)
      then show ?thesis using up s by (simp add: clean_step_plain)
    qed
  qed (use snoc in \<open>auto simp: clean_step_plain\<close>)
qed simp

lemma clean_stack_twice: "clean_stack rooted [] (rev (clean_stack rooted [] ys)) = clean_stack rooted [] ys"
proof (induction ys rule: rev_induct)
  case (snoc e ys)
  let ?s = "clean_stack rooted [] ys"
  consider (skip) "e = [] \<or> e = ''.''" | (plain) "e \<notin> {[], ''.'', ''..''}" | (up) "e = ''..''" by auto
  then show ?case
  proof cases
    case up
    show ?thesis
    proof (cases ?s)
      case Nil
      then show ?thesis using up by (simp add: clean_step_plain)
    next
      case (Cons x s')
      have "x \<notin> {[], ''.''}" using clean_stack_elems [of rooted "[]" ys] Cons by auto
      then show ?thesis using up snoc Cons by (cases "x = ''..''") (auto simp: clean_step_plain)
    qed
  qed (use snoc in \<open>auto simp: clean_step_plain\<close>)
qed simp

lemma split_slash_append: "split_slash (a @ CHR ''/'' # b) = split_slash a @ split_slash b"
proof (induction a)
  case (Cons c a)
  have "split_slash a \<noteq> []" by (cases a) (auto split: list.splits)
  then show ?case using Cons by (cases "split_slash a") auto
qed simp

lemma split_slash_free: "s \<in> set (split_slash p) \<Longrightarrow> CHR ''/'' \<notin> set s"
  by (induction p arbitrary: s) (auto split: list.splits if_splits)

lemma split_slash_single: "CHR ''/'' \<notin> set e \<Longrightarrow> split_slash e = [e]"
  by (induction e) auto

lemma split_join_slash: "es \<noteq> [] \<Longrightarrow> \<forall>e\<in>set es. CHR ''/'' \<notin> set e \<Longrightarrow> split_slash (join_slash es) = es"
  by (induction es rule: join_slash.induct) (simp_all add: split_slash_single split_slash_append)

lemma join_slash_start:
  assumes "\<forall>e\<in>set es. CHR ''/'' \<notin> set e \<and> e \<noteq> []"
  shows "join_slash es = [] \<longleftrightarrow> es = []" and "es \<noteq> [] \<Longrightarrow> hd (join_slash es) \<noteq> CHR ''/''"
  using assms by (induction es rule: join_slash.induct) (auto simp: hd_append neq_Nil_conv)

text \<open>The elements of a cleaned path are the stack of the path; a rooted path stays rooted.\<close>

abbreviation is_rooted :: "string \<Rightarrow> bool" where
  "is_rooted p \<equiv> p \<noteq> [] \<and> hd p = CHR ''/''"

lemma Clean_elems:
  assumes "p \<noteq> []"
  shows "clean_stack r acc (split_slash (Clean p)) = clean_stack r acc (rev (clean_stack (is_rooted p) [] (split_slash p)))"
    and "Clean p \<noteq> []" and "is_rooted (Clean p) = is_rooted p"
proof -
  let ?es = "rev (clean_stack (hd p = CHR ''/'') [] (split_slash p))"
  have free: "\<forall>e\<in>set ?es. CHR ''/'' \<notin> set e \<and> e \<noteq> []"
    using clean_stack_elems [of "hd p = CHR ''/''" "[]" "split_slash p"] split_slash_free by auto
  have split: "clean_stack r acc (split_slash (join_slash ?es)) = clean_stack r acc ?es"
    using split_join_slash [of ?es] free by (cases "?es = []") (auto simp: clean_step_plain)
  have clean: "Clean p = (if hd p = CHR ''/'' then CHR ''/'' # join_slash ?es
      else if join_slash ?es = [] then ''.'' else join_slash ?es)"
    using assms by (simp add: Clean_def clean_elems_stack Let_def)
  have "clean_stack r acc (split_slash ''.'') = acc" by (simp add: clean_step_plain)
  moreover have "clean_stack r acc (split_slash (CHR ''/'' # x)) = clean_stack r acc (split_slash x)" for x
    by (simp add: clean_step_plain)
  ultimately show "clean_stack r acc (split_slash (Clean p)) = clean_stack r acc (rev (clean_stack (is_rooted p) [] (split_slash p)))"
    using assms split join_slash_start(1) [OF free] by (cases "hd p = CHR ''/''") (auto simp: clean)
  show "Clean p \<noteq> []" by (simp add: clean)
  show "is_rooted (Clean p) = is_rooted p"
    using assms join_slash_start [OF free] by (auto simp: clean)
qed

lemma Clean_eqI:
  assumes "p \<noteq> []" "q \<noteq> []" "is_rooted p = is_rooted q"
    and "clean_stack (is_rooted p) [] (split_slash p) = clean_stack (is_rooted p) [] (split_slash q)"
  shows "Clean p = Clean q"
  using assms by (cases "hd q = CHR ''/''") (auto simp: Clean_def clean_elems_stack Let_def)

lemma path_Join_assoc:
  assumes "q \<noteq> []" and "hd q \<noteq> CHR ''/''"
  shows "path_Join p (path_Join q n) = path_Join (path_Join p q) n"
proof -
  let ?qn = "q @ CHR ''/'' # n"
  have rq: "\<not> is_rooted ?qn" using assms by (cases q) auto
  have qn: "clean_stack r acc (split_slash (Clean ?qn)) = clean_stack r acc (split_slash q @ split_slash n)" for r acc
    using Clean_elems(1) [of ?qn r acc] rq
      clean_stack_rest [of r acc "split_slash q @ split_slash n"] by (simp add: split_slash_append)
  have j: "path_Join q n = Clean ?qn" using assms by (simp add: path_Join_def)
  show ?thesis
  proof (cases "p = []")
    case True
    let ?c = "Clean q"
    have c: "?c \<noteq> []" "\<not> is_rooted ?c" using Clean_elems(2,3) [of q] assms by auto
    have rooted: "is_rooted (Clean ?qn) = False" using Clean_elems(3) [of ?qn] rq by simp
    have "Clean (Clean ?qn) = Clean (?c @ CHR ''/'' # n)"
    proof (rule Clean_eqI)
      show "clean_stack (is_rooted (Clean ?qn)) [] (split_slash (Clean ?qn))
          = clean_stack (is_rooted (Clean ?qn)) [] (split_slash (?c @ CHR ''/'' # n))"
        using qn [of False "[]"] Clean_elems(1) [of q False "[]"] rooted assms clean_stack_rest unfolding rooted
        by (simp add: split_slash_append)
    qed (use c rq Clean_elems(2,3) [of ?qn] in \<open>auto simp: hd_append\<close>)
    then show ?thesis using True c assms Clean_elems(2) [of ?qn] j by (simp add: path_Join_def)
  next
    case False
    let ?c = "Clean (p @ CHR ''/'' # q)" and ?r = "is_rooted p"
    have c: "?c \<noteq> []" "is_rooted ?c = ?r" using Clean_elems(2,3) [of "p @ CHR ''/'' # q"] False by (auto simp: hd_append)
    have r: "is_rooted (p @ CHR ''/'' # x) = ?r" for x using False by (auto simp: hd_append)
    have "Clean (p @ CHR ''/'' # Clean ?qn) = Clean (?c @ CHR ''/'' # n)"
    proof (rule Clean_eqI)
      show "clean_stack (is_rooted (p @ CHR ''/'' # Clean ?qn)) [] (split_slash (p @ CHR ''/'' # Clean ?qn))
          = clean_stack (is_rooted (p @ CHR ''/'' # Clean ?qn)) [] (split_slash (?c @ CHR ''/'' # n))"
        using qn [of ?r] Clean_elems(1) [of "p @ CHR ''/'' # q" ?r "[]"] 
          clean_stack_twice [of ?r "split_slash p @ split_slash q"] unfolding r
        by (simp add: split_slash_append)
    qed (use c r in \<open>auto simp: hd_append\<close>)
    then show ?thesis using False c j by (simp add: path_Join_def)
  qed
qed

section \<open>Prefixes\<close>

text \<open>The elements of a path, and the paths that begin with the elements of a prefix.\<close>

definition path_elems :: "string \<Rightarrow> string list" where
  "path_elems p = clean_elems (is_rooted p) [] (split_slash p)"

definition inside :: "string \<Rightarrow> string \<Rightarrow> bool" where
  "inside p x \<longleftrightarrow> is_rooted x = is_rooted p \<and> take (length (path_elems p)) (path_elems x) = path_elems p"

definition climbs :: "string \<Rightarrow> bool" where
  "climbs name \<longleftrightarrow> ''..'' \<in> set (split_slash name)"

lemma clean_stack_no_climb:
  "''..'' \<notin> set es \<Longrightarrow> clean_stack r acc es = rev (filter (\<lambda>e. e \<noteq> [] \<and> e \<noteq> ''.'') es) @ acc"
  by (induction es arbitrary: acc) (auto simp: clean_step_def)

lemma join_inside:
  assumes "p \<noteq> []" and "\<not> climbs name"
  shows "inside p (path_Join p name)"
proof -
  let ?y = "p @ CHR ''/'' # name" and ?r = "is_rooted p"
  have y: "is_rooted ?y = ?r" "?y \<noteq> []" using assms(1) by (auto simp: hd_append)
  have c: "is_rooted (Clean ?y) = ?r" using Clean_elems(3) [OF y(2)] y(1) by simp
  have "clean_stack ?r [] (split_slash (Clean ?y)) = clean_stack ?r [] (split_slash ?y)"
    using Clean_elems(1) [OF y(2), of ?r "[]"] clean_stack_twice [of ?r "split_slash ?y"] unfolding y(1) by simp
  also have "\<dots> = rev (filter (\<lambda>e. e \<noteq> [] \<and> e \<noteq> ''.'') (split_slash name)) @ clean_stack ?r [] (split_slash p)"
    using assms(2) by (simp add: split_slash_append climbs_def clean_stack_no_climb)
  finally have "path_elems (Clean ?y) = path_elems p @ filter (\<lambda>e. e \<noteq> [] \<and> e \<noteq> ''.'') (split_slash name)"
    unfolding path_elems_def c clean_elems_stack by simp
  then show ?thesis using c assms(1) by (simp add: inside_def path_Join_def)
qed

text \<open>A file system that panics when it is called with a name that it is not meant to see.\<close>

definition fence :: "bool \<Rightarrow> ('w, 'a) fsm \<Rightarrow> ('w, 'a) fsm" where
  "fence b m = (if b then m else fs_fault (Panic ''foreign name''))"

definition fenced :: "(string \<Rightarrow> bool) \<Rightarrow> 'w FileSystem \<Rightarrow> 'w FileSystem" where
  "fenced ok fs = fs
    \<lparr>p_GetAttr := \<lambda>name c. fence (ok name) (p_GetAttr fs name c),
     p_Chmod := \<lambda>name mode c. fence (ok name) (p_Chmod fs name mode c),
     p_Chown := \<lambda>name uid gid c. fence (ok name) (p_Chown fs name uid gid c),
     p_Utimens := \<lambda>name atime mtime c. fence (ok name) (p_Utimens fs name atime mtime c),
     p_Truncate := \<lambda>name offset c. fence (ok name) (p_Truncate fs name offset c),
     p_Access := \<lambda>name mode c. fence (ok name) (p_Access fs name mode c),
     p_Link := \<lambda>oldName newName c. fence (ok oldName \<and> ok newName) (p_Link fs oldName newName c),
     p_Mkdir := \<lambda>name mode c. fence (ok name) (p_Mkdir fs name mode c),
     p_Mknod := \<lambda>name mode dev c. fence (ok name) (p_Mknod fs name mode dev c),
     p_Rename := \<lambda>oldName newName c. fence (ok oldName \<and> ok newName) (p_Rename fs oldName newName c),
     p_Rmdir := \<lambda>name c. fence (ok name) (p_Rmdir fs name c),
     p_Unlink := \<lambda>name c. fence (ok name) (p_Unlink fs name c),
     p_GetXAttr := \<lambda>name attr c. fence (ok name) (p_GetXAttr fs name attr c),
     p_ListXAttr := \<lambda>name c. fence (ok name) (p_ListXAttr fs name c),
     p_RemoveXAttr := \<lambda>name attr c. fence (ok name) (p_RemoveXAttr fs name attr c),
     p_SetXAttr := \<lambda>name attr data flags c. fence (ok name) (p_SetXAttr fs name attr data flags c),
     p_Open := \<lambda>name flags c. fence (ok name) (p_Open fs name flags c),
     p_Create := \<lambda>name flags mode c. fence (ok name) (p_Create fs name flags mode c),
     p_OpenDir := \<lambda>name c. fence (ok name) (p_OpenDir fs name c),
     p_Symlink := \<lambda>value linkName c. fence (ok linkName) (p_Symlink fs value linkName c),
     p_Readlink := \<lambda>name c. fence (ok name) (p_Readlink fs name c),
     p_StatFs := \<lambda>name. fence (ok name) (p_StatFs fs name)\<rparr>"

lemma fence_join:
  assumes "p \<noteq> []"
  shows "fence (\<not> climbs n) (fence (inside p (prefixed p n)) m) = fence (\<not> climbs n) m"
    and "fence (\<not> climbs n \<and> \<not> climbs n') (fence (inside p (prefixed p n) \<and> inside p (prefixed p n')) m)
       = fence (\<not> climbs n \<and> \<not> climbs n') m"
  using join_inside [OF assms] by (auto simp: fence_def prefixed_def)

text \<open>
  C36: A prefix confines, and prefixes compose. For names without a \<^verbatim>\<open>..\<close> element, every operation of the
  file system below the prefix \<^verbatim>\<open>p\<close> calls the file system inside only with names whose elements begin
  with those of \<^verbatim>\<open>p\<close>, both names of Link and Rename and the link of Symlink included: a file system
  that panics at any other name behaves as if it did not. And a file system below the prefix \<^verbatim>\<open>q\<close> of
  one below \<^verbatim>\<open>p\<close> is the file system below the joined prefix, for every operation but \<^verbatim>\<open>String\<close>, which shows
  the nesting, and every name, also one that climbs with \<^verbatim>\<open>..\<close>. Here \<^verbatim>\<open>p\<close> is not empty, for the first
  part, and \<^verbatim>\<open>q\<close> is neither empty nor absolute, for the second.
\<close>

theorem prefix_fs_composes:
  "(p \<noteq> [] \<longrightarrow> fenced (\<lambda>n. \<not> climbs n) (NewPrefixFileSystem (fenced (inside p) fs) p)
      = fenced (\<lambda>n. \<not> climbs n) (NewPrefixFileSystem fs p))
   \<and> (q \<noteq> [] \<and> hd q \<noteq> CHR ''/'' \<longrightarrow>
      (NewPrefixFileSystem (NewPrefixFileSystem fs p) q)\<lparr>p_String := shown\<rparr>
        = (NewPrefixFileSystem fs (path_Join p q))\<lparr>p_String := shown\<rparr>)"
proof (intro conjI impI)
  assume "p \<noteq> []"
  then show "fenced (\<lambda>n. \<not> climbs n) (NewPrefixFileSystem (fenced (inside p) fs) p)
      = fenced (\<lambda>n. \<not> climbs n) (NewPrefixFileSystem fs p)"
    by (simp add: NewPrefixFileSystem_def fenced_def fence_join)
next
  assume q: "q \<noteq> [] \<and> hd q \<noteq> CHR ''/''"
  then show "(NewPrefixFileSystem (NewPrefixFileSystem fs p) q)\<lparr>p_String := shown\<rparr>
        = (NewPrefixFileSystem fs (path_Join p q))\<lparr>p_String := shown\<rparr>"
    using path_Join_assoc [of q p] by (simp add: NewPrefixFileSystem_def prefixed_def)
qed

theorem prefix_fs_composes_witness:
  "fenced (\<lambda>n. \<not> climbs n) (NewPrefixFileSystem (fenced (inside ''/srv'') (defaultFileSystem :: unit FileSystem)) ''/srv'')
     = fenced (\<lambda>n. \<not> climbs n) (NewPrefixFileSystem defaultFileSystem ''/srv'')
   \<and> (NewPrefixFileSystem (NewPrefixFileSystem (defaultFileSystem :: unit FileSystem) ''/srv'') ''a/../b'')\<lparr>p_String := fs_return []\<rparr>
     = (NewPrefixFileSystem defaultFileSystem ''/srv/b'')\<lparr>p_String := fs_return []\<rparr>"
proof -
  have "path_Join ''/srv'' ''a/../b'' = ''/srv/b''" by (simp add: path_Join_def Clean_def)
  then show ?thesis
    using prefix_fs_composes [of "''/srv''" "defaultFileSystem :: unit FileSystem" "''a/../b''" "fs_return []"] by simp
qed

section \<open>Locking\<close>

text \<open>Entering with the lock passes the guard, whatever is done afterwards.\<close>

lemma locked_guarded: "locked (guarded m) = locked m"
  by (auto simp: locked_def guarded_def)

lemma locked_guarded_bind: "locked (fs_bind (guarded m) k) = locked (fs_bind m k)"
  by (auto simp: locked_def guarded_def fs_bind_def intro!: ext)

lemma locked_guarded_inner: "locked (on_inner f (\<lambda>g. guarded (h g))) = locked (on_inner f h)"
  by (auto simp: locked_def guarded_def on_inner_def bind_go_split_case intro!: ext split: option.splits sum.splits)

lemmas locked_guards = locked_guarded locked_guarded_bind locked_guarded_inner

text \<open>
  C37: A locking file system runs the operations of the file system inside it, and those of its files,
  while it holds the lock: a file system that panics when it is entered without the lock behaves as
  if it did not. The exceptions are Open of the file system and \<^verbatim>\<open>String\<close> of a file, which enter without
  the lock. Create, which also wraps the file it returns, does not enter while the lock is held, and
  leaves it free. (The bytes of a read result are fetched afterwards and are no operation of the file.)
\<close>

theorem locking_fs_serialises:
  "(NewLockingFileSystem (guarded_fs fs))\<lparr>p_Open := p_Open fs\<rparr> = (NewLockingFileSystem fs)\<lparr>p_Open := p_Open fs\<rparr>
   \<and> (lockingFile (guarded_files F))\<lparr>f_String := f_String F\<rparr> = (lockingFile F)\<lparr>f_String := f_String F\<rparr>
   \<and> (\<not> lk_held s \<longrightarrow> p_Open (NewLockingFileSystem (guarded_fs fs)) name flags c s = Inl (Panic ''entered without the lock''))
   \<and> (\<not> lk_held s \<and> slice_get (wr_files s) f = Inr (Some g) \<longrightarrow>
        f_String (lockingFile (guarded_files F)) f s = Inl (Panic ''entered without the lock''))
   \<and> (lk_held s' \<longrightarrow> p_Create (NewLockingFileSystem fs) name flags mode c s' = Inl SelfDeadlock)
   \<and> (p_Create (NewLockingFileSystem fs) name flags mode c s = Inr (r, t) \<longrightarrow> \<not> lk_held t)"
proof (intro conjI)
  show "(NewLockingFileSystem (guarded_fs fs))\<lparr>p_Open := p_Open fs\<rparr> = (NewLockingFileSystem fs)\<lparr>p_Open := p_Open fs\<rparr>"
    by (simp add: NewLockingFileSystem_def guarded_fs_def locked_guards)
  show "(lockingFile (guarded_files F))\<lparr>f_String := f_String F\<rparr> = (lockingFile F)\<lparr>f_String := f_String F\<rparr>"
    by (simp add: lockingFile_def guarded_files_def locked_guards)
qed (auto simp: NewLockingFileSystem_def lockingFile_def guarded_fs_def guarded_files_def on_inner_def fs_bind_def guarded_def
    locked_def bind_go_eq_Inr)

theorem locking_fs_serialises_witness:
  "p_Open (NewLockingFileSystem (guarded_fs defaultFileSystem)) ''a'' 0 None \<lparr>wr_files = [Some 7], lk_held = False\<rparr>
     = Inl (Panic ''entered without the lock'')
   \<and> f_String (lockingFile (guarded_files (defaultFile (\<lambda>_ _. fs_return ([], OK))))) 0 \<lparr>wr_files = [Some 7], lk_held = False\<rparr>
     = Inl (Panic ''entered without the lock'')
   \<and> p_Create (NewLockingFileSystem defaultFileSystem) ''a'' 0 0 None \<lparr>wr_files = [], lk_held = True\<rparr> = Inl SelfDeadlock
   \<and> p_Create (NewLockingFileSystem defaultFileSystem) ''a'' 0 0 None \<lparr>wr_files = [Some 7], lk_held = False\<rparr>
      = Inr ((Some 1, ENOSYS), \<lparr>wr_files = [Some 7, None], lk_held = False\<rparr>)"
proof -
  have "p_Create (NewLockingFileSystem defaultFileSystem) ''a'' 0 0 None \<lparr>wr_files = [Some 7], lk_held = False\<rparr>
      = Inr ((Some 1, ENOSYS), \<lparr>wr_files = [Some 7, None], lk_held = False\<rparr>)"
    by (simp add: NewLockingFileSystem_def locked_def defaultFileSystem_def new_wrapper_def fs_bind_def fs_return_def)
  moreover have "slice_get [Some 7] 0 = (Inr (Some 7) :: pfile option go)" by (simp add: slice_get_def)
  ultimately show ?thesis
    using locking_fs_serialises [where fs = defaultFileSystem and F = "defaultFile (\<lambda>_ _. fs_return ([], OK))"
        and s = "\<lparr>wr_files = [Some 7], lk_held = False\<rparr>" and s' = "\<lparr>wr_files = [], lk_held = True\<rparr>"
        and name = "''a''" and flags = 0 and mode = 0 and c = None and r = "(Some 1, ENOSYS)" and f = 0 and g = 7
        and t = "\<lparr>wr_files = [Some 7, None], lk_held = False\<rparr>"]
    by (elim conjE) simp
qed

section \<open>Read-only file systems\<close>

text \<open>A file system, and files, whose modifying operations must not be called.\<close>

definition sealed_fs :: "'w FileSystem \<Rightarrow> 'w FileSystem" where
  "sealed_fs fs = (let stop = fs_fault (Panic ''modified'') in fs
    \<lparr>p_Chmod := \<lambda>_ _ _. stop, p_Chown := \<lambda>_ _ _ _. stop, p_Utimens := \<lambda>_ _ _ _. stop, p_Truncate := \<lambda>_ _ _. stop,
     p_Link := \<lambda>_ _ _. stop, p_Mkdir := \<lambda>_ _ _. stop, p_Mknod := \<lambda>_ _ _ _. stop, p_Rename := \<lambda>_ _ _. stop,
     p_Rmdir := \<lambda>_ _. stop, p_Unlink := \<lambda>_ _. stop, p_RemoveXAttr := \<lambda>_ _ _. stop,
     p_SetXAttr := \<lambda>_ _ _ _ _. stop, p_Create := \<lambda>_ _ _ _. fs_fault (Panic ''modified''), p_Symlink := \<lambda>_ _ _. stop,
     p_Open := \<lambda>name flags c. if flags AND O_ANYWRITE \<noteq> 0 then fs_fault (Panic ''modified'') else p_Open fs name flags c\<rparr>)"

definition sealed_files :: "'w file_ops \<Rightarrow> 'w file_ops" where
  "sealed_files F = (let stop = fs_fault (Panic ''modified'') in F
    \<lparr>f_Write := \<lambda>_ _ _. fs_fault (Panic ''modified''), f_Truncate := \<lambda>_ _. stop, f_Chown := \<lambda>_ _ _. stop,
     f_Chmod := \<lambda>_ _. stop, f_Allocate := \<lambda>_ _ _ _. stop\<rparr>)"

text \<open>
  C38: A read-only file system calls no modifying operation of the file system inside it and opens no
  file there with a flag that allows writing; its files pass no write, truncation, change of owner,
  change of mode or allocation on. Every one of these is answered \<^verbatim>\<open>EPERM\<close> without an effect, on the file
  system and on its files. Utimens on an open file is passed on: the times of a file can be set
  through a read-only file system.
\<close>

theorem readonly_fs_never_modifies:
  "NewReadonlyFileSystem (sealed_fs fs) = NewReadonlyFileSystem fs
   \<and> readOnlyFile (sealed_files F) = readOnlyFile F
   \<and> (\<forall>R. R = NewReadonlyFileSystem fs \<longrightarrow>
        p_Chmod R name mode c s = Inr (EPERM, s) \<and> p_Chown R name uid gid c s = Inr (EPERM, s)
      \<and> p_Utimens R name atime mtime c s = Inr (EPERM, s) \<and> p_Truncate R name sz c s = Inr (EPERM, s)
      \<and> p_Link R name new c s = Inr (EPERM, s) \<and> p_Mkdir R name mode c s = Inr (EPERM, s)
      \<and> p_Mknod R name mode dev c s = Inr (EPERM, s) \<and> p_Rename R name new c s = Inr (EPERM, s)
      \<and> p_Rmdir R name c s = Inr (EPERM, s) \<and> p_Unlink R name c s = Inr (EPERM, s)
      \<and> p_RemoveXAttr R name attr c s = Inr (EPERM, s) \<and> p_SetXAttr R name attr data xflags c s = Inr (EPERM, s)
      \<and> p_Symlink R name new c s = Inr (EPERM, s) \<and> p_Create R name flags mode c s = Inr ((None, EPERM), s)
      \<and> (flags AND O_ANYWRITE \<noteq> 0 \<longrightarrow> p_Open R name flags c s = Inr ((None, EPERM), s)))
   \<and> f_Write (readOnlyFile F) f data off s = Inr ((0, EPERM), s) \<and> f_Truncate (readOnlyFile F) f sz s = Inr (EPERM, s)
   \<and> f_Chown (readOnlyFile F) f uid gid s = Inr (EPERM, s) \<and> f_Chmod (readOnlyFile F) f mode s = Inr (EPERM, s)
   \<and> f_Allocate (readOnlyFile F) f aoff sz mode s = Inr (EPERM, s)
   \<and> (slice_get (wr_files s) f = Inr (Some g) \<longrightarrow> f_Utimens (readOnlyFile F) f atime mtime s = f_Utimens F g atime mtime s)"
proof -
  have 1: "NewReadonlyFileSystem (sealed_fs fs) = NewReadonlyFileSystem fs"
    by (auto simp: NewReadonlyFileSystem_def sealed_fs_def Let_def intro!: ext)
  have 2: "readOnlyFile (sealed_files F) = readOnlyFile F"
    by (simp add: readOnlyFile_def sealed_files_def Let_def)
  show ?thesis unfolding 1 2
    by (simp add: NewReadonlyFileSystem_def readOnlyFile_def on_inner_def fs_return_def)
qed

theorem readonly_fs_never_modifies_witness:
  "p_Open (NewReadonlyFileSystem defaultFileSystem) ''a'' 1 None \<lparr>wr_files = [Some 7]\<rparr> = Inr ((None, EPERM), \<lparr>wr_files = [Some 7]\<rparr>)
   \<and> p_Unlink (NewReadonlyFileSystem defaultFileSystem) ''a'' None \<lparr>wr_files = [Some 7]\<rparr> = Inr (EPERM, \<lparr>wr_files = [Some 7]\<rparr>)
   \<and> f_Utimens (readOnlyFile ((defaultFile (\<lambda>_ _. fs_return ([], OK)))\<lparr>f_Utimens := \<lambda>_ _ _. fs_return OK\<rparr>)) 0 None None
        \<lparr>wr_files = [Some 7]\<rparr> = Inr (OK, \<lparr>wr_files = [Some 7]\<rparr>)"
proof -
  have "(1 :: u32) AND O_ANYWRITE \<noteq> 0" by (simp add: O_ANYWRITE_def)
  moreover have "slice_get [Some 7] 0 = (Inr (Some 7) :: pfile option go)" by (simp add: slice_get_def)
  ultimately show ?thesis
    using readonly_fs_never_modifies [where fs = defaultFileSystem
        and F = "(defaultFile (\<lambda>_ _. fs_return ([], OK)))\<lparr>f_Utimens := \<lambda>_ _ _. fs_return OK\<rparr>"
        and flags = 1 and name = "''a''" and c = None and s = "\<lparr>wr_files = [Some 7]\<rparr>" and f = 0 and g = 7
        and atime = None and mtime = None]
    by (simp add: fs_return_def)
qed

end
