(* ===== verification/ConnTree.thy ===== *)
theory ConnTree
  imports HandleMap PathFs
begin

text \<open>
  The tree of the older node API: the state of a \<^verbatim>\<open>FileSystemConnector\<close>, its inodes
  (\<^verbatim>\<open>fuse/nodefs/inode.go\<close>) and the interfaces of \<^verbatim>\<open>fuse/nodefs/api.go\<close>. Inodes, mounts and opened files are
  addresses into the state, 0 is nil; a node of the user is a number. The methods of the nodes are a
  record of functions on the state of the connector, since a node may change the tree while it answers.
  A method runs without interference: the locks of the tree are not modelled, but the dereference of
  the mount that holds them is. The checks that only tests turn on (\<^verbatim>\<open>paranoia\<close>) are left out.
\<close>

section \<open>State\<close>

record cOptions =
  op_EntryTimeout :: Duration
  op_AttrTimeout :: Duration
  op_NegativeTimeout :: Duration
  op_Owner :: "Owner option"
  op_LookupKnownChildren :: bool

text \<open>A file as \<^verbatim>\<open>Open\<close> returns it, and as the methods of a node receive it: nil, a file, or an opened file.\<close>

datatype cfile = PlainFile pfile | WithFlags (wf_File: "cfile option") (wf_Description: string) (wf_FuseFlags: u32)

datatype cfarg = NilFile | TheFile pfile | OpenedFile addr

record cInode =
  in_openFiles :: "addr list"
  in_fsInode :: nat
  in_mount :: addr
  in_children :: "(string, addr) gomap"
  in_parents :: "(addr \<times> string) list"
  in_mountPoint :: addr

record fileSystemMount =
  mt_mountInode :: addr
  mt_parentInode :: addr
  mt_options :: cOptions
  mt_openFiles :: hmstate

record connectorDir =
  cd_node :: nat
  cd_inode :: addr
  cd_stream :: "DirEntry list"

record openedFile =
  of_File :: "pfile option"
  of_Description :: string
  of_FuseFlags :: u32
  of_OpenFlags :: u32
  of_dir :: "connectorDir option"

record 'w conn =
  cn_w :: 'w
  cn_inodes :: "addr \<Rightarrow> cInode option"
  cn_mounts :: "addr \<Rightarrow> fileSystemMount option"
  cn_opened :: "addr \<Rightarrow> openedFile option"
  cn_next :: addr
  cn_inodeMap :: hmstate
  cn_rootNode :: addr

type_synonym ('w, 'a) cop = "('w conn, 'a) fsm"

text \<open>Of the methods of a node, the tree itself calls those of the first record.\<close>

record 'w TreeWatcher =
  n_SetInode :: "nat \<Rightarrow> addr \<Rightarrow> ('w, unit) cop"
  n_isTreeWatcher :: "nat \<Rightarrow> bool"
  n_OnAdd :: "nat \<Rightarrow> addr \<Rightarrow> string \<Rightarrow> ('w, unit) cop"
  n_OnRemove :: "nat \<Rightarrow> addr \<Rightarrow> string \<Rightarrow> ('w, unit) cop"

record 'w Node = "'w TreeWatcher" +
  n_OnMount :: "nat \<Rightarrow> ('w, unit) cop"
  n_OnUnmount :: "nat \<Rightarrow> ('w, unit) cop"
  n_Lookup :: "nat \<Rightarrow> Attr \<Rightarrow> string \<Rightarrow> ctx \<Rightarrow> ('w, addr \<times> Status \<times> Attr) cop"
  n_Deletable :: "nat \<Rightarrow> ('w, bool) cop"
  n_OnForget :: "nat \<Rightarrow> ('w, unit) cop"
  n_Access :: "nat \<Rightarrow> u32 \<Rightarrow> ctx \<Rightarrow> ('w, Status) cop"
  n_Readlink :: "nat \<Rightarrow> ctx \<Rightarrow> ('w, u8 list \<times> Status) cop"
  n_Mknod :: "nat \<Rightarrow> string \<Rightarrow> u32 \<Rightarrow> u32 \<Rightarrow> ctx \<Rightarrow> ('w, addr \<times> Status) cop"
  n_Mkdir :: "nat \<Rightarrow> string \<Rightarrow> u32 \<Rightarrow> ctx \<Rightarrow> ('w, addr \<times> Status) cop"
  n_Unlink :: "nat \<Rightarrow> string \<Rightarrow> ctx \<Rightarrow> ('w, Status) cop"
  n_Rmdir :: "nat \<Rightarrow> string \<Rightarrow> ctx \<Rightarrow> ('w, Status) cop"
  n_Symlink :: "nat \<Rightarrow> string \<Rightarrow> string \<Rightarrow> ctx \<Rightarrow> ('w, addr \<times> Status) cop"
  n_Rename :: "nat \<Rightarrow> string \<Rightarrow> nat \<Rightarrow> string \<Rightarrow> ctx \<Rightarrow> ('w, Status) cop"
  n_Link :: "nat \<Rightarrow> string \<Rightarrow> nat \<Rightarrow> ctx \<Rightarrow> ('w, addr \<times> Status) cop"
  n_Create :: "nat \<Rightarrow> string \<Rightarrow> u32 \<Rightarrow> u32 \<Rightarrow> ctx \<Rightarrow> ('w, cfile option \<times> addr \<times> Status) cop"
  n_Open :: "nat \<Rightarrow> u32 \<Rightarrow> ctx \<Rightarrow> ('w, cfile option \<times> Status) cop"
  n_OpenDir :: "nat \<Rightarrow> ctx \<Rightarrow> ('w, DirEntry list \<times> Status) cop"
  n_Read :: "nat \<Rightarrow> cfarg \<Rightarrow> nat \<Rightarrow> i64 \<Rightarrow> ctx \<Rightarrow> ('w, ReadResult option \<times> Status) cop"
  n_Write :: "nat \<Rightarrow> cfarg \<Rightarrow> u8 list \<Rightarrow> i64 \<Rightarrow> ctx \<Rightarrow> ('w, u32 \<times> Status) cop"
  n_GetXAttr :: "nat \<Rightarrow> string \<Rightarrow> ctx \<Rightarrow> ('w, u8 list \<times> Status) cop"
  n_RemoveXAttr :: "nat \<Rightarrow> string \<Rightarrow> ctx \<Rightarrow> ('w, Status) cop"
  n_SetXAttr :: "nat \<Rightarrow> string \<Rightarrow> u8 list \<Rightarrow> int \<Rightarrow> ctx \<Rightarrow> ('w, Status) cop"
  n_ListXAttr :: "nat \<Rightarrow> ctx \<Rightarrow> ('w, string list \<times> Status) cop"
  n_GetLk :: "nat \<Rightarrow> cfarg \<Rightarrow> u64 \<Rightarrow> FileLock \<Rightarrow> u32 \<Rightarrow> FileLock \<Rightarrow> ctx \<Rightarrow> ('w, Status \<times> FileLock) cop"
  n_SetLk :: "nat \<Rightarrow> cfarg \<Rightarrow> u64 \<Rightarrow> FileLock \<Rightarrow> u32 \<Rightarrow> ctx \<Rightarrow> ('w, Status) cop"
  n_SetLkw :: "nat \<Rightarrow> cfarg \<Rightarrow> u64 \<Rightarrow> FileLock \<Rightarrow> u32 \<Rightarrow> ctx \<Rightarrow> ('w, Status) cop"
  n_GetAttr :: "nat \<Rightarrow> Attr \<Rightarrow> cfarg \<Rightarrow> ctx \<Rightarrow> ('w, Status \<times> Attr) cop"
  n_Chmod :: "nat \<Rightarrow> cfarg \<Rightarrow> u32 \<Rightarrow> ctx \<Rightarrow> ('w, Status) cop"
  n_Chown :: "nat \<Rightarrow> cfarg \<Rightarrow> u32 \<Rightarrow> u32 \<Rightarrow> ctx \<Rightarrow> ('w, Status) cop"
  n_Truncate :: "nat \<Rightarrow> cfarg \<Rightarrow> u64 \<Rightarrow> ctx \<Rightarrow> ('w, Status) cop"
  n_Utimens :: "nat \<Rightarrow> cfarg \<Rightarrow> Time option \<Rightarrow> Time option \<Rightarrow> ctx \<Rightarrow> ('w, Status) cop"
  n_Fallocate :: "nat \<Rightarrow> cfarg \<Rightarrow> u64 \<Rightarrow> u64 \<Rightarrow> u32 \<Rightarrow> ctx \<Rightarrow> ('w, Status) cop"
  n_StatFs :: "nat \<Rightarrow> ('w, StatfsOut option) cop"

section \<open>Access\<close>

definition get_inode :: "addr \<Rightarrow> ('w, cInode) cop" where
  "get_inode a s = (case cn_inodes s a of None \<Rightarrow> Inl NilDeref | Some i \<Rightarrow> Inr (i, s))"

definition upd_inode :: "addr \<Rightarrow> (cInode \<Rightarrow> cInode) \<Rightarrow> 'w conn \<Rightarrow> 'w conn" where
  "upd_inode a f s = s\<lparr>cn_inodes := (cn_inodes s)(a := map_option f (cn_inodes s a))\<rparr>"

definition put_inode :: "addr \<Rightarrow> (cInode \<Rightarrow> cInode) \<Rightarrow> ('w, unit) cop" where
  "put_inode a f = fs_step (\<lambda>s. Inr (upd_inode a f s))"

definition get_mount :: "addr \<Rightarrow> ('w, fileSystemMount) cop" where
  "get_mount m s = (case cn_mounts s m of None \<Rightarrow> Inl NilDeref | Some x \<Rightarrow> Inr (x, s))"

definition upd_mount :: "addr \<Rightarrow> (fileSystemMount \<Rightarrow> fileSystemMount) \<Rightarrow> ('w, unit) cop" where
  "upd_mount m f = fs_step (\<lambda>s. Inr (s\<lparr>cn_mounts := (cn_mounts s)(m := map_option f (cn_mounts s m))\<rparr>))"

definition conn_lift :: "('w, 'a) fsm \<Rightarrow> ('w, 'a) cop" where
  "conn_lift m s = bind_go (m (cn_w s)) (\<lambda>(x, w). Inr (x, s\<lparr>cn_w := w\<rparr>))"

definition get_opened :: "addr \<Rightarrow> ('w, openedFile) cop" where
  "get_opened b s = (case cn_opened s b of None \<Rightarrow> Inl NilDeref | Some f \<Rightarrow> Inr (f, s))"

text \<open>A method of a file that is an argument; a nil one, or an opened file without a file, is dereferenced.\<close>

definition inner_file :: "openedFile \<Rightarrow> (pfile \<Rightarrow> ('w, 'a) fsm) \<Rightarrow> ('w, 'a) cop" where
  "inner_file f m = (case of_File f of None \<Rightarrow> fs_fault NilDeref | Some p \<Rightarrow> conn_lift (m p))"

fun call_file :: "cfarg \<Rightarrow> (pfile \<Rightarrow> ('w, 'a) fsm) \<Rightarrow> ('w, 'a) cop" where
  "call_file NilFile m = fs_fault NilDeref"
| "call_file (TheFile p) m = conn_lift (m p)"
| "call_file (OpenedFile b) m = fs_bind (get_opened b) (\<lambda>f. inner_file f m)"

text \<open>The inode, read under the lock of the tree of its mount.\<close>

definition tree_lock :: "addr \<Rightarrow> ('w, cInode) cop" where
  "tree_lock a = fs_bind (get_inode a) (\<lambda>i. if in_mount i = 0 then fs_fault NilDeref else fs_return i)"

section \<open>Inodes\<close>

definition ci_newInode :: "('w, 'z) TreeWatcher_scheme \<Rightarrow> bool \<Rightarrow> nat \<Rightarrow> ('w, addr) cop" where
  "ci_newInode N isDir fsNode =
     fs_bind (fs_get cn_next) (\<lambda>a.
     fs_bind (fs_step (\<lambda>s. Inr (s\<lparr>cn_next := Suc a, cn_inodes := (cn_inodes s)(a \<mapsto>
         \<lparr>in_openFiles = [], in_fsInode = fsNode, in_mount = 0, in_children = (if isDir then Some [] else None),
          in_parents = [], in_mountPoint = 0\<rparr>)\<rparr>))) (\<lambda>_.
     fs_bind (n_SetInode N fsNode a) (\<lambda>_. fs_return a)))"

text \<open>\<^verbatim>\<open>AnyFile\<close>: the last file opened for writing, or else the first one.\<close>

fun any_open :: "(addr \<Rightarrow> openedFile option) \<Rightarrow> addr list \<Rightarrow> pfile option \<Rightarrow> pfile option go" where
  "any_open opened [] file = Inr file"
| "any_open opened (b # bs) file =
     (case opened b of
        None \<Rightarrow> Inl NilDeref
      | Some f \<Rightarrow> any_open opened bs (if file = None \<or> of_OpenFlags f AND O_ANYWRITE \<noteq> 0 then of_File f else file))"

definition ci_AnyFile :: "addr \<Rightarrow> ('w, pfile option) cop" where
  "ci_AnyFile a = fs_bind (get_inode a) (\<lambda>i s. bind_go (any_open (cn_opened s) (in_openFiles i) None) (\<lambda>f. Inr (f, s)))"

definition ci_Children :: "addr \<Rightarrow> ('w, (string \<times> addr) list) cop" where
  "ci_Children a = fs_bind (tree_lock a) (\<lambda>i. fs_return (gm_entries (in_children i)))"

definition ci_Parent :: "addr \<Rightarrow> ('w, addr \<times> string) cop" where
  "ci_Parent a = fs_bind (get_inode a) (\<lambda>i.
     if in_mountPoint i \<noteq> 0 then fs_return (0, [])
     else if in_mount i = 0 then fs_fault NilDeref
     else fs_return (case in_parents i of [] \<Rightarrow> (0, []) | pd # _ \<Rightarrow> pd))"

fun same_mount :: "(addr \<Rightarrow> cInode option) \<Rightarrow> addr \<Rightarrow> (string \<times> addr) list \<Rightarrow> (string \<times> addr) list go" where
  "same_mount h m [] = Inr []"
| "same_mount h m ((k, v) # kvs) =
     (case h v of
        None \<Rightarrow> Inl NilDeref
      | Some i \<Rightarrow> bind_go (same_mount h m kvs) (\<lambda>r. Inr (if in_mount i = m then (k, v) # r else r)))"

definition ci_FsChildren :: "addr \<Rightarrow> ('w, (string \<times> addr) list) cop" where
  "ci_FsChildren a = fs_bind (tree_lock a) (\<lambda>i s.
     bind_go (same_mount (cn_inodes s) (in_mount i) (gm_entries (in_children i))) (\<lambda>r. Inr (r, s)))"

fun open_with :: "(addr \<Rightarrow> openedFile option) \<Rightarrow> u32 \<Rightarrow> addr list \<Rightarrow> openedFile list go" where
  "open_with opened m [] = Inr []"
| "open_with opened m (b # bs) =
     (case opened b of
        None \<Rightarrow> Inl NilDeref
      | Some f \<Rightarrow> bind_go (open_with opened m bs) (\<lambda>r. Inr (if m = 0 \<or> of_OpenFlags f AND m \<noteq> 0 then f # r else r)))"

definition ci_Files :: "addr \<Rightarrow> u32 \<Rightarrow> ('w, openedFile list) cop" where
  "ci_Files a m = fs_bind (get_inode a) (\<lambda>i s. bind_go (open_with (cn_opened s) m (in_openFiles i)) (\<lambda>r. Inr (r, s)))"

definition ci_IsDir :: "addr \<Rightarrow> ('w, bool) cop" where
  "ci_IsDir a = fs_bind (get_inode a) (\<lambda>i. fs_return (in_children i \<noteq> None))"

definition ci_GetChild :: "addr \<Rightarrow> string \<Rightarrow> ('w, addr) cop" where
  "ci_GetChild a name = fs_bind (tree_lock a) (\<lambda>i.
     fs_return (case gm_get (in_children i) name of None \<Rightarrow> 0 | Some c \<Rightarrow> c))"

text \<open>\<^verbatim>\<open>addChild\<close> and \<^verbatim>\<open>rmChild\<close>; a node that watches the tree is told, unless it is the root of a mount.\<close>

definition ci_addChild :: "('w, 'z) TreeWatcher_scheme \<Rightarrow> addr \<Rightarrow> string \<Rightarrow> addr \<Rightarrow> ('w, unit) cop" where
  "ci_addChild N n name child =
     fs_bind (get_inode n) (\<lambda>i.
     case gm_set (in_children i) name child of
       Inl e \<Rightarrow> fs_fault e
     | Inr cs \<Rightarrow>
         fs_bind (put_inode n (in_children_update (\<lambda>_. cs))) (\<lambda>_.
         fs_bind (get_inode child) (\<lambda>_.
         fs_bind (put_inode child (in_parents_update (List.insert (n, name)))) (\<lambda>_.
         fs_bind (get_inode child) (\<lambda>c.
         if n_isTreeWatcher N (in_fsInode c) \<and> in_mountPoint c = 0 then n_OnAdd N (in_fsInode c) n name
         else fs_return ())))))"

definition ci_rmChild :: "('w, 'z) TreeWatcher_scheme \<Rightarrow> addr \<Rightarrow> string \<Rightarrow> ('w, addr) cop" where
  "ci_rmChild N n name =
     fs_bind (get_inode n) (\<lambda>i.
     case gm_get (in_children i) name of
       None \<Rightarrow> fs_return 0
     | Some ch \<Rightarrow>
         fs_bind (put_inode n (in_children_update (\<lambda>cs. gm_del cs name))) (\<lambda>_.
         fs_bind (get_inode ch) (\<lambda>_.
         fs_bind (put_inode ch (in_parents_update (removeAll (n, name)))) (\<lambda>_.
         fs_bind (get_inode ch) (\<lambda>c.
         fs_bind (if n_isTreeWatcher N (in_fsInode c) \<and> in_mountPoint c = 0 then n_OnRemove N (in_fsInode c) n name
                  else fs_return ()) (\<lambda>_.
         fs_return ch))))))"

definition ci_AddChild :: "('w, 'z) TreeWatcher_scheme \<Rightarrow> addr \<Rightarrow> string \<Rightarrow> addr \<Rightarrow> ('w, unit) cop" where
  "ci_AddChild N n name child =
     (if child = 0 then fs_fault (Panic ''adding nil child'')
      else fs_bind (tree_lock n) (\<lambda>_. ci_addChild N n name child))"

definition ci_RmChild :: "('w, 'z) TreeWatcher_scheme \<Rightarrow> addr \<Rightarrow> string \<Rightarrow> ('w, addr) cop" where
  "ci_RmChild N n name = fs_bind (tree_lock n) (\<lambda>_. ci_rmChild N n name)"

definition ci_NewChild :: "('w, 'z) TreeWatcher_scheme \<Rightarrow> addr \<Rightarrow> string \<Rightarrow> bool \<Rightarrow> nat \<Rightarrow> ('w, addr) cop" where
  "ci_NewChild N n name isDir fsi =
     fs_bind (ci_newInode N isDir fsi) (\<lambda>ch.
     fs_bind (get_inode n) (\<lambda>i.
     fs_bind (put_inode ch (in_mount_update (\<lambda>_. in_mount i))) (\<lambda>_.
     fs_bind (ci_AddChild N n name ch) (\<lambda>_. fs_return ch))))"

definition ci_mountFs :: "cOptions \<Rightarrow> addr \<Rightarrow> ('w, unit) cop" where
  "ci_mountFs opts n =
     fs_bind (fs_get cn_next) (\<lambda>m.
     fs_bind (fs_step (\<lambda>s. Inr (s\<lparr>cn_next := Suc m, cn_mounts := (cn_mounts s)(m \<mapsto>
         \<lparr>mt_mountInode = n, mt_parentInode = 0, mt_options = opts, mt_openFiles = (\<lambda>_. zero_handled, newPortableHandleMap)\<rparr>)\<rparr>))) (\<lambda>_.
     put_inode n (\<lambda>i. i\<lparr>in_mountPoint := m, in_mount := m\<rparr>)))"

text \<open>The fuel bounds the depth of the tree.\<close>

fun ci_canUnmount :: "nat \<Rightarrow> (addr \<Rightarrow> cInode option) \<Rightarrow> addr \<Rightarrow> bool go"
  and can_unmount_all :: "nat \<Rightarrow> (addr \<Rightarrow> cInode option) \<Rightarrow> (string \<times> addr) list \<Rightarrow> bool go" where
  "ci_canUnmount 0 h n = Inl OutOfFuel"
| "ci_canUnmount (Suc k) h n =
     (case h n of
        None \<Rightarrow> Inl NilDeref
      | Some i \<Rightarrow> bind_go (can_unmount_all k h (gm_entries (in_children i))) (\<lambda>ok. Inr (ok \<and> in_openFiles i = [])))"
| "can_unmount_all k h [] = Inr True"
| "can_unmount_all k h ((nm, v) # kvs) =
     (case h v of
        None \<Rightarrow> Inl NilDeref
      | Some i \<Rightarrow>
          if in_mountPoint i \<noteq> 0 then Inr False
          else bind_go (ci_canUnmount k h v) (\<lambda>ok. if ok then can_unmount_all k h kvs else Inr False))"

fun mount_entries :: "(addr \<Rightarrow> cInode option) \<Rightarrow> (string \<times> addr) list \<Rightarrow> DirEntry list go" where
  "mount_entries h [] = Inr []"
| "mount_entries h ((k, v) # kvs) =
     (case h v of
        None \<Rightarrow> Inl NilDeref
      | Some i \<Rightarrow> bind_go (mount_entries h kvs) (\<lambda>r.
          Inr (if in_mountPoint i \<noteq> 0 then \<lparr>de_Mode = S_IFDIR, de_Name = k, de_Ino = 0\<rparr> # r else r)))"

definition ci_getMountDirEntries :: "addr \<Rightarrow> ('w, DirEntry list) cop" where
  "ci_getMountDirEntries a = fs_bind (tree_lock a) (\<lambda>i s.
     bind_go (mount_entries (cn_inodes s) (gm_entries (in_children i))) (\<lambda>r. Inr (r, s)))"

end
