(* ===== verification/Connector.thy ===== *)
theory Connector
  imports ConnTree
begin

text \<open>
  \<^verbatim>\<open>fuse/nodefs/fsmount.go\<close> and \<^verbatim>\<open>fuse/nodefs/fsconnector.go\<close>: the mounts with their open files, the numbers
  of the inodes, walks along paths, mounting and unmounting, and notifications. The methods of the
  files, of the nodes and of the server are parameters.
\<close>

section \<open>Mounts\<close>

fun mountName :: "addr \<Rightarrow> (string \<times> addr) list \<Rightarrow> string go" where
  "mountName n [] = Inl (Panic ''not found'')"
| "mountName n ((k, v) # kvs) = (if n = v then Inr k else mountName n kvs)"

definition setOwner :: "cOptions \<Rightarrow> Attr \<Rightarrow> Attr" where
  "setOwner opts a = (case op_Owner opts of None \<Rightarrow> a | Some owner \<Rightarrow> a\<lparr>a_Owner := owner\<rparr>)"

definition fillEntry :: "cOptions \<Rightarrow> EntryOut \<Rightarrow> EntryOut" where
  "fillEntry opts out0 =
     (let out1 = SetAttrTimeout (op_AttrTimeout opts) (SetEntryTimeout (op_EntryTimeout opts) out0);
          out2 = out1\<lparr>eo_Attr := setOwner opts (eo_Attr out1)\<rparr>;
          a = eo_Attr out2
      in if a_Mode a AND S_IFDIR = 0 \<and> a_Nlink a = 0 then out2\<lparr>eo_Attr := a\<lparr>a_Nlink := 1\<rparr>\<rparr> else out2)"

definition fillAttr :: "cOptions \<Rightarrow> AttrOut \<Rightarrow> u64 \<Rightarrow> AttrOut" where
  "fillAttr opts out0 nodeId =
     (let out1 = SetTimeout (op_AttrTimeout opts) out0; a = setOwner opts (ao_Attr out1)
      in out1\<lparr>ao_Attr := (if a_Ino a = 0 then a\<lparr>a_Ino := nodeId\<rparr> else a)\<rparr>)"

text \<open>The mount of an inode.\<close>

definition mount_of :: "addr \<Rightarrow> ('w, addr \<times> fileSystemMount) cop" where
  "mount_of n = fs_bind (get_inode n) (\<lambda>i. fs_bind (get_mount (in_mount i)) (\<lambda>m. fs_return (in_mount i, m)))"

definition getOpenedFile :: "fileSystemMount \<Rightarrow> u64 \<Rightarrow> addr go" where
  "getOpenedFile m h =
     (if h = 0 then Inr 0
      else bind_go (Decode (mt_openFiles m) h) (\<lambda>b. Inr (case b of None \<Rightarrow> 0 | Some a \<Rightarrow> a)))"

definition index_of :: "addr \<Rightarrow> addr list \<Rightarrow> nat option" where
  "index_of x xs = (let i = length (takeWhile (\<lambda>v. v \<noteq> x) xs) in if i < length xs then Some i else None)"

definition unregisterFileHandle :: "addr \<Rightarrow> u64 \<Rightarrow> addr \<Rightarrow> ('w, addr) cop" where
  "unregisterFileHandle m h n =
     fs_bind (get_mount m) (\<lambda>mt.
     case Forget (mt_openFiles mt) h 1 of
       Inl e \<Rightarrow> fs_fault e
     | Inr (_, opened, hm) \<Rightarrow>
         fs_bind (upd_mount m (mt_openFiles_update (\<lambda>_. hm))) (\<lambda>_.
         fs_bind (get_inode n) (\<lambda>i.
         case index_of opened (in_openFiles i) of
           None \<Rightarrow> fs_fault IndexRange
         | Some idx \<Rightarrow> fs_bind (put_inode n (in_openFiles_update (swap_remove idx))) (\<lambda>_. fs_return opened))))"

text \<open>The loop that takes the flags and descriptions off the wrappers of a file.\<close>

fun unwrap :: "cfile option \<Rightarrow> pfile option \<times> string \<times> u32" where
  "unwrap None = (None, [], 0)"
| "unwrap (Some (PlainFile f)) = (Some f, [], 0)"
| "unwrap (Some (WithFlags f d ff)) = (let (g, d', ff') = unwrap f in (g, d @ d', ff OR ff'))"

definition registerFileHandle ::
  "'w file_ops \<Rightarrow> addr \<Rightarrow> addr \<Rightarrow> connectorDir option \<Rightarrow> cfile option \<Rightarrow> u32 \<Rightarrow> ('w, u64 \<times> openedFile) cop" where
  "registerFileHandle F m n dir f flags =
     (let (file, desc, ff) = unwrap f;
          b = \<lparr>of_File = file, of_Description = desc, of_FuseFlags = ff, of_OpenFlags = flags, of_dir = dir\<rparr>
      in if dir \<noteq> None \<and> file \<noteq> None then fs_fault (Panic ''registerFileHandle: both dir and file are set.'')
         else if file = None \<and> dir = None then fs_return (0, b)
         else fs_bind (case file of None \<Rightarrow> fs_return () | Some g \<Rightarrow> conn_lift (f_SetInode F g n)) (\<lambda>_.
              fs_bind (fs_get cn_next) (\<lambda>a.
              fs_bind (fs_step (\<lambda>s. Inr (s\<lparr>cn_next := Suc a, cn_opened := (cn_opened s)(a \<mapsto> b)\<rparr>))) (\<lambda>_.
              fs_bind (get_inode n) (\<lambda>_.
              fs_bind (put_inode n (in_openFiles_update (\<lambda>fs. fs @ [a]))) (\<lambda>_.
              fs_bind (get_mount m) (\<lambda>mt.
              case Register (mt_openFiles mt) a of
                Inl e \<Rightarrow> fs_fault e
              | Inr (h, _, hm) \<Rightarrow>
                  fs_bind (upd_mount m (mt_openFiles_update (\<lambda>_. hm))) (\<lambda>_. fs_return (h, b)))))))))"

definition negativeEntry :: "cOptions \<Rightarrow> EntryOut \<Rightarrow> bool \<times> EntryOut" where
  "negativeEntry opts out =
     (if sint (op_NegativeTimeout opts) > 0 then (True, SetEntryTimeout (op_NegativeTimeout opts) (out\<lparr>eo_NodeId := 0\<rparr>))
      else (False, out))"

section \<open>Numbers of inodes\<close>

definition toInode :: "u64 \<Rightarrow> ('w, addr) cop" where
  "toInode nodeid s =
     (if nodeid = FUSE_ROOT_ID then Inr (cn_rootNode s, s)
      else bind_go (Decode (cn_inodeMap s) nodeid) (\<lambda>p. Inr (case p of None \<Rightarrow> 0 | Some a \<Rightarrow> a, s)))"

definition lookupUpdate :: "addr \<Rightarrow> ('w, u64 \<times> u64) cop" where
  "lookupUpdate n = fs_bind (get_inode n) (\<lambda>_ s.
     bind_go (Register (cn_inodeMap s) n) (\<lambda>(h, g, hm). Inr ((h, g), s\<lparr>cn_inodeMap := hm\<rparr>)))"

definition childLookup :: "'w Node \<Rightarrow> EntryOut \<Rightarrow> addr \<Rightarrow> ctx \<Rightarrow> ('w, EntryOut) cop" where
  "childLookup N out0 n c =
     fs_bind (get_inode n) (\<lambda>i.
     fs_bind (n_GetAttr N (in_fsInode i) (eo_Attr out0) NilFile c) (\<lambda>(_, a).
     fs_bind (mount_of n) (\<lambda>(_, m).
     let out1 = fillEntry (mt_options m) (out0\<lparr>eo_Attr := a\<rparr>) in
     fs_bind (lookupUpdate n) (\<lambda>(h, g).
     let b = eo_Attr out1; b1 = (if a_Ino b = 0 then b\<lparr>a_Ino := h\<rparr> else b);
         b2 = (if a_Nlink b1 = 0 then b1\<lparr>a_Nlink := 1\<rparr> else b1)
     in fs_return (out1\<lparr>eo_NodeId := h, eo_Generation := g, eo_Attr := b2\<rparr>)))))"

text \<open>The loop over a copy of the parents.\<close>

fun drop_parents :: "'w Node \<Rightarrow> (addr \<times> string) list \<Rightarrow> ('w, unit) cop" where
  "drop_parents N [] = fs_return ()"
| "drop_parents N ((p, nm) # ps) = fs_bind (ci_rmChild N p nm) (\<lambda>_. drop_parents N ps)"

definition forgetUpdate :: "'w Node \<Rightarrow> u64 \<Rightarrow> i64 \<Rightarrow> ('w, unit) cop" where
  "forgetUpdate N nodeID forgetCount =
     (if nodeID = FUSE_ROOT_ID
      then fs_bind (fs_get cn_rootNode) (\<lambda>r. fs_bind (get_inode r) (\<lambda>i. n_OnUnmount N (in_fsInode i)))
      else
        fs_bind (toInode nodeID) (\<lambda>n.
        fs_bind (tree_lock n) (\<lambda>_.
        fs_bind (\<lambda>s. bind_go (Forget (cn_inodeMap s) nodeID forgetCount) (\<lambda>(gone, _, hm). Inr (gone, s\<lparr>cn_inodeMap := hm\<rparr>))) (\<lambda>gone.
        if \<not> gone then fs_return ()
        else
          fs_bind (get_inode n) (\<lambda>i.
          if gm_len (in_children i) > 0 then fs_return ()
          else fs_bind (n_Deletable N (in_fsInode i)) (\<lambda>deletable.
          fs_bind (fs_get cn_rootNode) (\<lambda>r.
          if \<not> deletable \<or> n = r \<or> in_mountPoint i \<noteq> 0 then fs_return ()
          else fs_bind (drop_parents N (in_parents i)) (\<lambda>_. n_OnForget N (in_fsInode i)))))))))"

definition InodeHandleCount :: "'w conn \<Rightarrow> i64" where
  "InodeHandleCount s = Count (cn_inodeMap s)"

section \<open>Walks\<close>

text \<open>
  \<^verbatim>\<open>Node\<close> follows the known inodes along a path; empty components are skipped.
\<close>

fun walk_known :: "addr \<Rightarrow> string list \<Rightarrow> ('w, addr \<times> string list) cop" where
  "walk_known n [] = fs_return (n, [])"
| "walk_known n (c # cs) =
     (if c = [] then walk_known n cs
      else fs_bind (get_inode n) (\<lambda>i.
        if in_mountPoint i \<noteq> 0 \<and> in_mount i = 0 then fs_fault NilDeref
        else case gm_get (in_children i) c of
               None \<Rightarrow> fs_return (n, c # cs)
             | Some next \<Rightarrow> walk_known next cs))"

definition conn_Node :: "addr \<Rightarrow> string \<Rightarrow> ('w, addr \<times> string list) cop" where
  "conn_Node parent0 fullPath =
     fs_bind (if parent0 = 0 then fs_get cn_rootNode else fs_return parent0) (\<lambda>parent.
     if fullPath = [] then fs_return (parent, [])
     else
       fs_bind (get_inode parent) (\<lambda>i.
       if in_mountPoint i = 0 \<and> in_mount i = 0 then fs_fault NilDeref
       else walk_known parent (split_slash (dropWhile (\<lambda>c. c = CHR ''/'') (Clean fullPath)))))"

definition lookupMountUpdate :: "'w Node \<Rightarrow> Attr \<Rightarrow> addr \<Rightarrow> ('w, addr \<times> Status \<times> Attr) cop" where
  "lookupMountUpdate N out m =
     fs_bind (get_mount m) (\<lambda>mt.
     fs_bind (get_inode (mt_mountInode mt)) (\<lambda>i.
     fs_bind (n_GetAttr N (in_fsInode i) out NilFile None) (\<lambda>(code, a).
     fs_return (mt_mountInode mt, OK, if code \<noteq> OK then a\<lparr>a_Mode := S_IFDIR OR 493\<rparr> else a))))"

definition internalLookup :: "'w Node \<Rightarrow> Attr \<Rightarrow> addr \<Rightarrow> string \<Rightarrow> Caller \<Rightarrow> ('w, addr \<times> Status \<times> Attr) cop" where
  "internalLookup N out parent name caller =
     fs_bind (ci_GetChild parent name) (\<lambda>child.
     fs_bind (if child = 0 then fs_return None else fs_bind (get_inode child) (\<lambda>i. fs_return (Some i))) (\<lambda>ch.
     case ch of
       Some i \<Rightarrow>
         if in_mountPoint i \<noteq> 0 then lookupMountUpdate N out (in_mountPoint i)
         else fs_bind (mount_of parent) (\<lambda>(_, m).
           if \<not> op_LookupKnownChildren (mt_options m)
           then fs_bind (n_GetAttr N (in_fsInode i) out NilFile (Some caller)) (\<lambda>(code, a). fs_return (child, code, a))
           else fs_bind (get_inode parent) (\<lambda>p. n_Lookup N (in_fsInode p) out name (Some caller)))
     | None \<Rightarrow> fs_bind (get_inode parent) (\<lambda>p. n_Lookup N (in_fsInode p) out name (Some caller))))"

fun lookup_comps :: "'w Node \<Rightarrow> addr \<Rightarrow> string list \<Rightarrow> ('w, addr) cop" where
  "lookup_comps N parent [] = fs_return parent"
| "lookup_comps N parent (r # rs) =
     fs_bind (internalLookup N zero_Attr parent r zero_Caller) (\<lambda>(child, _, _).
     if child = 0 then fs_return 0 else lookup_comps N child rs)"

definition LookupNode :: "'w Node \<Rightarrow> addr \<Rightarrow> string \<Rightarrow> ('w, addr) cop" where
  "LookupNode N parent path =
     (if path = [] then fs_return parent else lookup_comps N parent (split_slash path))"

section \<open>Mounting\<close>

definition lockMount :: "'w Node \<Rightarrow> addr \<Rightarrow> string \<Rightarrow> nat \<Rightarrow> cOptions option \<Rightarrow> ('w, addr \<times> Status) cop" where
  "lockMount N parent name root opts =
     fs_bind (tree_lock parent) (\<lambda>p.
     if gm_get (in_children p) name \<noteq> None then fs_return (0, EBUSY)
     else
       fs_bind (ci_newInode N True root) (\<lambda>n.
       fs_bind (case opts of
                  Some o' \<Rightarrow> fs_return o'
                | None \<Rightarrow> fs_bind (fs_get cn_rootNode) (\<lambda>r. fs_bind (get_inode r) (\<lambda>ri.
                    fs_bind (get_mount (in_mountPoint ri)) (\<lambda>m. fs_return (mt_options m))))) (\<lambda>o'.
       fs_bind (ci_mountFs o' n) (\<lambda>_.
       fs_bind (ci_addChild N parent name n) (\<lambda>_.
       fs_bind (get_inode n) (\<lambda>i.
       fs_bind (get_mount (in_mountPoint i)) (\<lambda>_.
       fs_bind (upd_mount (in_mountPoint i) (mt_parentInode_update (\<lambda>_. parent))) (\<lambda>_.
       fs_return (n, OK)))))))))"

definition Mount :: "'w Node \<Rightarrow> addr \<Rightarrow> string \<Rightarrow> nat \<Rightarrow> cOptions option \<Rightarrow> ('w, Status) cop" where
  "Mount N parent name root opts =
     fs_bind (lockMount N parent name root opts) (\<lambda>(n, code).
     if code \<noteq> OK then fs_return code
     else fs_bind (get_inode n) (\<lambda>i. fs_bind (n_OnMount N (in_fsInode i)) (\<lambda>_. fs_return code)))"

text \<open>
  The calls to the server, and what the other goroutines do while this one sleeps. The wait for the
  kernel doubles the delay, in microseconds, until it reaches a second.
\<close>

record 'w server_calls =
  sc_InodeNotify :: "u64 \<Rightarrow> i64 \<Rightarrow> i64 \<Rightarrow> ('w, Status) cop"
  sc_StoreCache :: "u64 \<Rightarrow> i64 \<Rightarrow> u8 list \<Rightarrow> ('w, Status) cop"
  sc_RetrieveCache :: "u64 \<Rightarrow> i64 \<Rightarrow> u8 list \<Rightarrow> ('w, int \<times> Status) cop"
  sc_EntryNotify :: "u64 \<Rightarrow> string \<Rightarrow> ('w, Status) cop"
  sc_DeleteNotify :: "u64 \<Rightarrow> u64 \<Rightarrow> string \<Rightarrow> ('w, Status) cop"
  sc_Sleep :: "nat \<Rightarrow> ('w, unit) cop"

function wait_forgotten :: "'w server_calls \<Rightarrow> u64 \<Rightarrow> nat \<Rightarrow> ('w, unit) cop" where
  "wait_forgotten S nodeID delay =
     fs_bind (sc_Sleep S delay) (\<lambda>_ s.
     bind_go (Has (cn_inodeMap s) nodeID) (\<lambda>has.
     if \<not> has \<or> 2 * delay \<ge> 1000000 \<or> delay = 0 then Inr ((), s) else wait_forgotten S nodeID (2 * delay) s))"
  by pat_completeness auto
termination
  by (relation "measure (\<lambda>(S, nodeID, delay). 1000000 - delay)") auto

definition Unmount :: "nat \<Rightarrow> 'w Node \<Rightarrow> 'w server_calls \<Rightarrow> addr \<Rightarrow> ('w, Status) cop" where
  "Unmount k N S n =
     fs_bind (get_inode n) (\<lambda>i.
     if in_mountPoint i = 0 then fs_return EINVAL
     else
       let m = in_mountPoint i in
       fs_bind (get_mount m) (\<lambda>mt.
       fs_bind (fs_get (\<lambda>s. Handle (cn_inodeMap s) n)) (\<lambda>nodeID.
       let parent = mt_parentInode mt in
       fs_bind (tree_lock parent) (\<lambda>p.
       case mountName (mt_mountInode mt) (gm_entries (in_children p)) of
         Inl e \<Rightarrow> fs_fault e
       | Inr name \<Rightarrow>
           if sint (Count (mt_openFiles mt)) > 0 then fs_return EBUSY
           else if mt_mountInode mt \<noteq> n then fs_fault (Panic ''got two different mount inodes'')
           else
             fs_bind (\<lambda>s. bind_go (ci_canUnmount k (cn_inodes s) n) (\<lambda>ok. Inr (ok, s))) (\<lambda>ok.
             if \<not> ok then fs_return EBUSY
             else
               fs_bind (put_inode parent (in_children_update (\<lambda>cs. gm_del cs name))) (\<lambda>_.
               fs_bind (n_OnUnmount N (in_fsInode i)) (\<lambda>_.
               fs_bind (fs_get (\<lambda>s. if parent = cn_rootNode s then FUSE_ROOT_ID else Handle (cn_inodeMap s) parent)) (\<lambda>parentId.
               fs_bind (sc_DeleteNotify S parentId nodeID name) (\<lambda>code.
               fs_bind (if code = OK then wait_forgotten S nodeID 100 else fs_return ()) (\<lambda>_.
               fs_bind (upd_mount m (mt_mountInode_update (\<lambda>_. 0))) (\<lambda>_.
               fs_bind (put_inode n (in_mountPoint_update (\<lambda>_. 0))) (\<lambda>_.
               fs_return OK))))))))))))"

section \<open>Notifications\<close>

definition kernel_id :: "addr \<Rightarrow> ('w, u64) cop" where
  "kernel_id n = fs_get (\<lambda>s. if n = cn_rootNode s then FUSE_ROOT_ID else Handle (cn_inodeMap s) n)"

definition FileNotify :: "'w server_calls \<Rightarrow> addr \<Rightarrow> i64 \<Rightarrow> i64 \<Rightarrow> ('w, Status) cop" where
  "FileNotify S n off len = fs_bind (kernel_id n) (\<lambda>nID. if nID = 0 then fs_return OK else sc_InodeNotify S nID off len)"

definition FileNotifyStoreCache :: "'w server_calls \<Rightarrow> addr \<Rightarrow> i64 \<Rightarrow> u8 list \<Rightarrow> ('w, Status) cop" where
  "FileNotifyStoreCache S n off data =
     fs_bind (kernel_id n) (\<lambda>nID. if nID = 0 then fs_return ENOENT else sc_StoreCache S nID off data)"

definition FileRetrieveCache :: "'w server_calls \<Rightarrow> addr \<Rightarrow> i64 \<Rightarrow> u8 list \<Rightarrow> ('w, int \<times> Status) cop" where
  "FileRetrieveCache S n off dest =
     fs_bind (kernel_id n) (\<lambda>nID. if nID = 0 then fs_return (0, OK) else sc_RetrieveCache S nID off dest)"

definition EntryNotify :: "'w server_calls \<Rightarrow> addr \<Rightarrow> string \<Rightarrow> ('w, Status) cop" where
  "EntryNotify S n name = fs_bind (kernel_id n) (\<lambda>nID. if nID = 0 then fs_return OK else sc_EntryNotify S nID name)"

definition DeleteNotify :: "'w server_calls \<Rightarrow> addr \<Rightarrow> addr \<Rightarrow> string \<Rightarrow> ('w, Status) cop" where
  "DeleteNotify S dir child name =
     fs_bind (kernel_id dir) (\<lambda>nID.
     if nID = 0 then fs_return OK
     else fs_bind (fs_get (\<lambda>s. Handle (cn_inodeMap s) child)) (\<lambda>chId. sc_DeleteNotify S nID chId name))"

section \<open>A new connector\<close>

text \<open>The current owner is a parameter.\<close>

definition NewOptions :: "Owner \<Rightarrow> cOptions" where
  "NewOptions owner = \<lparr>op_EntryTimeout = 1000000000, op_AttrTimeout = 1000000000, op_NegativeTimeout = 0,
     op_Owner = Some owner, op_LookupKnownChildren = False\<rparr>"

definition NewFileSystemConnector :: "Owner \<Rightarrow> 'w Node \<Rightarrow> nat \<Rightarrow> cOptions option \<Rightarrow> 'w \<Rightarrow> 'w conn go" where
  "NewFileSystemConnector owner N root opts w =
     (let s0 = \<lparr>cn_w = w, cn_inodes = (\<lambda>_. None), cn_mounts = (\<lambda>_. None), cn_opened = (\<lambda>_. None), cn_next = 1,
                cn_inodeMap = (\<lambda>_. zero_handled, newPortableHandleMap), cn_rootNode = 0\<rparr>
      in bind_go (fs_bind (ci_newInode N True root) (\<lambda>r.
                  fs_bind (fs_step (\<lambda>s. Inr (s\<lparr>cn_rootNode := r\<rparr>))) (\<lambda>_.
                  fs_bind (ci_mountFs (case opts of None \<Rightarrow> NewOptions owner | Some o' \<Rightarrow> o') r) (\<lambda>_. lookupUpdate r))) s0) (\<lambda>(_, s). Inr s))"

end
