(* ===== verification/ConnOps.thy ===== *)
theory ConnOps
  imports Connector
begin

text \<open>
  \<^verbatim>\<open>fuse/nodefs/fsops.go\<close> and \<^verbatim>\<open>fuse/nodefs/dir.go\<close>: the methods by which a connector serves the wire protocol,
  put together as a raw file system. A handler finds the inode of the request, asks the node of the
  user and enters the answer into the tables. Handing a nil \<^verbatim>\<open>openedFile\<close> pointer to a node gives it a
  file that is not nil, as \<^verbatim>\<open>OpenedFile 0\<close> here.
\<close>

section \<open>Finding inodes and files\<close>

definition with_node :: "u64 \<Rightarrow> (addr \<Rightarrow> nat \<Rightarrow> ('w, 'a) cop) \<Rightarrow> ('w, 'a) cop" where
  "with_node nodeid k = fs_bind (toInode nodeid) (\<lambda>n. fs_bind (get_inode n) (\<lambda>i. k n (in_fsInode i)))"

definition opened_at :: "addr \<Rightarrow> u64 \<Rightarrow> ('w, addr) cop" where
  "opened_at n fh = fs_bind (mount_of n) (\<lambda>(_, m) s. bind_go (getOpenedFile m fh) (\<lambda>b. Inr (b, s)))"

text \<open>The file of an opened file, as the argument of a method.\<close>

definition file_at :: "addr \<Rightarrow> u64 \<Rightarrow> ('w, cfarg) cop" where
  "file_at n fh =
     fs_bind (opened_at n fh) (\<lambda>b.
     if b = 0 then fs_return NilFile
     else fs_bind (get_opened b) (\<lambda>f. fs_return (case of_File f of None \<Rightarrow> NilFile | Some p \<Rightarrow> TheFile p)))"

definition file_call :: "addr \<Rightarrow> (pfile \<Rightarrow> ('w, 'a) fsm) \<Rightarrow> ('w, 'a) cop" where
  "file_call b m = fs_bind (get_opened b) (\<lambda>f. inner_file f m)"

section \<open>Names\<close>

definition conn_Lookup :: "'w Node \<Rightarrow> InHeader \<Rightarrow> string \<Rightarrow> EntryOut \<Rightarrow> ('w, Status \<times> EntryOut) cop" where
  "conn_Lookup N header name out0 =
     fs_bind (toInode (ih_NodeId header)) (\<lambda>parent.
     fs_bind (ci_IsDir parent) (\<lambda>dir.
     if \<not> dir then fs_return (ENOTDIR, out0)
     else
       fs_bind (internalLookup N (eo_Attr out0) parent name (ih_Caller header)) (\<lambda>(child, code, a).
       let out1 = out0\<lparr>eo_Attr := a\<rparr> in
       fs_bind (if code = ENOENT then fs_bind (mount_of parent) (\<lambda>(_, m). fs_return (negativeEntry (mt_options m) out1))
                else fs_return (False, out1)) (\<lambda>(negative, out2).
       if negative then fs_return (OK, out2)
       else if code \<noteq> OK then fs_return (code, out2)
       else
         fs_bind (mount_of child) (\<lambda>(_, m).
         let out3 = fillEntry (mt_options m) out2 in
         fs_bind (lookupUpdate child) (\<lambda>(h, g).
         let b = eo_Attr out3
         in fs_return (OK, out3\<lparr>eo_NodeId := h, eo_Generation := g,
              eo_Attr := (if a_Ino b = 0 then b\<lparr>a_Ino := h\<rparr> else b)\<rparr>)))))))"

definition conn_Forget :: "'w Node \<Rightarrow> u64 \<Rightarrow> u64 \<Rightarrow> ('w, unit) cop" where
  "conn_Forget N nodeID nlookup = forgetUpdate N nodeID nlookup"

text \<open>The common end of the operations that make a new entry.\<close>

definition new_child :: "'w Node \<Rightarrow> addr \<Rightarrow> Status \<Rightarrow> EntryOut \<Rightarrow> ctx \<Rightarrow> ('w, Status \<times> EntryOut) cop" where
  "new_child N child code out c =
     (if code \<noteq> OK then fs_return (code, out)
      else fs_bind (childLookup N out child c) (\<lambda>out1.
           fs_bind (get_inode child) (\<lambda>i.
           fs_bind (n_GetAttr N (in_fsInode i) (eo_Attr out1) NilFile c) (\<lambda>(code1, a).
           fs_return (code1, out1\<lparr>eo_Attr := a\<rparr>)))))"

definition conn_Mknod :: "'w Node \<Rightarrow> MknodIn \<Rightarrow> string \<Rightarrow> EntryOut \<Rightarrow> ('w, Status \<times> EntryOut) cop" where
  "conn_Mknod N input name out = (let h = mkn_InHeader input; c = Some (ih_Caller h) in
     with_node (ih_NodeId h) (\<lambda>_ p. fs_bind (n_Mknod N p name (mkn_Mode input) (mkn_Rdev input) c) (\<lambda>(child, code).
     new_child N child code out c)))"

definition conn_Mkdir :: "'w Node \<Rightarrow> MkdirIn \<Rightarrow> string \<Rightarrow> EntryOut \<Rightarrow> ('w, Status \<times> EntryOut) cop" where
  "conn_Mkdir N input name out = (let h = mkd_InHeader input; c = Some (ih_Caller h) in
     with_node (ih_NodeId h) (\<lambda>_ p. fs_bind (n_Mkdir N p name (mkd_Mode input) c) (\<lambda>(child, code).
     new_child N child code out c)))"

definition conn_Symlink :: "'w Node \<Rightarrow> InHeader \<Rightarrow> string \<Rightarrow> string \<Rightarrow> EntryOut \<Rightarrow> ('w, Status \<times> EntryOut) cop" where
  "conn_Symlink N h pointedTo linkName out = (let c = Some (ih_Caller h) in
     with_node (ih_NodeId h) (\<lambda>_ p. fs_bind (n_Symlink N p linkName pointedTo c) (\<lambda>(child, code).
     new_child N child code out c)))"

definition conn_Rename :: "'w Node \<Rightarrow> RenameIn \<Rightarrow> string \<Rightarrow> string \<Rightarrow> ('w, Status) cop" where
  "conn_Rename N input oldName newName =
     (if rn_Flags input \<noteq> 0 then fs_return ENOSYS
      else let h = rn_InHeader input in
        fs_bind (toInode (ih_NodeId h)) (\<lambda>oldParent.
        fs_bind (ci_GetChild oldParent oldName) (\<lambda>child.
        if child = 0 then fs_return ENOENT
        else fs_bind (get_inode child) (\<lambda>ci.
          if in_mountPoint ci \<noteq> 0 then fs_return EBUSY
          else
            fs_bind (toInode (rn_Newdir input)) (\<lambda>newParent.
            fs_bind (get_inode oldParent) (\<lambda>oi.
            fs_bind (get_inode newParent) (\<lambda>ni.
            if in_mount oi \<noteq> in_mount ni then fs_return EXDEV
            else n_Rename N (in_fsInode oi) oldName (in_fsInode ni) newName (Some (ih_Caller h)))))))))"

definition conn_Link :: "'w Node \<Rightarrow> LinkIn \<Rightarrow> string \<Rightarrow> EntryOut \<Rightarrow> ('w, Status \<times> EntryOut) cop" where
  "conn_Link N input name out = (let h = ln_InHeader input; c = Some (ih_Caller h) in
     fs_bind (toInode (ln_Oldnodeid input)) (\<lambda>existing.
     fs_bind (toInode (ih_NodeId h)) (\<lambda>parent.
     fs_bind (get_inode existing) (\<lambda>ei.
     fs_bind (get_inode parent) (\<lambda>pi.
     if in_mount ei \<noteq> in_mount pi then fs_return (EXDEV, out)
     else fs_bind (n_Link N (in_fsInode pi) name (in_fsInode ei) c) (\<lambda>(child, code). new_child N child code out c))))))"

section \<open>Attributes\<close>

definition conn_GetAttr :: "'w Node \<Rightarrow> GetAttrIn \<Rightarrow> AttrOut \<Rightarrow> ('w, Status \<times> AttrOut) cop" where
  "conn_GetAttr N input out = (let h = gai_InHeader input in
     with_node (ih_NodeId h) (\<lambda>n nd.
     fs_bind (if gai_Flags input AND 1 \<noteq> 0 then file_at n (gai_Fh input) else fs_return NilFile) (\<lambda>f.
     fs_bind (n_GetAttr N nd (ao_Attr out) f (Some (ih_Caller h))) (\<lambda>(code, a).
     if code \<noteq> OK then fs_return (code, out\<lparr>ao_Attr := a\<rparr>)
     else fs_bind (mount_of n) (\<lambda>(_, m).
          fs_return (OK, fillAttr (mt_options m) (out\<lparr>ao_Attr := (if a_Nlink a = 0 then a\<lparr>a_Nlink := 1\<rparr> else a)\<rparr>) (ih_NodeId h)))))))"

text \<open>The clock is read for a time that is to be the present one.\<close>

definition read_clock :: "('w, Time) cop \<Rightarrow> u32 \<Rightarrow> u32 \<Rightarrow> SetAttrIn \<Rightarrow> ('w, Time) cop" where
  "read_clock clock valid now input =
     (if sa_Valid input AND valid \<noteq> 0 \<and> sa_Valid input AND now \<noteq> 0 then clock else fs_return zero_Time)"

definition conn_SetAttr :: "('w, Time) cop \<Rightarrow> 'w Node \<Rightarrow> SetAttrIn \<Rightarrow> AttrOut \<Rightarrow> ('w, Status \<times> AttrOut) cop" where
  "conn_SetAttr clock N input out = (let h = sa_InHeader input; c = Some (ih_Caller h);
       (fh, fok) = GetFh input; (perms, pok) = GetMode input; (uid, uok) = GetUID input; (gid, gok) = GetGID input;
       (sz, sok) = GetSize input in
     with_node (ih_NodeId h) (\<lambda>n nd.
     fs_bind (if fok then file_at n fh else fs_return NilFile) (\<lambda>f.
     fs_bind (if pok then n_Chmod N nd f perms c else fs_return OK) (\<lambda>code1.
     fs_bind (if code1 = OK \<and> (uok \<or> gok) then n_Chown N nd f uid gid c else fs_return code1) (\<lambda>code2.
     fs_bind (if code2 = OK \<and> sok then n_Truncate N nd f sz c else fs_return code2) (\<lambda>code3.
     fs_bind (read_clock clock FATTR_ATIME FATTR_ATIME_NOW input) (\<lambda>anow.
     fs_bind (read_clock clock FATTR_MTIME FATTR_MTIME_NOW input) (\<lambda>mnow.
     let (atime, aok) = GetATime anow input; (mtime, mok) = GetMTime mnow input in
     fs_bind (if code3 = OK \<and> (aok \<or> mok)
              then n_Utimens N nd f (if aok then Some atime else None) (if mok then Some mtime else None) c
              else fs_return code3) (\<lambda>code4.
     if code4 \<noteq> OK then fs_return (code4, out)
     else fs_bind (n_GetAttr N nd (ao_Attr out) NilFile c) (\<lambda>(code5, a).
          let out1 = out\<lparr>ao_Attr := a\<rparr> in
          if code5 = OK then fs_bind (mount_of n) (\<lambda>(_, m). fs_return (OK, fillAttr (mt_options m) out1 (ih_NodeId h)))
          else fs_return (code5, out1)))))))))))"

section \<open>Extended attributes\<close>

definition conn_GetXAttr :: "'w Node \<Rightarrow> InHeader \<Rightarrow> string \<Rightarrow> u8 list \<Rightarrow> ('w, u32 \<times> Status \<times> u8 list) cop" where
  "conn_GetXAttr N header attr dest =
     with_node (ih_NodeId header) (\<lambda>_ nd.
     fs_bind (n_GetXAttr N nd attr (Some (ih_Caller header))) (\<lambda>(data, errno).
     if length data > length dest then fs_return (word_of_nat (length data), ERANGE, dest)
     else fs_return (word_of_nat (length data), errno, write_at 0 data dest)))"

definition conn_ListXAttr :: "'w Node \<Rightarrow> InHeader \<Rightarrow> u8 list \<Rightarrow> ('w, u32 \<times> Status \<times> u8 list) cop" where
  "conn_ListXAttr N header dest =
     with_node (ih_NodeId header) (\<lambda>_ nd.
     fs_bind (n_ListXAttr N nd (Some (ih_Caller header))) (\<lambda>(attrs, code).
     if code \<noteq> OK then fs_return (0, code, dest)
     else
       let sz = sum_list (map (\<lambda>v. word_of_nat (length v) + 1) attrs) :: u32;
           bytes = concat (map (\<lambda>v. str_bytes v @ [0]) attrs)
       in if unat sz > length dest then fs_return (sz, ERANGE, dest)
          else fs_return (sz, code, write_at 0 (take (length dest) bytes) dest)))"

section \<open>Open files\<close>

definition conn_Open :: "'w file_ops \<Rightarrow> 'w Node \<Rightarrow> OpenIn \<Rightarrow> OpenOut \<Rightarrow> ('w, Status \<times> OpenOut) cop" where
  "conn_Open F N input out = (let h = opn_InHeader input in
     with_node (ih_NodeId h) (\<lambda>n nd.
     fs_bind (n_Open N nd (opn_Flags input) (Some (ih_Caller h))) (\<lambda>(f, code).
     if code \<noteq> OK then fs_return (code, out)
     else
       fs_bind (mount_of n) (\<lambda>(m, _).
       fs_bind (registerFileHandle F m n None f (opn_Flags input)) (\<lambda>(fh, b).
       fs_return (OK, out\<lparr>oo_OpenFlags := of_FuseFlags b, oo_Fh := fh\<rparr>))))))"

definition conn_OpenDir :: "'w file_ops \<Rightarrow> OpenIn \<Rightarrow> OpenOut \<Rightarrow> ('w, Status \<times> OpenOut) cop" where
  "conn_OpenDir F input out = (let h = opn_InHeader input in
     with_node (ih_NodeId h) (\<lambda>n nd.
     fs_bind (mount_of n) (\<lambda>(m, _).
     fs_bind (registerFileHandle F m n (Some \<lparr>cd_node = nd, cd_inode = n, cd_stream = []\<rparr>) None (opn_Flags input)) (\<lambda>(fh, b).
     fs_return (OK, out\<lparr>oo_OpenFlags := of_FuseFlags b, oo_Fh := fh\<rparr>)))))"

definition conn_Create :: "'w file_ops \<Rightarrow> 'w Node \<Rightarrow> CreateIn \<Rightarrow> string \<Rightarrow> CreateOut \<Rightarrow> ('w, Status \<times> CreateOut) cop" where
  "conn_Create F N input name out = (let h = cri_InHeader input; c = Some (ih_Caller h) in
     with_node (ih_NodeId h) (\<lambda>parent nd.
     fs_bind (n_Create N nd name (cri_Flags input) (cri_Mode input) c) (\<lambda>(f, child, code).
     if code \<noteq> OK then fs_return (code, out)
     else
       fs_bind (childLookup N (co_EntryOut out) child c) (\<lambda>eo.
       fs_bind (mount_of parent) (\<lambda>(m, _).
       fs_bind (registerFileHandle F m child None f (cri_Flags input)) (\<lambda>(fh, b).
       fs_return (code, out\<lparr>co_EntryOut := eo, co_OpenOut := (co_OpenOut out)\<lparr>oo_OpenFlags := of_FuseFlags b, oo_Fh := fh\<rparr>\<rparr>)))))))"

definition conn_Release :: "'w file_ops \<Rightarrow> ReleaseIn \<Rightarrow> ('w, unit) cop" where
  "conn_Release F input =
     (if rel_Fh input = 0 then fs_return ()
      else fs_bind (toInode (ih_NodeId (rel_InHeader input))) (\<lambda>n.
           fs_bind (mount_of n) (\<lambda>(m, _).
           fs_bind (unregisterFileHandle m (rel_Fh input) n) (\<lambda>b. file_call b (f_Release F)))))"

definition conn_ReleaseDir :: "ReleaseIn \<Rightarrow> ('w, unit) cop" where
  "conn_ReleaseDir input =
     (if rel_Fh input = 0 then fs_return ()
      else fs_bind (toInode (ih_NodeId (rel_InHeader input))) (\<lambda>n.
           fs_bind (mount_of n) (\<lambda>(m, _).
           fs_bind (unregisterFileHandle m (rel_Fh input) n) (\<lambda>_. fs_return ()))))"

section \<open>Directories\<close>

definition set_stream_at :: "addr \<Rightarrow> DirEntry list \<Rightarrow> ('w, unit) cop" where
  "set_stream_at b es = fs_step (\<lambda>s. Inr (s\<lparr>cn_opened := (cn_opened s)(b :=
     map_option (of_dir_update (map_option (cd_stream_update (\<lambda>_. es)))) (cn_opened s b))\<rparr>))"

definition dot_entries :: "DirEntry list" where
  "dot_entries = [\<lparr>de_Mode = S_IFDIR, de_Name = ''.'', de_Ino = 0\<rparr>, \<lparr>de_Mode = S_IFDIR, de_Name = ''..'', de_Ino = 0\<rparr>]"

text \<open>The entries still to be sent: the directory is read again for a rewind. An empty stream is nil.\<close>

definition dir_todo :: "'w Node \<Rightarrow> addr \<Rightarrow> ReadIn \<Rightarrow> ('w, Status \<times> DirEntry list) cop" where
  "dir_todo N b input =
     fs_bind (get_opened b) (\<lambda>f.
     case of_dir f of
       None \<Rightarrow> fs_fault NilDeref
     | Some d \<Rightarrow>
         fs_bind (if cd_stream d = [] \<or> rdi_Offset input = 0
                  then fs_bind (n_OpenDir N (cd_node d) (Some (ih_Caller (rdi_InHeader input)))) (\<lambda>(es, code).
                       if code \<noteq> OK then fs_bind (set_stream_at b es) (\<lambda>_. fs_return (code, []))
                       else fs_bind (ci_getMountDirEntries (cd_inode d)) (\<lambda>ms.
                            fs_bind (set_stream_at b (es @ ms @ dot_entries)) (\<lambda>_. fs_return (OK, es @ ms @ dot_entries))))
                  else fs_return (OK, cd_stream d)) (\<lambda>(code, es).
         if code \<noteq> OK then fs_return (code, [])
         else if unat (rdi_Offset input) > length es then fs_return (EINVAL, [])
         else fs_return (OK, drop (unat (rdi_Offset input)) es)))"

fun add_entries :: "DirEntry list \<Rightarrow> DirEntryList \<Rightarrow> DirEntryList" where
  "add_entries [] out = out"
| "add_entries (e # es) out =
     (if de_Name e = [] then add_entries es out
      else case AddDirEntry e out of (ok, out') \<Rightarrow> if ok then add_entries es out' else out')"

fun add_lookups :: "'w Node \<Rightarrow> InHeader \<Rightarrow> DirEntry list \<Rightarrow> DirEntryList \<Rightarrow> ('w, DirEntryList) cop" where
  "add_lookups N h [] out = fs_return out"
| "add_lookups N h (e # es) out =
     (if de_Name e = [] then add_lookups N h es out
      else case AddDirLookupEntry e out of
          (None, out') \<Rightarrow> fs_return out'
        | (Some pos, out') \<Rightarrow>
            let eo = zero_EntryOut\<lparr>eo_Attr := zero_Attr\<lparr>a_Ino := FUSE_UNKNOWN_INO\<rparr>\<rparr> in
            if de_Name e = ''.'' \<or> de_Name e = ''..'' then add_lookups N h es (put_entry_out pos eo out')
            else fs_bind (conn_Lookup N h (de_Name e) eo) (\<lambda>(_, eo1). add_lookups N h es (put_entry_out pos eo1 out')))"

definition conn_ReadDir :: "'w Node \<Rightarrow> ReadIn \<Rightarrow> DirEntryList \<Rightarrow> ('w, Status \<times> DirEntryList) cop" where
  "conn_ReadDir N input out =
     fs_bind (toInode (ih_NodeId (rdi_InHeader input))) (\<lambda>n.
     fs_bind (opened_at n (rdi_Fh input)) (\<lambda>b.
     fs_bind (dir_todo N b input) (\<lambda>(code, es).
     if code \<noteq> OK then fs_return (code, out) else fs_return (OK, add_entries es out))))"

definition conn_ReadDirPlus :: "'w Node \<Rightarrow> ReadIn \<Rightarrow> DirEntryList \<Rightarrow> ('w, Status \<times> DirEntryList) cop" where
  "conn_ReadDirPlus N input out =
     fs_bind (toInode (ih_NodeId (rdi_InHeader input))) (\<lambda>n.
     fs_bind (opened_at n (rdi_Fh input)) (\<lambda>b.
     fs_bind (dir_todo N b input) (\<lambda>(code, es).
     if code \<noteq> OK then fs_return (code, out)
     else fs_bind (add_lookups N (rdi_InHeader input) es out) (\<lambda>out'. fs_return (OK, out')))))"

section \<open>The connector as a raw file system\<close>

text \<open>The handlers that only ask the node or the open file are written out here.\<close>

definition conn_fs :: "('w, Time) cop \<Rightarrow> 'w file_ops \<Rightarrow> 'w Node \<Rightarrow> 'w conn RawFileSystem" where
  "conn_fs clock F N =
    \<lparr>fs_Lookup = conn_Lookup N, fs_Forget = conn_Forget N, fs_GetAttr = conn_GetAttr N, fs_SetAttr = conn_SetAttr clock N,
     fs_Mknod = conn_Mknod N, fs_Mkdir = conn_Mkdir N,
     fs_Unlink = (\<lambda>h name. with_node (ih_NodeId h) (\<lambda>_ nd. n_Unlink N nd name (Some (ih_Caller h)))),
     fs_Rmdir = (\<lambda>h name. with_node (ih_NodeId h) (\<lambda>_ nd. n_Rmdir N nd name (Some (ih_Caller h)))),
     fs_Rename = conn_Rename N, fs_Link = conn_Link N, fs_Symlink = conn_Symlink N,
     fs_Readlink = (\<lambda>h. with_node (ih_NodeId h) (\<lambda>_ nd. n_Readlink N nd (Some (ih_Caller h)))),
     fs_Access = (\<lambda>input. with_node (ih_NodeId (acc_InHeader input)) (\<lambda>_ nd.
        n_Access N nd (acc_Mask input) (Some (ih_Caller (acc_InHeader input))))),
     fs_GetXAttr = conn_GetXAttr N, fs_ListXAttr = conn_ListXAttr N,
     fs_SetXAttr = (\<lambda>input attr data. with_node (ih_NodeId (sxi_InHeader input)) (\<lambda>_ nd.
        n_SetXAttr N nd attr data (uint (sxi_Flags input)) (Some (ih_Caller (sxi_InHeader input))))),
     fs_RemoveXAttr = (\<lambda>h attr. with_node (ih_NodeId h) (\<lambda>_ nd. n_RemoveXAttr N nd attr (Some (ih_Caller h)))),
     fs_Create = conn_Create F N, fs_Open = conn_Open F N,
     fs_Read = (\<lambda>input buf. with_node (ih_NodeId (rdi_InHeader input)) (\<lambda>n nd. fs_bind (file_at n (rdi_Fh input)) (\<lambda>f.
        n_Read N nd f (length buf) (rdi_Offset input) (Some (ih_Caller (rdi_InHeader input)))))),
     fs_Lseek = (\<lambda>input out. fs_return (ENOSYS, out)),
     fs_GetLk = (\<lambda>input out. with_node (ih_NodeId (lki_InHeader input)) (\<lambda>n nd. fs_bind (opened_at n (lki_Fh input)) (\<lambda>b.
        fs_bind (n_GetLk N nd (OpenedFile b) (lki_Owner input) (lki_Lk input) (lki_LkFlags input) (lko_Lk out)
          (Some (ih_Caller (lki_InHeader input)))) (\<lambda>(code, lk). fs_return (code, out\<lparr>lko_Lk := lk\<rparr>))))),
     fs_SetLk = (\<lambda>input. with_node (ih_NodeId (lki_InHeader input)) (\<lambda>n nd. fs_bind (opened_at n (lki_Fh input)) (\<lambda>b.
        n_SetLk N nd (OpenedFile b) (lki_Owner input) (lki_Lk input) (lki_LkFlags input) (Some (ih_Caller (lki_InHeader input)))))),
     fs_SetLkw = (\<lambda>input. with_node (ih_NodeId (lki_InHeader input)) (\<lambda>n nd. fs_bind (opened_at n (lki_Fh input)) (\<lambda>b.
        n_SetLkw N nd (OpenedFile b) (lki_Owner input) (lki_Lk input) (lki_LkFlags input) (Some (ih_Caller (lki_InHeader input)))))),
     fs_Release = conn_Release F,
     fs_Write = (\<lambda>input data. with_node (ih_NodeId (wri_InHeader input)) (\<lambda>n nd. fs_bind (file_at n (wri_Fh input)) (\<lambda>f.
        n_Write N nd f data (wri_Offset input) (Some (ih_Caller (wri_InHeader input)))))),
     fs_CopyFileRange = (\<lambda>input. fs_return (0, ENOSYS)),
     fs_Flush = (\<lambda>input. fs_bind (toInode (ih_NodeId (fls_InHeader input))) (\<lambda>n. fs_bind (opened_at n (fls_Fh input)) (\<lambda>b.
        if b \<noteq> 0 then file_call b (f_Flush F) else fs_return OK))),
     fs_Fsync = (\<lambda>input. fs_bind (toInode (ih_NodeId (fsy_InHeader input))) (\<lambda>n. fs_bind (opened_at n (fsy_Fh input)) (\<lambda>b.
        if b \<noteq> 0 then file_call b (\<lambda>p. f_Fsync F p (uint (fsy_FsyncFlags input))) else fs_return ENOSYS))),
     fs_Fallocate = (\<lambda>input. with_node (ih_NodeId (fal_InHeader input)) (\<lambda>n nd. fs_bind (opened_at n (fal_Fh input)) (\<lambda>b.
        n_Fallocate N nd (OpenedFile b) (fal_Offset input) (fal_Length input) (fal_Mode input) (Some (ih_Caller (fal_InHeader input)))))),
     fs_OpenDir = conn_OpenDir F, fs_ReadDir = conn_ReadDir N, fs_ReadDirPlus = conn_ReadDirPlus N,
     fs_ReleaseDir = conn_ReleaseDir, fs_FsyncDir = (\<lambda>input. fs_return ENOSYS),
     fs_StatFs = (\<lambda>h out. with_node (ih_NodeId h) (\<lambda>_ nd. fs_bind (n_StatFs N nd) (\<lambda>st.
        case st of None \<Rightarrow> fs_return (ENOSYS, out) | Some o' \<Rightarrow> fs_return (OK, o')))),
     fs_Init = fs_bind (fs_get cn_rootNode) (\<lambda>r. fs_bind (get_inode r) (\<lambda>i. n_OnMount N (in_fsInode i)))\<rparr>"

end
