(* ===== verification/PathNodes.thy ===== *)
theory PathNodes
  imports ConnOps OpcodeTable
begin

text \<open>
  \<^verbatim>\<open>fuse/pathfs/pathfs.go\<close>, which turns a path based file system into nodes of a connector, and
  \<^verbatim>\<open>fuse/nodefs/defaultnode.go\<close>. A \<^verbatim>\<open>pathInode\<close> is a number with its client inode and its inode; the path of a
  node is found by climbing the tree, and the fuel of the functions here bounds that climb. A node
  number without an entry is a node of another type, which fails a type assertion.
\<close>

section \<open>Nodes that refuse everything\<close>

text \<open>
  \<^verbatim>\<open>NewDefaultNode\<close>, over the function that finds the inode of a node; the listing asks the nodes of the
  children for their attributes.
\<close>

fun default_listing :: "'w Node \<Rightarrow> ctx \<Rightarrow> (string \<times> addr) list \<Rightarrow> ('w, DirEntry list) cop" where
  "default_listing N c [] = fs_return []"
| "default_listing N c ((name, ch) # chs) =
     fs_bind (get_inode ch) (\<lambda>i.
     if in_mountPoint i \<noteq> 0 then default_listing N c chs
     else fs_bind (n_GetAttr N (in_fsInode i) zero_Attr NilFile c) (\<lambda>(code, a).
          fs_bind (default_listing N c chs) (\<lambda>r.
          fs_return (if code = OK then \<lparr>de_Mode = a_Mode a, de_Name = name, de_Ino = 0\<rparr> # r else r))))"

definition defaultNode ::
  "'w file_ops \<Rightarrow> 'w Node \<Rightarrow> (nat \<Rightarrow> ('w, addr) cop) \<Rightarrow> (nat \<Rightarrow> addr \<Rightarrow> ('w, unit) cop) \<Rightarrow> 'w Node" where
  "defaultNode F N Inode SetInode =
    \<lparr>n_SetInode = SetInode,
     n_isTreeWatcher = (\<lambda>n. False),
     n_OnAdd = (\<lambda>n parent name. fs_return ()),
     n_OnRemove = (\<lambda>n parent name. fs_return ()),
     n_OnMount = (\<lambda>n. fs_return ()),
     n_OnUnmount = (\<lambda>n. fs_return ()),
     n_Lookup = (\<lambda>n out name c. fs_return (0, ENOENT, out)),
     n_Deletable = (\<lambda>n. fs_return True),
     n_OnForget = (\<lambda>n. fs_return ()),
     n_Access = (\<lambda>n mode c. fs_return ENOSYS),
     n_Readlink = (\<lambda>n c. fs_return ([], ENOSYS)),
     n_Mknod = (\<lambda>n name mode dev c. fs_return (0, ENOSYS)),
     n_Mkdir = (\<lambda>n name mode c. fs_return (0, ENOSYS)),
     n_Unlink = (\<lambda>n name c. fs_return ENOSYS),
     n_Rmdir = (\<lambda>n name c. fs_return ENOSYS),
     n_Symlink = (\<lambda>n name content c. fs_return (0, ENOSYS)),
     n_Rename = (\<lambda>n oldName newParent newName c. fs_return ENOSYS),
     n_Link = (\<lambda>n name existing c. fs_return (0, ENOSYS)),
     n_Create = (\<lambda>n name flags mode c. fs_return (None, 0, ENOSYS)),
     n_Open = (\<lambda>n flags c. fs_return (None, ENOSYS)),
     n_OpenDir = (\<lambda>n c. fs_bind (Inode n) (\<lambda>a. fs_bind (ci_Children a) (\<lambda>chs.
        fs_bind (default_listing N c chs) (\<lambda>es. fs_return (es, OK))))),
     n_Read = (\<lambda>n file dest off c. if file \<noteq> NilFile then call_file file (\<lambda>f. f_Read F f dest off) else fs_return (None, ENOSYS)),
     n_Write = (\<lambda>n file data off c. if file \<noteq> NilFile then call_file file (\<lambda>f. f_Write F f data off) else fs_return (0, ENOSYS)),
     n_GetXAttr = (\<lambda>n attr c. fs_return ([], ENOATTR)),
     n_RemoveXAttr = (\<lambda>n attr c. fs_return ENOSYS),
     n_SetXAttr = (\<lambda>n attr data flags c. fs_return ENOSYS),
     n_ListXAttr = (\<lambda>n c. fs_return ([], ENOSYS)),
     n_GetLk = (\<lambda>n file owner lk flags out c. fs_return (ENOSYS, out)),
     n_SetLk = (\<lambda>n file owner lk flags c. fs_return ENOSYS),
     n_SetLkw = (\<lambda>n file owner lk flags c. fs_return ENOSYS),
     n_GetAttr = (\<lambda>n out file c.
        if file \<noteq> NilFile then call_file file (\<lambda>f. f_GetAttr F f out)
        else fs_bind (Inode n) (\<lambda>a. fs_bind (ci_IsDir a) (\<lambda>dir.
             fs_return (OK, out\<lparr>a_Mode := (if dir then S_IFDIR OR 493 else S_IFREG OR 420)\<rparr>)))),
     n_Chmod = (\<lambda>n file perms c. fs_return ENOSYS),
     n_Chown = (\<lambda>n file uid gid c. fs_return ENOSYS),
     n_Truncate = (\<lambda>n file sz c. fs_return ENOSYS),
     n_Utimens = (\<lambda>n file atime mtime c. fs_return ENOSYS),
     n_Fallocate = (\<lambda>n file off sz mode c. fs_return ENOSYS),
     n_StatFs = (\<lambda>n. fs_return None)\<rparr>"

section \<open>State\<close>

record pathInode =
  pn_clientInode :: u64
  pn_inode :: addr

record refCountedInode =
  rc_node :: nat
  rc_refCount :: i64

record 'w PathNodeFs =
  pf_w :: 'w
  pf_nodes :: "nat \<Rightarrow> pathInode option"
  pf_nextNode :: nat
  pf_root :: nat
  pf_clientInodeMap :: "u64 \<rightharpoonup> refCountedInode"
  pf_ClientInodes :: bool
  pf_debug :: bool

type_synonym ('w, 'a) pop = "('w PathNodeFs, 'a) cop"

definition NewPathNodeFs :: "bool \<Rightarrow> 'w \<Rightarrow> 'w PathNodeFs" where
  "NewPathNodeFs ClientInodes w =
     \<lparr>pf_w = w, pf_nodes = [0 \<mapsto> \<lparr>pn_clientInode = 0, pn_inode = 0\<rparr>], pf_nextNode = 1, pf_root = 0,
      pf_clientInodeMap = Map.empty, pf_ClientInodes = ClientInodes, pf_debug = False\<rparr>"

definition get_pnode :: "nat \<Rightarrow> ('w, pathInode) pop" where
  "get_pnode n s = (case pf_nodes (cn_w s) n of None \<Rightarrow> Inl TypeAssertion | Some p \<Rightarrow> Inr (p, s))"

definition pf_upd :: "('w PathNodeFs \<Rightarrow> 'w PathNodeFs) \<Rightarrow> ('w, unit) pop" where
  "pf_upd f = fs_step (\<lambda>s. Inr (s\<lparr>cn_w := f (cn_w s)\<rparr>))"

definition upd_pnode :: "nat \<Rightarrow> (pathInode \<Rightarrow> pathInode) \<Rightarrow> 'w PathNodeFs \<Rightarrow> 'w PathNodeFs" where
  "upd_pnode n f p = p\<lparr>pf_nodes := (pf_nodes p)(n := map_option f (pf_nodes p n))\<rparr>"

text \<open>A call to the file system, or to one of its files.\<close>

definition pf_inner :: "('w, 'a) fsm \<Rightarrow> ('w PathNodeFs, 'a) fsm" where
  "pf_inner m p = bind_go (m (pf_w p)) (\<lambda>(x, w). Inr (x, p\<lparr>pf_w := w\<rparr>))"

definition pf_call :: "('w, 'a) fsm \<Rightarrow> ('w, 'a) pop" where
  "pf_call m = conn_lift (pf_inner m)"

definition the_inode :: "nat \<Rightarrow> ('w, addr) pop" where
  "the_inode n = fs_bind (get_pnode n) (\<lambda>p. fs_return (pn_inode p))"

section \<open>Paths\<close>

fun climb :: "nat \<Rightarrow> addr \<Rightarrow> string list \<Rightarrow> ('w, string list \<times> addr) cop" where
  "climb 0 a segments = fs_fault OutOfFuel"
| "climb (Suc k) a segments =
     fs_bind (ci_Parent a) (\<lambda>(parent, name).
     if parent = 0 then fs_return (segments, a) else climb k parent (name # segments))"

definition GetPath :: "nat \<Rightarrow> nat \<Rightarrow> ('w, string) pop" where
  "GetPath k n =
     fs_bind (fs_get (\<lambda>s. pf_root (cn_w s))) (\<lambda>root.
     if n = root then fs_return []
     else
       fs_bind (the_inode n) (\<lambda>a.
       fs_bind (climb k a []) (\<lambda>(segments, top).
       fs_bind (the_inode root) (\<lambda>r.
       if top \<noteq> r
       then fs_get (\<lambda>s. ''.deleted.node{'' @ decimal (unat (hd_handle (fst (cn_inodeMap s) a))) @ ''}'')
       else fs_return (join_slash segments)))))"

definition child_path :: "nat \<Rightarrow> nat \<Rightarrow> string \<Rightarrow> ('w, string) pop" where
  "child_path k n name = fs_bind (GetPath k n) (\<lambda>p. fs_return (path_Join p name))"

section \<open>Client inodes\<close>

definition tracked :: "nat \<Rightarrow> pathInode \<Rightarrow> ('w, bool) pop" where
  "tracked n p = fs_bind (fs_get (\<lambda>s. pf_ClientInodes (cn_w s))) (\<lambda>ci.
     if \<not> ci then fs_return False else fs_bind (ci_IsDir (pn_inode p)) (\<lambda>dir. fs_return (\<not> dir)))"

definition path_OnRemove :: "nat \<Rightarrow> addr \<Rightarrow> string \<Rightarrow> ('w, unit) pop" where
  "path_OnRemove n parent name =
     fs_bind (get_pnode n) (\<lambda>p.
     if pn_clientInode p = 0 then fs_return ()
     else fs_bind (tracked n p) (\<lambda>t.
     if \<not> t then fs_return ()
     else pf_upd (pf_clientInodeMap_update (\<lambda>m.
       case m (pn_clientInode p) of
         None \<Rightarrow> m
       | Some r \<Rightarrow>
           if rc_refCount r - 1 = 0 then m(pn_clientInode p := None)
           else m(pn_clientInode p \<mapsto> r\<lparr>rc_refCount := rc_refCount r - 1\<rparr>)))))"

definition setClientInode :: "nat \<Rightarrow> u64 \<Rightarrow> ('w, unit) pop" where
  "setClientInode n ino =
     fs_bind (get_pnode n) (\<lambda>p.
     if ino = 0 \<or> pn_clientInode p \<noteq> 0 then fs_return ()
     else fs_bind (tracked n p) (\<lambda>t.
     if \<not> t then fs_return ()
     else fs_bind (pf_upd (upd_pnode n (pn_clientInode_update (\<lambda>_. ino)))) (\<lambda>_.
          pf_upd (pf_clientInodeMap_update (\<lambda>m. m(ino \<mapsto> \<lparr>rc_node = n, rc_refCount = 1\<rparr>))))))"

definition path_OnForget :: "nat \<Rightarrow> ('w, unit) pop" where
  "path_OnForget n =
     fs_bind (get_pnode n) (\<lambda>p.
     if pn_clientInode p = 0 then fs_return ()
     else fs_bind (tracked n p) (\<lambda>t.
     if \<not> t then fs_return ()
     else pf_upd (pf_clientInodeMap_update (\<lambda>m. m(pn_clientInode p := None)))))"

text \<open>The methods that the tree calls; \<^verbatim>\<open>OnAdd\<close> does nothing.\<close>

definition path_watcher :: "'w PathNodeFs TreeWatcher" where
  "path_watcher =
    \<lparr>n_SetInode = (\<lambda>n a. pf_upd (upd_pnode n (pn_inode_update (\<lambda>_. a)))),
     n_isTreeWatcher = (\<lambda>n. True),
     n_OnAdd = (\<lambda>n parent name. fs_return ()),
     n_OnRemove = path_OnRemove\<rparr>"

definition createChild :: "nat \<Rightarrow> string \<Rightarrow> bool \<Rightarrow> ('w, nat \<times> addr) pop" where
  "createChild n name isDir =
     fs_bind (fs_get (\<lambda>s. pf_nextNode (cn_w s))) (\<lambda>i.
     fs_bind (pf_upd (\<lambda>p. p\<lparr>pf_nextNode := Suc i, pf_nodes := (pf_nodes p)(i \<mapsto> \<lparr>pn_clientInode = 0, pn_inode = 0\<rparr>)\<rparr>)) (\<lambda>_.
     fs_bind (the_inode n) (\<lambda>a.
     fs_bind (ci_NewChild path_watcher a name isDir i) (\<lambda>ch. fs_return (i, ch)))))"

section \<open>Names\<close>

definition path_Mknod :: "nat \<Rightarrow> 'w FileSystem \<Rightarrow> nat \<Rightarrow> string \<Rightarrow> u32 \<Rightarrow> u32 \<Rightarrow> ctx \<Rightarrow> ('w, addr \<times> Status) pop" where
  "path_Mknod k fs n name mode dev c =
     fs_bind (child_path k n name) (\<lambda>fullPath.
     fs_bind (pf_call (p_Mknod fs fullPath mode dev c)) (\<lambda>code.
     if code = OK then fs_bind (createChild n name False) (\<lambda>(_, ch). fs_return (ch, code)) else fs_return (0, code)))"

definition path_Mkdir :: "nat \<Rightarrow> 'w FileSystem \<Rightarrow> nat \<Rightarrow> string \<Rightarrow> u32 \<Rightarrow> ctx \<Rightarrow> ('w, addr \<times> Status) pop" where
  "path_Mkdir k fs n name mode c =
     fs_bind (child_path k n name) (\<lambda>fullPath.
     fs_bind (pf_call (p_Mkdir fs fullPath mode c)) (\<lambda>code.
     if code = OK then fs_bind (createChild n name True) (\<lambda>(_, ch). fs_return (ch, code)) else fs_return (0, code)))"

definition path_Symlink :: "nat \<Rightarrow> 'w FileSystem \<Rightarrow> nat \<Rightarrow> string \<Rightarrow> string \<Rightarrow> ctx \<Rightarrow> ('w, addr \<times> Status) pop" where
  "path_Symlink k fs n name content c =
     fs_bind (child_path k n name) (\<lambda>fullPath.
     fs_bind (pf_call (p_Symlink fs content fullPath c)) (\<lambda>code.
     if code = OK then fs_bind (createChild n name False) (\<lambda>(_, ch). fs_return (ch, code)) else fs_return (0, code)))"

definition path_Create :: "nat \<Rightarrow> 'w FileSystem \<Rightarrow> nat \<Rightarrow> string \<Rightarrow> u32 \<Rightarrow> u32 \<Rightarrow> ctx \<Rightarrow> ('w, cfile option \<times> addr \<times> Status) pop" where
  "path_Create k fs n name flags mode c =
     fs_bind (child_path k n name) (\<lambda>fullPath.
     fs_bind (pf_call (p_Create fs fullPath flags mode c)) (\<lambda>(file, code).
     if code = OK then fs_bind (createChild n name False) (\<lambda>(_, ch). fs_return (map_option PlainFile file, ch, code))
     else fs_return (map_option PlainFile file, 0, code)))"

text \<open>\<^verbatim>\<open>Unlink\<close> and \<^verbatim>\<open>Rmdir\<close>.\<close>

definition path_Unlink :: "nat \<Rightarrow> 'w FileSystem \<Rightarrow> nat \<Rightarrow> string \<Rightarrow> ctx \<Rightarrow> ('w, Status) pop" where
  "path_Unlink k fs n name c =
     fs_bind (child_path k n name) (\<lambda>fullPath.
     fs_bind (pf_call (p_Unlink fs fullPath c)) (\<lambda>code.
     if code = OK then fs_bind (the_inode n) (\<lambda>a. fs_bind (ci_RmChild path_watcher a name) (\<lambda>_. fs_return code))
     else fs_return code))"

definition path_Rmdir :: "nat \<Rightarrow> 'w FileSystem \<Rightarrow> nat \<Rightarrow> string \<Rightarrow> ctx \<Rightarrow> ('w, Status) pop" where
  "path_Rmdir k fs n name c =
     fs_bind (child_path k n name) (\<lambda>fullPath.
     fs_bind (pf_call (p_Rmdir fs fullPath c)) (\<lambda>code.
     if code = OK then fs_bind (the_inode n) (\<lambda>a. fs_bind (ci_RmChild path_watcher a name) (\<lambda>_. fs_return code))
     else fs_return code))"

definition path_Rename :: "nat \<Rightarrow> 'w FileSystem \<Rightarrow> nat \<Rightarrow> string \<Rightarrow> nat \<Rightarrow> string \<Rightarrow> ctx \<Rightarrow> ('w, Status) pop" where
  "path_Rename k fs n oldName p newName c =
     fs_bind (get_pnode p) (\<lambda>_.
     fs_bind (child_path k n oldName) (\<lambda>oldPath.
     fs_bind (child_path k p newName) (\<lambda>newPath.
     fs_bind (pf_call (p_Rename fs oldPath newPath c)) (\<lambda>code.
     if code = OK
     then fs_bind (the_inode p) (\<lambda>pa.
          fs_bind (ci_RmChild path_watcher pa newName) (\<lambda>_.
          fs_bind (the_inode n) (\<lambda>a.
          fs_bind (ci_RmChild path_watcher a oldName) (\<lambda>ch.
          fs_bind (if ch \<noteq> 0 then ci_AddChild path_watcher pa newName ch else fs_return ()) (\<lambda>_.
          fs_return code)))))
     else fs_return code))))"

definition path_Link :: "nat \<Rightarrow> 'w FileSystem \<Rightarrow> nat \<Rightarrow> string \<Rightarrow> nat \<Rightarrow> ctx \<Rightarrow> ('w, addr \<times> Status) pop" where
  "path_Link k fs n name existing c =
     fs_bind (fs_get (\<lambda>s. pf_ClientInodes (cn_w s))) (\<lambda>ci.
     if \<not> ci then fs_return (0, ENOSYS)
     else
       fs_bind (child_path k n name) (\<lambda>newPath.
       fs_bind (get_pnode existing) (\<lambda>_.
       fs_bind (GetPath k existing) (\<lambda>oldPath.
       fs_bind (pf_call (p_Link fs oldPath newPath c)) (\<lambda>code1.
       if code1 \<noteq> OK then fs_return (0, code1)
       else
         fs_bind (pf_call (p_GetAttr fs newPath c)) (\<lambda>(ao, code2).
         if code2 \<noteq> OK then fs_return (0, code2)
         else
           fs_bind (get_pnode existing) (\<lambda>ex.
           fs_bind (if pn_clientInode ex \<noteq> 0 then fs_bind (deref ao) (\<lambda>at. fs_return (pn_clientInode ex = a_Ino at))
                    else fs_return False) (\<lambda>same.
           if same
           then fs_bind (the_inode n) (\<lambda>a.
                fs_bind (ci_AddChild path_watcher a name (pn_inode ex)) (\<lambda>_. fs_return (pn_inode ex, OK)))
           else fs_bind (createChild n name False) (\<lambda>(pNode, ch).
                fs_bind (deref ao) (\<lambda>at.
                fs_bind (pf_upd (upd_pnode pNode (pn_clientInode_update (\<lambda>_. a_Ino at)))) (\<lambda>_. fs_return (ch, OK))))))))))))"

definition findChild :: "nat \<Rightarrow> Attr \<Rightarrow> string \<Rightarrow> ('w, addr) pop" where
  "findChild n fi name =
     fs_bind (fs_get (\<lambda>s. if a_Ino fi > 0 then pf_clientInodeMap (cn_w s) (a_Ino fi) else None)) (\<lambda>ro.
     case ro of
       Some r \<Rightarrow>
         fs_bind (pf_upd (pf_clientInodeMap_update (\<lambda>m. m(a_Ino fi \<mapsto> r\<lparr>rc_refCount := rc_refCount r + 1\<rparr>)))) (\<lambda>_.
         fs_bind (the_inode n) (\<lambda>a.
         fs_bind (the_inode (rc_node r)) (\<lambda>b.
         fs_bind (ci_AddChild path_watcher a name b) (\<lambda>_. fs_return b))))
     | None \<Rightarrow>
         fs_bind (createChild n name (IsDir fi)) (\<lambda>(i, ch).
         fs_bind (setClientInode i (a_Ino fi)) (\<lambda>_. fs_return ch)))"

definition path_Lookup :: "nat \<Rightarrow> 'w FileSystem \<Rightarrow> nat \<Rightarrow> Attr \<Rightarrow> string \<Rightarrow> ctx \<Rightarrow> ('w, addr \<times> Status \<times> Attr) pop" where
  "path_Lookup k fs n out name c =
     fs_bind (child_path k n name) (\<lambda>fullPath.
     fs_bind (pf_call (p_GetAttr fs fullPath c)) (\<lambda>(fo, code).
     fs_bind (the_inode n) (\<lambda>a.
     fs_bind (ci_GetChild a name) (\<lambda>known.
     fs_bind (if known = 0 then fs_return False
              else if code \<noteq> OK then fs_return True
              else fs_bind (ci_IsDir known) (\<lambda>dir. fs_bind (deref fo) (\<lambda>fi. fs_return (dir \<noteq> IsDir fi)))) (\<lambda>stale.
     fs_bind (if stale then fs_bind (ci_RmChild path_watcher a name) (\<lambda>_. fs_return 0) else fs_return known) (\<lambda>node.
     if code \<noteq> OK then fs_return (node, code, out)
     else fs_bind (deref fo) (\<lambda>fi.
          fs_bind (if node = 0 then findChild n fi name else fs_return node) (\<lambda>node'.
          fs_return (node', code, fi)))))))))"

section \<open>Attributes and open files\<close>

definition path_GetAttr ::
  "nat \<Rightarrow> 'w PathNodeFs file_ops \<Rightarrow> 'w FileSystem \<Rightarrow> nat \<Rightarrow> Attr \<Rightarrow> cfarg \<Rightarrow> ctx \<Rightarrow> ('w, Status \<times> Attr) pop" where
  "path_GetAttr k F fs n out file0 c =
     fs_bind (if file0 \<noteq> NilFile then fs_return file0
              else fs_bind (the_inode n) (\<lambda>a. fs_bind (ci_AnyFile a) (\<lambda>f.
                   fs_return (case f of None \<Rightarrow> NilFile | Some p \<Rightarrow> TheFile p)))) (\<lambda>file.
     fs_bind (if file \<noteq> NilFile then call_file file (\<lambda>f. f_GetAttr F f out) else fs_return (ENOSYS, out)) (\<lambda>(code1, out1).
     if code1 \<noteq> ENOSYS \<and> code1 \<noteq> EBADF then fs_return (code1, out1)
     else
       fs_bind (GetPath k n) (\<lambda>path.
       fs_bind (pf_call (p_GetAttr fs path c)) (\<lambda>(fo, code).
       if code \<noteq> OK then fs_return (code, out1)
       else case fo of
              None \<Rightarrow> fs_return (EINVAL, out1)
            | Some fi \<Rightarrow>
                fs_bind (setClientInode n (a_Ino fi)) (\<lambda>_.
                fs_return (code, if \<not> IsDir fi \<and> a_Nlink fi = 0 then fi\<lparr>a_Nlink := 1\<rparr> else fi))))))"

text \<open>
  \<^verbatim>\<open>Chmod\<close>, \<^verbatim>\<open>Chown\<close>, \<^verbatim>\<open>Truncate\<close> and \<^verbatim>\<open>Utimens\<close> have one shape: ask the file, then the files opened for
  writing until one succeeds, then the file system.
\<close>

fun try_files :: "(pfile \<Rightarrow> ('w, Status) fsm) \<Rightarrow> openedFile list \<Rightarrow> Status \<Rightarrow> ('w, bool \<times> Status) cop" where
  "try_files m [] code = fs_return (False, code)"
| "try_files m (f # fs) code =
     fs_bind (inner_file f m) (\<lambda>code1. if code1 = OK then fs_return (True, OK) else try_files m fs code1)"

definition by_file_or_path ::
  "nat \<Rightarrow> nat \<Rightarrow> cfarg \<Rightarrow> (pfile \<Rightarrow> ('w PathNodeFs, Status) fsm) \<Rightarrow> (string \<Rightarrow> ('w, Status) fsm) \<Rightarrow> ('w, Status) pop" where
  "by_file_or_path k n file m pm =
     fs_bind (if file \<noteq> NilFile then call_file file m else fs_return ENOSYS) (\<lambda>code0.
     if code0 \<noteq> ENOSYS then fs_return code0
     else
       fs_bind (the_inode n) (\<lambda>a.
       fs_bind (ci_Files a O_ANYWRITE) (\<lambda>files.
       fs_bind (try_files m files (if file \<noteq> NilFile then code0 else OK)) (\<lambda>(ok, code).
       if ok then fs_return code
       else if files = [] \<or> code = ENOSYS \<or> code = EBADF
       then fs_bind (GetPath k n) (\<lambda>path. pf_call (pm path))
       else fs_return code))))"

definition path_Fallocate :: "'w PathNodeFs file_ops \<Rightarrow> nat \<Rightarrow> cfarg \<Rightarrow> u64 \<Rightarrow> u64 \<Rightarrow> u32 \<Rightarrow> ('w, Status) pop" where
  "path_Fallocate F n file off sz mode =
     (let m = (\<lambda>f. f_Allocate F f off sz mode) in
      fs_bind (if file \<noteq> NilFile then fs_bind (call_file file m) (\<lambda>code. fs_return (code = OK, code)) else fs_return (False, OK)) (\<lambda>(ok0, code0).
      if ok0 then fs_return code0
      else
        fs_bind (the_inode n) (\<lambda>a.
        fs_bind (ci_Files a O_ANYWRITE) (\<lambda>files.
        fs_bind (try_files m files code0) (\<lambda>(_, code). fs_return code)))))"

definition path_Open :: "nat \<Rightarrow> 'w FileSystem \<Rightarrow> nat \<Rightarrow> u32 \<Rightarrow> ctx \<Rightarrow> ('w, cfile option \<times> Status) pop" where
  "path_Open k fs n flags c =
     fs_bind (GetPath k n) (\<lambda>path.
     fs_bind (pf_call (p_Open fs path flags c)) (\<lambda>(file, code).
     fs_bind (fs_get (\<lambda>s. pf_debug (cn_w s))) (\<lambda>debug.
     if debug then fs_bind (GetPath k n) (\<lambda>desc. fs_return (Some (WithFlags (map_option PlainFile file) desc 0), code))
     else fs_return (map_option PlainFile file, code))))"

definition path_Node :: "nat \<Rightarrow> 'w PathNodeFs file_ops \<Rightarrow> 'w FileSystem \<Rightarrow> 'w PathNodeFs Node" where
  "path_Node k F fs =
    \<lparr>n_SetInode = n_SetInode path_watcher, n_isTreeWatcher = (\<lambda>n. True), n_OnAdd = n_OnAdd path_watcher,
     n_OnRemove = n_OnRemove path_watcher,
     n_OnMount = (\<lambda>n. pf_call (p_OnMount fs)),
     n_OnUnmount = (\<lambda>n. fs_return ()),
     n_Lookup = path_Lookup k fs,
     n_Deletable = (\<lambda>n. fs_return True),
     n_OnForget = path_OnForget,
     n_Access = (\<lambda>n mode c. fs_bind (GetPath k n) (\<lambda>p. pf_call (p_Access fs p mode c))),
     n_Readlink = (\<lambda>n c. fs_bind (GetPath k n) (\<lambda>p. fs_bind (pf_call (p_Readlink fs p c)) (\<lambda>(v, e). fs_return (str_bytes v, e)))),
     n_Mknod = path_Mknod k fs,
     n_Mkdir = path_Mkdir k fs,
     n_Unlink = path_Unlink k fs,
     n_Rmdir = path_Rmdir k fs,
     n_Symlink = path_Symlink k fs,
     n_Rename = path_Rename k fs,
     n_Link = path_Link k fs,
     n_Create = path_Create k fs,
     n_Open = path_Open k fs,
     n_OpenDir = (\<lambda>n c. fs_bind (GetPath k n) (\<lambda>p. pf_call (p_OpenDir fs p c))),
     n_Read = (\<lambda>n file dest off c. if file \<noteq> NilFile then call_file file (\<lambda>f. f_Read F f dest off) else fs_return (None, ENOSYS)),
     n_Write = (\<lambda>n file data off c. if file \<noteq> NilFile then call_file file (\<lambda>f. f_Write F f data off) else fs_return (0, ENOSYS)),
     n_GetXAttr = (\<lambda>n attr c. fs_bind (GetPath k n) (\<lambda>p. pf_call (p_GetXAttr fs p attr c))),
     n_RemoveXAttr = (\<lambda>n attr c. fs_bind (GetPath k n) (\<lambda>p. pf_call (p_RemoveXAttr fs p attr c))),
     n_SetXAttr = (\<lambda>n attr data flags c. fs_bind (GetPath k n) (\<lambda>p. pf_call (p_SetXAttr fs p attr data flags c))),
     n_ListXAttr = (\<lambda>n c. fs_bind (GetPath k n) (\<lambda>p. pf_call (p_ListXAttr fs p c))),
     n_GetLk = (\<lambda>n file owner lk flags out c.
        if file \<noteq> NilFile then call_file file (\<lambda>f. f_GetLk F f owner lk flags out) else fs_return (ENOSYS, out)),
     n_SetLk = (\<lambda>n file owner lk flags c.
        if file \<noteq> NilFile then call_file file (\<lambda>f. f_SetLk F f owner lk flags) else fs_return ENOSYS),
     n_SetLkw = (\<lambda>n file owner lk flags c.
        if file \<noteq> NilFile then call_file file (\<lambda>f. f_SetLkw F f owner lk flags) else fs_return ENOSYS),
     n_GetAttr = path_GetAttr k F fs,
     n_Chmod = (\<lambda>n file perms c. by_file_or_path k n file (\<lambda>f. f_Chmod F f perms) (\<lambda>p. p_Chmod fs p perms c)),
     n_Chown = (\<lambda>n file uid gid c. by_file_or_path k n file (\<lambda>f. f_Chown F f uid gid) (\<lambda>p. p_Chown fs p uid gid c)),
     n_Truncate = (\<lambda>n file sz c. by_file_or_path k n file (\<lambda>f. f_Truncate F f sz) (\<lambda>p. p_Truncate fs p sz c)),
     n_Utimens = (\<lambda>n file at mt c. by_file_or_path k n file (\<lambda>f. f_Utimens F f at mt) (\<lambda>p. p_Utimens fs p at mt c)),
     n_Fallocate = (\<lambda>n file off sz mode c. path_Fallocate F n file off sz mode),
     n_StatFs = (\<lambda>n. fs_bind (GetPath k n) (\<lambda>p. pf_call (p_StatFs fs p)))\<rparr>"

section \<open>The file system\<close>

definition root_inode :: "('w, addr) pop" where
  "root_inode = fs_bind (fs_get (\<lambda>s. pf_root (cn_w s))) the_inode"

definition pfs_LastNode :: "string \<Rightarrow> ('w, addr \<times> string list) pop" where
  "pfs_LastNode name = fs_bind root_inode (\<lambda>r. conn_Node r name)"

definition pfs_Node :: "string \<Rightarrow> ('w, addr) pop" where
  "pfs_Node name = fs_bind (pfs_LastNode name) (\<lambda>(n, rest). fs_return (if length rest > 0 then 0 else n))"

definition pfs_LookupNode :: "'w PathNodeFs Node \<Rightarrow> string \<Rightarrow> ('w, addr) pop" where
  "pfs_LookupNode N name = fs_bind root_inode (\<lambda>r. LookupNode N r name)"

definition pfs_Path :: "nat \<Rightarrow> addr \<Rightarrow> ('w, string) pop" where
  "pfs_Path k a = fs_bind (get_inode a) (\<lambda>i. fs_bind (get_pnode (in_fsInode i)) (\<lambda>_. GetPath k (in_fsInode i)))"

definition pfs_Mount :: "'w PathNodeFs Node \<Rightarrow> string \<Rightarrow> nat \<Rightarrow> cOptions option \<Rightarrow> ('w, Status) pop" where
  "pfs_Mount N path root opts =
     (let dir = path_dir path; dir' = (if dir \<noteq> [] then Clean dir else dir) in
      fs_bind (pfs_LookupNode N dir') (\<lambda>parent.
      if parent = 0 then fs_return ENOENT else Mount N parent (path_base path) root opts))"

definition pfs_Unmount :: "nat \<Rightarrow> 'w PathNodeFs Node \<Rightarrow> 'w PathNodeFs server_calls \<Rightarrow> string \<Rightarrow> ('w, Status) pop" where
  "pfs_Unmount k N S path = fs_bind (pfs_Node path) (\<lambda>n. if n = 0 then fs_return ENOENT else Unmount k N S n)"

definition pfs_FileNotify :: "'w PathNodeFs server_calls \<Rightarrow> string \<Rightarrow> i64 \<Rightarrow> i64 \<Rightarrow> ('w, Status) pop" where
  "pfs_FileNotify S path off len =
     fs_bind (pfs_LastNode path) (\<lambda>(n, r). if length r > 0 then fs_return ENOENT else FileNotify S n off len)"

definition pfs_EntryNotify :: "'w PathNodeFs server_calls \<Rightarrow> string \<Rightarrow> string \<Rightarrow> ('w, Status) pop" where
  "pfs_EntryNotify S dir name =
     fs_bind (pfs_LastNode dir) (\<lambda>(n, r). if length r > 0 then fs_return ENOENT else EntryNotify S n name)"

definition pfs_Notify :: "'w PathNodeFs server_calls \<Rightarrow> string \<Rightarrow> ('w, Status) pop" where
  "pfs_Notify S path =
     fs_bind (pfs_LastNode path) (\<lambda>(n, r). case r of x # _ \<Rightarrow> EntryNotify S n x | [] \<Rightarrow> FileNotify S n 0 0)"

definition pfs_AllFiles :: "string \<Rightarrow> u32 \<Rightarrow> ('w, openedFile list) pop" where
  "pfs_AllFiles name m = fs_bind (pfs_Node name) (\<lambda>n. if n = 0 then fs_return [] else ci_Files n m)"

text \<open>Both walks over the nodes below a node recur on the tree; the fuel bounds its depth.\<close>

fun forget_below :: "nat \<Rightarrow> nat \<Rightarrow> ('w, unit) pop"
  and forget_each :: "nat \<Rightarrow> (string \<times> addr) list \<Rightarrow> ('w, unit) pop" where
  "forget_below 0 n = fs_fault OutOfFuel"
| "forget_below (Suc d) n =
     fs_bind (get_pnode n) (\<lambda>_.
     fs_bind (pf_upd (upd_pnode n (pn_clientInode_update (\<lambda>_. 0)))) (\<lambda>_.
     fs_bind (the_inode n) (\<lambda>a. fs_bind (ci_FsChildren a) (\<lambda>chs. forget_each d chs))))"
| "forget_each d [] = fs_return ()"
| "forget_each d ((nm, ch) # chs) =
     fs_bind (get_inode ch) (\<lambda>i. fs_bind (forget_below d (in_fsInode i)) (\<lambda>_. forget_each d chs))"

definition pfs_ForgetClientInodes :: "nat \<Rightarrow> ('w, unit) pop" where
  "pfs_ForgetClientInodes d =
     fs_bind (fs_get (\<lambda>s. pf_ClientInodes (cn_w s))) (\<lambda>ci.
     if \<not> ci then fs_return ()
     else fs_bind (pf_upd (pf_clientInodeMap_update (\<lambda>_. Map.empty))) (\<lambda>_.
          fs_bind (fs_get (\<lambda>s. pf_root (cn_w s))) (\<lambda>r. forget_below d r)))"

fun update_below :: "nat \<Rightarrow> nat \<Rightarrow> 'w PathNodeFs file_ops \<Rightarrow> 'w FileSystem \<Rightarrow> nat \<Rightarrow> ('w, unit) pop"
  and update_each :: "nat \<Rightarrow> nat \<Rightarrow> 'w PathNodeFs file_ops \<Rightarrow> 'w FileSystem \<Rightarrow> (string \<times> addr) list \<Rightarrow> ('w, unit) pop" where
  "update_below 0 k F fs n = fs_fault OutOfFuel"
| "update_below (Suc d) k F fs n =
     fs_bind (path_GetAttr k F fs n zero_Attr NilFile None) (\<lambda>_.
     fs_bind (the_inode n) (\<lambda>a. fs_bind (ci_FsChildren a) (\<lambda>chs. update_each d k F fs chs)))"
| "update_each d k F fs [] = fs_return ()"
| "update_each d k F fs ((nm, ch) # chs) =
     fs_bind (get_inode ch) (\<lambda>i. fs_bind (get_pnode (in_fsInode i)) (\<lambda>_.
     fs_bind (update_below d k F fs (in_fsInode i)) (\<lambda>_. update_each d k F fs chs)))"

definition pfs_RereadClientInodes :: "nat \<Rightarrow> nat \<Rightarrow> 'w PathNodeFs file_ops \<Rightarrow> 'w FileSystem \<Rightarrow> ('w, unit) pop" where
  "pfs_RereadClientInodes d k F fs =
     fs_bind (fs_get (\<lambda>s. pf_ClientInodes (cn_w s))) (\<lambda>ci.
     if \<not> ci then fs_return ()
     else fs_bind (pfs_ForgetClientInodes d) (\<lambda>_. fs_bind (fs_get (\<lambda>s. pf_root (cn_w s))) (\<lambda>r. update_below d k F fs r)))"

end
