(* ===== verification/ConnProps.thy ===== *)
theory ConnProps
  imports PathNodes PathWrapProps
begin

text \<open>
  The tree of a connector: the children and the parents of its inodes name the same links. A locale
  states what the operations of the tree rely on of the nodes that watch it; the lemmas on adding and
  removing children are proved there, and hold for the nodes of \<^verbatim>\<open>pathfs\<close>.
\<close>

section \<open>Links\<close>

text \<open>A name that can be a component of a path.\<close>

definition plain_name :: "string \<Rightarrow> bool" where
  "plain_name nm \<longleftrightarrow> nm \<notin> {[], ''.'', ''..''} \<and> CHR ''/'' \<notin> set nm"

definition kid_at :: "'w conn \<Rightarrow> addr \<Rightarrow> string \<Rightarrow> addr option" where
  "kid_at s n nm = Option.bind (cn_inodes s n) (\<lambda>i. gm_get (in_children i) nm)"

definition parents_of :: "'w conn \<Rightarrow> addr \<Rightarrow> (addr \<times> string) set" where
  "parents_of s c = (case cn_inodes s c of None \<Rightarrow> {} | Some i \<Rightarrow> set (in_parents i))"

definition tree_ok :: "'w conn \<Rightarrow> bool" where
  "tree_ok s \<longleftrightarrow>
     (\<forall>n nm c. kid_at s n nm = Some c \<longleftrightarrow> (n, nm) \<in> parents_of s c)
     \<and> (\<forall>c n nm. (n, nm) \<in> parents_of s c \<longrightarrow> plain_name nm)
     \<and> (\<forall>a i. cn_inodes s a = Some i \<and> in_mountPoint i \<noteq> 0 \<longrightarrow> in_mount i \<noteq> 0)
     \<and> 0 < cn_next s \<and> (\<forall>a. a = 0 \<or> cn_next s \<le> a \<longrightarrow> cn_inodes s a = None)"

named_theorems tree_simps

lemma links_upd_w [tree_simps, simp]:
  "kid_at (s\<lparr>cn_w := w\<rparr>) = kid_at s" "parents_of (s\<lparr>cn_w := w\<rparr>) = parents_of s"
  "tree_ok (s\<lparr>cn_w := w\<rparr>) = tree_ok s"
  by (simp_all add: kid_at_def parents_of_def tree_ok_def fun_eq_iff)

lemma links_upd_map [tree_simps, simp]:
  "kid_at (s\<lparr>cn_inodeMap := w\<rparr>) = kid_at s" "parents_of (s\<lparr>cn_inodeMap := w\<rparr>) = parents_of s"
  "tree_ok (s\<lparr>cn_inodeMap := w\<rparr>) = tree_ok s"
  by (simp_all add: kid_at_def parents_of_def tree_ok_def fun_eq_iff)

lemma tree_okD:
  assumes "tree_ok s"
  shows "kid_at s n nm = Some c \<longleftrightarrow> (n, nm) \<in> parents_of s c"
    and "(n, nm) \<in> parents_of s c \<Longrightarrow> plain_name nm"
    and "cn_inodes s a = Some i \<Longrightarrow> in_mountPoint i \<noteq> 0 \<Longrightarrow> in_mount i \<noteq> 0"
    and "cn_inodes s 0 = None" and "cn_next s \<le> a \<Longrightarrow> cn_inodes s a = None" and "0 < cn_next s"
proof -
  have "\<forall>n nm c. kid_at s n nm = Some c \<longleftrightarrow> (n, nm) \<in> parents_of s c"
    and "\<forall>c n nm. (n, nm) \<in> parents_of s c \<longrightarrow> plain_name nm"
    and "\<forall>a i. cn_inodes s a = Some i \<and> in_mountPoint i \<noteq> 0 \<longrightarrow> in_mount i \<noteq> 0"
    and "0 < cn_next s" and "\<forall>a. a = 0 \<or> cn_next s \<le> a \<longrightarrow> cn_inodes s a = None"
    using assms unfolding tree_ok_def by - (elim conjE, assumption)+
  then show "kid_at s n nm = Some c \<longleftrightarrow> (n, nm) \<in> parents_of s c" "(n, nm) \<in> parents_of s c \<Longrightarrow> plain_name nm"
    "cn_inodes s a = Some i \<Longrightarrow> in_mountPoint i \<noteq> 0 \<Longrightarrow> in_mount i \<noteq> 0" "cn_inodes s 0 = None"
    "cn_next s \<le> a \<Longrightarrow> cn_inodes s a = None" "0 < cn_next s"
    by (iprover, iprover, iprover, iprover, iprover, iprover)
qed

lemma tree_okI:
  assumes "\<And>n nm c. kid_at s n nm = Some c \<longleftrightarrow> (n, nm) \<in> parents_of s c"
    and "\<And>c n nm. (n, nm) \<in> parents_of s c \<Longrightarrow> plain_name nm"
    and "\<And>a i. cn_inodes s a = Some i \<Longrightarrow> in_mountPoint i \<noteq> 0 \<Longrightarrow> in_mount i \<noteq> 0"
    and "0 < cn_next s" and "\<And>a. a = 0 \<or> cn_next s \<le> a \<Longrightarrow> cn_inodes s a = None"
  shows "tree_ok s"
  unfolding tree_ok_def using assms by iprover

lemma get_inode_Inr [simp]: "get_inode a s = Inr (i, s') \<longleftrightarrow> cn_inodes s a = Some i \<and> s' = s"
  by (auto simp: get_inode_def split: option.splits)

lemma tree_lock_Inr: "tree_lock a s = Inr (i, s') \<longleftrightarrow> cn_inodes s a = Some i \<and> in_mount i \<noteq> 0 \<and> s' = s"
  by (auto simp: tree_lock_def fs_bind_Inr split: if_splits)

lemma put_inode_Inr [simp]: "put_inode a f s = Inr (u, s') \<longleftrightarrow> s' = upd_inode a f s"
  by (auto simp: put_inode_def fs_step_def)

lemma cn_inodes_upd [simp]: "cn_inodes (upd_inode a f s) b = (if b = a then map_option f (cn_inodes s a) else cn_inodes s b)"
  by (simp add: upd_inode_def)

lemma upd_inode_rest [simp]: "cn_w (upd_inode a f s) = cn_w s" "cn_next (upd_inode a f s) = cn_next s"
  "cn_inodeMap (upd_inode a f s) = cn_inodeMap s" "cn_rootNode (upd_inode a f s) = cn_rootNode s"
  "cn_mounts (upd_inode a f s) = cn_mounts s" "cn_opened (upd_inode a f s) = cn_opened s"
  by (simp_all add: upd_inode_def)

text \<open>A link is added, and one is removed.\<close>

definition link :: "addr \<Rightarrow> string \<Rightarrow> addr \<Rightarrow> (string, addr) gomap \<Rightarrow> 'w conn \<Rightarrow> 'w conn" where
  "link n name ch cs s =
     upd_inode ch (in_parents_update (List.insert (n, name))) (upd_inode n (in_children_update (\<lambda>_. cs)) s)"

definition unlink :: "addr \<Rightarrow> string \<Rightarrow> addr \<Rightarrow> 'w conn \<Rightarrow> 'w conn" where
  "unlink n name ch s =
     upd_inode ch (in_parents_update (removeAll (n, name))) (upd_inode n (in_children_update (\<lambda>cs. gm_del cs name)) s)"

lemma link_links:
  assumes "cn_inodes s n = Some i" and "gm_set (in_children i) name ch = Inr cs" and "cn_inodes s ch = Some c"
  shows "kid_at (link n name ch cs s) p nm = (if (p, nm) = (n, name) then Some ch else kid_at s p nm)"
    and "parents_of (link n name ch cs s) a = (if a = ch then insert (n, name) (parents_of s a) else parents_of s a)"
  using assms by (auto simp: link_def kid_at_def parents_of_def gm_get_set)

lemma link_ok:
  assumes ok: "tree_ok s" and i: "cn_inodes s n = Some i" "gm_set (in_children i) name ch = Inr cs" "cn_inodes s ch = Some c"
    and new: "kid_at s n name = None" and nm: "plain_name name"
  shows "tree_ok (link n name ch cs s)"
proof -
  note L = link_links [OF i]
  have "(n, name) \<notin> parents_of s a" for a using tree_okD(1) [OF ok, of n name a] new by simp
  then have "kid_at (link n name ch cs s) p m = Some a \<longleftrightarrow> (p, m) \<in> parents_of (link n name ch cs s) a" for p m a
    using tree_okD(1) [OF ok, of p m a] unfolding L by auto
  moreover have "plain_name m" if "(p, m) \<in> parents_of (link n name ch cs s) a" for p m a
    using that tree_okD(2) [OF ok] nm unfolding L by (auto split: if_splits)
  moreover have "in_mount j \<noteq> 0" if "cn_inodes (link n name ch cs s) a = Some j" "in_mountPoint j \<noteq> 0" for a j
    using that tree_okD(3) [OF ok] by (auto simp: link_def split: if_splits)
  moreover have "0 < cn_next (link n name ch cs s)" using tree_okD(6) [OF ok] by (simp add: link_def)
  moreover have "cn_inodes (link n name ch cs s) a = None" if "a = 0 \<or> cn_next (link n name ch cs s) \<le> a" for a
    using that tree_okD(4,5) [OF ok] i by (auto simp: link_def)
  ultimately show ?thesis by (rule tree_okI)
qed

lemma unlink_links:
  assumes "cn_inodes s n = Some i" and "cn_inodes s ch = Some c"
  shows "kid_at (unlink n name ch s) p nm = (if (p, nm) = (n, name) then None else kid_at s p nm)"
    and "parents_of (unlink n name ch s) a = (if a = ch then parents_of s a - {(n, name)} else parents_of s a)"
  using assms by (auto simp: unlink_def kid_at_def parents_of_def)

lemma unlink_ok:
  assumes ok: "tree_ok s" and i: "cn_inodes s n = Some i" "cn_inodes s ch = Some c" and ch: "kid_at s n name = Some ch"
  shows "tree_ok (unlink n name ch s)"
proof -
  note L = unlink_links [OF i]
  have "(n, name) \<in> parents_of s a \<longleftrightarrow> a = ch" for a using tree_okD(1) [OF ok, of n name a] ch by auto
  then have "kid_at (unlink n name ch s) p m = Some a \<longleftrightarrow> (p, m) \<in> parents_of (unlink n name ch s) a" for p m a
    using tree_okD(1) [OF ok, of p m a] unfolding L by auto
  moreover have "plain_name m" if "(p, m) \<in> parents_of (unlink n name ch s) a" for p m a
    using that tree_okD(2) [OF ok] unfolding L by (auto split: if_splits)
  moreover have "in_mount j \<noteq> 0" if "cn_inodes (unlink n name ch s) a = Some j" "in_mountPoint j \<noteq> 0" for a j
    using that tree_okD(3) [OF ok] by (auto simp: unlink_def split: if_splits)
  moreover have "0 < cn_next (unlink n name ch s)" using tree_okD(6) [OF ok] by (simp add: unlink_def)
  moreover have "cn_inodes (unlink n name ch s) a = None" if "a = 0 \<or> cn_next (unlink n name ch s) \<le> a" for a
    using that tree_okD(4,5) [OF ok] by (auto simp: unlink_def)
  ultimately show ?thesis by (rule tree_okI)
qed

lemma addChild_eq:
  assumes "cn_inodes s n = Some i" and "gm_set (in_children i) name ch = Inr cs" and "cn_inodes s ch = Some c"
  shows "ci_addChild N n name ch s =
    (if n_isTreeWatcher N (in_fsInode c) \<and> in_mountPoint c = 0 then n_OnAdd N (in_fsInode c) n name else fs_return ())
      (link n name ch cs s)"
  using assms by (cases "ch = n") (auto simp: ci_addChild_def fs_bind_def get_inode_def put_inode_def fs_step_def link_def)

lemma rmChild_eq:
  assumes "cn_inodes s n = Some i" and "gm_get (in_children i) name = Some ch" and "cn_inodes s ch = Some c"
  shows "ci_rmChild N n name s =
    fs_bind (if n_isTreeWatcher N (in_fsInode c) \<and> in_mountPoint c = 0 then n_OnRemove N (in_fsInode c) n name else fs_return ())
      (\<lambda>_. fs_return ch) (unlink n name ch s)"
  using assms by (cases "ch = n") (auto simp: ci_rmChild_def fs_bind_def get_inode_def put_inode_def fs_step_def unlink_def)

section \<open>Nodes that watch the tree\<close>

text \<open>What the operations of the tree rely on: a node that is told of a change keeps the tree as it is.\<close>

locale quiet_watcher =
  fixes N :: "('w, 'z) TreeWatcher_scheme"
  assumes quiet_SetInode: "n_SetInode N f a s = Inr (u, s') \<Longrightarrow> \<exists>w. s' = s\<lparr>cn_w := w\<rparr>"
    and quiet_OnAdd: "n_OnAdd N f p nm s = Inr (u, s') \<Longrightarrow> \<exists>w. s' = s\<lparr>cn_w := w\<rparr>"
    and quiet_OnRemove: "n_OnRemove N f p nm s = Inr (u, s') \<Longrightarrow> \<exists>w. s' = s\<lparr>cn_w := w\<rparr>"
begin

lemma addChild_link:
  assumes "ci_addChild N n name ch s = Inr (u, s')"
  shows "\<exists>i cs c w. cn_inodes s n = Some i \<and> gm_set (in_children i) name ch = Inr cs \<and> cn_inodes s ch = Some c
    \<and> s' = (link n name ch cs s)\<lparr>cn_w := w\<rparr>"
proof -
  obtain i where i: "cn_inodes s n = Some i" using assms by (auto simp: ci_addChild_def fs_bind_Inr)
  obtain cs where cs: "gm_set (in_children i) name ch = Inr cs"
    using assms i by (auto simp: ci_addChild_def fs_bind_Inr split: sum.splits)
  obtain c where c: "cn_inodes s ch = Some c"
    using assms i cs by (cases "ch = n") (auto simp: ci_addChild_def fs_bind_Inr)
  let ?t = "link n name ch cs s"
  have "\<exists>w. ?t = ?t\<lparr>cn_w := w\<rparr>" by (rule exI [of _ "cn_w ?t"]) simp
  then show ?thesis
    using assms i cs c quiet_OnAdd [of _ n name ?t u s'] unfolding addChild_eq [OF i cs c] by (auto split: if_splits)
qed

lemma rmChild_unlink:
  assumes "ci_rmChild N n name s = Inr (r, s')"
  shows "kid_at s n name = None \<and> r = 0 \<and> s' = s
    \<or> (\<exists>i c w. cn_inodes s n = Some i \<and> cn_inodes s r = Some c \<and> kid_at s n name = Some r
         \<and> s' = (unlink n name r s)\<lparr>cn_w := w\<rparr>)"
proof -
  obtain i where i: "cn_inodes s n = Some i" using assms by (auto simp: ci_rmChild_def fs_bind_Inr)
  show ?thesis
  proof (cases "gm_get (in_children i) name")
    case None
    then show ?thesis using assms i by (auto simp: ci_rmChild_def fs_bind_Inr kid_at_def)
  next
    case (Some ch)
    obtain c where c: "cn_inodes s ch = Some c"
      using assms i Some by (cases "ch = n") (auto simp: ci_rmChild_def fs_bind_Inr)
    let ?t = "unlink n name ch s"
    have "\<exists>w. ?t = ?t\<lparr>cn_w := w\<rparr>" by (rule exI [of _ "cn_w ?t"]) simp
    then show ?thesis
      using assms i Some c quiet_OnRemove [of _ n name ?t _ s'] unfolding rmChild_eq [OF i Some c]
      by (auto simp: kid_at_def fs_bind_Inr split: if_splits)
  qed
qed

lemma newInode_new:
  assumes "ci_newInode N isDir f s = Inr (a, s')"
  shows "a = cn_next s \<and> (\<exists>w. s' = s\<lparr>cn_next := Suc a, cn_inodes := (cn_inodes s)(a \<mapsto>
      \<lparr>in_openFiles = [], in_fsInode = f, in_mount = 0, in_children = (if isDir then Some [] else None),
       in_parents = [], in_mountPoint = 0\<rparr>), cn_w := w\<rparr>)"
  using assms by (auto simp: ci_newInode_def fs_bind_Inr fs_step_def dest!: quiet_SetInode)

lemma AddChild_ok:
  assumes "ci_AddChild N n name ch s = Inr (u, s')" "tree_ok s" "kid_at s n name = None" "plain_name name"
  shows "tree_ok s'"
proof -
  have "ci_addChild N n name ch s = Inr (u, s')"
    using assms(1) by (auto simp: ci_AddChild_def fs_bind_Inr tree_lock_Inr split: if_splits)
  from addChild_link [OF this] show ?thesis using link_ok assms(2-4) by auto
qed

lemma rmChild_ok:
  assumes "ci_rmChild N n name s = Inr (r, s')" "tree_ok s"
  shows "tree_ok s'" and "kid_at s' p nm = (if (p, nm) = (n, name) then None else kid_at s p nm)"
    and "r \<noteq> 0 \<Longrightarrow> kid_at s n name = Some r" and "r = 0 \<Longrightarrow> kid_at s n name = None"
proof -
  have "kid_at s n name \<noteq> Some 0"
    using tree_okD(1) [OF assms(2), of n name 0] tree_okD(4) [OF assms(2)] by (simp add: parents_of_def)
  then show "tree_ok s'" "r \<noteq> 0 \<Longrightarrow> kid_at s n name = Some r" "r = 0 \<Longrightarrow> kid_at s n name = None"
    using rmChild_unlink [OF assms(1)] assms(2) unlink_ok by auto
  show "kid_at s' p nm = (if (p, nm) = (n, name) then None else kid_at s p nm)"
    using rmChild_unlink [OF assms(1)] by (auto simp: unlink_links(1))
qed

lemma RmChild_ok:
  assumes "ci_RmChild N n name s = Inr (r, s')" "tree_ok s"
  shows "tree_ok s'" and "kid_at s' p nm = (if (p, nm) = (n, name) then None else kid_at s p nm)"
    and "r \<noteq> 0 \<Longrightarrow> kid_at s n name = Some r" and "r = 0 \<Longrightarrow> kid_at s n name = None"
  using assms rmChild_ok [of n name s r s'] by (auto simp: ci_RmChild_def fs_bind_Inr tree_lock_Inr)

lemma NewChild_ok:
  assumes "ci_NewChild N n name isDir f s = Inr (a, s')" "tree_ok s" "kid_at s n name = None" "plain_name name"
  shows "tree_ok s'"
proof -
  let ?new = "\<lambda>m. \<lparr>in_openFiles = [], in_fsInode = f, in_mount = m, in_children = (if isDir then Some [] else None),
      in_parents = [], in_mountPoint = 0\<rparr>"
  obtain w m where add: "ci_AddChild N n name a (s\<lparr>cn_next := Suc a, cn_w := w, cn_inodes := (cn_inodes s)(a \<mapsto> ?new m)\<rparr>) = Inr ((), s')"
    and a: "a = cn_next s"
    using assms(1) by (auto simp: ci_NewChild_def fs_bind_Inr upd_inode_def dest!: newInode_new)
  let ?t = "s\<lparr>cn_next := Suc a, cn_w := w, cn_inodes := (cn_inodes s)(a \<mapsto> ?new m)\<rparr>"
  note D = tree_okD [OF assms(2)]
  have free: "cn_inodes s a = None" using D(5) a by simp
  have C: "kid_at ?t p nm = kid_at s p nm" "parents_of ?t c = parents_of s c" for p nm c
    using free by (auto simp: kid_at_def parents_of_def)
  have "in_mount j \<noteq> 0" if "cn_inodes ?t c = Some j" "in_mountPoint j \<noteq> 0" for c j
    using that D(3) [of c j] by (cases "c = a") auto
  moreover have "cn_inodes ?t c = None" if "c = 0 \<or> cn_next ?t \<le> c" for c
    using that D(4) D(5) [of c] D(6) a by (cases "c = a") auto
  moreover have "0 < cn_next ?t" by simp
  moreover have "kid_at ?t p nm = Some c \<longleftrightarrow> (p, nm) \<in> parents_of ?t c"
    and "(p, nm) \<in> parents_of ?t c \<Longrightarrow> plain_name nm" for p nm c
    unfolding C using D(1,2) by simp_all
  ultimately have "tree_ok ?t" by (intro tree_okI)
  then show ?thesis using AddChild_ok [OF add] assms(3,4) C by simp
qed

end

end
