(* ===== verification/PathProps.thy ===== *)
theory PathProps
  imports ConnProps
begin

text \<open>
  Correctness of the nodes of \<^verbatim>\<open>pathfs\<close>: every operation keeps the links of the tree in order, the path of a
  node leads back to it, and what becomes of a node that has several names.
\<close>

section \<open>The nodes watch the tree quietly\<close>

lemma get_pnode_Inr [simp]: "get_pnode n s = Inr (p, s') \<longleftrightarrow> pf_nodes (cn_w s) n = Some p \<and> s' = s"
  by (auto simp: get_pnode_def split: option.splits)

lemma the_inode_Inr [simp]: "the_inode n s = Inr (a, s') \<longleftrightarrow> (\<exists>p. pf_nodes (cn_w s) n = Some p \<and> a = pn_inode p \<and> s' = s)"
  by (auto simp: the_inode_def fs_bind_Inr)

lemma pf_upd_Inr [simp]: "pf_upd f s = Inr (u, s') \<longleftrightarrow> s' = s\<lparr>cn_w := f (cn_w s)\<rparr>"
  by (auto simp: pf_upd_def fs_step_def)

lemma ci_IsDir_Inr [simp]: "ci_IsDir a s = Inr (d, s') \<longleftrightarrow> (\<exists>i. cn_inodes s a = Some i \<and> d = (in_children i \<noteq> None) \<and> s' = s)"
  by (auto simp: ci_IsDir_def fs_bind_Inr)

lemma tracked_Inr: "tracked n p s = Inr (t, s') \<Longrightarrow> s' = s"
  by (auto simp: tracked_def fs_bind_Inr split: if_splits)

text \<open>Only the state of the nodes changes.\<close>

definition same_tree :: "'w conn \<Rightarrow> 'w conn \<Rightarrow> bool" where
  "same_tree s s' \<longleftrightarrow> s' = s\<lparr>cn_w := cn_w s'\<rparr>"

lemma same_tree_refl [simp]: "same_tree s s" "same_tree s (s\<lparr>cn_w := w\<rparr>)"
  by (simp_all add: same_tree_def)

lemma same_tree_trans: "same_tree s t \<Longrightarrow> same_tree t u \<Longrightarrow> same_tree s u"
  unfolding same_tree_def by (metis conn.surjective conn.update_convs(1))

lemma same_conn [simp]: "\<exists>w. s = s\<lparr>cn_w := w\<rparr>"
  by (rule exI [of _ "cn_w s"]) simp

lemma same_treeD: "same_tree s t \<Longrightarrow> \<exists>w. t = s\<lparr>cn_w := w\<rparr>"
  by (auto simp: same_tree_def)

lemma OnRemove_same: "path_OnRemove n p nm s = Inr (u, s') \<Longrightarrow> same_tree s s'"
  by (auto simp: path_OnRemove_def fs_bind_Inr dest!: tracked_Inr split: if_splits)

lemma setClientInode_same: "setClientInode n ino s = Inr (u, s') \<Longrightarrow> same_tree s s'"
  by (auto simp: setClientInode_def fs_bind_Inr dest!: tracked_Inr split: if_splits)

lemma OnForget_same: "path_OnForget n s = Inr (u, s') \<Longrightarrow> same_tree s s'"
  by (auto simp: path_OnForget_def fs_bind_Inr dest!: tracked_Inr split: if_splits)

lemma pf_call_same: "pf_call m s = Inr (x, s') \<Longrightarrow> same_tree s s' \<and> pf_nodes (cn_w s') = pf_nodes (cn_w s)"
  by (auto simp: pf_call_def conn_lift_def pf_inner_def bind_go_eq_Inr)

lemma climb_same: "climb k a segs s = Inr (x, s') \<Longrightarrow> s' = s"
  by (induction k arbitrary: a segs) (auto simp: fs_bind_Inr ci_Parent_def split: if_splits list.splits)

lemma GetPath_same: "GetPath k n s = Inr (x, s') \<Longrightarrow> s' = s"
  by (auto simp: GetPath_def fs_bind_Inr dest!: climb_same split: if_splits)

lemma child_path_same: "child_path k n nm s = Inr (x, s') \<Longrightarrow> s' = s"
  by (auto simp: child_path_def fs_bind_Inr dest!: GetPath_same)

interpretation pw: quiet_watcher path_watcher
  by unfold_locales (auto simp: path_watcher_def dest!: OnRemove_same same_treeD)

interpretation pn: quiet_watcher "path_Node k F fs" for k F fs
  by unfold_locales (auto simp: path_watcher_def path_Node_def dest!: OnRemove_same same_treeD)

section \<open>Paths\<close>

text \<open>An inode below another one: the names on the way down, by the first parents.\<close>

inductive below :: "'w conn \<Rightarrow> addr \<Rightarrow> addr \<Rightarrow> string list \<Rightarrow> bool" for s r where
  top: "cn_inodes s r = Some i \<Longrightarrow> in_mountPoint i \<noteq> 0 \<Longrightarrow> below s r r []"
| step: "below s r p segs \<Longrightarrow> cn_inodes s a = Some i \<Longrightarrow> in_mountPoint i = 0 \<Longrightarrow> in_mount i \<noteq> 0 \<Longrightarrow>
    in_parents i = (p, nm) # ps \<Longrightarrow> p \<noteq> 0 \<Longrightarrow> below s r a (segs @ [nm])"

lemma below_climb: "below s r a segs \<Longrightarrow> length segs < k \<Longrightarrow> climb k a acc s = Inr ((segs @ acc, r), s)"
proof (induction arbitrary: k acc rule: below.induct)
  case (top i)
  then obtain k' where "k = Suc k'" by (cases k) auto
  then show ?case using top by (simp add: fs_bind_def ci_Parent_def get_inode_def)
next
  case (step p segs a i nm ps)
  then obtain k' where "k = Suc k'" "length segs < k'" by (cases k) auto
  then show ?case using step by (simp add: fs_bind_def ci_Parent_def get_inode_def)
qed

lemma below_top:
  assumes "below s r a segs" and "a = r" and "cn_inodes s r = Some j" and "in_mountPoint j \<noteq> 0"
  shows "segs = []"
  using assms(1) by (cases rule: below.cases) (use assms(2-4) in simp_all)

lemma walk_known_append:
  "walk_known n (xs @ ys) s = fs_bind (walk_known n xs) (\<lambda>(a, rest). if rest = [] then walk_known a ys else fs_return (a, rest @ ys)) s"
proof (induction xs arbitrary: n)
  case (Cons c cs)
  then show ?case
    by (cases "cn_inodes s n") (auto simp: fs_bind_def get_inode_def split: option.splits)
qed simp

lemma below_walk:
  assumes "tree_ok s"
  shows "below s r a segs \<Longrightarrow> walk_known r segs s = Inr ((a, []), s)
    \<and> (\<forall>nm\<in>set segs. plain_name nm) \<and> (\<exists>i. cn_inodes s a = Some i)"
proof (induction rule: below.induct)
  case (step p segs a i nm ps)
  then obtain j where j: "cn_inodes s p = Some j" by blast
  have "(p, nm) \<in> parents_of s a" using step.hyps by (simp add: parents_of_def)
  then have "kid_at s p nm = Some a" and nm: "plain_name nm" using tree_okD(1,2) [OF assms] by blast+
  then have "gm_get (in_children j) nm = Some a" using j by (simp add: kid_at_def)
  moreover have "nm \<noteq> []" using nm by (simp add: plain_name_def)
  moreover have "in_mountPoint j = 0 \<or> in_mount j \<noteq> 0" using tree_okD(3) [OF assms j] by blast
  ultimately show ?case using step j nm by (auto simp: walk_known_append fs_bind_def get_inode_def)
qed simp

lemma Clean_plain:
  assumes "segs \<noteq> []" and "\<forall>nm\<in>set segs. plain_name nm"
  shows "Clean (join_slash segs) = join_slash segs"
    and "split_slash (dropWhile (\<lambda>c. c = CHR ''/'') (join_slash segs)) = segs" and "join_slash segs \<noteq> []"
proof -
  have free: "\<forall>e\<in>set segs. CHR ''/'' \<notin> set e \<and> e \<noteq> []" using assms(2) by (auto simp: plain_name_def)
  note J = join_slash_start [OF free]
  have split: "split_slash (join_slash segs) = segs" using split_join_slash assms(1) free by blast
  have "clean_stack False acc segs = rev segs @ acc" for acc
    using assms(2) by (induction segs arbitrary: acc) (simp_all add: clean_step_plain plain_name_def)
  then show "Clean (join_slash segs) = join_slash segs"
    using J assms(1) split by (simp add: Clean_def clean_elems_stack)
  show "join_slash segs \<noteq> []" using J(1) assms(1) by simp
  show "split_slash (dropWhile (\<lambda>c. c = CHR ''/'') (join_slash segs)) = segs"
    using J assms(1) split by (cases "join_slash segs") auto
qed

text \<open>
  C24: The path of a node leads back to it: in a tree whose links are in order, climbing from a node to
  the root of its mount with fuel above its depth gives the names on the way, and walking down these
  names from the root, after the path was cleaned and split again, ends at the inode of the node.
\<close>

theorem path_leads_back:
  assumes "tree_ok s" and "pf_nodes (cn_w s) n = Some p" and "pf_nodes (cn_w s) (pf_root (cn_w s)) = Some root"
    and "below s (pn_inode root) (pn_inode p) segs" and "length segs < k"
  shows "GetPath k n s = Inr (join_slash segs, s) \<and> pfs_Node (join_slash segs) s = Inr (pn_inode p, s)"
proof -
  let ?r = "pn_inode root"
  note W = below_walk [OF assms(1,4)]
  obtain j where j: "cn_inodes s ?r = Some j" "in_mountPoint j \<noteq> 0"
    using assms(4) by (induction rule: below.induct) auto
  then have r: "?r \<noteq> 0" using tree_okD(4) [OF assms(1)] by (metis option.distinct(1))
  have "segs = []" if "n = pf_root (cn_w s)"
  proof -
    have "pn_inode p = ?r" using assms(2,3) that by simp
    then show ?thesis using j by (intro below_top [OF assms(4)]) simp_all
  qed
  then have "GetPath k n s = Inr (join_slash segs, s)"
    using below_climb [OF assms(4,5), of "[]"] assms(2,3)
    by (auto simp: GetPath_def fs_bind_def the_inode_def get_pnode_def)
  moreover have "conn_Node ?r (join_slash segs) s = Inr ((pn_inode p, []), s)"
  proof (cases "segs = []")
    case True
    then show ?thesis using W r by (simp add: conn_Node_def)
  next
    case False
    then show ?thesis using W r j Clean_plain [OF False] by (simp add: conn_Node_def fs_bind_def get_inode_def)
  qed
  ultimately show ?thesis
    using assms(3) by (simp add: pfs_Node_def pfs_LastNode_def root_inode_def fs_bind_def the_inode_def get_pnode_def)
qed

section \<open>Every operation keeps the links in order\<close>

definition free_name :: "nat \<Rightarrow> string \<Rightarrow> 'w PathNodeFs conn \<Rightarrow> bool" where
  "free_name n name s \<longleftrightarrow> (\<forall>p. pf_nodes (cn_w s) n = Some p \<longrightarrow> kid_at s (pn_inode p) name = None)"

lemma createChild_ok:
  assumes "createChild n name isDir s = Inr (x, s')" "tree_ok s" "free_name n name s" "plain_name name"
  shows "tree_ok s'"
proof -
  let ?w = "(cn_w s)\<lparr>pf_nextNode := Suc (pf_nextNode (cn_w s)),
      pf_nodes := (pf_nodes (cn_w s))(pf_nextNode (cn_w s) \<mapsto> \<lparr>pn_clientInode = 0, pn_inode = 0\<rparr>)\<rparr>"
  obtain p ch where p: "pf_nodes ?w n = Some p"
    and new: "ci_NewChild path_watcher (pn_inode p) name isDir (pf_nextNode (cn_w s)) (s\<lparr>cn_w := ?w\<rparr>) = Inr (ch, s')"
    using assms(1) by (auto simp: createChild_def fs_bind_Inr)
  have "kid_at s 0 name = None" using tree_okD(4) [OF assms(2)] by (simp add: kid_at_def)
  then have "kid_at s (pn_inode p) name = None"
    using assms(3) p by (cases "n = pf_nextNode (cn_w s)") (auto simp: free_name_def)
  then show ?thesis using pw.NewChild_ok [OF new] assms(2,4) by simp
qed

lemma free_name_same:
  "same_tree s s' \<Longrightarrow> pf_nodes (cn_w s') = pf_nodes (cn_w s) \<Longrightarrow> free_name n name s' = free_name n name s"
  by (auto simp: free_name_def dest!: same_treeD)

lemma same_tree_ok: "same_tree s s' \<Longrightarrow> tree_ok s' = tree_ok s"
  by (auto dest!: same_treeD)

lemma findChild_ok:
  assumes "findChild n fi name s = Inr (x, s')" "tree_ok s" "free_name n name s" "plain_name name"
  shows "tree_ok s'"
proof (cases "if a_Ino fi > 0 then pf_clientInodeMap (cn_w s) (a_Ino fi) else None")
  case None
  then obtain i ch t u where "createChild n name (IsDir fi) s = Inr ((i, ch), t)" "setClientInode i (a_Ino fi) t = Inr (u, s')"
    using assms(1) by (auto simp: findChild_def fs_bind_Inr)
  then show ?thesis using createChild_ok assms(2-4) setClientInode_same same_tree_ok by blast
next
  case (Some r)
  let ?s = "s\<lparr>cn_w := pf_clientInodeMap_update (\<lambda>m. m(a_Ino fi \<mapsto> r\<lparr>rc_refCount := rc_refCount r + 1\<rparr>)) (cn_w s)\<rparr>"
  obtain p b where p: "pf_nodes (cn_w s) n = Some p" and add: "ci_AddChild path_watcher (pn_inode p) name b ?s = Inr ((), s')"
    using assms(1) Some by (auto simp: findChild_def fs_bind_Inr)
  then show ?thesis using pw.AddChild_ok [OF add] assms(2-4) by (simp add: free_name_def)
qed

lemma OnRemove_nodes: "path_OnRemove n p nm s = Inr (u, s') \<Longrightarrow> pf_nodes (cn_w s') = pf_nodes (cn_w s)"
  by (auto simp: path_OnRemove_def fs_bind_Inr dest!: tracked_Inr split: if_splits)

lemma RmChild_nodes: "ci_RmChild path_watcher a name s = Inr (r, s') \<Longrightarrow> pf_nodes (cn_w s') = pf_nodes (cn_w s)"
proof -
  assume "ci_RmChild path_watcher a name s = Inr (r, s')"
  then have rm: "ci_rmChild path_watcher a name s = Inr (r, s')" by (auto simp: ci_RmChild_def fs_bind_Inr tree_lock_Inr)
  then consider "s' = s" | i c where "cn_inodes s a = Some i" "gm_get (in_children i) name = Some r" "cn_inodes s r = Some c"
    using pw.rmChild_unlink [OF rm] by (auto simp: kid_at_def)
  then show ?thesis
  proof cases
    case (2 i c)
    have "pf_nodes (cn_w s') = pf_nodes (cn_w (unlink a name r s))"
      using rm unfolding rmChild_eq [OF 2] by (auto simp: path_watcher_def fs_bind_Inr split: if_splits dest: OnRemove_nodes)
    then show ?thesis by (simp add: unlink_def)
  qed simp
qed

lemma GetChild_Inr: "ci_GetChild a name s = Inr (r, s') \<Longrightarrow> s' = s \<and> r = (case kid_at s a name of None \<Rightarrow> 0 | Some c \<Rightarrow> c)"
  by (auto simp: ci_GetChild_def fs_bind_Inr tree_lock_Inr kid_at_def)

text \<open>
  Partial correctness of sequences, to follow the operations step by step.
\<close>

definition hoare :: "('s \<Rightarrow> bool) \<Rightarrow> ('s, 'a) fsm \<Rightarrow> ('a \<Rightarrow> 's \<Rightarrow> bool) \<Rightarrow> bool" where
  "hoare P m Q \<longleftrightarrow> (\<forall>s x s'. P s \<longrightarrow> m s = Inr (x, s') \<longrightarrow> Q x s')"

named_theorems hoare_rules

lemma hoareD: "hoare P m Q \<Longrightarrow> m s = Inr (x, s') \<Longrightarrow> P s \<Longrightarrow> Q x s'"
  by (auto simp: hoare_def)

lemma hoare_bind [hoare_rules]: "hoare P m Q \<Longrightarrow> (\<And>x. hoare (Q x) (k x) R) \<Longrightarrow> hoare P (fs_bind m k) R"
  unfolding hoare_def fs_bind_Inr by blast

lemma hoare_return [hoare_rules]: "(\<And>s. P s \<Longrightarrow> Q x s) \<Longrightarrow> hoare P (fs_return x) Q"
  by (simp add: hoare_def)

lemma hoare_fault [hoare_rules]: "hoare P (fs_fault e) Q"
  by (simp add: hoare_def)

lemma hoare_if [hoare_rules]:
  "(b \<Longrightarrow> hoare P m Q) \<Longrightarrow> (\<not> b \<Longrightarrow> hoare P m' Q) \<Longrightarrow> hoare P (if b then m else m') Q"
  by simp

lemma hoare_pair [hoare_rules]: "(\<And>a b. x = (a, b) \<Longrightarrow> hoare P (f a b) Q) \<Longrightarrow> hoare P (case x of (a, b) \<Rightarrow> f a b) Q"
  by (cases x) simp

lemma hoare_deref [hoare_rules]: "hoare P (deref x) (\<lambda>_. P)"
  by (simp add: hoare_def deref_def split: option.splits)

lemma hoare_get [hoare_rules]: "hoare P (fs_get f) (\<lambda>_. P)"
  by (simp add: hoare_def)

lemma hoare_IsDir [hoare_rules]: "hoare P (ci_IsDir a) (\<lambda>_. P)"
  by (auto simp: hoare_def)

lemma hoare_get_pnode [hoare_rules]: "hoare P (get_pnode n) (\<lambda>_. P)"
  by (auto simp: hoare_def)

lemma hoare_GetPath [hoare_rules]: "hoare P (GetPath k n) (\<lambda>_. P)"
  by (auto simp: hoare_def dest: GetPath_same)

lemma hoare_child_path [hoare_rules]: "hoare P (child_path k n name) (\<lambda>_. P)"
  by (auto simp: hoare_def dest: child_path_same)

text \<open>The links are in order, and the node has the inode; the name is free below it.\<close>

definition node_at :: "nat \<Rightarrow> addr \<Rightarrow> 'w PathNodeFs conn \<Rightarrow> bool" where
  "node_at n a s \<longleftrightarrow> tree_ok s \<and> (\<exists>p. pf_nodes (cn_w s) n = Some p \<and> pn_inode p = a)"

lemma hoare_the_inode: "hoare tree_ok (the_inode n) (node_at n)"
  by (auto simp: hoare_def node_at_def)

lemma hoare_the_inode_free:
  "hoare (\<lambda>s. tree_ok s \<and> free_name n name s) (the_inode n) (\<lambda>a s. tree_ok s \<and> kid_at s a name = None)"
  by (auto simp: hoare_def free_name_def)

lemma hoare_pf_call:
  "hoare tree_ok (pf_call m) (\<lambda>_. tree_ok)"
  "hoare (\<lambda>s. tree_ok s \<and> free_name n name s) (pf_call m) (\<lambda>_ s. tree_ok s \<and> free_name n name s)"
  by (auto simp: hoare_def same_tree_ok free_name_same dest!: pf_call_same)

lemma hoare_GetChild:
  "hoare (node_at n a) (ci_GetChild a name) (\<lambda>known s. node_at n a s \<and> (known = 0 \<longrightarrow> kid_at s a name = None))"
proof -
  have "kid_at s a name \<noteq> Some 0" if "node_at n a s" for s :: "'a PathNodeFs conn"
    using that tree_okD(1) [of s a name 0] tree_okD(4) [of s] by (simp add: node_at_def parents_of_def)
  then show ?thesis unfolding hoare_def by (auto dest!: GetChild_Inr split: option.splits)
qed

lemma hoare_RmChild:
  "hoare (node_at n a) (ci_RmChild path_watcher b name) (\<lambda>ch s. node_at n a s \<and> kid_at s b name = None)"
  unfolding hoare_def node_at_def
proof (intro allI impI)
  fix s r s' assume s: "tree_ok s \<and> (\<exists>p. pf_nodes (cn_w s) n = Some p \<and> pn_inode p = a)"
    and rm: "ci_RmChild path_watcher b name s = Inr (r, s')"
  show "(tree_ok s' \<and> (\<exists>p. pf_nodes (cn_w s') n = Some p \<and> pn_inode p = a)) \<and> kid_at s' b name = None"
    using s pw.RmChild_ok(1,2) [OF rm] RmChild_nodes [OF rm] by simp
qed

lemma hoare_createChild:
  "plain_name name \<Longrightarrow> hoare (\<lambda>s. tree_ok s \<and> free_name n name s) (createChild n name d) (\<lambda>_. tree_ok)"
  by (auto simp: hoare_def dest: createChild_ok)

lemma hoare_findChild:
  "plain_name name \<Longrightarrow> hoare (\<lambda>s. node_at n a s \<and> kid_at s a name = None) (findChild n fi name) (\<lambda>_. tree_ok)"
  by (auto simp: hoare_def node_at_def free_name_def dest: findChild_ok)

lemma Lookup_ok:
  assumes "plain_name name"
  shows "hoare tree_ok (path_Lookup k fs n out name c) (\<lambda>_. tree_ok)"
proof -
  have found: "hoare (\<lambda>s. node_at n a s \<and> (node = 0 \<longrightarrow> kid_at s a name = None))
      (if code \<noteq> OK then fs_return (node, code, out)
       else fs_bind (deref fo) (\<lambda>fi. fs_bind (if node = 0 then findChild n fi name else fs_return node) (\<lambda>node'.
          fs_return (node', code, fi)))) (\<lambda>_. tree_ok)" for a node code fo
    using hoare_findChild [OF assms, of n a]
    by (intro hoare_if hoare_return hoare_bind [OF hoare_deref] hoare_bind [where Q = "\<lambda>_. tree_ok"])
      (auto simp: node_at_def hoare_def)
  have kept: "hoare (\<lambda>s. node_at n a s \<and> (known = 0 \<longrightarrow> kid_at s a name = None))
      (if stale then fs_bind (ci_RmChild path_watcher a name) (\<lambda>_. fs_return 0) else fs_return known)
      (\<lambda>node s. node_at n a s \<and> (node = 0 \<longrightarrow> kid_at s a name = None))" for a known stale
    using hoare_RmChild [of n a a name]
    by (intro hoare_if hoare_return hoare_bind [where Q = "\<lambda>_ s. node_at n a s \<and> kid_at s a name = None"]) (auto simp: hoare_def)
  have stale: "hoare P (if known = 0 then fs_return False else if code \<noteq> OK then fs_return True
      else fs_bind (ci_IsDir known) (\<lambda>dir. fs_bind (deref fo) (\<lambda>fi. fs_return (dir \<noteq> IsDir fi)))) (\<lambda>_. P)"
    for P :: "'a PathNodeFs conn \<Rightarrow> bool" and known code fo
    by (intro hoare_if hoare_return hoare_bind [OF hoare_IsDir] hoare_bind [OF hoare_deref])
  show ?thesis
    unfolding path_Lookup_def
    by (intro hoare_bind [OF hoare_child_path] hoare_bind [OF hoare_pf_call(1)] hoare_pair hoare_bind [OF hoare_the_inode]
        hoare_bind [OF hoare_GetChild] hoare_bind [OF stale] hoare_bind [OF kept] found)
qed

lemma make_ok:
  assumes "plain_name name"
  shows "hoare (\<lambda>s. tree_ok s \<and> free_name n name s) (path_Mknod k fs n name mode dev c) (\<lambda>_. tree_ok)"
    and "hoare (\<lambda>s. tree_ok s \<and> free_name n name s) (path_Mkdir k fs n name mode c) (\<lambda>_. tree_ok)"
    and "hoare (\<lambda>s. tree_ok s \<and> free_name n name s) (path_Symlink k fs n name target c) (\<lambda>_. tree_ok)"
    and "hoare (\<lambda>s. tree_ok s \<and> free_name n name s) (path_Create k fs n name flags mode c) (\<lambda>_. tree_ok)"
  unfolding path_Mknod_def path_Mkdir_def path_Symlink_def path_Create_def
  by (intro hoare_bind [OF hoare_child_path] hoare_bind [OF hoare_pf_call(2)] hoare_pair hoare_if hoare_return
      hoare_bind [OF hoare_createChild [OF assms]], simp_all)+

lemma remove_ok:
  "hoare tree_ok (path_Unlink k fs n name c) (\<lambda>_. tree_ok)" "hoare tree_ok (path_Rmdir k fs n name c) (\<lambda>_. tree_ok)"
  unfolding path_Unlink_def path_Rmdir_def
  by (intro hoare_bind [OF hoare_child_path] hoare_bind [OF hoare_pf_call(1)] hoare_if hoare_return
      hoare_bind [OF hoare_the_inode] hoare_bind [OF hoare_RmChild], simp_all add: node_at_def)+

lemma hoare_RmChild_free:
  "hoare (\<lambda>s. tree_ok s \<and> kid_at s b nm = None) (ci_RmChild path_watcher a name) (\<lambda>_ s. tree_ok s \<and> kid_at s b nm = None)"
  unfolding hoare_def
proof (intro allI impI)
  fix s :: "'a PathNodeFs conn" and r s' assume s: "tree_ok s \<and> kid_at s b nm = None"
    and rm: "ci_RmChild path_watcher a name s = Inr (r, s')"
  show "tree_ok s' \<and> kid_at s' b nm = None"
    using s pw.RmChild_ok(1,2) [OF rm] by simp
qed

lemma hoare_AddChild:
  "plain_name nm \<Longrightarrow> hoare (\<lambda>s. tree_ok s \<and> kid_at s a nm = None) (ci_AddChild path_watcher a nm ch) (\<lambda>_. tree_ok)"
  by (auto simp: hoare_def dest: pw.AddChild_ok)

lemma hoare_pf_upd: "hoare tree_ok (pf_upd f) (\<lambda>_. tree_ok)"
  by (simp add: hoare_def)

lemma Rename_ok:
  assumes "plain_name newName"
  shows "hoare tree_ok (path_Rename k fs n oldName p newName c) (\<lambda>_. tree_ok)"
proof -
  have inode: "hoare P (the_inode n) (\<lambda>_. P)" for P :: "'a PathNodeFs conn \<Rightarrow> bool" and n
    by (auto simp: hoare_def)
  have move: "hoare (\<lambda>s. tree_ok s \<and> kid_at s pa newName = None)
      (if ch \<noteq> 0 then ci_AddChild path_watcher pa newName ch else fs_return ()) (\<lambda>_. tree_ok)" for pa ch
    by (intro hoare_if hoare_return hoare_AddChild [OF assms]) simp
  have replace: "hoare (node_at p pa) (ci_RmChild path_watcher pa newName) (\<lambda>_ s. tree_ok s \<and> kid_at s pa newName = None)" for pa
    using hoare_RmChild [of p pa pa newName] by (auto simp: hoare_def node_at_def)
  show ?thesis
    unfolding path_Rename_def
    by (intro hoare_bind [OF hoare_get_pnode] hoare_bind [OF hoare_child_path] hoare_bind [OF hoare_pf_call(1)]
        hoare_if hoare_bind [OF hoare_the_inode] hoare_bind [OF replace] hoare_bind [OF inode]
        hoare_bind [OF hoare_RmChild_free] hoare_bind [OF move] hoare_return)
qed

lemma Link_ok:
  assumes "plain_name name"
  shows "hoare (\<lambda>s. tree_ok s \<and> free_name n name s) (path_Link k fs n name existing c) (\<lambda>_. tree_ok)"
proof -
  have same: "hoare P (if pn_clientInode ex \<noteq> 0 then fs_bind (deref ao) (\<lambda>at. fs_return (pn_clientInode ex = a_Ino at))
      else fs_return False) (\<lambda>_. P)" for P :: "'a PathNodeFs conn \<Rightarrow> bool" and ex ao
    by (intro hoare_if hoare_bind [OF hoare_deref] hoare_return)
  show ?thesis
    unfolding path_Link_def
    by (intro hoare_bind [OF hoare_get] hoare_if hoare_bind [OF hoare_child_path] hoare_bind [OF hoare_get_pnode]
        hoare_bind [OF hoare_GetPath] hoare_bind [OF hoare_pf_call(2)] hoare_pair hoare_bind [OF same]
        hoare_bind [OF hoare_the_inode_free] hoare_bind [OF hoare_AddChild [OF assms]]
        hoare_bind [OF hoare_createChild [OF assms]] hoare_bind [OF hoare_deref] hoare_bind [OF hoare_pf_upd] hoare_return)
      simp_all
qed

text \<open>A new connector starts with the root alone.\<close>

lemma new_connector_ok:
  assumes "NewFileSystemConnector owner (path_Node k F fs) root opts w = Inr s"
  shows "tree_ok s"
proof -
  let ?s0 = "\<lparr>cn_w = w, cn_inodes = (\<lambda>_. None), cn_mounts = (\<lambda>_. None), cn_opened = (\<lambda>_. None), cn_next = 1,
      cn_inodeMap = (\<lambda>_. zero_handled, newPortableHandleMap), cn_rootNode = 0\<rparr>"
  obtain r s1 where new: "ci_newInode (path_Node k F fs) True root ?s0 = Inr (r, s1)"
    and rest: "\<exists>x. fs_bind (fs_step (\<lambda>s. Inr (s\<lparr>cn_rootNode := r\<rparr>))) (\<lambda>_.
        fs_bind (ci_mountFs (case opts of None \<Rightarrow> NewOptions owner | Some o' \<Rightarrow> o') r) (\<lambda>_. lookupUpdate r)) s1 = Inr (x, s)"
    using assms by (auto simp: NewFileSystemConnector_def Let_def bind_go_eq_Inr fs_bind_Inr)
  obtain v where "r = 1" and s1: "s1 = ?s0\<lparr>cn_next := 2, cn_inodes := [1 \<mapsto>
      \<lparr>in_openFiles = [], in_fsInode = root, in_mount = 0, in_children = Some [], in_parents = [], in_mountPoint = 0\<rparr>], cn_w := v\<rparr>"
    using pn.newInode_new [OF new] by auto
  then have "cn_inodes s = [1 \<mapsto> \<lparr>in_openFiles = [], in_fsInode = root, in_mount = 2, in_children = Some [],
      in_parents = [], in_mountPoint = 2\<rparr>]" "cn_next s = 3"
    using rest by (auto simp: fs_bind_Inr fs_step_def ci_mountFs_def lookupUpdate_def bind_go_eq_Inr upd_inode_def)
  then show ?thesis by (intro tree_okI) (auto simp: kid_at_def parents_of_def split: if_splits)
qed

text \<open>
  C23: The links of the tree stay in order: the tree of a new connector is in order, and whatever the
  file system answers, Lookup, Rename, Unlink and Rmdir of a node of \<^verbatim>\<open>pathfs\<close> leave it in order when they
  return. So do Mknod, Mkdir, Symlink, Create and Link under a name that is not in use in the tree.
  (Names are plain: neither empty, nor a dot, nor two dots, and without a slash.)
\<close>

theorem path_ops_keep_tree:
  assumes "tree_ok s" and "plain_name name" and "plain_name newName"
  shows "(NewFileSystemConnector owner (path_Node k F fs) root opts w = Inr s0 \<longrightarrow> tree_ok s0)
    \<and> (path_Lookup k fs n out name c s = Inr (found, s') \<longrightarrow> tree_ok s')
    \<and> (path_Rename k fs n name p newName c s = Inr (code, s') \<longrightarrow> tree_ok s')
    \<and> (path_Unlink k fs n name c s = Inr (code, s') \<or> path_Rmdir k fs n name c s = Inr (code, s') \<longrightarrow> tree_ok s')
    \<and> (free_name n name s \<and>
       (path_Mknod k fs n name mode dev c s = Inr (made, s') \<or> path_Mkdir k fs n name mode c s = Inr (made, s')
        \<or> path_Symlink k fs n name target c s = Inr (made, s') \<or> path_Create k fs n name flags mode c s = Inr (created, s')
        \<or> path_Link k fs n name p c s = Inr (made, s')) \<longrightarrow> tree_ok s')"
proof (intro conjI impI)
  show "tree_ok s'" if "path_Lookup k fs n out name c s = Inr (found, s')"
    by (rule hoareD [OF Lookup_ok [OF assms(2)] that assms(1)])
  show "tree_ok s'" if "path_Rename k fs n name p newName c s = Inr (code, s')"
    by (rule hoareD [OF Rename_ok [OF assms(3)] that assms(1)])
  show "tree_ok s'" if "path_Unlink k fs n name c s = Inr (code, s') \<or> path_Rmdir k fs n name c s = Inr (code, s')"
    using that hoareD [OF remove_ok(1) _ assms(1)] hoareD [OF remove_ok(2) _ assms(1)] by blast
  show "tree_ok s'" if "free_name n name s \<and>
       (path_Mknod k fs n name mode dev c s = Inr (made, s') \<or> path_Mkdir k fs n name mode c s = Inr (made, s')
        \<or> path_Symlink k fs n name target c s = Inr (made, s') \<or> path_Create k fs n name flags mode c s = Inr (created, s')
        \<or> path_Link k fs n name p c s = Inr (made, s'))"
  proof -
    have ok: "tree_ok s \<and> free_name n name s" using assms(1) that by simp
    from that show ?thesis
      by (elim conjE disjE)
        (drule hoareD [OF make_ok(1) [OF assms(2)]] hoareD [OF make_ok(2) [OF assms(2)]] hoareD [OF make_ok(3) [OF assms(2)]]
          hoareD [OF make_ok(4) [OF assms(2)]] hoareD [OF Link_ok [OF assms(2)]], rule ok, assumption)+
  qed
qed (rule new_connector_ok)

text \<open>A connector over a file system in which every name is a link to one file, before and after a lookup.\<close>

definition one_file :: Attr where
  "one_file = zero_Attr\<lparr>a_Ino := 5, a_Mode := 33188, a_Nlink := 1\<rparr>"

definition one_file_fs :: "unit FileSystem" where
  "one_file_fs = defaultFileSystem\<lparr>p_GetAttr := \<lambda>name c. fs_return (Some one_file, OK), p_Link := \<lambda>_ _ _. fs_return OK,
     p_Unlink := \<lambda>_ _. fs_return OK\<rparr>"

definition no_files :: "unit PathNodeFs file_ops" where
  "no_files = defaultFile (\<lambda>_ _. fs_return ([], ENOSYS))"

definition nobody :: Owner where
  "nobody = \<lparr>Uid = 0, Gid = 0\<rparr>"

definition demo_inode :: "nat \<Rightarrow> (string, addr) gomap \<Rightarrow> (addr \<times> string) list \<Rightarrow> addr \<Rightarrow> cInode" where
  "demo_inode f chs ps mp =
     \<lparr>in_openFiles = [], in_fsInode = f, in_mount = 2, in_children = chs, in_parents = ps, in_mountPoint = mp\<rparr>"

definition demo_conn :: "(nat \<rightharpoonup> pathInode) \<Rightarrow> nat \<Rightarrow> (u64 \<rightharpoonup> refCountedInode) \<Rightarrow> (addr \<rightharpoonup> cInode) \<Rightarrow> addr \<Rightarrow> unit PathNodeFs conn" where
  "demo_conn nodes nextNode clients inodes next =
     \<lparr>cn_w = \<lparr>pf_w = (), pf_nodes = nodes, pf_nextNode = nextNode, pf_root = 0, pf_clientInodeMap = clients,
        pf_ClientInodes = True, pf_debug = False\<rparr>,
      cn_inodes = inodes,
      cn_mounts = [2 \<mapsto> \<lparr>mt_mountInode = 1, mt_parentInode = 0, mt_options = NewOptions nobody,
        mt_openFiles = (\<lambda>_. zero_handled, newPortableHandleMap)\<rparr>],
      cn_opened = Map.empty, cn_next = next,
      cn_inodeMap = ((\<lambda>_. zero_handled)(1 := \<lparr>hd_handle = 2, hd_generation = 1, hd_count = 1\<rparr>),
        \<lparr>hm_generation = 1, hm_used = 1, hm_handles = [None, None, Some 1], hm_freeIds = []\<rparr>),
      cn_rootNode = 1\<rparr>"

definition demo_start :: "unit PathNodeFs conn" where
  "demo_start = demo_conn [0 \<mapsto> \<lparr>pn_clientInode = 0, pn_inode = 1\<rparr>] 1 Map.empty [1 \<mapsto> demo_inode 0 (Some []) [] 2] 3"

definition demo_found :: "unit PathNodeFs conn" where
  "demo_found = demo_conn [0 \<mapsto> \<lparr>pn_clientInode = 0, pn_inode = 1\<rparr>, 1 \<mapsto> \<lparr>pn_clientInode = 5, pn_inode = 3\<rparr>] 2
     [5 \<mapsto> \<lparr>rc_node = 1, rc_refCount = 1\<rparr>]
     [1 \<mapsto> demo_inode 0 (Some [(''a'', 3)]) [] 2, 3 \<mapsto> demo_inode 1 None [(1, ''a'')] 0] 4"

named_theorems demo_simps

lemmas demo_defs [demo_simps] = demo_conn_def demo_inode_def one_file_fs_def

lemmas step_defs [demo_simps] = fs_bind_def get_inode_def put_inode_def upd_inode_def fs_step_def get_pnode_def the_inode_def
  pf_upd_def upd_pnode_def pf_call_def conn_lift_def pf_inner_def child_path_def GetPath_def deref_def tree_lock_def

lemmas tree_defs [demo_simps] = ci_newInode_def ci_NewChild_def ci_AddChild_def ci_addChild_def ci_RmChild_def ci_rmChild_def
  ci_GetChild_def ci_IsDir_def path_watcher_def createChild_def setClientInode_def tracked_def gm_get_def gm_entries_def
  gm_set_def gm_del_def

lemma one_file_simps [demo_simps]: "a_Ino one_file = 5" "\<not> IsDir one_file"
  by (simp_all add: one_file_def IsDir_def zero_Attr_def S_IFMT_def S_IFDIR_def)

lemma demo_start_new:
  "NewFileSystemConnector nobody (path_Node 9 no_files one_file_fs) 0 None (NewPathNodeFs True ()) = Inr demo_start"
  by (simp add: NewFileSystemConnector_def NewPathNodeFs_def ci_mountFs_def lookupUpdate_def Register_def newPortableHandleMap_def
      zero_handled_def path_Node_def demo_start_def demo_simps fun_eq_iff)

lemma demo_lookup:
  "path_Lookup 9 one_file_fs 0 zero_Attr ''a'' None demo_start = Inr ((3, OK, one_file), demo_found)"
  by (simp add: path_Lookup_def findChild_def demo_start_def demo_found_def demo_simps fun_eq_iff)

lemma demo_names: "plain_name ''a''" "plain_name ''b''"
  by (simp_all add: plain_name_def)

theorem path_ops_keep_tree_witness: "tree_ok demo_start \<and> tree_ok demo_found"
proof -
  have "tree_ok demo_start" using new_connector_ok demo_start_new by blast
  then show ?thesis
    using path_ops_keep_tree [where s = demo_start and name = "''a''" and newName = "''b''" and s' = demo_found] demo_names demo_lookup
    by blast
qed

lemma demo_below: "below demo_found 1 3 [''a'']"
  using below.step [OF below.top [of demo_found 1 "demo_inode 0 (Some [(''a'', 3)]) [] 2"],
      of 3 "demo_inode 1 None [(1, ''a'')] 0" "''a''" "[]"]
  by (simp add: demo_found_def demo_conn_def demo_inode_def)

theorem path_leads_back_witness:
  "GetPath 2 1 demo_found = Inr (''a'', demo_found) \<and> pfs_Node ''a'' demo_found = Inr (3, demo_found)"
proof -
  have "tree_ok demo_found"
    using new_connector_ok [OF demo_start_new] hoareD [OF Lookup_ok [OF demo_names(1)] demo_lookup] by blast
  moreover have "pf_nodes (cn_w demo_found) 1 = Some \<lparr>pn_clientInode = 5, pn_inode = 3\<rparr>"
    "pf_nodes (cn_w demo_found) (pf_root (cn_w demo_found)) = Some \<lparr>pn_clientInode = 0, pn_inode = 1\<rparr>"
    by (simp_all add: demo_found_def demo_conn_def)
  ultimately show ?thesis
    using path_leads_back [of demo_found 1 "\<lparr>pn_clientInode = 5, pn_inode = 3\<rparr>" "\<lparr>pn_clientInode = 0, pn_inode = 1\<rparr>" "[''a'']" 2]
      demo_below by simp
qed

section \<open>Files with several names\<close>

lemma pf_call_eq: "m (pf_w (cn_w s)) = Inr (x, v) \<Longrightarrow> pf_call m s = Inr (x, s\<lparr>cn_w := (cn_w s)\<lparr>pf_w := v\<rparr>\<rparr>)"
  by (simp add: pf_call_def conn_lift_def pf_inner_def)

lemma AddChild_path:
  assumes "cn_inodes s n = Some i" "in_mount i \<noteq> 0" "gm_set (in_children i) name ch = Inr cs" "cn_inodes s ch = Some c" "ch \<noteq> 0"
  shows "ci_AddChild path_watcher n name ch s = Inr ((), link n name ch cs s)"
  using assms by (simp add: ci_AddChild_def tree_lock_def fs_bind_def get_inode_def addChild_eq [OF assms(1,3,4)] path_watcher_def)

text \<open>A directory of the tree in which a name is free, and a file of the tree that has a client inode.\<close>

definition dir_without :: "'w PathNodeFs conn \<Rightarrow> nat \<Rightarrow> string \<Rightarrow> addr \<Rightarrow> bool" where
  "dir_without s n name a \<longleftrightarrow> (\<exists>p i. pf_nodes (cn_w s) n = Some p \<and> pn_inode p = a \<and> cn_inodes s a = Some i
     \<and> in_mount i \<noteq> 0 \<and> in_children i \<noteq> None \<and> gm_get (in_children i) name = None)"

definition file_with :: "'w PathNodeFs conn \<Rightarrow> u64 \<Rightarrow> i64 \<Rightarrow> nat \<Rightarrow> addr \<Rightarrow> bool" where
  "file_with s ino cnt e b \<longleftrightarrow> (\<exists>q j. pf_nodes (cn_w s) e = Some q \<and> pn_inode q = b \<and> pn_clientInode q = ino \<and> ino \<noteq> 0
     \<and> cn_inodes s b = Some j \<and> in_fsInode j = e \<and> in_mountPoint j = 0 \<and> in_children j = None \<and> pf_ClientInodes (cn_w s)
     \<and> pf_clientInodeMap (cn_w s) ino = Some \<lparr>rc_node = e, rc_refCount = cnt\<rparr>)"

text \<open>
  C26: A lookup of another name of a file that is already in the tree, recognised by its client inode,
  returns the inode of that file. The file gains the name, its count grows by one, and neither a node
  nor an inode is made.
\<close>

theorem lookup_shares_inode:
  assumes "tree_ok s" and "dir_without s n name a" and "file_with s ino cnt e b"
    and "child_path k n name s = Inr (path, s)" and "p_GetAttr fs path c (pf_w (cn_w s)) = Inr ((Some fi, OK), v)" and "a_Ino fi = ino"
  shows "\<exists>s'. path_Lookup k fs n out name c s = Inr ((b, OK, fi), s')
    \<and> parents_of s' = (parents_of s)(b := insert (a, name) (parents_of s b)) \<and> kid_at s' a name = Some b
    \<and> pf_clientInodeMap (cn_w s') = (pf_clientInodeMap (cn_w s))(ino \<mapsto> \<lparr>rc_node = e, rc_refCount = cnt + 1\<rparr>)
    \<and> pf_nodes (cn_w s') = pf_nodes (cn_w s) \<and> cn_next s' = cn_next s"
proof -
  obtain p i where p: "pf_nodes (cn_w s) n = Some p" "pn_inode p = a" and i: "cn_inodes s a = Some i"
    "in_mount i \<noteq> 0" "gm_get (in_children i) name = None" "in_children i \<noteq> None"
    using assms(2) by (auto simp: dir_without_def)
  obtain q j where q: "pf_nodes (cn_w s) e = Some q" "pn_inode q = b" and j: "cn_inodes s b = Some j"
    and m: "pf_clientInodeMap (cn_w s) ino = Some \<lparr>rc_node = e, rc_refCount = cnt\<rparr>" "ino \<noteq> 0"
    using assms(3) by (auto simp: file_with_def)
  have b: "b \<noteq> 0" using j tree_okD(4) [OF assms(1)] by (metis option.distinct(1))
  obtain cs where cs: "gm_set (in_children i) name b = Inr cs" using i by (auto simp: gm_set_def)
  let ?t = "s\<lparr>cn_w := pf_clientInodeMap_update (\<lambda>m. m(ino \<mapsto> \<lparr>rc_node = e, rc_refCount = cnt + 1\<rparr>)) ((cn_w s)\<lparr>pf_w := v\<rparr>)\<rparr>"
  have add: "ci_AddChild path_watcher a name b ?t = Inr ((), link a name b cs ?t)"
    using i cs j b by (intro AddChild_path) auto
  have "path_Lookup k fs n out name c s = Inr ((b, OK, fi), link a name b cs ?t)"
    using assms(4-6) p q i m add
    by (simp add: path_Lookup_def findChild_def fs_bind_eq fs_bind_def pf_call_eq the_inode_def get_pnode_def ci_GetChild_def
        tree_lock_def get_inode_def deref_def pf_upd_def fs_step_def word_neq_0_conv)
  moreover have "parents_of (link a name b cs ?t) = (parents_of s)(b := insert (a, name) (parents_of s b))"
    "kid_at (link a name b cs ?t) a name = Some b"
    using link_links [of ?t a i name b cs j] i cs j by (auto simp: fun_eq_iff)
  ultimately show ?thesis by (intro exI [of _ "link a name b cs ?t"]) (simp add: link_def)
qed

lemma demo_found_ok: "tree_ok demo_found"
  using new_connector_ok [OF demo_start_new] hoareD [OF Lookup_ok [OF demo_names(1)] demo_lookup] by blast

lemma demo_found_nodes: "dir_without demo_found 0 ''b'' 1" "file_with demo_found 5 1 1 3"
  by (simp_all add: dir_without_def file_with_def demo_found_def demo_conn_def demo_inode_def gm_get_def gm_entries_def)

lemma demo_found_paths: "child_path 9 0 ''b'' demo_found = Inr (''b'', demo_found)" "GetPath 9 1 demo_found = Inr (''a'', demo_found)"
  by (simp_all add: demo_found_def demo_conn_def demo_inode_def child_path_def GetPath_def fs_bind_def path_Join_def Clean_def
      the_inode_def get_pnode_def eval_nat_numeral ci_Parent_def get_inode_def)

lemmas demo_found_facts = demo_found_ok demo_found_nodes demo_found_paths

theorem lookup_shares_inode_witness:
  "\<exists>s'. path_Lookup 9 one_file_fs 0 zero_Attr ''b'' None demo_found = Inr ((3, OK, one_file), s')
    \<and> kid_at s' 1 ''b'' = Some 3 \<and> pf_clientInodeMap (cn_w s') 5 = Some \<lparr>rc_node = 1, rc_refCount = 2\<rparr>"
  using lookup_shares_inode [where s = demo_found and n = 0 and name = "''b''" and a = 1 and ino = 5 and cnt = 1 and e = 1 and b = 3
      and k = 9 and path = "''b''" and fs = one_file_fs and c = None and fi = one_file and v = "()" and out = zero_Attr]
    demo_found_facts
  by (auto simp: one_file_fs_def one_file_simps)

text \<open>
  C39: Link adds a name to a file without counting it. When the file had one name, removing the new
  name again takes the entry of its client inode away although the first name is still in the tree, so
  that a later lookup of another name no longer finds the file.
\<close>

theorem link_not_counted:
  assumes "tree_ok s" and "dir_without s n name a" and "file_with s ino 1 e b"
    and "child_path k n name s = Inr (newPath, s)" and "GetPath k e s = Inr (oldPath, s)"
    and "p_Link fs oldPath newPath c (pf_w (cn_w s)) = Inr (OK, v)"
    and "p_GetAttr fs newPath c v = Inr ((Some fi, OK), v')" and "a_Ino fi = ino"
  shows "\<exists>s1 s2. path_Link k fs n name e c s = Inr ((b, OK), s1)
    \<and> pf_clientInodeMap (cn_w s1) = pf_clientInodeMap (cn_w s) \<and> parents_of s1 b = insert (a, name) (parents_of s b)
    \<and> ci_RmChild path_watcher a name s1 = Inr (b, s2)
    \<and> pf_clientInodeMap (cn_w s2) ino = None \<and> parents_of s2 b = parents_of s b"
proof -
  obtain p i where p: "pf_nodes (cn_w s) n = Some p" "pn_inode p = a" and i: "cn_inodes s a = Some i"
    "in_mount i \<noteq> 0" "gm_get (in_children i) name = None" "in_children i \<noteq> None"
    using assms(2) by (auto simp: dir_without_def)
  obtain q j where q: "pf_nodes (cn_w s) e = Some q" "pn_inode q = b" "pn_clientInode q = ino" "ino \<noteq> 0"
    and j: "cn_inodes s b = Some j" "in_fsInode j = e" "in_mountPoint j = 0" "in_children j = None"
    and m: "pf_ClientInodes (cn_w s)" "pf_clientInodeMap (cn_w s) ino = Some \<lparr>rc_node = e, rc_refCount = 1\<rparr>"
    using assms(3) by (auto simp: file_with_def)
  have b: "b \<noteq> 0" using j tree_okD(4) [OF assms(1)] by (metis option.distinct(1))
  obtain cs where cs: "gm_set (in_children i) name b = Inr cs" using i by (auto simp: gm_set_def)
  have "a \<noteq> b" using i j by auto
  let ?t = "s\<lparr>cn_w := (cn_w s)\<lparr>pf_w := v'\<rparr>\<rparr>"
  let ?s1 = "link a name b cs ?t"
  have "ci_AddChild path_watcher a name b ?t = Inr ((), ?s1)"
    using i cs j b by (intro AddChild_path) auto
  then have L: "path_Link k fs n name e c s = Inr ((b, OK), ?s1)"
    using assms(4-8) p q i m
    by (simp add: path_Link_def fs_bind_eq fs_bind_def pf_call_eq the_inode_def get_pnode_def deref_def word_neq_0_conv)
  have links: "parents_of ?s1 b = insert (a, name) (parents_of s b)"
    using link_links(2) [of ?t a i name b cs j b] i cs j by simp
  let ?i = "i\<lparr>in_children := cs\<rparr>" and ?j = "j\<lparr>in_parents := List.insert (a, name) (in_parents j)\<rparr>"
  have after: "cn_inodes ?s1 a = Some ?i" "gm_get (in_children ?i) name = Some b" "cn_inodes ?s1 b = Some ?j"
    using i j cs \<open>a \<noteq> b\<close> by (simp_all add: link_def gm_get_set [OF cs])
  let ?u = "unlink a name b ?s1"
  let ?s2 = "?u\<lparr>cn_w := pf_clientInodeMap_update (\<lambda>m. m(ino := None)) (cn_w ?u)\<rparr>"
  have w: "cn_w ?u = (cn_w s)\<lparr>pf_w := v'\<rparr>" by (simp add: unlink_def link_def)
  have isfile: "\<exists>x. cn_inodes ?u b = Some x \<and> in_children x = None"
    using j \<open>a \<noteq> b\<close> by (simp add: unlink_def link_def)
  have "path_OnRemove e a name ?u = Inr ((), ?s2)"
    using q j m isfile w
    by (auto simp: path_OnRemove_def fs_bind_def get_pnode_def tracked_def ci_IsDir_def get_inode_def pf_upd_def fs_step_def)
  then have "ci_RmChild path_watcher a name ?s1 = Inr (b, ?s2)"
    using rmChild_eq [OF after, of path_watcher] after i j
    by (simp add: ci_RmChild_def tree_lock_def fs_bind_def get_inode_def path_watcher_def)
  moreover have "parents_of ?s2 b = parents_of s b"
  proof -
    have "(a, name) \<notin> parents_of s b"
      using tree_okD(1) [OF assms(1), of a name b] i by (simp add: kid_at_def)
    then show ?thesis using unlink_links(2) [OF after(1,3), of name b] links by simp
  qed
  moreover have "pf_clientInodeMap (cn_w ?s2) ino = None" "pf_clientInodeMap (cn_w ?s1) = pf_clientInodeMap (cn_w s)"
    by (simp_all add: w link_def)
  ultimately show ?thesis using L links by blast
qed

theorem link_not_counted_witness:
  "\<exists>s1 s2. path_Link 9 one_file_fs 0 ''b'' 1 None demo_found = Inr ((3, OK), s1)
    \<and> ci_RmChild path_watcher 1 ''b'' s1 = Inr (3, s2) \<and> pf_clientInodeMap (cn_w s2) 5 = None \<and> parents_of s2 3 = {(1, ''a'')}"
proof -
  have "parents_of demo_found 3 = {(1, ''a'')}" by (simp add: parents_of_def demo_found_def demo_conn_def demo_inode_def)
  then show ?thesis
    using link_not_counted [where s = demo_found and n = 0 and name = "''b''" and a = 1 and ino = 5 and e = 1 and b = 3
        and k = 9 and newPath = "''b''" and oldPath = "''a''" and fs = one_file_fs and c = None and fi = one_file and v = "()" and v' = "()"]
      demo_found_facts
    by (auto simp: one_file_fs_def one_file_simps)
qed

end
