(* ===== verification/PathForget.thy ===== *)
theory PathForget
  imports PathProps
begin

text \<open>
  What happens when the kernel forgets an inode of a connector whose nodes are those of \<^verbatim>\<open>pathfs\<close>.
\<close>

section \<open>Forgetting\<close>

lemma tracked_total:
  assumes "cn_inodes s (pn_inode p) = Some i"
  shows "tracked n p s = Inr (pf_ClientInodes (cn_w s) \<and> in_children i = None, s)"
  using assms by (simp add: tracked_def fs_bind_def ci_IsDir_def get_inode_def)

lemma OnRemove_total:
  assumes "pf_nodes (cn_w s) f = Some p" and "cn_inodes s (pn_inode p) \<noteq> None"
  shows "\<exists>w. path_OnRemove f a nm s = Inr ((), s\<lparr>cn_w := w\<rparr>) \<and> pf_nodes w = pf_nodes (cn_w s)"
proof -
  obtain i where "cn_inodes s (pn_inode p) = Some i" using assms(2) by blast
  then obtain s' where r: "path_OnRemove f a nm s = Inr ((), s')"
    using assms(1)
    by (cases "pn_clientInode p = 0"; cases "pf_ClientInodes (cn_w s) \<and> in_children i = None")
      (simp_all add: path_OnRemove_def fs_bind_def get_pnode_def tracked_total pf_upd_def fs_step_def)
  then show ?thesis using OnRemove_same [OF r] OnRemove_nodes [OF r] by (auto dest!: same_treeD)
qed

lemma OnForget_total:
  assumes "pf_nodes (cn_w s) f = Some p" and "cn_inodes s (pn_inode p) \<noteq> None"
  shows "\<exists>w. path_OnForget f s = Inr ((), s\<lparr>cn_w := w\<rparr>)"
proof -
  obtain i where "cn_inodes s (pn_inode p) = Some i" using assms(2) by blast
  then obtain s' where r: "path_OnForget f s = Inr ((), s')"
    using assms(1)
    by (cases "pn_clientInode p = 0"; cases "pf_ClientInodes (cn_w s) \<and> in_children i = None")
      (simp_all add: path_OnForget_def fs_bind_def get_pnode_def tracked_total pf_upd_def fs_step_def)
  then show ?thesis using OnForget_same [OF r] by (auto dest!: same_treeD)
qed

text \<open>A node of \<^verbatim>\<open>pathfs\<close> at an inode that is not the root of a mount.\<close>

definition path_node_at :: "'w PathNodeFs conn \<Rightarrow> addr \<Rightarrow> nat \<Rightarrow> bool" where
  "path_node_at s n f \<longleftrightarrow> (\<exists>i p. cn_inodes s n = Some i \<and> in_fsInode i = f \<and> in_mountPoint i = 0
     \<and> pf_nodes (cn_w s) f = Some p \<and> pn_inode p = n)"

lemma path_rmChild:
  assumes ok: "tree_ok s" and kid: "kid_at s a nm = Some n" and node: "path_node_at s n f"
  shows "\<exists>s'. ci_rmChild (path_Node k F fs) a nm s = Inr (n, s') \<and> tree_ok s' \<and> path_node_at s' n f
    \<and> parents_of s' = (parents_of s)(n := parents_of s n - {(a, nm)}) \<and> cn_inodeMap s' = cn_inodeMap s
    \<and> (\<forall>b. cn_inodes s' b = None \<longleftrightarrow> cn_inodes s b = None)"
proof -
  obtain i where i: "cn_inodes s a = Some i" "gm_get (in_children i) nm = Some n"
    using kid by (auto simp: kid_at_def bind_eq_Some_conv)
  obtain j p where j: "cn_inodes s n = Some j" "in_fsInode j = f" "in_mountPoint j = 0" "pf_nodes (cn_w s) f = Some p" "pn_inode p = n"
    using node by (auto simp: path_node_at_def)
  let ?u = "unlink a nm n s"
  obtain w where w: "path_OnRemove f a nm ?u = Inr ((), ?u\<lparr>cn_w := w\<rparr>)" "pf_nodes w = pf_nodes (cn_w s)"
  proof -
    have "pf_nodes (cn_w ?u) f = Some p" "cn_inodes ?u (pn_inode p) \<noteq> None" using i j by (auto simp: unlink_def)
    from OnRemove_total [OF this, of a nm] that show ?thesis by (auto simp: unlink_def)
  qed
  have "ci_rmChild (path_Node k F fs) a nm s = Inr (n, ?u\<lparr>cn_w := w\<rparr>)"
    using rmChild_eq [OF i j(1), of "path_Node k F fs"] j w by (simp add: path_Node_def path_watcher_def fs_bind_def)
  moreover have "path_node_at (?u\<lparr>cn_w := w\<rparr>) n f" using j w by (auto simp: path_node_at_def unlink_def)
  moreover have "parents_of ?u = (parents_of s)(n := parents_of s n - {(a, nm)})"
    using unlink_links(2) [OF i(1) j(1)] by (simp add: fun_eq_iff)
  moreover have "tree_ok ?u" by (rule unlink_ok [OF ok i(1) j(1) kid])
  moreover have "cn_inodeMap ?u = cn_inodeMap s" "\<forall>b. cn_inodes ?u b = None \<longleftrightarrow> cn_inodes s b = None"
    by (simp_all add: unlink_def)
  ultimately show ?thesis by (intro exI [of _ "?u\<lparr>cn_w := w\<rparr>"]) simp
qed

lemma drop_parents_spec:
  assumes "tree_ok s" and "path_node_at s n f"
    and "\<forall>(a, nm)\<in>set ps. cn_inodes s a \<noteq> None \<and> (kid_at s a nm = None \<or> kid_at s a nm = Some n)"
  shows "\<exists>s'. drop_parents (path_Node k F fs) ps s = Inr ((), s') \<and> tree_ok s' \<and> path_node_at s' n f
    \<and> parents_of s' = (parents_of s)(n := parents_of s n - set ps) \<and> cn_inodeMap s' = cn_inodeMap s"
  using assms
proof (induction ps arbitrary: s)
  case Nil
  then show ?case by (intro exI [of _ s]) simp
next
  case (Cons q ps)
  obtain a nm where q: "q = (a, nm)" by (cases q)
  obtain r t where rm: "ci_rmChild (path_Node k F fs) a nm s = Inr (r, t)" and t: "tree_ok t" "path_node_at t n f"
    "parents_of t = (parents_of s)(n := parents_of s n - {(a, nm)})" "cn_inodeMap t = cn_inodeMap s"
    "\<forall>b. cn_inodes t b = None \<longleftrightarrow> cn_inodes s b = None"
  proof (cases "kid_at s a nm")
    case None
    then have "(a, nm) \<notin> parents_of s n" using tree_okD(1) [OF Cons.prems(1), of a nm n] by simp
    moreover obtain i where "cn_inodes s a = Some i" using Cons.prems(3) q by auto
    then have "ci_rmChild (path_Node k F fs) a nm s = Inr (0, s)"
      using None by (simp add: ci_rmChild_def fs_bind_def get_inode_def kid_at_def)
    moreover have "parents_of s = (parents_of s)(n := parents_of s n - {(a, nm)})"
      using \<open>(a, nm) \<notin> parents_of s n\<close> by (simp add: fun_eq_iff)
    ultimately show ?thesis using Cons.prems(1,2) by (intro that [of 0 s]) simp_all
  next
    case (Some m)
    then have "kid_at s a nm = Some n" using Cons.prems(3) q by auto
    from path_rmChild [OF Cons.prems(1) this Cons.prems(2), of k F fs] show ?thesis by (elim exE conjE) (rule that)
  qed
  have "cn_inodes t b \<noteq> None \<and> (kid_at t b m = None \<or> kid_at t b m = Some n)" if "(b, m) \<in> set ps" for b m
  proof -
    have "(b, m) \<in> set (q # ps)" using that by simp
    from bspec [OF Cons.prems(3) this] have "cn_inodes s b \<noteq> None" "kid_at s b m = None \<or> kid_at s b m = Some n" by simp_all
    then show ?thesis using pn.rmChild_ok(2) [OF rm Cons.prems(1), of b m] t(5) by simp
  qed
  then have "\<forall>(a, nm)\<in>set ps. cn_inodes t a \<noteq> None \<and> (kid_at t a nm = None \<or> kid_at t a nm = Some n)" by auto
  from Cons.IH [OF t(1,2) this] obtain s' where s': "drop_parents (path_Node k F fs) ps t = Inr ((), s')" "tree_ok s'"
    "path_node_at s' n f" "parents_of s' = (parents_of t)(n := parents_of t n - set ps)" "cn_inodeMap s' = cn_inodeMap t"
    by (elim exE conjE) (rule that)
  have "drop_parents (path_Node k F fs) (q # ps) s = Inr ((), s')" using rm s'(1) q by (simp add: fs_bind_def)
  moreover have "parents_of s' = (parents_of s)(n := parents_of s n - set (q # ps))"
    unfolding s'(4) t(3) q by (simp, intro arg_cong [where f = "\<lambda>x. (parents_of s)(n := x)"]) auto
  moreover have "cn_inodeMap s' = cn_inodeMap s" using s'(5) t(4) by simp
  ultimately show ?case using s'(2,3) by (intro exI conjI)
qed

text \<open>
  C25: When the kernel forgets some of its lookups of a file of \<^verbatim>\<open>pathfs\<close>, the count of its handle falls by
  their number. As long as some remain, the tree is untouched. When none remain, and the inode is not
  the root and has no children, the handle is free again and every name of the file is out of the
  tree, the names of all other inodes being as they were.
\<close>

theorem forget_removes_names:
  assumes ok: "tree_ok s" and inv: "hm_inv (cn_inodeMap s)" and h: "hm_view (cn_inodeMap s) h = Some n"
    and n: "path_node_at s n f" "cn_inodes s n = Some i" "in_mount i \<noteq> 0" "gm_len (in_children i) = 0" "n \<noteq> cn_rootNode s"
    and cnt: "0 \<le> sint cnt" "sint cnt \<le> sint (hd_count (fst (cn_inodeMap s) n))"
  shows "\<exists>s'. forgetUpdate (path_Node k F fs) h cnt s = Inr ((), s') \<and> tree_ok s' \<and> hm_inv (cn_inodeMap s')
    \<and> hd_count (fst (cn_inodeMap s') n) = hd_count (fst (cn_inodeMap s) n) - cnt
    \<and> (if hd_count (fst (cn_inodeMap s) n) = cnt
       then parents_of s' = (parents_of s)(n := {}) \<and> hm_view (cn_inodeMap s') = (hm_view (cn_inodeMap s))(h := None)
       else parents_of s' = parents_of s \<and> hm_view (cn_inodeMap s') = hm_view (cn_inodeMap s))"
proof -
  obtain objs m where hm: "cn_inodeMap s = (objs, m)" by (cases "cn_inodeMap s")
  obtain st where F: "Forget (objs, m) h cnt = Inr (hd_count (objs n) = cnt, n, st)" and st: "hm_inv st"
    "hm_view st = (if hd_count (objs n) = cnt then (hm_view (objs, m))(h := None) else hm_view (objs, m))"
    "hd_count (fst st n) = hd_count (objs n) - cnt"
    using Forget_spec [of objs m h n cnt] inv h cnt hm by auto
  have "h \<noteq> FUSE_ROOT_ID" using hm_invD(1,4) [of objs m] inv h hm by (auto simp: FUSE_ROOT_ID_def hm_view_def)
  moreover have "toInode h s = Inr (n, s)"
    using h hm \<open>h \<noteq> FUSE_ROOT_ID\<close> by (auto simp: toInode_def Decode_def hm_view_def split: if_splits)
  moreover have "n_Deletable (path_Node k F fs) f t = Inr (True, t)" for t by (simp add: path_Node_def)
  moreover have f: "in_fsInode i = f" "in_mountPoint i = 0" using n by (auto simp: path_node_at_def)
  ultimately have run: "forgetUpdate (path_Node k F fs) h cnt s =
     (if hd_count (objs n) = cnt
      then fs_bind (drop_parents (path_Node k F fs) (in_parents i)) (\<lambda>_. path_OnForget f) (s\<lparr>cn_inodeMap := st\<rparr>)
      else Inr ((), s\<lparr>cn_inodeMap := st\<rparr>))"
    using n F hm by (simp add: forgetUpdate_def fs_bind_def tree_lock_def get_inode_def path_Node_def)
  show ?thesis
  proof (cases "hd_count (objs n) = cnt")
    case False
    then show ?thesis using run st ok hm by (intro exI [of _ "s\<lparr>cn_inodeMap := st\<rparr>"]) simp
  next
    case True
    let ?t = "s\<lparr>cn_inodeMap := st\<rparr>"
    have "path_node_at ?t n f" using n(1) by (simp add: path_node_at_def)
    moreover have "cn_inodes ?t a \<noteq> None \<and> (kid_at ?t a nm = None \<or> kid_at ?t a nm = Some n)" if "(a, nm) \<in> set (in_parents i)" for a nm
      using that n(2) tree_okD(1) [OF ok, of a nm n] by (auto simp: parents_of_def kid_at_def bind_eq_Some_conv)
    ultimately obtain u where u: "drop_parents (path_Node k F fs) (in_parents i) ?t = Inr ((), u)" "tree_ok u" "path_node_at u n f"
      "parents_of u = (parents_of ?t)(n := parents_of ?t n - set (in_parents i))" "cn_inodeMap u = cn_inodeMap ?t"
      using drop_parents_spec [of ?t n f "in_parents i" k F fs] ok by auto
    obtain p where "pf_nodes (cn_w u) f = Some p" "cn_inodes u (pn_inode p) \<noteq> None" using u(3) by (auto simp: path_node_at_def)
    from OnForget_total [OF this] obtain w where w: "path_OnForget f u = Inr ((), u\<lparr>cn_w := w\<rparr>)" by blast
    have "parents_of s n = set (in_parents i)" using n(2) by (simp add: parents_of_def)
    then show ?thesis using run True u w st hm by (intro exI [of _ "u\<lparr>cn_w := w\<rparr>"]) (simp add: fs_bind_def)
  qed
qed

text \<open>The file of the example after the kernel looked it up.\<close>

definition demo_known :: "unit PathNodeFs conn" where
  "demo_known = demo_found\<lparr>cn_inodeMap :=
     ((\<lambda>_. zero_handled)(1 := \<lparr>hd_handle = 2, hd_generation = 1, hd_count = 1\<rparr>, 3 := \<lparr>hd_handle = 3, hd_generation = 2, hd_count = 1\<rparr>),
      \<lparr>hm_generation = 2, hm_used = 2, hm_handles = [None, None, Some 1, Some 3], hm_freeIds = []\<rparr>)\<rparr>"

lemma demo_known_lookup: "lookupUpdate 3 demo_found = Inr ((3, 2), demo_known)"
  by (simp add: lookupUpdate_def fs_bind_def get_inode_def Register_def demo_known_def demo_found_def demo_conn_def demo_inode_def
      zero_handled_def fun_eq_iff)

lemma demo_known_inv: "hm_inv (cn_inodeMap demo_known)"
proof -
  have i: "hm_inv ((\<lambda>_. zero_handled), newPortableHandleMap)" by (rule hm_inv_new) simp
  have r: "Register ((\<lambda>_. zero_handled), newPortableHandleMap) 1 = Inr (2, 1, cn_inodeMap demo_found)"
    by (simp add: Register_def newPortableHandleMap_def zero_handled_def demo_found_def demo_conn_def)
  have j: "hm_inv (cn_inodeMap demo_found)"
    by (rule Register_inv [OF i _ _ r]) (simp_all add: hm_room_def newPortableHandleMap_def zero_handled_def)
  have "Register (cn_inodeMap demo_found) 3 = Inr (3, 2, cn_inodeMap demo_known)"
    by (simp add: Register_def demo_known_def demo_found_def demo_conn_def zero_handled_def)
  then show ?thesis
    by (rule Register_inv [OF j, rotated 2]) (simp_all add: hm_room_def demo_found_def demo_conn_def zero_handled_def)
qed

theorem forget_removes_names_witness:
  "\<exists>s'. forgetUpdate (path_Node 9 no_files one_file_fs) 3 1 demo_known = Inr ((), s') \<and> parents_of s' 3 = {}
    \<and> hm_view (cn_inodeMap s') 3 = None"
proof -
  have "tree_ok demo_known" using demo_found_ok by (simp add: demo_known_def)
  moreover have "hm_view (cn_inodeMap demo_known) 3 = Some 3" by (simp add: hm_view_def demo_known_def)
  moreover have "path_node_at demo_known 3 1" "cn_inodes demo_known 3 = Some (demo_inode 1 None [(1, ''a'')] 0)" "3 \<noteq> cn_rootNode demo_known"
    by (simp_all add: path_node_at_def demo_known_def demo_found_def demo_conn_def demo_inode_def)
  moreover have "hd_count (fst (cn_inodeMap demo_known) 3) = 1" by (simp add: demo_known_def)
  ultimately show ?thesis
    using forget_removes_names [of demo_known 3 3 1 "demo_inode 1 None [(1, ''a'')] 0" 1 9 no_files one_file_fs] demo_known_inv
    by (auto simp: demo_inode_def gm_len_def gm_entries_def)
qed

end
