(* ===== verification/ConnDir.thy ===== *)
theory ConnDir
  imports PathProps BridgeDir
begin

text \<open>
  Listing a directory through a connector (\<^verbatim>\<open>fuse/nodefs/dir.go\<close>): the pages that the kernel reads hold every
  entry of the directory, of the mounts below it and the two dots exactly once and in order.
\<close>

fun conn_pages :: "'w Node \<Rightarrow> ReadIn \<Rightarrow> nat list \<Rightarrow> u64 \<Rightarrow> ('w, (Status \<times> u8 list) list) cop" where
  "conn_pages N input [] off = fs_return []"
| "conn_pages N input (sz # szs) off =
     fs_bind (conn_ReadDir N (input\<lparr>rdi_Offset := off\<rparr>) (NewDirEntryList (replicate sz 0) off)) (\<lambda>(st, out).
     fs_bind (conn_pages N input szs (dl_offset out)) (\<lambda>rs. fs_return ((st, dl_bytes out) # rs)))"

lemma add_entries_all: "\<forall>e\<in>set es. de_Name e \<noteq> [] \<Longrightarrow> add_entries es out = snd (add_all es out)"
  by (induction es arbitrary: out) (auto split: prod.splits)

text \<open>An open directory of the request, with the entries that were read into it.\<close>

definition open_dir :: "'w conn \<Rightarrow> ReadIn \<Rightarrow> addr \<Rightarrow> connectorDir \<Rightarrow> bool" where
  "open_dir s input b d \<longleftrightarrow>
     (\<exists>n f. toInode (ih_NodeId (rdi_InHeader input)) s = Inr (n, s) \<and> opened_at n (rdi_Fh input) s = Inr (b, s)
        \<and> cn_opened s b = Some f \<and> of_dir f = Some d)"

lemma conn_ReadDir_page:
  assumes "open_dir s input b d" and "0 < m" and "m \<le> length (cd_stream d)" and "length (cd_stream d) < 2 ^ 64"
    and "\<forall>e\<in>set (cd_stream d). de_Name e \<noteq> []"
  shows "conn_ReadDir N (input\<lparr>rdi_Offset := word_of_nat m\<rparr>) out s = Inr ((OK, snd (add_all (drop m (cd_stream d)) out)), s)"
proof -
  have m: "unat (word_of_nat m :: u64) = m" using assms(3,4) by (intro unat_of_nat_small) simp
  then have "(word_of_nat m :: u64) \<noteq> 0" using assms(2) by (metis unat_0 less_not_refl)
  moreover have "\<forall>e\<in>set (drop m (cd_stream d)). de_Name e \<noteq> []" using assms(5) in_set_dropD by fast
  moreover have "cd_stream d \<noteq> []" using assms(2,3) by auto
  ultimately show ?thesis
    using assms(1,3) m
    by (auto simp: open_dir_def conn_ReadDir_def fs_bind_def dir_todo_def get_opened_def add_entries_all)
qed

lemma conn_pages_continue:
  assumes "open_dir s input b d" and "0 < m" and "m \<le> length (cd_stream d)" and "length (cd_stream d) < 2 ^ 64"
    and "\<forall>e\<in>set (cd_stream d). de_Name e \<noteq> [] \<and> length (de_Name e) < 2 ^ 32 \<and> (\<forall>sz\<in>set szs. dirent_size e \<le> sz)"
  shows "\<exists>rs dn left. conn_pages N input szs (word_of_nat m) s = Inr (rs, s) \<and> drop m (cd_stream d) = dn @ left
     \<and> kernel_reads rs = Some (dirents_of (word_of_nat m) dn) \<and> length left \<le> length (cd_stream d) - m - length szs"
  using assms
proof (induction szs arbitrary: m)
  case Nil
  then show ?case by (auto intro: exI [of _ "[]"])
next
  case (Cons sz szs)
  let ?off = "word_of_nat m :: u64" and ?todo = "drop m (cd_stream d)"
  let ?l = "NewDirEntryList (replicate sz 0) ?off"
  have fit: "\<forall>e\<in>set ?todo. dirent_size e \<le> sz \<and> length (de_Name e) < 2 ^ 32"
    using Cons.prems(5) in_set_dropD [of _ m "cd_stream d"] by fastforce
  obtain dn where dn: "?todo = dn @ fst (add_all ?todo ?l)"
    "parse_dirents 0 (dl_bytes (snd (add_all ?todo ?l))) = Some (map (Pair []) (dirents_of ?off dn))"
    "dl_offset (snd (add_all ?todo ?l)) = ?off + word_of_nat (length dn)" "?todo \<noteq> [] \<Longrightarrow> dn \<noteq> []"
    using add_all_page [OF fit, of ?off] by blast
  have page: "conn_ReadDir N (input\<lparr>rdi_Offset := ?off\<rparr>) ?l s = Inr ((OK, snd (add_all ?todo ?l)), s)"
    using conn_ReadDir_page [OF Cons.prems(1-4)] Cons.prems(5) by blast
  have len: "length (cd_stream d) - m = length dn + length (fst (add_all ?todo ?l))"
    using arg_cong [OF dn(1), of length] by simp
  have m': "0 < m + length dn" "m + length dn \<le> length (cd_stream d)" using Cons.prems(2,3) len by auto
  have rest: "drop (m + length dn) (cd_stream d) = fst (add_all ?todo ?l)"
    using arg_cong [OF dn(1), of "drop (length dn)"] by (simp add: add.commute)
  have f: "\<forall>e\<in>set (cd_stream d). de_Name e \<noteq> [] \<and> length (de_Name e) < 2 ^ 32 \<and> (\<forall>sz\<in>set szs. dirent_size e \<le> sz)"
    using Cons.prems(5) by simp
  obtain rs dn' left where more: "conn_pages N input szs (word_of_nat (m + length dn)) s = Inr (rs, s)"
    "fst (add_all ?todo ?l) = dn' @ left" "kernel_reads rs = Some (dirents_of (word_of_nat (m + length dn)) dn')"
    "length left \<le> length (cd_stream d) - (m + length dn) - length szs"
    using Cons.IH [OF Cons.prems(1) m' Cons.prems(4) f] unfolding rest by blast
  have "conn_pages N input (sz # szs) ?off s = Inr ((OK, dl_bytes (snd (add_all ?todo ?l))) # rs, s)"
    using page more(1) dn(3) by (simp add: fs_bind_def)
  moreover have "kernel_reads ((OK, dl_bytes (snd (add_all ?todo ?l))) # rs) = Some (dirents_of ?off (dn @ dn'))"
    using dn(2) more(3) by (simp add: dirents_of_append comp_def)
  moreover have "?todo = (dn @ dn') @ left" using dn(1) more(2) by simp
  moreover have "length left \<le> length (cd_stream d) - m - length (sz # szs)"
    using more(4) len dn(4) by (cases "?todo = []"; cases dn) auto
  ultimately show ?case by blast
qed

lemma toInode_opened: "toInode h s = Inr (n, s) \<Longrightarrow> toInode h (s\<lparr>cn_opened := g\<rparr>) = Inr (n, s\<lparr>cn_opened := g\<rparr>)"
  by (auto simp: toInode_def bind_go_eq_Inr split: if_splits)

lemma opened_at_opened: "opened_at n h s = Inr (b, s) \<Longrightarrow> opened_at n h (s\<lparr>cn_opened := g\<rparr>) = Inr (b, s\<lparr>cn_opened := g\<rparr>)"
  by (cases "cn_inodes s n")
    (auto simp: opened_at_def mount_of_def fs_bind_def get_inode_def get_mount_def bind_go_eq_Inr split: option.splits)

lemma set_stream_open_dir:
  assumes "open_dir s input b d"
  shows "\<exists>s'. set_stream_at b S s = Inr ((), s') \<and> open_dir s' input b (d\<lparr>cd_stream := S\<rparr>)"
proof -
  obtain n f where f: "toInode (ih_NodeId (rdi_InHeader input)) s = Inr (n, s)" "opened_at n (rdi_Fh input) s = Inr (b, s)"
    "cn_opened s b = Some f" "of_dir f = Some d"
    using assms by (auto simp: open_dir_def)
  show ?thesis
    using toInode_opened [OF f(1)] opened_at_opened [OF f(2)] f(3,4)
    by (simp add: set_stream_at_def fs_step_def open_dir_def)
qed

text \<open>
  C27: Listing a directory of a connector in pages delivers it completely. Let the node of the
  directory answer with some entries, leaving the directory open, let every name be non-empty and let
  every page have room for any one entry. Then the pages that the kernel reads parse to a prefix of
  these entries, followed by the mount points below the directory and by the two dots, with
  consecutive offsets, and as many pages as there are entries are enough for all of them. (An entry
  with an empty name is left out without being counted in the offsets, so it would make the next
  page repeat an entry.)
\<close>

theorem conn_readdir_pages_complete:
  assumes "open_dir s input b d"
    and "n_OpenDir N (cd_node d) (Some (ih_Caller (rdi_InHeader input))) s = Inr ((es, OK), s0)" and "open_dir s0 input b d"
    and "ci_getMountDirEntries (cd_inode d) s0 = Inr (ms, s0)"
    and "length (es @ ms @ dot_entries) < 2 ^ 64"
    and "\<forall>e\<in>set (es @ ms @ dot_entries). de_Name e \<noteq> [] \<and> length (de_Name e) < 2 ^ 32 \<and> (\<forall>sz\<in>set szs. dirent_size e \<le> sz)"
  shows "\<exists>rs s' dn left. conn_pages N input szs 0 s = Inr (rs, s') \<and> es @ ms @ dot_entries = dn @ left
     \<and> kernel_reads rs = Some (dirents_of 0 dn) \<and> length left \<le> length (es @ ms @ dot_entries) - length szs"
proof (cases szs)
  case Nil
  then show ?thesis by (auto intro: exI [of _ "[]"])
next
  case (Cons sz szs')
  let ?S = "es @ ms @ dot_entries" and ?l = "NewDirEntryList (replicate sz 0) 0"
  obtain s1 where s1: "set_stream_at b ?S s0 = Inr ((), s1)" "open_dir s1 input b (d\<lparr>cd_stream := ?S\<rparr>)"
    using set_stream_open_dir [OF assms(3)] by blast
  have names: "\<forall>e\<in>set ?S. de_Name e \<noteq> []" and fit: "\<forall>e\<in>set ?S. dirent_size e \<le> sz \<and> length (de_Name e) < 2 ^ 32"
    using assms(6) Cons by auto
  have page: "conn_ReadDir N (input\<lparr>rdi_Offset := 0\<rparr>) ?l s = Inr ((OK, snd (add_all ?S ?l)), s1)"
    using assms(1,2,4) s1(1) add_entries_all [OF names]
    by (auto simp: open_dir_def conn_ReadDir_def fs_bind_def dir_todo_def get_opened_def)
  obtain dn where dn: "?S = dn @ fst (add_all ?S ?l)"
    "parse_dirents 0 (dl_bytes (snd (add_all ?S ?l))) = Some (map (Pair []) (dirents_of 0 dn))"
    "dl_offset (snd (add_all ?S ?l)) = 0 + word_of_nat (length dn)" "?S \<noteq> [] \<Longrightarrow> dn \<noteq> []"
    using add_all_page [OF fit, of 0] by blast
  have len: "length ?S = length dn + length (fst (add_all ?S ?l))" using arg_cong [OF dn(1), of length] by simp
  have m: "0 < length dn" "length dn \<le> length (cd_stream (d\<lparr>cd_stream := ?S\<rparr>))"
    "length (cd_stream (d\<lparr>cd_stream := ?S\<rparr>)) < 2 ^ 64"
    using dn(4) len assms(5) by (auto simp: dot_entries_def)
  have rest: "drop (length dn) (cd_stream (d\<lparr>cd_stream := ?S\<rparr>)) = fst (add_all ?S ?l)"
    using arg_cong [OF dn(1), of "drop (length dn)"] by simp
  have f: "\<forall>e\<in>set (cd_stream (d\<lparr>cd_stream := ?S\<rparr>)). de_Name e \<noteq> [] \<and> length (de_Name e) < 2 ^ 32
      \<and> (\<forall>sz\<in>set szs'. dirent_size e \<le> sz)"
    using assms(6) Cons by auto
  obtain rs dn' left where more: "conn_pages N input szs' (word_of_nat (length dn)) s1 = Inr (rs, s1)"
    "fst (add_all ?S ?l) = dn' @ left" "kernel_reads rs = Some (dirents_of (word_of_nat (length dn)) dn')"
    "length left \<le> length ?S - length dn - length szs'"
    using conn_pages_continue [OF s1(2) m f, of N] unfolding rest by auto
  have "conn_pages N input szs 0 s = Inr ((OK, dl_bytes (snd (add_all ?S ?l))) # rs, s1)"
    using page more(1) dn(3) Cons by (simp add: fs_bind_def)
  moreover have "kernel_reads ((OK, dl_bytes (snd (add_all ?S ?l))) # rs) = Some (dirents_of 0 (dn @ dn'))"
    using dn(2) more(3) by (simp add: dirents_of_append comp_def)
  moreover have "?S = (dn @ dn') @ left" using dn(1) more(2) by simp
  moreover have "length left \<le> length ?S - length szs" using more(4) m(1) Cons by (cases dn) auto
  ultimately show ?thesis by blast
qed

text \<open>A connector with one open directory, in which the file system lists one file.\<close>

definition demo_dir :: "unit PathNodeFs conn" where
  "demo_dir = demo_start\<lparr>
     cn_mounts := [2 \<mapsto> \<lparr>mt_mountInode = 1, mt_parentInode = 0, mt_options = NewOptions nobody,
       mt_openFiles = ((\<lambda>_. zero_handled)(4 := \<lparr>hd_handle = 2, hd_generation = 1, hd_count = 1\<rparr>),
         \<lparr>hm_generation = 1, hm_used = 1, hm_handles = [None, None, Some 4], hm_freeIds = []\<rparr>)\<rparr>],
     cn_opened := [4 \<mapsto> \<lparr>of_File = None, of_Description = [], of_FuseFlags = 0, of_OpenFlags = 0,
       of_dir = Some \<lparr>cd_node = 0, cd_inode = 1, cd_stream = []\<rparr>\<rparr>], cn_next := 5\<rparr>"

definition demo_lister :: "unit PathNodeFs Node" where
  "demo_lister = path_Node 9 no_files
     (one_file_fs\<lparr>p_OpenDir := \<lambda>name c. fs_return ([\<lparr>de_Mode = 32768, de_Name = ''file'', de_Ino = 7\<rparr>], OK)\<rparr>)"

theorem conn_readdir_pages_complete_witness:
  "\<exists>rs s'. conn_pages demo_lister (demo_read\<lparr>rdi_Fh := 2\<rparr>) [64, 64, 64] 0 demo_dir = Inr (rs, s')
     \<and> kernel_reads rs = Some (dirents_of 0 (\<lparr>de_Mode = 32768, de_Name = ''file'', de_Ino = 7\<rparr> # dot_entries))"
proof -
  let ?d = "\<lparr>cd_node = 0, cd_inode = 1, cd_stream = []\<rparr>" and ?e = "\<lparr>de_Mode = 32768, de_Name = ''file'', de_Ino = 7\<rparr>"
  note D = demo_dir_def demo_start_def demo_conn_def demo_inode_def
  have "open_dir demo_dir (demo_read\<lparr>rdi_Fh := 2\<rparr>) 4 ?d"
    by (simp add: open_dir_def D demo_read_def toInode_def FUSE_ROOT_ID_def opened_at_def mount_of_def fs_bind_def
        get_inode_def get_mount_def getOpenedFile_def Decode_def)
  moreover have "ci_getMountDirEntries (cd_inode ?d) demo_dir = Inr ([], demo_dir)"
    by (simp add: ci_getMountDirEntries_def tree_lock_def fs_bind_def get_inode_def D gm_entries_def)
  moreover have "n_OpenDir demo_lister (cd_node ?d) c demo_dir = Inr (([?e], OK), demo_dir)" for c
    by (simp add: demo_lister_def path_Node_def GetPath_def fs_bind_def pf_call_def conn_lift_def pf_inner_def D)
  ultimately show ?thesis
    using conn_readdir_pages_complete [of demo_dir "demo_read\<lparr>rdi_Fh := 2\<rparr>" 4 ?d demo_lister "[?e]" demo_dir "[]" "[64, 64, 64]"]
    by (auto simp: dot_entries_def dirent_size_def direntSize_def name_padding_def)
qed

end
