(* ===== verification/Spec2Isabelle.thy ===== *)
theory Spec2Isabelle
  imports Layout FuseTypes HandleTable HandleMap NodeTreeOps NodeLocks ServerInit BridgeIds UnionProps UnionCacheProps
    PathWrapProps PathForget ConnDir
begin

text \<open>
  A verification library for Go-FUSE, a Go library for writing file systems in user space.

  \<^bold>\<open>The program.\<close> The kernel sends requests over a device. The package \<^verbatim>\<open>fuse\<close> reads and decodes them,
  calls a \<^verbatim>\<open>RawFileSystem\<close> and writes the replies. Two packages implement \<^verbatim>\<open>RawFileSystem\<close> over a tree of
  nodes that the user supplies: \<^verbatim>\<open>nodefs\<close>, whose \<^verbatim>\<open>rawBridge\<close> numbers inodes and files for the kernel, and
  the older \<^verbatim>\<open>fuse/nodefs\<close>, whose \<^verbatim>\<open>FileSystemConnector\<close> does it with a table of handles. On top of the
  older one \<^verbatim>\<open>fuse/pathfs\<close> turns a file system that is addressed by paths into such nodes, with wrappers
  for prefixes, read-only access and locking; and \<^verbatim>\<open>unionfs\<close> is a path based file system that lays a
  writable one over read-only ones, with caches.

  \<^bold>\<open>Conventions.\<close> (\<^verbatim>\<open>Prelude\<close>) Integers are words of their width; \<^verbatim>\<open>sint\<close> reads the signed ones. A Go
  call is a value of \<^verbatim>\<open>'a go\<close>: a result or a fault, which is a nil dereference, an index out of range, a
  store into a nil map, a failed assertion, a panic, a self-deadlock, or exhausted fuel. Pointers are
  addresses into a store, with 0 for nil; Go maps are association lists or partial functions. Structs
  with mutable state are records, and an operation takes the state and returns it. Interfaces that
  users implement are records of functions on the state, so a theorem that does not restrict them holds
  for every implementation. Definitions have the names of the Go functions, with a prefix or a suffix where two packages
  share one or where it would clash.

  \<^bold>\<open>The package fuse.\<close>
  \<^item> \<^verbatim>\<open>Layout\<close>: the structs of \<^verbatim>\<open>fuse/types.go\<close> and \<^verbatim>\<open>fuse/types_linux.go\<close> as lists of fields, and Go's rules
    for placing them. Sizes and offsets do not depend on the alignment of 64-bit integers, so the casts
    of the server read the same fields on amd64 and 386.
  \<^item> \<^verbatim>\<open>FuseTypes\<close>, \<^verbatim>\<open>FuseIn\<close>: status codes and errors (\<^verbatim>\<open>ToStatus\<close>), attributes (\<^verbatim>\<open>FromStat\<close>), timeouts, the
    accessors of SETATTR, locks; the request and reply structs as records with their reading from bytes.
  \<^item> \<^verbatim>\<open>DirEntryList\<close>: \<^verbatim>\<open>fuse/direntry.go\<close>. The state is the buffer and its prefix in use. A parser stands
    for the kernel; it reads back what was added, for READDIR and READDIRPLUS.
  \<^item> \<^verbatim>\<open>BufferPool\<close>: \<^verbatim>\<open>fuse/bufferpool.go\<close>. Whether a pool hands back a buffer is a parameter.
  \<^item> \<^verbatim>\<open>RawFS\<close>: the interface \<^verbatim>\<open>RawFileSystem\<close> (\<^verbatim>\<open>fuse/api.go\<close>) and its default (\<^verbatim>\<open>fuse/defaultraw.go\<close>).
  \<^item> \<^verbatim>\<open>OpcodeTable\<close>, \<^verbatim>\<open>Request\<close>, \<^verbatim>\<open>ServerState\<close>, \<^verbatim>\<open>Opcode\<close>, \<^verbatim>\<open>Server\<close>: the table that \<^verbatim>\<open>init\<close> builds, parsing and
    serialising (\<^verbatim>\<open>fuse/request.go\<close>), the struct \<^verbatim>\<open>Server\<close>, all handlers of \<^verbatim>\<open>fuse/opcode.go\<close> and the poll
    hack, and the loop, the replies and the notifications of \<^verbatim>\<open>fuse/server.go\<close>. What the operating system
    answers is an argument of each call (\<^verbatim>\<open>platform\<close>).
  \<^item> \<^verbatim>\<open>OpcodeProps\<close>, \<^verbatim>\<open>ServerProps\<close>, \<^verbatim>\<open>ServerInv\<close>, \<^verbatim>\<open>ServerSteps\<close>, \<^verbatim>\<open>ServerInit\<close>: a step relation interleaves the
    phases of \<^verbatim>\<open>handleRequest\<close> of any number of goroutines with reads and notifications. By rule induction
    the table of requests in flight is exact in every reachable state. Further lemmas give the framing
    of replies, one reply at most per request, the refusal of malformed requests and the outcome of INIT.

  \<^bold>\<open>The package nodefs.\<close>
  \<^item> \<^verbatim>\<open>NodeTree\<close>: \<^verbatim>\<open>nodefs/inode.go\<close>. The state is a heap of inodes with children, parents, counters and the
    table of numbers. An operation is the sequence of its critical sections. What other goroutines do
    while it holds no lock is an argument, a list of functions on the state, one for each such window.
  \<^item> \<^verbatim>\<open>NodeTreeProps\<close>, \<^verbatim>\<open>NodeTreeOps\<close>: children and parents describe one set of links (\<^verbatim>\<open>tree_inv\<close>); the
    abstract tree is the partial map from parent and name to child. Run alone, \<^verbatim>\<open>AddChild\<close>, \<^verbatim>\<open>MvChild\<close> and
    \<^verbatim>\<open>removeRef\<close> return and change that map as they promise. With other goroutines in between, \<^verbatim>\<open>AddChild\<close>
    and the change of the links by \<^verbatim>\<open>MvChild\<close> take place at one point in time. \<^verbatim>\<open>Path\<close> names a walk back.
  \<^item> \<^verbatim>\<open>NodeLocks\<close>: the order of \<^verbatim>\<open>lockNodes\<close> and \<^verbatim>\<open>lockNode2\<close> excludes deadlock, over a step relation of
    goroutines that acquire and release mutexes.
  \<^item> \<^verbatim>\<open>NodeApi\<close>, \<^verbatim>\<open>Bridge\<close>: the interfaces of \<^verbatim>\<open>nodefs/api.go\<close> and every method of \<^verbatim>\<open>nodefs/bridge.go\<close>.
  \<^item> \<^verbatim>\<open>BridgeFiles\<close>, \<^verbatim>\<open>BridgeDir\<close>, \<^verbatim>\<open>BridgeIds\<close>: open files refine a map from handles to files, pages of a
    listing hold each entry once and in order, new inodes get unused numbers, lookups enter children.
  \<^item> \<^verbatim>\<open>NodeDefault\<close>: the stubs of \<^verbatim>\<open>nodefs/default.go\<close> and \<^verbatim>\<open>HasAccess\<close> of \<^verbatim>\<open>internal/access.go\<close>, compared with the
    permission check of Unix.

  \<^bold>\<open>The packages fuse/nodefs and fuse/pathfs.\<close>
  \<^item> \<^verbatim>\<open>HandleMap\<close>: \<^verbatim>\<open>fuse/nodefs/handle.go\<close>. It refines a map from handles to objects; pairs of handle and
    generation are not reused, reachable states pass \<^verbatim>\<open>verify\<close>, and references are counted.
  \<^item> \<^verbatim>\<open>ConnTree\<close>, \<^verbatim>\<open>Connector\<close>, \<^verbatim>\<open>ConnOps\<close>: the inodes of \<^verbatim>\<open>fuse/nodefs/inode.go\<close>, mounts and connector
    (\<^verbatim>\<open>fsmount.go\<close>, \<^verbatim>\<open>fsconnector.go\<close>) and the handlers of \<^verbatim>\<open>fsops.go\<close> and \<^verbatim>\<open>dir.go\<close>.
  \<^item> \<^verbatim>\<open>PathFs\<close>, \<^verbatim>\<open>PathNodes\<close>: the interface of path based file systems with \<^verbatim>\<open>CopyFile\<close>, and the nodes of
    \<^verbatim>\<open>pathfs.go\<close>.
  \<^item> \<^verbatim>\<open>ConnProps\<close>, \<^verbatim>\<open>PathProps\<close>, \<^verbatim>\<open>PathForget\<close>, \<^verbatim>\<open>ConnDir\<close>: the operations of a path node keep the links in order,
    its path leads back to it, names of one file share an inode, forgetting removes names, and
    listings are complete.
  \<^item> \<^verbatim>\<open>PathWrap\<close>, \<^verbatim>\<open>PathWrapProps\<close>: \<^verbatim>\<open>prefixfs.go\<close>, \<^verbatim>\<open>readonlyfs.go\<close>, \<^verbatim>\<open>locking.go\<close> and the files they wrap: confinement
    and composition of prefixes, what is refused, what runs under the lock.

  \<^bold>\<open>The package unionfs.\<close>
  \<^item> \<^verbatim>\<open>Md5\<close>: the digest of the standard library that names deletion markers.
  \<^item> \<^verbatim>\<open>UnionCache\<close>, \<^verbatim>\<open>UnionCacheProps\<close>: \<^verbatim>\<open>timedcache.go\<close>, \<^verbatim>\<open>dircache.go\<close>, \<^verbatim>\<open>cachingfs.go\<close>; a caching file system answers
    as the one below it, and a copy has the contents of its source.
  \<^item> \<^verbatim>\<open>UnionFs\<close>, \<^verbatim>\<open>UnionProps\<close>: \<^verbatim>\<open>unionfs.go\<close>; the cached search for a branch agrees with the search through all
    branches, listings show the visible names, deletion hides a file.

  \<^bold>\<open>Contracts between components.\<close> Three locales state them. \<^verbatim>\<open>handle_table\<close> (\<^verbatim>\<open>HandleTable\<close>) is a table that
  hands out numbers; the handle map and the open files of the bridge are its instances. \<^verbatim>\<open>dir_stream\<close>
  (\<^verbatim>\<open>BridgeDir\<close>) is a directory stream; \<^verbatim>\<open>dirArray\<close> is its instance. \<^verbatim>\<open>quiet_watcher\<close> (\<^verbatim>\<open>ConnProps\<close>) is what the tree
  of a connector expects of its nodes; those of \<^verbatim>\<open>pathfs\<close> are its instances.

  \<^bold>\<open>Fuel and windows.\<close>
  \<^item> \<^verbatim>\<open>removeRef\<close> recurs through parents. Each recursion detaches an inode that still had one, so fuel above
    the number of inodes is enough; the theorem on \<^verbatim>\<open>removeRef\<close> proves it.
  \<^item> \<^verbatim>\<open>Path\<close> and \<^verbatim>\<open>GetPath\<close> climb to the root; fuel above the depth is enough, and the theorems prove it for
    trees without cycles. On a cycle the Go loop does not end.
  \<^item> The search for an unused inode number needs no more steps than there are nodes.
  \<^item> \<^verbatim>\<open>CopyFile\<close> needs one read for each full buffer and one more.
  \<^item> A retry of \<^verbatim>\<open>AddChild\<close>, \<^verbatim>\<open>MvChild\<close>, \<^verbatim>\<open>ExchangeChild\<close> or \<^verbatim>\<open>removeRef\<close> uses two windows: the one before the
    change counters are compared and the one before the locks are taken again. A call that is still
    disturbed when its list of windows is used up has not returned, which the model reports as
    exhausted fuel. An undisturbed call returns with no windows at all.
  \<^item> The walks over a whole tree and \<^verbatim>\<open>recursivePromote\<close> of \<^verbatim>\<open>unionfs\<close> recur as deep as the tree is; no theorem
    depends on their fuel.

  \<^bold>\<open>Limits of the model.\<close>
  \<^item> Only \<^verbatim>\<open>nodefs/inode.go\<close> and the server have interference. A method of the bridge or of a connector
    runs alone, and their mutexes are not in the state; calls of the bridge into \<^verbatim>\<open>nodefs/inode.go\<close> are
    made with no windows.
  \<^item> \<^verbatim>\<open>readRequest\<close> is one step, although the lock is free while it waits for the device.
  \<^item> A theorem on interference assumes of other goroutines what the operations of the tree guarantee: a
    change to the children of an inode raises its change counter.
  \<^item> A nil directory stream and an empty one are the same, and attributes are values.
  \<^item> The mutex of a locking file system is in the state, and a second lock by its holder is a fault.
  \<^item> Time is nanoseconds since the epoch, and the clock is an argument or an operation of the world.

  \<^bold>\<open>Not modelled.\<close> Files on descriptors, loopback file systems, mounting, pipes and utimens, where each
  operation is a system call; the automatic unions of \<^verbatim>\<open>unionfs/autounion.go\<close>, which walk and watch real
  directories; the archives of \<^verbatim>\<open>zipfs\<close>, which need the readers of the standard library; debug output
  and latency statistics; the parts for other operating systems; examples, benchmarks and test helpers.
\<close>

end
